(* ===== verification/Go_Prelude.thy ===== *)
theory Go_Prelude
  imports Main "HOL-Library.Word" "HOL-Library.AList" "HOL-Library.Sublist"
begin

text \<open>
  Shared ground of the development: Go errors, the outcome of running a piece of Go code
  (a value, a panic, the end of the process, or a wait that never ends), the sequencing
  combinators in which every stateful function of the driver is written, Go maps, and the
  interfaces that carry the proofs:

  \<^item> \<open>go_map_spec\<close>: what the rest of the code relies on from a Go map;
  \<^item> \<open>state_preorder\<close>: a reflexive and transitive relation between the states before and
    after a computation, preserved by all combinators.  Its interpretations are the frame
    and monotonicity facts of the components.
\<close>

section \<open>Errors and outcomes\<close>

text \<open>
  The error values of the program.  \<open>Errorf\<close> is a message the code formats itself, \<open>Wrap\<close> a
  message that embeds another error, \<open>NumSyntax\<close> and \<open>NumRange\<close> are the two errors of package
  strconv, \<open>External\<close> an error produced by code outside the repository, \<open>ChainError\<close> the error
  value of package iptables that the code builds itself.  The remaining ones
  are Go run-time panics.
\<close>

datatype error =
    Errorf string
  | Wrap string error
  | NumSyntax string
  | NumRange string
  | External string
  | ChainError string string
  | IndexOutOfRange
  | NilDereference
  | NilMapWrite
  | TypeAssertion
  | NegativeWaitGroup

text \<open>
  \<open>Panic\<close> unwinds the goroutine and can be recovered; \<open>Fatal\<close> is \<open>os.Exit\<close> (which
  \<open>log.Fatalf\<close> calls) and runs no deferred function; \<open>Blocked\<close> is an operation on a channel or
  wait group that waits in the state reached.
\<close>

datatype 'a outcome = Ret 'a | Panic error | Fatal | Blocked

type_synonym ('s, 'a) go = "'s \<Rightarrow> 'a outcome \<times> 's"

named_theorems go_run \<open>evaluation of the combinators\<close>

section \<open>Sequencing\<close>

definition retM :: "'a \<Rightarrow> ('s, 'a) go" where
  "retM a = (\<lambda>s. (Ret a, s))"

definition panicM :: "error \<Rightarrow> ('s, 'a) go" where
  "panicM e = (\<lambda>s. (Panic e, s))"

definition fatalM :: "('s, 'a) go" where
  "fatalM = (\<lambda>s. (Fatal, s))"

definition blockM :: "('s, 'a) go" where
  "blockM = (\<lambda>s. (Blocked, s))"

definition bindM :: "('s, 'a) go \<Rightarrow> ('a \<Rightarrow> ('s, 'b) go) \<Rightarrow> ('s, 'b) go" where
  "bindM m f = (\<lambda>s. case m s of
     (Ret a, s') \<Rightarrow> f a s'
   | (Panic e, s') \<Rightarrow> (Panic e, s')
   | (Fatal, s') \<Rightarrow> (Fatal, s')
   | (Blocked, s') \<Rightarrow> (Blocked, s'))"

definition thenM :: "('s, 'a) go \<Rightarrow> ('s, 'b) go \<Rightarrow> ('s, 'b) go" where
  "thenM m n = bindM m (\<lambda>_. n)"

definition getM :: "('s \<Rightarrow> 'a) \<Rightarrow> ('s, 'a) go" where
  "getM f = (\<lambda>s. (Ret (f s), s))"

definition modifyM :: "('s \<Rightarrow> 's) \<Rightarrow> ('s, unit) go" where
  "modifyM f = (\<lambda>s. (Ret (), f s))"

text \<open>A computation that reads and writes no state, run inside a stateful one.\<close>

definition liftO :: "'a outcome \<Rightarrow> ('s, 'a) go" where
  "liftO x = (\<lambda>s. (x, s))"

text \<open>
  \<open>recoverM m h\<close> runs \<open>m\<close> under a deferred function that calls \<open>recover\<close>; \<open>h\<close> is what the
  function then does with the recovered error.  The end of the process and a blocked
  goroutine never reach it.
\<close>

definition recoverM :: "('s, 'a) go \<Rightarrow> (error \<Rightarrow> ('s, 'a) go) \<Rightarrow> ('s, 'a) go" where
  "recoverM m h = (\<lambda>s. case m s of
     (Ret a, s') \<Rightarrow> (Ret a, s')
   | (Panic e, s') \<Rightarrow> h e s'
   | (Fatal, s') \<Rightarrow> (Fatal, s')
   | (Blocked, s') \<Rightarrow> (Blocked, s'))"

primrec forM :: "('a \<Rightarrow> ('s, unit) go) \<Rightarrow> 'a list \<Rightarrow> ('s, unit) go" where
  "forM f [] = retM ()"
| "forM f (x # xs) = thenM (f x) (forM f xs)"

primrec foldM :: "('b \<Rightarrow> 'a \<Rightarrow> ('s, 'b) go) \<Rightarrow> 'b \<Rightarrow> 'a list \<Rightarrow> ('s, 'b) go" where
  "foldM f b [] = retM b"
| "foldM f b (x # xs) = bindM (f b x) (\<lambda>b'. foldM f b' xs)"

text \<open>The same sequencing for code without state.\<close>

primrec bindO :: "'a outcome \<Rightarrow> ('a \<Rightarrow> 'b outcome) \<Rightarrow> 'b outcome" where
  "bindO (Ret a) f = f a"
| "bindO (Panic e) f = Panic e"
| "bindO Fatal f = Fatal"
| "bindO Blocked f = Blocked"

primrec foldO :: "('b \<Rightarrow> 'a \<Rightarrow> 'b outcome) \<Rightarrow> 'b \<Rightarrow> 'a list \<Rightarrow> 'b outcome" where
  "foldO f b [] = Ret b"
| "foldO f b (x # xs) = bindO (f b x) (\<lambda>b'. foldO f b' xs)"

text \<open>Indexing a slice, and slicing a string up to or from an index, panic out of range.\<close>

definition indexO :: "'a list \<Rightarrow> nat \<Rightarrow> 'a outcome" where
  "indexO xs i = (if i < length xs then Ret (xs ! i) else Panic IndexOutOfRange)"

definition sliceToO :: "'a list \<Rightarrow> nat \<Rightarrow> 'a list outcome" where
  "sliceToO xs n = (if n \<le> length xs then Ret (take n xs) else Panic IndexOutOfRange)"

definition sliceFromO :: "'a list \<Rightarrow> nat \<Rightarrow> 'a list outcome" where
  "sliceFromO xs n = (if n \<le> length xs then Ret (drop n xs) else Panic IndexOutOfRange)"

subsection \<open>Evaluation\<close>

lemma bindM_Ret [go_run]: "m s = (Ret a, s') \<Longrightarrow> bindM m f s = f a s'"
  by (simp add: bindM_def)

lemma bindM_Panic [go_run]: "m s = (Panic e, s') \<Longrightarrow> bindM m f s = (Panic e, s')"
  by (simp add: bindM_def)

lemma retM_run [go_run, simp]: "retM a s = (Ret a, s)"
  by (simp add: retM_def)

lemma panicM_run [go_run, simp]: "panicM e s = (Panic e, s)"
  by (simp add: panicM_def)

lemma fatalM_run [go_run, simp]: "fatalM s = (Fatal, s)"
  by (simp add: fatalM_def)

lemma blockM_run [go_run, simp]: "blockM s = (Blocked, s)"
  by (simp add: blockM_def)

lemma getM_run [go_run, simp]: "getM f s = (Ret (f s), s)"
  by (simp add: getM_def)

lemma modifyM_run [go_run, simp]: "modifyM f s = (Ret (), f s)"
  by (simp add: modifyM_def)

lemma liftO_run [go_run, simp]: "liftO x s = (x, s)"
  by (simp add: liftO_def)

lemma bindM_retM [go_run, simp]: "bindM (retM a) f = f a"
  by (simp add: bindM_def retM_def)

lemma bindM_assoc: "bindM (bindM m f) g = bindM m (\<lambda>a. bindM (f a) g)"
  by (rule ext) (simp add: bindM_def split: prod.splits outcome.splits)

lemma bindM_case:
  "bindM m f s = (case m s of
     (Ret a, s') \<Rightarrow> f a s' | (Panic e, s') \<Rightarrow> (Panic e, s')
   | (Fatal, s') \<Rightarrow> (Fatal, s') | (Blocked, s') \<Rightarrow> (Blocked, s'))"
  by (simp add: bindM_def)

lemma bindO_assoc: "bindO (bindO m f) g = bindO m (\<lambda>a. bindO (f a) g)"
  by (cases m) simp_all

lemma bindM_eq_Ret:
  "bindM m f s = (Ret b, t) \<longleftrightarrow> (\<exists>a u. m s = (Ret a, u) \<and> f a u = (Ret b, t))"
  by (simp add: bindM_def split: prod.splits outcome.splits)

lemma bindO_eq_Ret: "bindO m f = Ret b \<longleftrightarrow> (\<exists>a. m = Ret a \<and> f a = Ret b)"
  by (cases m) simp_all

lemma foldM_append:
  "foldM f b (xs @ ys) = bindM (foldM f b xs) (\<lambda>b'. foldM f b' ys)"
  by (induction xs arbitrary: b) (simp_all add: bindM_assoc)

section \<open>Relations between the states before and after a computation\<close>

definition steps_in :: "('s \<Rightarrow> 's \<Rightarrow> bool) \<Rightarrow> ('s, 'a) go \<Rightarrow> bool" where
  "steps_in R m \<longleftrightarrow> (\<forall>s. R s (snd (m s)))"

lemma steps_inD: "steps_in R m \<Longrightarrow> m s = (x, t) \<Longrightarrow> R s t"
  unfolding steps_in_def by (metis snd_conv)

locale state_preorder =
  fixes R :: "'s \<Rightarrow> 's \<Rightarrow> bool"
  assumes R_refl: "R s s"
    and R_trans: "R s t \<Longrightarrow> R t u \<Longrightarrow> R s u"
begin

lemma steps_ret: "steps_in R (retM a)"
  by (simp add: steps_in_def R_refl)

lemma steps_pair: "steps_in R (Pair x)"
  by (simp add: steps_in_def R_refl)

lemma steps_panic: "steps_in R (panicM e)"
  by (simp add: steps_in_def R_refl)

lemma steps_fatal: "steps_in R fatalM"
  by (simp add: steps_in_def R_refl)

lemma steps_block: "steps_in R blockM"
  by (simp add: steps_in_def R_refl)

lemma steps_get: "steps_in R (getM f)"
  by (simp add: steps_in_def R_refl)

lemma steps_lift: "steps_in R (liftO x)"
  by (simp add: steps_in_def R_refl)

lemma steps_bind:
  assumes m: "steps_in R m" and f: "\<And>a. steps_in R (f a)"
  shows "steps_in R (bindM m f)"
  unfolding steps_in_def
proof
  fix s
  obtain x t where x: "m s = (x, t)" by force
  have st: "R s t" using m x by (rule steps_inD)
  show "R s (snd (bindM m f s))"
  proof (cases x)
    case (Ret a)
    have "R t (snd (f a t))" using f by (simp add: steps_in_def)
    with Ret x st show ?thesis by (simp add: bindM_def R_trans [OF st])
  qed (use x st in \<open>simp_all add: bindM_def\<close>)
qed

lemma steps_then: "steps_in R m \<Longrightarrow> steps_in R n \<Longrightarrow> steps_in R (thenM m n)"
  by (simp add: thenM_def steps_bind)

lemma steps_recover:
  assumes m: "steps_in R m" and h: "\<And>e. steps_in R (h e)"
  shows "steps_in R (recoverM m h)"
  unfolding steps_in_def
proof
  fix s
  obtain x t where x: "m s = (x, t)" by force
  have st: "R s t" using m x by (rule steps_inD)
  show "R s (snd (recoverM m h s))"
  proof (cases x)
    case (Panic e)
    have "R t (snd (h e t))" using h by (simp add: steps_in_def)
    with Panic x st show ?thesis by (simp add: recoverM_def R_trans [OF st])
  qed (use x st in \<open>simp_all add: recoverM_def\<close>)
qed

lemma steps_forM: "(\<And>x. x \<in> set xs \<Longrightarrow> steps_in R (f x)) \<Longrightarrow> steps_in R (forM f xs)"
  by (induction xs) (simp_all add: steps_ret steps_then)

lemma steps_foldM:
  "(\<And>b x. x \<in> set xs \<Longrightarrow> steps_in R (f b x)) \<Longrightarrow> steps_in R (foldM f b xs)"
  by (induction xs arbitrary: b) (simp_all add: steps_ret steps_bind)

lemma steps_if: "(c \<Longrightarrow> steps_in R m) \<Longrightarrow> (\<not> c \<Longrightarrow> steps_in R n) \<Longrightarrow> steps_in R (if c then m else n)"
  by simp

lemma steps_option:
  "(x = None \<Longrightarrow> steps_in R m) \<Longrightarrow> (\<And>a. x = Some a \<Longrightarrow> steps_in R (f a)) \<Longrightarrow>
   steps_in R (case x of None \<Rightarrow> m | Some a \<Rightarrow> f a)"
  by (cases x) simp_all

lemma steps_sum:
  "(\<And>a. x = Inl a \<Longrightarrow> steps_in R (f a)) \<Longrightarrow> (\<And>a. x = Inr a \<Longrightarrow> steps_in R (g a)) \<Longrightarrow>
   steps_in R (case x of Inl a \<Rightarrow> f a | Inr a \<Rightarrow> g a)"
  by (cases x) simp_all

lemma steps_prod: "(\<And>a b. x = (a, b) \<Longrightarrow> steps_in R (f a b)) \<Longrightarrow> steps_in R (case x of (a, b) \<Rightarrow> f a b)"
  by (cases x) simp

lemma steps_let: "(\<And>a. a = x \<Longrightarrow> steps_in R (f a)) \<Longrightarrow> steps_in R (let a = x in f a)"
  by simp

lemmas steps_intros =
  steps_ret steps_pair steps_panic steps_fatal steps_block steps_get steps_lift
  steps_bind steps_then steps_recover steps_forM steps_foldM
  steps_if steps_option steps_sum steps_prod steps_let

end

section \<open>Computations that never wait\<close>

definition unblocked :: "('s, 'a) go \<Rightarrow> bool" where
  "unblocked m \<longleftrightarrow> (\<forall>s. fst (m s) \<noteq> Blocked)"

named_theorems unblocked_intros \<open>computations that never wait\<close>

lemma unblocked_basic [unblocked_intros]:
  "unblocked (retM a)" "unblocked (panicM e)" "unblocked fatalM" "unblocked (getM f)" "unblocked (modifyM g)"
  by (simp_all add: unblocked_def)

lemma unblocked_pair [unblocked_intros]: "x \<noteq> Blocked \<Longrightarrow> unblocked (Pair x)"
  by (simp add: unblocked_def)

text \<open>Code without state never waits.\<close>

definition pureO :: "'a outcome \<Rightarrow> bool" where
  "pureO x \<longleftrightarrow> x \<noteq> Blocked"

named_theorems pure_intros \<open>code without state that never waits\<close>

lemma pureO_basic [pure_intros]: "pureO (Ret a)" "pureO (Panic e)" "pureO Fatal"
  by (simp_all add: pureO_def)

lemma pureO_bind [pure_intros]: "pureO m \<Longrightarrow> (\<And>a. pureO (f a)) \<Longrightarrow> pureO (bindO m f)"
  by (cases m) (auto simp: pureO_def)

lemma pureO_fold [pure_intros]: "(\<And>b x. pureO (f b x)) \<Longrightarrow> pureO (foldO f b xs)"
  by (induction xs arbitrary: b) (auto intro: pureO_basic pureO_bind)

lemma pureO_index [pure_intros]: "pureO (indexO xs i)" "pureO (sliceToO xs n)" "pureO (sliceFromO xs n)"
  by (simp_all add: pureO_def indexO_def sliceToO_def sliceFromO_def)

lemma pureO_branches [pure_intros]:
  "pureO m \<Longrightarrow> pureO n \<Longrightarrow> pureO (if c then m else n)"
  "pureO m \<Longrightarrow> (\<And>a. pureO (f a)) \<Longrightarrow> pureO (case x of None \<Rightarrow> m | Some a \<Rightarrow> f a)"
  "(\<And>a. pureO (g a)) \<Longrightarrow> (\<And>a. pureO (h a)) \<Longrightarrow> pureO (case y of Inl a \<Rightarrow> g a | Inr a \<Rightarrow> h a)"
  "(\<And>a b. pureO (k a b)) \<Longrightarrow> pureO (case z of (a, b) \<Rightarrow> k a b)"
  "(\<And>a. pureO (l a)) \<Longrightarrow> pureO (let a = u in l a)"
  by (simp_all split: option.split sum.split prod.split)

lemma unblocked_lift [unblocked_intros]: "pureO x \<Longrightarrow> unblocked (liftO x)"
  by (simp add: unblocked_def pureO_def)

lemma unblocked_bind [unblocked_intros]:
  "unblocked m \<Longrightarrow> (\<And>a. unblocked (f a)) \<Longrightarrow> unblocked (bindM m f)"
  by (auto simp: unblocked_def bindM_def split: prod.split outcome.split) (metis fst_conv)

lemma unblocked_then [unblocked_intros]: "unblocked m \<Longrightarrow> unblocked n \<Longrightarrow> unblocked (thenM m n)"
  by (simp add: thenM_def unblocked_bind)

lemma unblocked_recover [unblocked_intros]:
  "unblocked m \<Longrightarrow> (\<And>e. unblocked (h e)) \<Longrightarrow> unblocked (recoverM m h)"
  by (auto simp: unblocked_def recoverM_def split: prod.split outcome.split) (metis fst_conv)

lemma unblocked_forM [unblocked_intros]: "(\<And>x. x \<in> set xs \<Longrightarrow> unblocked (f x)) \<Longrightarrow> unblocked (forM f xs)"
  by (induction xs) (simp_all add: unblocked_basic unblocked_then)

lemma unblocked_foldM [unblocked_intros]:
  "(\<And>b x. x \<in> set xs \<Longrightarrow> unblocked (f b x)) \<Longrightarrow> unblocked (foldM f b xs)"
  by (induction xs arbitrary: b) (simp_all add: unblocked_basic unblocked_bind)

lemma unblocked_branches [unblocked_intros]:
  "(c \<Longrightarrow> unblocked m) \<Longrightarrow> (\<not> c \<Longrightarrow> unblocked n) \<Longrightarrow> unblocked (if c then m else n)"
  "(x = None \<Longrightarrow> unblocked m) \<Longrightarrow> (\<And>a. x = Some a \<Longrightarrow> unblocked (f a)) \<Longrightarrow>
   unblocked (case x of None \<Rightarrow> m | Some a \<Rightarrow> f a)"
  "(\<And>a. y = Inl a \<Longrightarrow> unblocked (g a)) \<Longrightarrow> (\<And>a. y = Inr a \<Longrightarrow> unblocked (h a)) \<Longrightarrow>
   unblocked (case y of Inl a \<Rightarrow> g a | Inr a \<Rightarrow> h a)"
  "(\<And>a b. z = (a, b) \<Longrightarrow> unblocked (k a b)) \<Longrightarrow> unblocked (case z of (a, b) \<Rightarrow> k a b)"
  "(\<And>a. a = u \<Longrightarrow> unblocked (l a)) \<Longrightarrow> unblocked (let a = u in l a)"
  by (simp_all split: option.split sum.split prod.split)

section \<open>Go maps\<close>

text \<open>
  A Go map is an association list without duplicate keys.  Reading a missing key gives
  \<open>None\<close>, which each use turns into Go's zero value or \<open>ok = false\<close>.  The order of a
  \<open>range\<close> loop over a map is unspecified in Go; the loops of the driver take it from the
  environment.
\<close>

type_synonym ('k, 'v) gomap = "('k \<times> 'v) list"

definition map_get :: "('k, 'v) gomap \<Rightarrow> 'k \<Rightarrow> 'v option" where
  "map_get m k = map_of m k"

definition map_put :: "'k \<Rightarrow> 'v \<Rightarrow> ('k, 'v) gomap \<Rightarrow> ('k, 'v) gomap" where
  "map_put k v m = AList.update k v m"

definition map_del :: "'k \<Rightarrow> ('k, 'v) gomap \<Rightarrow> ('k, 'v) gomap" where
  "map_del k m = AList.delete k m"

definition map_keys :: "('k, 'v) gomap \<Rightarrow> 'k list" where
  "map_keys m = map fst m"

definition map_ok :: "('k, 'v) gomap \<Rightarrow> bool" where
  "map_ok m \<longleftrightarrow> distinct (map_keys m)"

locale go_map_spec =
  fixes empty :: 'm
    and get :: "'m \<Rightarrow> 'k \<Rightarrow> 'v option"
    and put :: "'k \<Rightarrow> 'v \<Rightarrow> 'm \<Rightarrow> 'm"
    and del :: "'k \<Rightarrow> 'm \<Rightarrow> 'm"
    and keys :: "'m \<Rightarrow> 'k list"
    and ok :: "'m \<Rightarrow> bool"
  assumes ok_empty: "ok empty"
    and ok_put: "ok m \<Longrightarrow> ok (put k v m)"
    and ok_del: "ok m \<Longrightarrow> ok (del k m)"
    and ok_keys: "ok m \<Longrightarrow> distinct (keys m)"
    and get_empty: "get empty k = None"
    and get_put: "get (put k v m) j = (if j = k then Some v else get m j)"
    and get_del: "get (del k m) j = (if j = k then None else get m j)"
    and in_keys: "k \<in> set (keys m) \<longleftrightarrow> get m k \<noteq> None"
begin

lemma get_put_same: "get (put k v m) k = Some v"
  by (simp add: get_put)

lemma get_put_other: "j \<noteq> k \<Longrightarrow> get (put k v m) j = get m j"
  by (simp add: get_put)

lemma get_del_same: "get (del k m) k = None"
  by (simp add: get_del)

lemma get_del_other: "j \<noteq> k \<Longrightarrow> get (del k m) j = get m j"
  by (simp add: get_del)

lemma keys_put: "set (keys (put k v m)) = insert k (set (keys m))"
  by (auto simp: in_keys get_put split: if_splits)

lemma keys_del: "set (keys (del k m)) = set (keys m) - {k}"
  by (auto simp: in_keys get_del split: if_splits)

lemma keys_empty: "keys empty = []"
proof -
  have "k \<notin> set (keys empty)" for k by (simp add: in_keys get_empty)
  then show ?thesis by (cases "keys empty") auto
qed

lemma get_fold_put:
  "get (fold (\<lambda>k. put k (f k)) ks m) j = (if j \<in> set ks then Some (f j) else get m j)"
  by (induction ks arbitrary: m) (auto simp: get_put)

end

interpretation gm: go_map_spec "[]" map_get map_put map_del map_keys map_ok
proof
  show "map_ok []" by (simp add: map_ok_def map_keys_def)
  show "map_ok m \<Longrightarrow> map_ok (map_put k v m)" for m :: "('a, 'b) gomap" and k v
    by (simp add: map_ok_def map_keys_def map_put_def distinct_update)
  show "map_ok m \<Longrightarrow> map_ok (map_del k m)" for m :: "('a, 'b) gomap" and k
    by (simp add: map_ok_def map_keys_def map_del_def distinct_delete)
  show "map_ok m \<Longrightarrow> distinct (map_keys m)" for m :: "('a, 'b) gomap"
    by (simp add: map_ok_def)
  show "map_get [] k = None" for k by (simp add: map_get_def)
  show "map_get (map_put k v m) j = (if j = k then Some v else map_get m j)"
    for m :: "('a, 'b) gomap" and k j v
    by (simp add: map_get_def map_put_def update_conv)
  show "map_get (map_del k m) j = (if j = k then None else map_get m j)"
    for m :: "('a, 'b) gomap" and k j
    by (simp add: map_get_def map_del_def delete_conv)
  show "k \<in> set (map_keys m) \<longleftrightarrow> map_get m k \<noteq> None" for m :: "('a, 'b) gomap" and k
    by (simp add: map_get_def map_keys_def map_of_eq_None_iff)
qed

lemmas map_simps [simp] =
  gm.get_empty gm.get_put_same gm.get_put_other gm.get_del_same gm.get_del_other
  gm.keys_put gm.keys_del gm.keys_empty

lemmas map_ok_simps [simp, intro] = gm.ok_empty gm.ok_put gm.ok_del

end
