(* ===== verification/Go_Strings.thy ===== *)
theory Go_Strings
  imports Go_Prelude "HOL-Library.Char_ord"
begin

text \<open>
  The parts of Go's packages strings, strconv, fmt and regexp that the driver uses.  A Go
  string is a sequence of bytes, here a list of \<open>char\<close>.  Case conversion is the ASCII one:
  the strings converted are hexadecimal and base-36 digits.  All separators the driver
  splits at are single bytes.
\<close>

section \<open>Package strings\<close>

fun Split :: "string \<Rightarrow> char \<Rightarrow> string list" where
  "Split [] c = [[]]"
| "Split (x # xs) c =
     (if x = c then [] # Split xs c
      else (case Split xs c of [] \<Rightarrow> [[x]] | y # ys \<Rightarrow> (x # y) # ys))"

fun Join :: "string list \<Rightarrow> string \<Rightarrow> string" where
  "Join [] sep = []"
| "Join [x] sep = x"
| "Join (x # y # ys) sep = x @ sep @ Join (y # ys) sep"

definition HasPrefix :: "string \<Rightarrow> string \<Rightarrow> bool" where
  "HasPrefix s p \<longleftrightarrow> take (length p) s = p"

fun Contains :: "string \<Rightarrow> string \<Rightarrow> bool" where
  "Contains [] p \<longleftrightarrow> p = []"
| "Contains (x # xs) p \<longleftrightarrow> HasPrefix (x # xs) p \<or> Contains xs p"

definition TrimSuffix :: "string \<Rightarrow> string \<Rightarrow> string" where
  "TrimSuffix s p = (if HasPrefix (rev s) (rev p) then take (length s - length p) s else s)"

definition Trim :: "string \<Rightarrow> string \<Rightarrow> string" where
  "Trim s cutset =
     rev (dropWhile (\<lambda>c. c \<in> set cutset) (rev (dropWhile (\<lambda>c. c \<in> set cutset) s)))"

text \<open>\<open>strings.ReplaceAll(s, c, "")\<close> for a single byte \<open>c\<close>.\<close>

definition RemoveAll :: "string \<Rightarrow> char \<Rightarrow> string" where
  "RemoveAll s c = filter (\<lambda>x. x \<noteq> c) s"

definition lower_char :: "char \<Rightarrow> char" where
  "lower_char c = (if CHR ''A'' \<le> c \<and> c \<le> CHR ''Z'' then char_of (of_char c + 32 :: nat) else c)"

definition upper_char :: "char \<Rightarrow> char" where
  "upper_char c = (if CHR ''a'' \<le> c \<and> c \<le> CHR ''z'' then char_of (of_char c - 32 :: nat) else c)"

definition ToLower :: "string \<Rightarrow> string" where
  "ToLower s = map lower_char s"

definition ToUpper :: "string \<Rightarrow> string" where
  "ToUpper s = map upper_char s"

subsection \<open>Splitting and joining\<close>

lemma Split_not_Nil [simp]: "Split s c \<noteq> []"
  by (induction s c rule: Split.induct) (auto split: list.splits)

lemma length_Split_pos: "0 < length (Split s c)"
  by simp

lemma Join_Split: "Join (Split s c) [c] = s"
proof (induction s)
  case (Cons x xs)
  obtain y ys where ys: "Split xs c = y # ys" by (cases "Split xs c") auto
  with Cons show ?case by (cases ys) auto
qed simp

lemma Split_no_sep: "p \<in> set (Split s c) \<Longrightarrow> c \<notin> set p"
  by (induction s c arbitrary: p rule: Split.induct) (auto split: list.splits if_splits)

lemma Split_sep_free [simp]: "c \<notin> set s \<Longrightarrow> Split s c = [s]"
  by (induction s) auto

lemma Split_append_sep: "c \<notin> set p \<Longrightarrow> Split (p @ c # s) c = p # Split s c"
  by (induction p) auto

lemma Split_Join:
  "xs \<noteq> [] \<Longrightarrow> (\<And>x. x \<in> set xs \<Longrightarrow> c \<notin> set x) \<Longrightarrow> Split (Join xs [c]) c = xs"
proof (induction xs rule: induct_list012)
  case (3 x y zs)
  then show ?case by (simp add: Split_append_sep)
qed auto

lemma length_Split: "length (Split s c) = Suc (length (filter ((=) c) s))"
proof (induction s)
  case (Cons x xs)
  then show ?case by (cases "Split xs c") auto
qed simp

lemma HasPrefix_iff: "HasPrefix s p \<longleftrightarrow> prefix p s"
  unfolding HasPrefix_def by (metis append_eq_conv_conj append_take_drop_id prefix_def)

lemma set_Join: "set (Join xs sep) \<subseteq> \<Union> (set ` set xs) \<union> set sep"
  by (induction xs sep rule: Join.induct) auto

lemma find_None_append: "find P xs = None \<Longrightarrow> find P (xs @ ys) = find P ys"
  by (induction xs) (auto split: if_splits)

lemma HasPrefix_append [simp]: "HasPrefix (p @ s) p"
  by (simp add: HasPrefix_def)

section \<open>Decimal numbers\<close>

definition digit_char :: "int \<Rightarrow> char" where
  "digit_char d = char_of (48 + d)"

definition is_digit :: "char \<Rightarrow> bool" where
  "is_digit c \<longleftrightarrow> CHR ''0'' \<le> c \<and> c \<le> CHR ''9''"

definition digit_val :: "char \<Rightarrow> int" where
  "digit_val c = of_char c - 48"

text \<open>\<open>fmt.Sprintf("%d", n)\<close>.\<close>

function dec_pos :: "int \<Rightarrow> string" where
  "dec_pos n = (if n < 10 then [digit_char n] else dec_pos (n div 10) @ [digit_char (n mod 10)])"
  by pat_completeness auto
termination
  by (relation "measure nat") auto

declare dec_pos.simps [simp del]

definition dec :: "int \<Rightarrow> string" where
  "dec n = (if n < 0 then CHR ''-'' # dec_pos (- n) else dec_pos n)"

text \<open>The value a string of decimal digits denotes.\<close>

definition dec_val :: "string \<Rightarrow> int" where
  "dec_val s = foldl (\<lambda>n c. n * 10 + digit_val c) 0 s"

text \<open>
  \<open>strconv.ParseUint(s, 10, bits)\<close>: the loop over the bytes, with its two range checks.
  \<open>n\<close> stays below the cutoff, so the multiplication does not overflow 64 bits.
\<close>

fun ParseUint_loop :: "string \<Rightarrow> nat \<Rightarrow> int \<Rightarrow> string \<Rightarrow> error + int" where
  "ParseUint_loop num bits n [] = Inr n"
| "ParseUint_loop num bits n (c # cs) =
     (if \<not> is_digit c then Inl (NumSyntax num)
      else if n \<ge> (2 ^ 64 - 1) div 10 + 1 then Inl (NumRange num)
      else (let n1 = n * 10 + digit_val c in
        if n1 > 2 ^ bits - 1 then Inl (NumRange num) else ParseUint_loop num bits n1 cs))"

definition ParseUint :: "string \<Rightarrow> nat \<Rightarrow> error + int" where
  "ParseUint s bits = (if s = [] then Inl (NumSyntax s) else ParseUint_loop s bits 0 s)"

definition ParseBool :: "string \<Rightarrow> error + bool" where
  "ParseBool s =
     (if s \<in> {''1'', ''t'', ''T'', ''true'', ''TRUE'', ''True''} then Inr True
      else if s \<in> {''0'', ''f'', ''F'', ''false'', ''FALSE'', ''False''} then Inr False
      else Inl (NumSyntax s))"

subsection \<open>Parsing and printing\<close>

lemma of_char_digit_char: "0 \<le> d \<Longrightarrow> d < 10 \<Longrightarrow> of_char (digit_char d) = 48 + d"
  by (simp add: digit_char_def)

lemma char_le_int: "c \<le> d \<longleftrightarrow> (of_char c :: int) \<le> of_char d"
proof -
  have "(of_char x :: int) = int (of_char x)" for x by (cases x) simp
  then show ?thesis by (simp only: less_eq_char_def of_nat_le_iff)
qed

lemma is_digit_iff: "is_digit c \<longleftrightarrow> 48 \<le> (of_char c :: int) \<and> of_char c \<le> (57 :: int)"
  by (simp add: is_digit_def char_le_int)

lemma is_digit_digit_char [simp]: "0 \<le> d \<Longrightarrow> d < 10 \<Longrightarrow> is_digit (digit_char d)"
  by (simp add: is_digit_iff of_char_digit_char)

lemma digit_val_digit_char [simp]: "0 \<le> d \<Longrightarrow> d < 10 \<Longrightarrow> digit_val (digit_char d) = d"
  by (simp add: digit_val_def of_char_digit_char)

lemma digit_val_range: "is_digit c \<Longrightarrow> 0 \<le> digit_val c \<and> digit_val c < 10"
  by (auto simp: is_digit_iff digit_val_def)

lemma dec_pos_not_Nil [simp]: "dec_pos n \<noteq> []"
  by (subst dec_pos.simps) simp

lemma dec_not_Nil [simp]: "dec n \<noteq> []"
  by (simp add: dec_def)

lemma dec_pos_digits: "0 \<le> n \<Longrightarrow> c \<in> set (dec_pos n) \<Longrightarrow> is_digit c"
  by (induction n rule: dec_pos.induct) (subst (asm) dec_pos.simps, auto split: if_splits)

lemma dec_digits: "0 \<le> n \<Longrightarrow> c \<in> set (dec n) \<Longrightarrow> is_digit c"
  by (simp add: dec_def dec_pos_digits)

lemma digit_char_0: "0 \<le> d \<Longrightarrow> d < 10 \<Longrightarrow> digit_char d = CHR ''0'' \<longleftrightarrow> d = 0"
proof -
  assume d: "0 \<le> d" "d < 10"
  have z: "digit_char 0 = CHR ''0''" by code_simp
  from digit_val_digit_char [of d] digit_val_digit_char [of 0] d show ?thesis by (metis z order_refl zero_less_numeral)
qed

lemma hd_dec_pos: "0 < n \<Longrightarrow> hd (dec_pos n) \<noteq> CHR ''0''"
proof (induction n rule: dec_pos.induct)
  case (1 n)
  then show ?case by (subst dec_pos.simps) (simp add: digit_char_0)
qed

lemma dec_val_dec_pos: "0 \<le> n \<Longrightarrow> dec_val (dec_pos n) = n"
proof (induction n rule: dec_pos.induct)
  case (1 n)
  show ?case
  proof (cases "n < 10")
    case True
    then show ?thesis using 1 by (subst dec_pos.simps) (simp add: dec_val_def)
  next
    case False
    with 1 have "dec_val (dec_pos (n div 10)) = n div 10" by simp
    with False show ?thesis
      by (subst dec_pos.simps) (simp add: dec_val_def)
  qed
qed

lemma dec_val_dec [simp]: "0 \<le> n \<Longrightarrow> dec_val (dec n) = n"
  by (simp add: dec_def dec_val_dec_pos)

lemma dec_inject: "0 \<le> m \<Longrightarrow> 0 \<le> n \<Longrightarrow> dec m = dec n \<longleftrightarrow> m = n"
  by (metis dec_val_dec)

lemma foldl_dec_ge:
  "0 \<le> n \<Longrightarrow> (\<forall>c\<in>set s. is_digit c) \<Longrightarrow> n \<le> foldl (\<lambda>n c. n * 10 + digit_val c) n s"
proof (induction s arbitrary: n)
  case (Cons c cs)
  have "0 \<le> digit_val c" using Cons.prems digit_val_range by simp
  then have le: "n \<le> n * 10 + digit_val c" using Cons.prems by simp
  also have "\<dots> \<le> foldl (\<lambda>n c. n * 10 + digit_val c) (n * 10 + digit_val c) cs"
    using Cons.prems le by (intro Cons.IH) auto
  finally show ?case by simp
qed simp

lemma ParseUint_loop_Inr:
  assumes "bits \<le> 64" "0 \<le> n" "n \<le> 2 ^ bits - 1"
  shows "ParseUint_loop num bits n s = Inr k \<longleftrightarrow>
    (\<forall>c\<in>set s. is_digit c) \<and> k = foldl (\<lambda>n c. n * 10 + digit_val c) n s \<and> k \<le> 2 ^ bits - 1"
  using assms(2,3)
proof (induction s arbitrary: n)
  case (Cons c cs)
  have le: "(2::int) ^ bits \<le> 2 ^ 64" using assms(1) by (rule power_increasing) simp
  let ?n1 = "n * 10 + digit_val c"
  show ?case
  proof (cases "is_digit c \<and> ?n1 \<le> 2 ^ bits - 1")
    case True
    then have v: "0 \<le> digit_val c" using digit_val_range by simp
    then have "n < (2 ^ 64 - 1) div 10 + 1" using le True by simp
    with True Cons.IH [of ?n1] Cons.prems v show ?thesis by (auto simp: Let_def)
  next
    case False
    then have "\<not> foldl (\<lambda>n c. n * 10 + digit_val c) ?n1 cs \<le> 2 ^ bits - 1"
      if "is_digit c" "\<forall>c\<in>set cs. is_digit c"
      using foldl_dec_ge [of ?n1 cs] Cons.prems that digit_val_range [of c] by linarith
    with False show ?thesis by (auto simp: Let_def)
  qed
qed auto

lemma dec_val_nonneg: "\<forall>c\<in>set s. is_digit c \<Longrightarrow> 0 \<le> dec_val s"
  using foldl_dec_ge [of 0 s] by (simp add: dec_val_def)

lemma ParseUint_Inr:
  assumes "bits \<le> 64"
  shows "ParseUint s bits = Inr k \<longleftrightarrow>
    s \<noteq> [] \<and> (\<forall>c\<in>set s. is_digit c) \<and> k = dec_val s \<and> k < 2 ^ bits"
  using ParseUint_loop_Inr [OF assms, of 0 s s k] by (auto simp: ParseUint_def dec_val_def)

lemma ParseUint_dec: "bits \<le> 64 \<Longrightarrow> 0 \<le> n \<Longrightarrow> n < 2 ^ bits \<Longrightarrow> ParseUint (dec n) bits = Inr n"
  by (auto simp: ParseUint_Inr dest: dec_digits)

lemma ParseUint_bounds:
  assumes "bits \<le> 64" "ParseUint s bits = Inr k"
  shows "0 \<le> k" "k < 2 ^ bits"
  using assms dec_val_nonneg by (auto simp: ParseUint_Inr)

end
