(* ===== verification/Utils.thy ===== *)
theory Utils
  imports Go_Strings "HOL-Library.Log_Nat"
begin

unbundle bit_operations_syntax

text \<open>
  The computations of \<^verbatim>\<open>ovs/utils.go\<close> that touch no outside state: number conversion, the
  base-62 encoding and the checksum behind patch-port names, MAC address prefixes, IP
  increment and veth pair names.  The package \<^verbatim>\<open>kenshaw/baseconv\<close> is not part of the
  repository: its function \<open>Convert\<close> is the argument \<open>bc\<close>, and the error it returns beside
  the string is dropped by both callers.
\<close>

section \<open>Types\<close>

type_synonym OFPortType = "32 word"
type_synonym OFVidType = "32 word"

text \<open>Go's \<open>uint\<close> on the 64-bit targets of the driver.\<close>

type_synonym uint = "64 word"

datatype bc_digits = Digits36 | DigitsHex | DigitsDec

type_synonym bc_convert = "string \<Rightarrow> bc_digits \<Rightarrow> bc_digits \<Rightarrow> string"

section \<open>Numbers\<close>

definition ParseUint32 :: "string \<Rightarrow> error + 32 word" where
  "ParseUint32 value = (case ParseUint value 32 of
     Inr uintValue \<Rightarrow> Inr (of_int uintValue) | Inl err \<Rightarrow> Inl err)"

function pad6 :: "string \<Rightarrow> string" where
  "pad6 converted = (if length converted < 6 then pad6 (CHR ''0'' # converted) else converted)"
  by pat_completeness auto
termination
  by (relation "measure (\<lambda>converted. 6 - length converted)") auto

declare pad6.simps [simp del]

definition base36to16 :: "bc_convert \<Rightarrow> string \<Rightarrow> string" where
  "base36to16 bc value =
     (let converted = bc (ToLower value) Digits36 DigitsHex
      in ToUpper (pad6 converted))"

definition defaultUint :: "string \<Rightarrow> 64 word \<Rightarrow> 64 word" where
  "defaultUint strValue defaultValue = (case ParseUint strValue 64 of
     Inr uintValue \<Rightarrow> of_int uintValue | Inl err \<Rightarrow> defaultValue)"

definition mustGetUintFromHexStr :: "bc_convert \<Rightarrow> string \<Rightarrow> 64 word outcome" where
  "mustGetUintFromHexStr bc dpid =
     bindO (sliceFromO dpid 2) (\<lambda>digits.
     let strVal = bc (ToLower digits) DigitsHex DigitsDec;
         uintVal = defaultUint strVal 0
     in if uintVal = 0
        then Panic (Errorf (''unable convert '' @ strVal @ '' to an uint''))
        else Ret uintVal)"

section \<open>Base 62\<close>

definition b62alphabet :: string where
  "b62alphabet = ''0123456789abcdefghijklmnopqrstuvwxyzABCDEFGHIJKLMNOPQRSTUVWXYZ''"

text \<open>
  \<open>float64(n)\<close> of a 64-bit integer: exact up to \<open>2 ^ 53\<close>, beyond that rounded to 53
  significant bits, ties to even.
\<close>

definition float64_of_int :: "int \<Rightarrow> int" where
  "float64_of_int n =
     (if \<bar>n\<bar> \<le> 2 ^ 53 then n
      else (let a = \<bar>n\<bar>; e = nat (bitlen a) - 53; q = a div 2 ^ e; r = a mod 2 ^ e;
                up = 2 ^ (e - 1) < r \<or> (r = 2 ^ (e - 1) \<and> odd q)
            in sgn n * (if up then q + 1 else q) * 2 ^ e))"

function b62_loop :: "int \<Rightarrow> string \<Rightarrow> string" where
  "b62_loop n b =
     (if n > 0
      then (let r = float64_of_int n mod int (length b62alphabet)
            in b62_loop (n div int (length b62alphabet)) (b62alphabet ! nat r # b))
      else b)"
  by pat_completeness auto
termination
  by (relation "measure (\<lambda>(n, b). nat n)") (auto simp: b62alphabet_def)

declare b62_loop.simps [simp del]

definition b62Encode :: "int \<Rightarrow> string" where
  "b62Encode n = (if n = 0 then ''0'' else b62_loop n [])"

section \<open>The CRC-32 checksum (IEEE polynomial, reflected) and patch strings\<close>

definition crc32_bit :: "32 word \<Rightarrow> 32 word" where
  "crc32_bit c = (if bit c 0 then drop_bit 1 c XOR 0xEDB88320 else drop_bit 1 c)"

definition crc32_byte :: "32 word \<Rightarrow> char \<Rightarrow> 32 word" where
  "crc32_byte c x = (crc32_bit ^^ 8) (c XOR of_int (of_char x))"

definition ChecksumIEEE :: "string \<Rightarrow> 32 word" where
  "ChecksumIEEE s = NOT (foldl crc32_byte (NOT 0) s)"

definition patchStr :: "string \<Rightarrow> string" where
  "patchStr a = b62Encode (uint (ChecksumIEEE a))"

section \<open>MAC addresses\<close>

type_synonym byte = "8 word"

definition hex_digit :: "char \<Rightarrow> int option" where
  "hex_digit c =
     (if CHR ''0'' \<le> c \<and> c \<le> CHR ''9'' then Some (of_char c - 48)
      else if CHR ''a'' \<le> c \<and> c \<le> CHR ''f'' then Some (of_char c - 87)
      else if CHR ''A'' \<le> c \<and> c \<le> CHR ''F'' then Some (of_char c - 55)
      else None)"

definition hex_byte :: "char \<Rightarrow> char \<Rightarrow> byte option" where
  "hex_byte c d = (case (hex_digit c, hex_digit d) of
     (Some h, Some l) \<Rightarrow> Some (of_int (16 * h + l)) | _ \<Rightarrow> None)"

text \<open>\<open>hex.DecodeString\<close>: an odd length and a byte that is no digit are errors.\<close>

fun hex_DecodeString :: "string \<Rightarrow> byte list option" where
  "hex_DecodeString [] = Some []"
| "hex_DecodeString [c] = None"
| "hex_DecodeString (c # d # s) =
     (case hex_byte c d of None \<Rightarrow> None
      | Some b \<Rightarrow> map_option ((#) b) (hex_DecodeString s))"

text \<open>
  \<open>net.ParseMAC\<close>: pairs of digits between colons or hyphens, or groups of four digits
  between dots, for 6, 8 or 20 bytes.
\<close>

fun mac_pairs :: "char \<Rightarrow> string \<Rightarrow> byte list option" where
  "mac_pairs e (c # d # []) = map_option (\<lambda>b. [b]) (hex_byte c d)"
| "mac_pairs e (c # d # x # s) =
     (if x = e then (case hex_byte c d of None \<Rightarrow> None
                     | Some b \<Rightarrow> map_option ((#) b) (mac_pairs e s)) else None)"
| "mac_pairs e _ = None"

fun mac_quads :: "string \<Rightarrow> byte list option" where
  "mac_quads (c # d # c' # d' # []) =
     (case (hex_byte c d, hex_byte c' d') of (Some a, Some b) \<Rightarrow> Some [a, b] | _ \<Rightarrow> None)"
| "mac_quads (c # d # c' # d' # x # s) =
     (if x = CHR ''.'' then (case (hex_byte c d, hex_byte c' d') of
         (Some a, Some b) \<Rightarrow> map_option (\<lambda>r. a # b # r) (mac_quads s) | _ \<Rightarrow> None) else None)"
| "mac_quads _ = None"

definition mac_len_ok :: "nat \<Rightarrow> bool" where
  "mac_len_ok n \<longleftrightarrow> n = 6 \<or> n = 8 \<or> n = 20"

definition ParseMAC :: "string \<Rightarrow> error + byte list" where
  "ParseMAC s =
     (let bad = Inl (Errorf (''address '' @ s @ '': invalid MAC address'')) in
      if length s < 14 then bad
      else if s ! 2 = CHR '':'' \<or> s ! 2 = CHR ''-'' then
        (if (length s + 1) mod 3 \<noteq> 0 \<or> \<not> mac_len_ok ((length s + 1) div 3) then bad
         else (case mac_pairs (s ! 2) s of None \<Rightarrow> bad | Some hw \<Rightarrow> Inr hw))
      else if s ! 4 = CHR ''.'' then
        (if (length s + 1) mod 5 \<noteq> 0 \<or> \<not> mac_len_ok (2 * (length s + 1) div 5) then bad
         else (case mac_quads s of None \<Rightarrow> bad | Some hw \<Rightarrow> Inr hw))
      else bad)"

definition hex_char :: "int \<Rightarrow> char" where
  "hex_char d = (if d < 10 then char_of (48 + d) else char_of (87 + d))"

definition hex_of_byte :: "byte \<Rightarrow> string" where
  "hex_of_byte b = [hex_char (uint b div 16), hex_char (uint b mod 16)]"

definition HardwareAddr_String :: "byte list \<Rightarrow> string" where
  "HardwareAddr_String hw = Join (map hex_of_byte hw) '':''"

text \<open>The loop \<open>rawMacAddress[i] = b\<close>: a write past the end panics.\<close>

primrec overwrite :: "byte list \<Rightarrow> nat \<Rightarrow> byte list \<Rightarrow> byte list outcome" where
  "overwrite raw i [] = Ret raw"
| "overwrite raw i (b # bs) =
     (if i < length raw then overwrite (raw[i := b]) (Suc i) bs else Panic IndexOutOfRange)"

definition mustPrefixMAC :: "string \<Rightarrow> string \<Rightarrow> string outcome" where
  "mustPrefixMAC macPrefix macAddress =
     (case hex_DecodeString (RemoveAll macPrefix (CHR '':'')) of
        None \<Rightarrow> Panic (Errorf (''invalid MAC prefix: '' @ macPrefix))
      | Some prefixBytes \<Rightarrow>
          if length prefixBytes > 5 then Panic (Errorf (''MAC prefix too long: '' @ macPrefix))
          else (case ParseMAC macAddress of
              Inl parseerr \<Rightarrow> Panic parseerr
            | Inr rawMacAddress \<Rightarrow>
                bindO (overwrite rawMacAddress 0 prefixBytes) (\<lambda>mac. Ret (HardwareAddr_String mac))))"

section \<open>IP addresses\<close>

text \<open>The loop over the 16 bytes, from the last to the first; \<open>Suc i\<close> stands for index \<open>i\<close>.\<close>

primrec ipIncrement_loop :: "nat \<Rightarrow> byte list \<Rightarrow> byte list" where
  "ipIncrement_loop 0 networkAddr = networkAddr"
| "ipIncrement_loop (Suc i) networkAddr =
     (let b = networkAddr ! i in
      if b < 255
      then fold (\<lambda>xi a. a[xi := 0]) [i + 1..<16] (networkAddr[i := b + 1])
      else ipIncrement_loop i networkAddr)"

definition ipIncrement :: "byte list \<Rightarrow> byte list outcome" where
  "ipIncrement networkAddr =
     (if length networkAddr < 16 then Panic IndexOutOfRange
      else Ret (ipIncrement_loop 16 networkAddr))"

section \<open>Veth pairs\<close>

record veth =
  veth_Name :: string
  veth_PeerName :: string

definition ovsDovesnapPrefix :: string where "ovsDovesnapPrefix = ''ods''"
definition ovsPortPrefix :: string where "ovsPortPrefix = ovsDovesnapPrefix @ ''ve''"
definition patchPrefix :: string where "patchPrefix = ovsDovesnapPrefix"
definition peerOvsPortPrefix :: string where "peerOvsPortPrefix = ''ethc''"

definition vethPair :: "string \<Rightarrow> veth" where
  "vethPair sfx = \<lparr>veth_Name = ovsPortPrefix @ sfx, veth_PeerName = peerOvsPortPrefix @ sfx\<rparr>"

section \<open>Correctness\<close>

subsection \<open>Numbers\<close>

lemma uint_lt32: "uint (w :: 32 word) < 2 ^ 32"
  using uint_lt2p [of w] by simp

lemma uint_lt64: "uint (w :: 64 word) < 2 ^ 64"
  using uint_lt2p [of w] by simp

lemma ParseUint32_Inr:
  "ParseUint32 s = Inr w \<longleftrightarrow>
   s \<noteq> [] \<and> (\<forall>c\<in>set s. is_digit c) \<and> dec_val s < 2 ^ 32 \<and> w = of_int (dec_val s)"
proof (cases "ParseUint s 32")
  case (Inl e)
  then have "ParseUint s 32 \<noteq> Inr (dec_val s)" by simp
  then have "\<not> (s \<noteq> [] \<and> (\<forall>c\<in>set s. is_digit c) \<and> dec_val s < 2 ^ 32)"
    by (subst (asm) ParseUint_Inr) auto
  with Inl show ?thesis by (auto simp: ParseUint32_def)
next
  case (Inr k)
  then have "s \<noteq> [] \<and> (\<forall>c\<in>set s. is_digit c) \<and> k = dec_val s \<and> k < 2 ^ 32"
    by (subst (asm) ParseUint_Inr) auto
  with Inr show ?thesis by (auto simp: ParseUint32_def)
qed

lemma ParseUint32_dec: "ParseUint32 (dec (uint w)) = Inr w"
  using ParseUint_dec [OF _ _ uint_lt32, of w] by (simp add: ParseUint32_def)

lemma defaultUint_dec: "defaultUint (dec (uint w)) d = w"
  using ParseUint_dec [OF _ _ uint_lt64, of w] by (simp add: defaultUint_def)

lemma pad6_length: "6 \<le> length (pad6 s)"
  by (induction s rule: pad6.induct) (metis linorder_not_less pad6.simps)

lemma pad6_append: "\<exists>n. pad6 s = replicate n (CHR ''0'') @ s"
proof (induction s rule: pad6.induct)
  case (1 s)
  show ?case
  proof (cases "length s < 6")
    case True
    with 1 obtain n where "pad6 (CHR ''0'' # s) = replicate n (CHR ''0'') @ CHR ''0'' # s" by blast
    with True have "pad6 s = replicate (Suc n) (CHR ''0'') @ s"
      by (subst pad6.simps) (simp add: replicate_app_Cons_same)
    then show ?thesis by blast
  next
    case False
    then have "pad6 s = replicate 0 (CHR ''0'') @ s" by (subst pad6.simps) simp
    then show ?thesis by blast
  qed
qed

lemma base36to16_length: "6 \<le> length (base36to16 bc value)"
  by (simp add: base36to16_def ToUpper_def Let_def pad6_length)

lemma pureO_overwrite: "pureO (overwrite raw i bs)"
  by (induction bs arbitrary: raw i) (auto intro: pure_intros)

lemma pure_utils [pure_intros]:
  "pureO (mustGetUintFromHexStr bc x)" "pureO (mustPrefixMAC a b)"
  unfolding mustGetUintFromHexStr_def mustPrefixMAC_def
  by (intro pure_intros pureO_overwrite)+

lemma mustGetUintFromHexStr_nonzero: "mustGetUintFromHexStr bc dpid = Ret w \<Longrightarrow> w \<noteq> 0"
  by (auto simp: mustGetUintFromHexStr_def sliceFromO_def Let_def split: if_splits)

subsection \<open>Base 62\<close>

definition b62_index :: "char \<Rightarrow> nat" where
  "b62_index c = length (takeWhile (\<lambda>x. x \<noteq> c) b62alphabet)"

definition b62_val :: "string \<Rightarrow> int" where
  "b62_val s = foldl (\<lambda>n c. n * 62 + int (b62_index c)) 0 s"

lemma length_b62alphabet [simp]: "length b62alphabet = 62"
  by (simp add: b62alphabet_def)

lemma distinct_b62alphabet: "distinct b62alphabet"
  by (simp add: b62alphabet_def)

lemma takeWhile_nth_distinct:
  "distinct xs \<Longrightarrow> i < length xs \<Longrightarrow> length (takeWhile (\<lambda>x. x \<noteq> xs ! i) xs) = i"
proof (induction xs arbitrary: i)
  case (Cons x xs)
  then show ?case by (cases i) auto
qed simp

lemma b62_index_nth: "i < 62 \<Longrightarrow> b62_index (b62alphabet ! i) = i"
  by (simp add: b62_index_def takeWhile_nth_distinct distinct_b62alphabet)

lemma float64_of_int_exact: "\<bar>n\<bar> \<le> 2 ^ 53 \<Longrightarrow> float64_of_int n = n"
  by (simp add: float64_of_int_def)

lemma foldl_b62:
  "foldl (\<lambda>n c. n * 62 + int (b62_index c)) a (xs @ ys) =
   foldl (\<lambda>n c. n * 62 + int (b62_index c)) a xs * 62 ^ length ys + b62_val ys"
proof (induction ys rule: rev_induct)
  case (snoc y ys)
  then show ?case by (simp add: b62_val_def algebra_simps)
qed (simp add: b62_val_def)

lemma b62_val_Cons: "b62_val (c # s) = int (b62_index c) * 62 ^ length s + b62_val s"
  using foldl_b62 [of 0 "[c]" s] by (simp add: b62_val_def)

lemma b62_loop_val:
  "0 \<le> n \<Longrightarrow> n \<le> 2 ^ 53 \<Longrightarrow> b62_val (b62_loop n b) = n * 62 ^ length b + b62_val b"
proof (induction n b rule: b62_loop.induct)
  case (1 n b)
  show ?case
  proof (cases "n > 0")
    case True
    define q where "q = n div 62"
    define r where "r = n mod 62"
    have n: "n = q * 62 + r" by (simp add: q_def r_def)
    let ?c = "b62alphabet ! nat r"
    have f: "float64_of_int n = n" using "1.prems" by (simp add: float64_of_int_exact)
    have c: "int (b62_index ?c) = r" by (simp add: r_def b62_index_nth nat_less_iff)
    have le: "q \<le> 2 ^ 53" "0 \<le> q" using "1.prems" True unfolding q_def by linarith+
    have "b62_val (b62_loop q (?c # b)) = q * 62 ^ Suc (length b) + b62_val (?c # b)"
      using "1.IH" [OF True refl] True le f by (simp add: q_def r_def)
    also have "\<dots> = n * 62 ^ length b + b62_val b"
      unfolding n by (simp add: b62_val_Cons c algebra_simps)
    finally show ?thesis
      using True f by (subst b62_loop.simps) (simp add: Let_def q_def r_def)
  next
    case False
    with "1.prems" show ?thesis by (subst b62_loop.simps) simp
  qed
qed

lemma b62_val_b62Encode: "0 \<le> n \<Longrightarrow> n \<le> 2 ^ 53 \<Longrightarrow> b62_val (b62Encode n) = n"
  using b62_loop_val [of n "[]"]
  by (auto simp: b62Encode_def b62_val_def b62_index_def b62alphabet_def)

lemma b62_loop_length:
  "n < 62 ^ k \<Longrightarrow> length (b62_loop n b) \<le> length b + k"
proof (induction k arbitrary: n b)
  case 0
  then show ?case by (subst b62_loop.simps) simp
next
  case (Suc k)
  show ?case
  proof (cases "n > 0")
    case True
    from Suc.prems have "n div 62 < 62 ^ k" by (simp add: div_less_iff_less_mult mult.commute)
    then have "length (b62_loop (n div 62) (c # b)) \<le> Suc (length b) + k" for c
      using Suc.IH [of "n div 62" "c # b"] by simp
    with True show ?thesis by (subst b62_loop.simps) (simp add: Let_def)
  next
    case False
    then show ?thesis by (subst b62_loop.simps) simp
  qed
qed

lemma b62Encode_length: "n < 62 ^ k \<Longrightarrow> 0 < k \<Longrightarrow> length (b62Encode n) \<le> k"
  using b62_loop_length [of n k "[]"] by (simp add: b62Encode_def)

lemma b62_loop_mono: "length b \<le> length (b62_loop n b)"
proof (induction n b rule: b62_loop.induct)
  case (1 n b)
  then show ?case by (subst b62_loop.simps) (auto simp: Let_def dest: Suc_leD)
qed

lemma b62Encode_not_Nil: "0 \<le> n \<Longrightarrow> b62Encode n \<noteq> []"
  using b62_loop_mono [of "[b62alphabet ! nat (float64_of_int n mod 62)]" "n div 62"]
  by (auto simp: b62Encode_def Let_def b62_loop.simps [of n])

subsection \<open>Patch strings\<close>

lemma patchStr_length: "length (patchStr a) \<le> 6"
proof -
  have "uint (ChecksumIEEE a) < 2 ^ 32" using uint_lt2p [of "ChecksumIEEE a"] by simp
  then show ?thesis unfolding patchStr_def by (intro b62Encode_length) simp_all
qed

lemma patchStr_not_Nil: "patchStr a \<noteq> []"
  by (simp add: patchStr_def b62Encode_not_Nil)

lemma b62_val_patchStr: "b62_val (patchStr a) = uint (ChecksumIEEE a)"
proof -
  have "uint (ChecksumIEEE a) < 2 ^ 32" using uint_lt2p [of "ChecksumIEEE a"] by simp
  then show ?thesis by (simp add: patchStr_def b62_val_b62Encode)
qed

lemma patchStr_eq_iff: "patchStr a = patchStr b \<longleftrightarrow> ChecksumIEEE a = ChecksumIEEE b"
  by (metis b62_val_patchStr patchStr_def word_uint_eqI)

subsection \<open>MAC addresses\<close>

lemma hex_digit_hex_char: "0 \<le> d \<Longrightarrow> d < 16 \<Longrightarrow> hex_digit (hex_char d) = Some d"
  by (simp add: hex_digit_def hex_char_def char_le_int)

lemma hex_byte_hex_of_byte:
  "hex_byte (hex_char (uint b div 16)) (hex_char (uint b mod 16)) = Some b"
proof -
  have "uint b < 2 ^ LENGTH(8)" by (rule uint_lt2p)
  then have "uint b div 16 < 16" by simp
  then show ?thesis by (simp add: hex_byte_def hex_digit_hex_char pos_imp_zdiv_nonneg_iff)
qed

lemma mac_pairs_length: "mac_pairs e s = Some hw \<Longrightarrow> length s + 1 = 3 * length hw"
  by (induction e s arbitrary: hw rule: mac_pairs.induct) (auto split: if_splits option.splits)

lemma mac_quads_length: "mac_quads s = Some hw \<Longrightarrow> 2 * (length s + 1) = 5 * length hw"
  by (induction s arbitrary: hw rule: mac_quads.induct) (auto split: if_splits option.splits)

lemma ParseMAC_length: "ParseMAC s = Inr hw \<Longrightarrow> mac_len_ok (length hw)"
  by (auto simp: ParseMAC_def Let_def split: if_splits option.splits
      dest!: mac_pairs_length mac_quads_length)

lemma mac_pairs_String:
  "hw \<noteq> [] \<Longrightarrow> mac_pairs (CHR '':'') (HardwareAddr_String hw) = Some hw"
  unfolding HardwareAddr_String_def
proof (induction hw rule: induct_list012)
  case (3 a b hw)
  then show ?case by (simp add: hex_of_byte_def hex_byte_hex_of_byte)
qed (simp_all add: hex_of_byte_def hex_byte_hex_of_byte)

lemma ParseMAC_String:
  assumes "mac_len_ok (length hw)"
  shows "ParseMAC (HardwareAddr_String hw) = Inr hw"
proof -
  from assms obtain a b bs where hw: "hw = a # b # bs"
    by (cases hw rule: remdups_adj.cases) (auto simp: mac_len_ok_def)
  have p: "mac_pairs (CHR '':'') (HardwareAddr_String hw) = Some hw"
    by (rule mac_pairs_String) (simp add: hw)
  then have len: "length (HardwareAddr_String hw) + 1 = 3 * length hw" by (rule mac_pairs_length)
  have c: "HardwareAddr_String hw ! 2 = CHR '':''"
    by (simp add: hw HardwareAddr_String_def hex_of_byte_def)
  have "14 \<le> length (HardwareAddr_String hw)" using len assms by (auto simp: mac_len_ok_def)
  moreover have "(length (HardwareAddr_String hw) + 1) mod 3 = 0"
      "(length (HardwareAddr_String hw) + 1) div 3 = length hw" using len by simp_all
  ultimately show ?thesis using assms p c unfolding ParseMAC_def Let_def by simp
qed

lemma overwrite_Ret:
  "i + length bs \<le> length raw \<Longrightarrow>
   overwrite raw i bs = Ret (take i raw @ bs @ drop (i + length bs) raw)"
proof (induction bs arbitrary: raw i)
  case (Cons b bs)
  then have "overwrite raw i (b # bs) =
      Ret (take (Suc i) (raw[i := b]) @ bs @ drop (Suc i + length bs) (raw[i := b]))"
    by simp
  also have "take (Suc i) (raw[i := b]) = take i raw @ [b]"
    using Cons.prems by (simp add: take_Suc_conv_app_nth)
  finally show ?case by (simp add: drop_update_cancel)
qed simp

lemma mustPrefixMAC_Ret:
  assumes "hex_DecodeString (RemoveAll macPrefix (CHR '':'')) = Some pre" "length pre \<le> 5"
    and mac: "ParseMAC macAddress = Inr raw"
  shows "mustPrefixMAC macPrefix macAddress = Ret (HardwareAddr_String (pre @ drop (length pre) raw))"
proof -
  have "length pre \<le> length raw" using ParseMAC_length [OF mac] assms(2) by (auto simp: mac_len_ok_def)
  then show ?thesis using assms by (simp add: mustPrefixMAC_def overwrite_Ret)
qed

subsection \<open>IP increment\<close>

definition ip_val :: "byte list \<Rightarrow> nat" where
  "ip_val a = foldl (\<lambda>n b. n * 256 + unat b) 0 a"

lemma ip_val_snoc: "ip_val (a @ [b]) = ip_val a * 256 + unat b"
  by (simp add: ip_val_def)

lemma ip_val_append_zero: "ip_val (a @ replicate k 0) = ip_val a * 256 ^ k"
  by (induction k) (simp_all add: ip_val_snoc replicate_append_same [symmetric] flip: append_assoc)

lemma ip_val_append_255: "ip_val (a @ replicate k 255) + 1 = (ip_val a + 1) * 256 ^ k"
proof (induction k)
  case (Suc k)
  have "a @ replicate (Suc k) 255 = (a @ replicate k 255) @ [255]"
    by (simp add: replicate_append_same)
  then have "ip_val (a @ replicate (Suc k) 255) + 1 = (ip_val (a @ replicate k 255) + 1) * 256"
    by (simp only: ip_val_snoc) simp
  with Suc show ?case by simp
qed simp

lemma fold_zero:
  "i \<le> length a \<Longrightarrow> fold (\<lambda>xi a. a[xi := 0]) [i..<length a] a = take i a @ replicate (length a - i) 0"
proof (induction "length a - i" arbitrary: i a)
  case (Suc k)
  then have i: "i < length a" by simp
  then have "fold (\<lambda>xi a. a[xi := 0]) [i..<length a] a =
      fold (\<lambda>xi a. a[xi := 0]) [Suc i..<length (a[i := 0])] (a[i := 0])"
    by (simp add: upt_conv_Cons)
  also have "\<dots> = take (Suc i) (a[i := 0]) @ replicate (length a - Suc i) 0"
    using Suc.hyps(1) [of "a[i := 0]" "Suc i"] Suc.hyps(2) i by simp
  also have "take (Suc i) (a[i := 0]) = take i a @ [0]"
    using i by (simp add: take_Suc_conv_app_nth)
  finally show ?case using i by (simp add: Suc_diff_Suc flip: replicate_Suc)
qed simp

lemma ipIncrement_loop_val:
  assumes "length a = 16" "i \<le> 16" "drop i a = replicate (16 - i) 255"
  shows "ip_val (ipIncrement_loop i a) =
    (if a = replicate 16 255 then ip_val a else ip_val a + 1)"
  using assms(2,3)
proof (induction i)
  case 0
  with assms(1) show ?case by simp
next
  case (Suc i)
  show ?case
  proof (cases "a ! i < 255")
    case True
    have "a = take (Suc i) a @ drop (Suc i) a" by simp
    also have "take (Suc i) a = take i a @ [a ! i]"
      using Suc.prems assms(1) by (simp add: take_Suc_conv_app_nth)
    also have "drop (Suc i) a = replicate (15 - i) 255" using Suc.prems by simp
    finally have a: "a = (take i a @ [a ! i]) @ replicate (15 - i) 255" .
    have ne: "a \<noteq> replicate 16 255" using True Suc.prems by auto
    have "ipIncrement_loop (Suc i) a = take (Suc i) (a[i := a ! i + 1]) @ replicate (15 - i) 0"
      using True fold_zero [of "Suc i" "a[i := a ! i + 1]"] assms(1) Suc.prems by (simp add: Let_def)
    also have "take (Suc i) (a[i := a ! i + 1]) = take i a @ [a ! i + 1]"
      using assms(1) Suc.prems by (simp add: take_Suc_conv_app_nth)
    finally have r: "ip_val (ipIncrement_loop (Suc i) a) =
        (ip_val (take i a) * 256 + unat (a ! i + 1)) * 256 ^ (15 - i)"
      by (simp only: ip_val_append_zero ip_val_snoc)
    have "unat (a ! i + 1) = unat (a ! i) + 1"
      using True by (simp add: unat_word_ariths word_less_nat_alt)
    then have "ip_val (ipIncrement_loop (Suc i) a) =
        (ip_val (take i a @ [a ! i]) + 1) * 256 ^ (15 - i)"
      using r by (simp add: ip_val_snoc)
    also have "\<dots> = ip_val a + 1" using a ip_val_append_255 by metis
    finally show ?thesis using ne by simp
  next
    case False
    have "unat (a ! i) < 2 ^ LENGTH(8)" by (rule unsigned_less)
    then have "a ! i = 255"
      using False by (simp add: not_less word_le_nat_alt word_unat_eq_iff)
    then have "drop i a = replicate (16 - i) 255"
      using Suc.prems assms(1)
      by (metis Cons_nth_drop_Suc Suc_diff_Suc Suc_le_eq replicate_Suc)
    with False Suc show ?thesis by (simp add: Let_def)
  qed
qed

section \<open>Properties\<close>

text \<open>
  C40. Incrementing an address: on the 16 bytes of an address, read as one number, \<open>ipIncrement\<close> adds one,
  with the carry through all bytes; only the all-ones address is left as it is.
\<close>

theorem ipIncrement_adds_one:
  assumes "length a = 16"
  shows "\<exists>a'. ipIncrement a = Ret a' \<and> ip_val a' = (if a = replicate 16 255 then ip_val a else ip_val a + 1)"
  using ipIncrement_loop_val [OF assms, of 16] assms by (simp add: ipIncrement_def)

theorem ipIncrement_adds_one_witness:
  "\<exists>a'. ipIncrement (replicate 14 0 @ [1, 255]) = Ret a' \<and> ip_val a' = 512"
proof -
  have "ip_val (replicate 14 0 @ [1, 255]) = 511" "(replicate 14 0 @ [1, 255] :: byte list) \<noteq> replicate 16 255" by code_simp+
  with ipIncrement_adds_one [of "replicate 14 0 @ [1, 255]"] show ?thesis by simp
qed

text \<open>
  C39. Prefixing a MAC address: with a prefix of at most five bytes and a readable address, the result is the address
  that starts with the prefix and keeps the remaining bytes, in a form that is read back; in every other case the
  function panics.
\<close>

theorem mustPrefixMAC_correct:
  "(case (hex_DecodeString (RemoveAll macPrefix (CHR '':'')), ParseMAC macAddress) of
      (Some pre, Inr raw) \<Rightarrow>
        if length pre \<le> 5 then \<exists>mac. mustPrefixMAC macPrefix macAddress = Ret mac \<and> ParseMAC mac = Inr (pre @ drop (length pre) raw)
        else mustPrefixMAC macPrefix macAddress = Panic (Errorf (''MAC prefix too long: '' @ macPrefix))
    | _ \<Rightarrow> \<exists>e. mustPrefixMAC macPrefix macAddress = Panic e)"
proof (cases "hex_DecodeString (RemoveAll macPrefix (CHR '':''))")
  case None
  then show ?thesis by (simp add: mustPrefixMAC_def)
next
  case (Some pre)
  show ?thesis
  proof (cases "ParseMAC macAddress")
    case (Inl e)
    with Some show ?thesis by (simp add: mustPrefixMAC_def)
  next
    case (Inr raw)
    show ?thesis
    proof (cases "length pre \<le> 5")
      case True
      have l: "mac_len_ok (length raw)" using Inr by (rule ParseMAC_length)
      with True have "length (pre @ drop (length pre) raw) = length raw" by (auto simp: mac_len_ok_def)
      with l have "ParseMAC (HardwareAddr_String (pre @ drop (length pre) raw)) = Inr (pre @ drop (length pre) raw)"
        by (intro ParseMAC_String) simp
      with True mustPrefixMAC_Ret [OF Some True Inr] show ?thesis by (simp add: Some Inr)
    next
      case False
      with Some Inr show ?thesis by (simp add: mustPrefixMAC_def)
    qed
  qed
qed

end
