(* ===== verification/World.thy ===== *)
theory World
  imports Utils Complex_Main
begin

text \<open>
  What the driver sees of the outside: Open vSwitch and other commands it runs, netlink and
  iptables, the operating system, the Docker daemon and the faucetconfrpc server.  None of
  this code is in the repository, so it is a parameter: a record \<open>env\<close> of functions, each of
  which may answer differently according to everything the driver has done before (its
  first argument, the list of past events).  The state of the driver carries that list as
  its \<open>trace\<close>, which makes every command, request and system call of a run observable, and
  their order.  The iteration order of Go maps and the function of package baseconv come
  from the environment as well.
\<close>

section \<open>Values that cross the boundary\<close>

record link =
  link_Name :: string
  link_HardwareAddr :: "byte list"

text \<open>The requests of the faucetconfrpc client, with the fields the driver sets.\<close>

datatype rpc_request =
    SetConfigFileRequest string bool
  | SetPortAclRequest string "32 word" string
  | SetVlanOutAclRequest string string
  | DelDpInterfacesRequest "(string \<times> 32 word list) list" bool
  | DelDpsRequest "string list"
  | AddPortMirrorRequest string "32 word" "32 word"
  | SetRemoteMirrorPortRequest string "32 word" "32 word" string "32 word"

text \<open>
  A value of Go type \<open>interface{}\<close> as decoded from JSON.  Every finite \<open>float64\<close> is a
  rational number.
\<close>

datatype iface =
    IfNil
  | IfBool bool
  | IfNum rat
  | IfStr string
  | IfList "iface list"
  | IfMap "(string \<times> iface) list"

text \<open>\<open>network.Inspect\<close> and \<open>container.InspectResponse\<close> of the Docker client; a nil map is \<open>None\<close>.\<close>

record ipam_config =
  Subnet :: string
  ipam_Gateway :: string

record NetInspect =
  net_Name :: string
  net_ID :: string
  net_Options :: "(string, string) gomap option"
  net_IPAM_Config :: "ipam_config list"
  net_Containers :: "(string, string) gomap" \<comment> \<open>container id to endpoint id\<close>

record NetSummary =
  sum_ID :: string
  sum_Name :: string
  sum_Driver :: string

record EndpointSettings =
  es_MacAddress :: string
  es_IPAddress :: string
  es_Gateway :: string

record ContainerInspect =
  ci_ID :: string
  ci_Name :: string
  ci_Pid :: int
  ci_Networks :: "(string, EndpointSettings) gomap"
  ci_Labels :: "(string, string) gomap"

datatype stat_result = StatOk nat | StatNotExist | StatError error

datatype rpc_failure = GrpcError | TransportError error

section \<open>Events and the environment\<close>

datatype event =
    ExecCmd string "string list"
  | StartCmd string "string list" "string list"
  | KillCmd "string list"
  | IptablesRaw "string list"
  | LinkByName string
  | LinkAdd veth
  | LinkDel veth
  | LinkSetUp string
  | LinkSetHardwareAddr string "byte list"
  | LinkSetMTU string int
  | AddrList string
  | AddrAdd string string
  | InterfaceByName string
  | Stat string
  | Lstat string
  | Remove string
  | Symlink string string
  | MkdirAll string
  | ReadFile string
  | Hostname
  | NetworkInspect string
  | NetworkList
  | ContainerInspectCall string
  | DockerInfo
  | Rpc rpc_request
  | GetDpNames
  | Sleep nat
  | SleepFor int
  | NewEnvClient
  | LoadX509KeyPair string string
  | GrpcDial string int
  | ListenAndServe string

type_synonym history = "event list"

record env =
  execCmd :: "history \<Rightarrow> string \<Rightarrow> string list \<Rightarrow> string \<times> error option"
  startCmd :: "history \<Rightarrow> string \<Rightarrow> string list \<Rightarrow> error option"
  iptablesRaw :: "history \<Rightarrow> string list \<Rightarrow> string \<times> error option"
  nlLinkByName :: "history \<Rightarrow> string \<Rightarrow> link option \<times> error option"
  nlLinkAdd :: "history \<Rightarrow> veth \<Rightarrow> error option"
  nlLinkDel :: "history \<Rightarrow> veth \<Rightarrow> error option"
  nlLinkSetUp :: "history \<Rightarrow> string \<Rightarrow> error option"
  nlLinkSetHardwareAddr :: "history \<Rightarrow> string \<Rightarrow> byte list \<Rightarrow> error option"
  nlLinkSetMTU :: "history \<Rightarrow> string \<Rightarrow> int \<Rightarrow> error option"
  nlAddrList :: "history \<Rightarrow> string \<Rightarrow> error + string list"
  nlParseAddr :: "string \<Rightarrow> error + string"
  nlAddrAdd :: "history \<Rightarrow> string \<Rightarrow> string \<Rightarrow> error option"
  netInterfaceByName :: "history \<Rightarrow> string \<Rightarrow> error + string"
  osStat :: "history \<Rightarrow> string \<Rightarrow> stat_result"
  osLstat :: "history \<Rightarrow> string \<Rightarrow> error option"
  osRemove :: "history \<Rightarrow> string \<Rightarrow> error option"
  osSymlink :: "history \<Rightarrow> string \<Rightarrow> string \<Rightarrow> error option"
  osMkdirAll :: "history \<Rightarrow> string \<Rightarrow> error option"
  osReadFile :: "history \<Rightarrow> string \<Rightarrow> error + string"
  osHostname :: "history \<Rightarrow> error + string"
  osEnviron :: "string list"
  dkNetworkInspect :: "history \<Rightarrow> string \<Rightarrow> error + NetInspect"
  dkNetworkList :: "history \<Rightarrow> error + NetSummary list"
  dkContainerInspect :: "history \<Rightarrow> string \<Rightarrow> error + ContainerInspect"
  dkInfo :: "history \<Rightarrow> error + string"
  rpcCall :: "history \<Rightarrow> rpc_request \<Rightarrow> error option"
  rpcDpNames :: "history \<Rightarrow> rpc_failure + string list"
  rangeStr :: "history \<Rightarrow> string list \<Rightarrow> string list"
  rangePort :: "history \<Rightarrow> OFPortType list \<Rightarrow> OFPortType list"
  bcConvert :: bc_convert
  dkNewEnvClient :: "history \<Rightarrow> error option"
  tlsLoadX509KeyPair :: "history \<Rightarrow> string \<Rightarrow> string \<Rightarrow> error option"
  appendCertsFromPEM :: "string \<Rightarrow> bool"
  grpcDial :: "history \<Rightarrow> string \<Rightarrow> int \<Rightarrow> error option"
  httpListenAndServe :: "history \<Rightarrow> string \<Rightarrow> error option"

text \<open>What Go guarantees of a \<open>range\<close> loop over a map: each key once, in some order.\<close>

definition range_ok :: "env \<Rightarrow> bool" where
  "range_ok E \<longleftrightarrow>
     (\<forall>h ks. set (rangeStr E h ks) = set ks \<and> (distinct ks \<longrightarrow> distinct (rangeStr E h ks))) \<and>
     (\<forall>h ks. set (rangePort E h ks) = set ks \<and> (distinct ks \<longrightarrow> distinct (rangePort E h ks)))"

section \<open>Calls\<close>

record world =
  trace :: history

type_synonym ('x, 'a) io = "('x world_scheme, 'a) go"

definition callM :: "event \<Rightarrow> (history \<Rightarrow> 'r) \<Rightarrow> ('x, 'r) io" where
  "callM e answer = (\<lambda>w. (Ret (answer (trace w)), w\<lparr>trace := trace w @ [e]\<rparr>))"

lemma callM_run [go_run, simp]:
  "callM e answer w = (Ret (answer (trace w)), w\<lparr>trace := trace w @ [e]\<rparr>)"
  by (simp add: callM_def)

definition sleepM :: "nat \<Rightarrow> ('x, unit) io" where
  "sleepM seconds = callM (Sleep seconds) (\<lambda>_. ())"

definition rangeStrM :: "env \<Rightarrow> (string, 'v) gomap \<Rightarrow> ('x, string list) io" where
  "rangeStrM E m = getM (\<lambda>w. rangeStr E (trace w) (map_keys m))"

definition rangePortM :: "env \<Rightarrow> (OFPortType, 'v) gomap \<Rightarrow> ('x, OFPortType list) io" where
  "rangePortM E m = getM (\<lambda>w. rangePort E (trace w) (map_keys m))"

text \<open>A returned Go error that the caller turns into a panic, or ignores.\<close>

definition mustM :: "error option \<Rightarrow> ('s, unit) go" where
  "mustM err = (case err of None \<Rightarrow> retM () | Some e \<Rightarrow> panicM e)"

definition mustSum :: "error + 'a \<Rightarrow> ('s, 'a) go" where
  "mustSum r = (case r of Inl e \<Rightarrow> panicM e | Inr a \<Rightarrow> retM a)"

section \<open>Computations that only talk to the outside\<close>

text \<open>
  Such a computation leaves the rest of the state alone and extends the trace: everything in
  the components below the driver is of this kind.
\<close>

definition io_ext :: "'x world_scheme \<Rightarrow> 'x world_scheme \<Rightarrow> bool" where
  "io_ext s t \<longleftrightarrow> world.more t = world.more s \<and> prefix (trace s) (trace t)"

interpretation io: state_preorder io_ext
  by unfold_locales (auto simp: io_ext_def)

text \<open>It also never waits for another goroutine.\<close>

definition talks :: "('x, 'a) io \<Rightarrow> bool" where
  "talks m \<longleftrightarrow> steps_in io_ext m \<and> unblocked m"

lemma talks_steps: "talks m \<Longrightarrow> steps_in io_ext m" and talks_unblocked: "talks m \<Longrightarrow> unblocked m"
  by (simp_all add: talks_def)

lemma talks_call: "talks (callM e f)" "talks (sleepM n)" "talks (rangeStrM E m)" "talks (rangePortM E p)"
  by (simp_all add: talks_def steps_in_def io_ext_def unblocked_def sleepM_def rangeStrM_def rangePortM_def)

lemma talks_basic: "talks (retM a)" "talks (panicM e)" "talks fatalM" "talks (getM f)"
  by (simp_all add: talks_def steps_in_def io_ext_def unblocked_def)

lemma talks_pair: "x \<noteq> Blocked \<Longrightarrow> talks (Pair x)"
  by (simp add: talks_def io.steps_pair unblocked_pair)

lemma talks_lift: "pureO x \<Longrightarrow> talks (liftO x)"
  by (simp add: talks_def io.steps_lift unblocked_lift)

lemma talks_must: "talks (mustM e)" "talks (mustSum r)"
  by (simp_all add: mustM_def mustSum_def talks_basic split: option.split sum.split)

lemma talks_bind: "talks m \<Longrightarrow> (\<And>a. talks (f a)) \<Longrightarrow> talks (bindM m f)"
  by (simp add: talks_def io.steps_bind unblocked_bind)

lemma talks_then: "talks m \<Longrightarrow> talks n \<Longrightarrow> talks (thenM m n)"
  by (simp add: talks_def io.steps_then unblocked_then)

lemma talks_recover: "talks m \<Longrightarrow> (\<And>e. talks (h e)) \<Longrightarrow> talks (recoverM m h)"
  by (simp add: talks_def io.steps_recover unblocked_recover)

lemma talks_forM: "(\<And>x. x \<in> set xs \<Longrightarrow> talks (f x)) \<Longrightarrow> talks (forM f xs)"
  by (simp add: talks_def io.steps_forM unblocked_forM)

lemma talks_foldM: "(\<And>b x. x \<in> set xs \<Longrightarrow> talks (f b x)) \<Longrightarrow> talks (foldM f b xs)"
  by (simp add: talks_def io.steps_foldM unblocked_foldM)

lemma talks_branches:
  "(c \<Longrightarrow> talks m) \<Longrightarrow> (\<not> c \<Longrightarrow> talks n) \<Longrightarrow> talks (if c then m else n)"
  "(x = None \<Longrightarrow> talks m) \<Longrightarrow> (\<And>a. x = Some a \<Longrightarrow> talks (f a)) \<Longrightarrow> talks (case x of None \<Rightarrow> m | Some a \<Rightarrow> f a)"
  "(\<And>a. y = Inl a \<Longrightarrow> talks (g a)) \<Longrightarrow> (\<And>a. y = Inr a \<Longrightarrow> talks (h a)) \<Longrightarrow>
   talks (case y of Inl a \<Rightarrow> g a | Inr a \<Rightarrow> h a)"
  "(\<And>a b. z = (a, b) \<Longrightarrow> talks (k a b)) \<Longrightarrow> talks (case z of (a, b) \<Rightarrow> k a b)"
  "(\<And>a. a = u \<Longrightarrow> talks (l a)) \<Longrightarrow> talks (let a = u in l a)"
  by (simp_all split: option.split sum.split prod.split)

named_theorems io_intros \<open>computations that only talk to the outside\<close>

lemmas io_base [io_intros] =
  talks_call talks_basic talks_pair talks_lift talks_must talks_bind talks_then talks_recover
  talks_forM talks_foldM talks_branches

lemma io_run_more: "talks m \<Longrightarrow> m s = (x, t) \<Longrightarrow> world.more t = world.more s"
  by (auto dest!: talks_steps dest: steps_inD simp: io_ext_def)

lemma io_run_trace: "talks m \<Longrightarrow> m s = (x, t) \<Longrightarrow> prefix (trace s) (trace t)"
  by (auto dest!: talks_steps dest: steps_inD simp: io_ext_def)

section \<open>A concrete environment\<close>

text \<open>
  An environment in which every call succeeds, map loops run in insertion order and the base
  conversion is positional notation.  It is the base of the concrete runs that show the
  hypotheses of the theorems can hold.
\<close>

definition digits_of_base :: "bc_digits \<Rightarrow> string" where
  "digits_of_base b = (case b of
     DigitsDec \<Rightarrow> ''0123456789''
   | DigitsHex \<Rightarrow> ''0123456789abcdef''
   | Digits36 \<Rightarrow> ''0123456789abcdefghijklmnopqrstuvwxyz'')"

definition digit_index :: "string \<Rightarrow> char \<Rightarrow> nat" where
  "digit_index ds c = length (takeWhile (\<lambda>x. x \<noteq> c) ds)"

fun print_base :: "nat \<Rightarrow> string \<Rightarrow> nat \<Rightarrow> string" where
  "print_base 0 ds n = []"
| "print_base (Suc fuel) ds n =
     (if n < length ds then [ds ! n]
      else print_base fuel ds (n div length ds) @ [ds ! (n mod length ds)])"

definition positional :: bc_convert where
  "positional s from_base to_base =
     (let ds = digits_of_base from_base in
      if s = [] \<or> \<not> list_all (\<lambda>c. c \<in> set ds) s then []
      else (let n = foldl (\<lambda>n c. n * length ds + digit_index ds c) 0 s
            in print_base (Suc n) (digits_of_base to_base) n))"

definition calm_env :: env where
  "calm_env = \<lparr>
     execCmd = \<lambda>h cmd args. ([], None),
     startCmd = \<lambda>h cmd args. None,
     iptablesRaw = \<lambda>h args. ([], None),
     nlLinkByName = \<lambda>h name. (Some \<lparr>link_Name = name, link_HardwareAddr = [2, 0, 0, 0, 0, 1]\<rparr>, None),
     nlLinkAdd = \<lambda>h v. None,
     nlLinkDel = \<lambda>h v. None,
     nlLinkSetUp = \<lambda>h name. None,
     nlLinkSetHardwareAddr = \<lambda>h name mac. None,
     nlLinkSetMTU = \<lambda>h name mtu. None,
     nlAddrList = \<lambda>h name. Inr [''10.0.0.1/24''],
     nlParseAddr = \<lambda>a. Inr a,
     nlAddrAdd = \<lambda>h name a. None,
     netInterfaceByName = \<lambda>h name. Inr ''up|broadcast'',
     osStat = \<lambda>h p. StatOk 0,
     osLstat = \<lambda>h p. Some (External ''no such file''),
     osRemove = \<lambda>h p. None,
     osSymlink = \<lambda>h p q. None,
     osMkdirAll = \<lambda>h p. None,
     osReadFile = \<lambda>h p. Inr ''10.0.0.9'',
     osHostname = \<lambda>h. Inr ''host'',
     osEnviron = [],
     dkNetworkInspect = \<lambda>h i. Inl (External ''no network''),
     dkNetworkList = \<lambda>h. Inr [],
     dkContainerInspect = \<lambda>h i. Inl (External ''no container''),
     dkInfo = \<lambda>h. Inr ''abcd:efgh'',
     rpcCall = \<lambda>h r. None,
     rpcDpNames = \<lambda>h. Inr [],
     rangeStr = \<lambda>h ks. ks,
     rangePort = \<lambda>h ks. ks,
     bcConvert = positional,
     dkNewEnvClient = \<lambda>h. None,
     tlsLoadX509KeyPair = \<lambda>h crt key. None,
     appendCertsFromPEM = \<lambda>ca. True,
     grpcDial = \<lambda>h addr timeout. None,
     httpListenAndServe = \<lambda>h addr. None\<rparr>"

definition calm_world :: world where
  "calm_world = \<lparr>trace = []\<rparr>"

lemma range_ok_calm_env: "range_ok (calm_env\<lparr>execCmd := f\<rparr>)"
  by (simp add: range_ok_def calm_env_def)

end
