(* ===== verification/Link_Utils.thy ===== *)
theory Link_Utils
  imports World
begin

text \<open>
  The functions of \<^verbatim>\<open>ovs/utils.go\<close> that call netlink and the operating system.  A function
  that returns a Go error has a result of type \<open>error option\<close> or \<open>error + 'a\<close>; a \<open>must\<close>
  function panics.  \<open>LinkByName\<close> returns a link, which may be nil, and an error.
\<close>

definition netNsPath :: string where "netNsPath = ''/var/run/netns''"

definition getIfaceAddr :: "env \<Rightarrow> string \<Rightarrow> ('x, error + string) io" where
  "getIfaceAddr E name =
     bindM (callM (LinkByName name) (\<lambda>h. nlLinkByName E h name)) (\<lambda>(iface, err).
     case err of Some e \<Rightarrow> retM (Inl e) | None \<Rightarrow>
     bindM (callM (AddrList name) (\<lambda>h. nlAddrList E h name)) (\<lambda>r.
     case r of Inl e \<Rightarrow> retM (Inl e) | Inr addrs \<Rightarrow>
     (case addrs of
        [] \<Rightarrow> retM (Inl (Errorf (''interface '' @ name @ '' has no IP addresses'')))
      | a # _ \<Rightarrow> retM (Inr a))))"

definition mustGetLinkByName :: "env \<Rightarrow> string \<Rightarrow> ('x, link option) io" where
  "mustGetLinkByName E name =
     bindM (callM (LinkByName name) (\<lambda>h. nlLinkByName E h name)) (\<lambda>(iface, err).
     thenM (mustM err) (retM iface))"

definition getMacAddr :: "env \<Rightarrow> string \<Rightarrow> ('x, string) io" where
  "getMacAddr E name =
     bindM (mustGetLinkByName E name) (\<lambda>iface.
     case iface of
       None \<Rightarrow> panicM NilDereference
     | Some l \<Rightarrow> retM (HardwareAddr_String (link_HardwareAddr l)))"

definition mustSetInterfaceMac :: "env \<Rightarrow> string \<Rightarrow> string \<Rightarrow> ('x, unit) io" where
  "mustSetInterfaceMac E name macAddress =
     bindM (mustGetLinkByName E name) (\<lambda>iface.
     bindM (mustSum (ParseMAC macAddress)) (\<lambda>netaddr.
     bindM (callM (LinkSetHardwareAddr name netaddr) (\<lambda>h. nlLinkSetHardwareAddr E h name netaddr)) mustM))"

text \<open>The conversion \<open>int(mtu)\<close> reads the unsigned value as two's complement.\<close>

definition mustSetInterfaceMTU :: "env \<Rightarrow> string \<Rightarrow> uint \<Rightarrow> ('x, unit) io" where
  "mustSetInterfaceMTU E name mtu =
     bindM (mustGetLinkByName E name) (\<lambda>iface.
     bindM (callM (LinkSetMTU name (sint mtu)) (\<lambda>h. nlLinkSetMTU E h name (sint mtu))) mustM)"

text \<open>
  \<open>setInterfaceIP\<close> looks the link up at most twice, two seconds apart; when both attempts fail
  \<open>log.Fatalf\<close> ends the process.
\<close>

primrec linkByNameRetry :: "env \<Rightarrow> string \<Rightarrow> nat \<Rightarrow> error option \<Rightarrow> ('x, error option) io" where
  "linkByNameRetry E name 0 err = retM err"
| "linkByNameRetry E name (Suc n) err =
     bindM (callM (LinkByName name) (\<lambda>h. nlLinkByName E h name)) (\<lambda>(iface, err).
     case err of None \<Rightarrow> retM None
     | Some e \<Rightarrow> thenM (sleepM 2) (linkByNameRetry E name n (Some e)))"

definition setInterfaceIP :: "env \<Rightarrow> string \<Rightarrow> string \<Rightarrow> ('x, error option) io" where
  "setInterfaceIP E name rawIP =
     bindM (linkByNameRetry E name 2 None) (\<lambda>err.
     case err of Some e \<Rightarrow> fatalM | None \<Rightarrow>
     (case nlParseAddr E rawIP of
        Inl e \<Rightarrow> retM (Some e)
      | Inr addr \<Rightarrow> callM (AddrAdd name addr) (\<lambda>h. nlAddrAdd E h name addr)))"

definition validateIface :: "env \<Rightarrow> string \<Rightarrow> ('x, bool) io" where
  "validateIface E ifaceStr =
     bindM (callM (InterfaceByName ifaceStr) (\<lambda>h. netInterfaceByName E h ifaceStr)) (\<lambda>r.
     retM (case r of Inl _ \<Rightarrow> False | Inr _ \<Rightarrow> True))"

definition ensureDirExists :: "env \<Rightarrow> string \<Rightarrow> ('x, unit) io" where
  "ensureDirExists E dir =
     bindM (callM (Stat dir) (\<lambda>h. osStat E h dir)) (\<lambda>r.
     case r of
       StatNotExist \<Rightarrow> bindM (callM (MkdirAll dir) (\<lambda>h. osMkdirAll E h dir)) mustM
     | _ \<Rightarrow> retM ())"

definition createNsLink :: "env \<Rightarrow> int \<Rightarrow> string \<Rightarrow> ('x, unit) io" where
  "createNsLink E pid nsid =
     (let procPath = ''/proc/'' @ dec pid @ ''/ns/net'';
          procNetNsPath = netNsPath @ ''/'' @ nsid in
      bindM (callM (Lstat procNetNsPath) (\<lambda>h. osLstat E h procNetNsPath)) (\<lambda>err.
      thenM (case err of
          None \<Rightarrow> bindM (callM (Remove procNetNsPath) (\<lambda>h. osRemove E h procNetNsPath)) mustM
        | Some _ \<Rightarrow> retM ())
      (bindM (callM (Symlink procPath procNetNsPath) (\<lambda>h. osSymlink E h procPath procNetNsPath)) mustM)))"

definition deleteNsLink :: "env \<Rightarrow> string \<Rightarrow> ('x, unit) io" where
  "deleteNsLink E nsid =
     (let procNetNsPath = netNsPath @ ''/'' @ nsid in
      bindM (callM (Remove procNetNsPath) (\<lambda>h. osRemove E h procNetNsPath)) (\<lambda>_. retM ()))"

text \<open>
  When the link is missing the debug message still evaluates \<open>iface.Attrs()\<close> on the nil link,
  which panics before the error is returned.
\<close>

definition interfaceUp :: "env \<Rightarrow> string \<Rightarrow> ('x, error option) io" where
  "interfaceUp E name =
     bindM (callM (LinkByName name) (\<lambda>h. nlLinkByName E h name)) (\<lambda>(iface, err).
     case err of
       Some e \<Rightarrow> (case iface of None \<Rightarrow> panicM NilDereference | Some _ \<Rightarrow> retM (Some e))
     | None \<Rightarrow> callM (LinkSetUp name) (\<lambda>h. nlLinkSetUp E h name))"

definition delVethPair :: "env \<Rightarrow> veth \<Rightarrow> ('x, unit) io" where
  "delVethPair E localVethPair =
     bindM (callM (LinkDel localVethPair) (\<lambda>h. nlLinkDel E h localVethPair)) mustM"

definition addVethPair :: "env \<Rightarrow> veth \<Rightarrow> ('x, unit) io" where
  "addVethPair E localVethPair =
     bindM (callM (LinkAdd localVethPair) (\<lambda>h. nlLinkAdd E h localVethPair)) (\<lambda>err.
     thenM (mustM err)
     (bindM (callM (LinkSetUp (veth_Name localVethPair)) (\<lambda>h. nlLinkSetUp E h (veth_Name localVethPair))) mustM))"

section \<open>Frame\<close>

lemma io_getIfaceAddr [io_intros]: "talks (getIfaceAddr E name)"
  unfolding getIfaceAddr_def by (auto intro!: io_intros pure_intros split: list.split)

lemma io_mustGetLinkByName [io_intros]: "talks (mustGetLinkByName E name)"
  unfolding mustGetLinkByName_def by (intro io_intros pure_intros)

lemma io_getMacAddr [io_intros]: "talks (getMacAddr E name)"
  unfolding getMacAddr_def by (intro io_intros pure_intros)

lemma io_mustSetInterfaceMac [io_intros]: "talks (mustSetInterfaceMac E name m)"
  unfolding mustSetInterfaceMac_def by (intro io_intros pure_intros)

lemma io_mustSetInterfaceMTU [io_intros]: "talks (mustSetInterfaceMTU E name m)"
  unfolding mustSetInterfaceMTU_def by (intro io_intros pure_intros)

lemma io_linkByNameRetry [io_intros]: "talks (linkByNameRetry E name n err)"
  by (induction n arbitrary: err) (auto intro!: io_intros pure_intros)

lemma io_setInterfaceIP [io_intros]: "talks (setInterfaceIP E name ip)"
  unfolding setInterfaceIP_def by (intro io_intros pure_intros)

lemma io_validateIface [io_intros]: "talks (validateIface E name)"
  unfolding validateIface_def by (intro io_intros pure_intros)

lemma io_ensureDirExists [io_intros]: "talks (ensureDirExists E d)"
  unfolding ensureDirExists_def by (auto intro!: io_intros pure_intros split: stat_result.split)

lemma io_createNsLink [io_intros]: "talks (createNsLink E pid i)"
  unfolding createNsLink_def by (intro io_intros pure_intros)

lemma io_deleteNsLink [io_intros]: "talks (deleteNsLink E i)"
  unfolding deleteNsLink_def by (intro io_intros pure_intros)

lemma io_interfaceUp [io_intros]: "talks (interfaceUp E name)"
  unfolding interfaceUp_def by (intro io_intros pure_intros)

lemma io_delVethPair [io_intros]: "talks (delVethPair E v)"
  unfolding delVethPair_def by (intro io_intros pure_intros)

lemma io_addVethPair [io_intros]: "talks (addVethPair E v)"
  unfolding addVethPair_def by (intro io_intros pure_intros)

end
