(* ===== verification/Ovsdb.thy ===== *)
theory Ovsdb
  imports Link_Utils
begin

text \<open>
  \<^verbatim>\<open>ovs/ovsdb.go\<close>: running \<^verbatim>\<open>ovs-vsctl\<close> and \<^verbatim>\<open>ovs-ofctl\<close>.  \<open>RunCmd\<close> returns the output
  without its final newline together with the error; the \<open>must\<close> variants panic on the error.
\<close>

definition ovsofctlPath :: string where "ovsofctlPath = ''/usr/bin/ovs-ofctl''"
definition ovsvsctlPath :: string where "ovsvsctlPath = ''/usr/bin/ovs-vsctl''"
definition ovsvsctlDBPath :: string where "ovsvsctlDBPath = ''unix:/var/run/openvswitch/db.sock''"

definition RunCmd :: "env \<Rightarrow> string \<Rightarrow> string list \<Rightarrow> ('x, string \<times> error option) io" where
  "RunCmd E cmd args =
     bindM (callM (ExecCmd cmd args) (\<lambda>h. execCmd E h cmd args)) (\<lambda>(output, err).
     retM (TrimSuffix output [CHR 0x0A], err))"

definition vsctlArgs :: "string list \<Rightarrow> string list" where
  "vsctlArgs args = (''--db='' @ ovsvsctlDBPath) # args"

definition VsCtl :: "env \<Rightarrow> string list \<Rightarrow> ('x, string \<times> error option) io" where
  "VsCtl E args = RunCmd E ovsvsctlPath (vsctlArgs args)"

definition mustVsCtl :: "env \<Rightarrow> string list \<Rightarrow> ('x, string) io" where
  "mustVsCtl E args =
     bindM (VsCtl E args) (\<lambda>(output, err). thenM (mustM err) (retM output))"

definition OfCtl :: "env \<Rightarrow> string list \<Rightarrow> ('x, string \<times> error option) io" where
  "OfCtl E args = RunCmd E ovsofctlPath args"

definition mustOfCtl :: "env \<Rightarrow> string list \<Rightarrow> ('x, string) io" where
  "mustOfCtl E args =
     bindM (OfCtl E args) (\<lambda>(output, err). thenM (mustM err) (retM output))"

text \<open>The events of the two commands, for statements about traces.\<close>

definition vsEvent :: "string list \<Rightarrow> event" where
  "vsEvent args = ExecCmd ovsvsctlPath (vsctlArgs args)"

definition ofEvent :: "string list \<Rightarrow> event" where
  "ofEvent args = ExecCmd ovsofctlPath args"

section \<open>Runs\<close>

lemma io_RunCmd [io_intros]: "talks (RunCmd E cmd args)"
  unfolding RunCmd_def by (intro io_intros pure_intros)

lemma io_VsCtl [io_intros]: "talks (VsCtl E args)"
  unfolding VsCtl_def by (intro io_intros pure_intros)

lemma io_mustVsCtl [io_intros]: "talks (mustVsCtl E args)"
  unfolding mustVsCtl_def by (intro io_intros pure_intros)

lemma io_OfCtl [io_intros]: "talks (OfCtl E args)"
  unfolding OfCtl_def by (intro io_intros pure_intros)

lemma io_mustOfCtl [io_intros]: "talks (mustOfCtl E args)"
  unfolding mustOfCtl_def by (intro io_intros pure_intros)

text \<open>
  One command is one event; the answer is the environment's.  The two \<open>must\<close> variants either
  return or panic with the command's error.
\<close>

lemma VsCtl_run [go_run]:
  "VsCtl E args w =
   (Ret (TrimSuffix (fst (execCmd E (trace w) ovsvsctlPath (vsctlArgs args))) [CHR 0x0A],
         snd (execCmd E (trace w) ovsvsctlPath (vsctlArgs args))),
    w\<lparr>trace := trace w @ [vsEvent args]\<rparr>)"
  by (simp add: VsCtl_def RunCmd_def bindM_def vsEvent_def split: prod.split)

lemma OfCtl_run [go_run]:
  "OfCtl E args w =
   (Ret (TrimSuffix (fst (execCmd E (trace w) ovsofctlPath args)) [CHR 0x0A],
         snd (execCmd E (trace w) ovsofctlPath args)),
    w\<lparr>trace := trace w @ [ofEvent args]\<rparr>)"
  by (simp add: OfCtl_def RunCmd_def bindM_def ofEvent_def split: prod.split)

lemma mustVsCtl_run [go_run]:
  "mustVsCtl E args w =
   ((case snd (execCmd E (trace w) ovsvsctlPath (vsctlArgs args)) of
       None \<Rightarrow> Ret (TrimSuffix (fst (execCmd E (trace w) ovsvsctlPath (vsctlArgs args))) [CHR 0x0A])
     | Some e \<Rightarrow> Panic e),
    w\<lparr>trace := trace w @ [vsEvent args]\<rparr>)"
  by (simp add: mustVsCtl_def bindM_def VsCtl_run thenM_def mustM_def split: option.split)

lemma mustOfCtl_run [go_run]:
  "mustOfCtl E args w =
   ((case snd (execCmd E (trace w) ovsofctlPath args) of
       None \<Rightarrow> Ret (TrimSuffix (fst (execCmd E (trace w) ovsofctlPath args)) [CHR 0x0A])
     | Some e \<Rightarrow> Panic e),
    w\<lparr>trace := trace w @ [ofEvent args]\<rparr>)"
  by (simp add: mustOfCtl_def bindM_def OfCtl_run thenM_def mustM_def split: option.split)

lemma vsEvent_inject [simp]: "vsEvent a = vsEvent b \<longleftrightarrow> a = b"
  by (simp add: vsEvent_def vsctlArgs_def)

lemma ofEvent_inject [simp]: "ofEvent a = ofEvent b \<longleftrightarrow> a = b"
  by (simp add: ofEvent_def)

lemma vsEvent_neq_ofEvent [simp]: "vsEvent a \<noteq> ofEvent b" "ofEvent b \<noteq> vsEvent a"
  by (simp_all add: vsEvent_def ofEvent_def ovsvsctlPath_def ovsofctlPath_def)

end
