(* ===== verification/Ovs_Port.thy ===== *)
theory Ovs_Port
  imports Ovsdb
begin

text \<open>
  \<^verbatim>\<open>ovs/ovs_port.go\<close>: patch-port names, reading the port table of a bridge, choosing a free
  OpenFlow port number, adding and deleting ports.
\<close>

section \<open>Names\<close>

definition patchName :: "string \<Rightarrow> string \<Rightarrow> string outcome" where
  "patchName a b =
     (let name = patchPrefix @ patchStr a @ patchStr b in
      if length name > 15 then Panic (Errorf (name @ '' too long for ifName'')) else Ret name)"

lemma pure_patchName [pure_intros]: "pureO (patchName a b)"
  unfolding patchName_def by (intro pure_intros)

section \<open>The port table\<close>

type_synonym portDesc = "(OFPortType, string) gomap"

definition re_space :: "char \<Rightarrow> bool" where
  "re_space c \<longleftrightarrow> c \<in> {CHR 0x09, CHR 0x0A, CHR 0x0C, CHR 0x0D, CHR '' ''}"

text \<open>
  The regular expression \<^verbatim>\<open>^\s*(\d+)\((\S+)\).+$\<close> on one line: white space, digits, an opening
  bracket, the longest run of non-space characters that is followed by a closing bracket
  and at least one more character.  The result is the two groups.
\<close>

definition match_port_line :: "string \<Rightarrow> (string \<times> string) option" where
  "match_port_line line =
     (let s = dropWhile re_space line; ds = takeWhile is_digit s in
      if ds = [] then None
      else (case dropWhile is_digit s of
          [] \<Rightarrow> None
        | c # r \<Rightarrow>
            if c \<noteq> CHR ''('' then None
            else (let run = takeWhile (\<lambda>x. \<not> re_space x) r in
              (case find (\<lambda>k. run ! k = CHR '')'' \<and> Suc k < length r) (rev [1..<length run]) of
                 None \<Rightarrow> None | Some k \<Rightarrow> Some (ds, take k r)))))"

text \<open>A number that does not fit 32 bits parses to an error and the value 0, which is used.\<close>

definition parsePortDesc_line :: "string \<Rightarrow> portDesc \<Rightarrow> portDesc" where
  "parsePortDesc_line line portDesc = (case match_port_line line of
     None \<Rightarrow> portDesc
   | Some (num, name) \<Rightarrow>
       map_put (case ParseUint32 num of Inl _ \<Rightarrow> 0 | Inr ofport \<Rightarrow> ofport) name portDesc)"

definition parsePortDesc :: "string \<Rightarrow> portDesc \<Rightarrow> portDesc" where
  "parsePortDesc output portDesc = fold parsePortDesc_line (Split output (CHR 0x0A)) portDesc"

definition scrapePortDesc :: "env \<Rightarrow> string \<Rightarrow> portDesc \<Rightarrow> ('x, error + portDesc) io" where
  "scrapePortDesc E bridgeName portDesc =
     bindM (OfCtl E [''dump-ports-desc'', bridgeName]) (\<lambda>(output, err).
     case err of Some e \<Rightarrow> retM (Inl e) | None \<Rightarrow> retM (Inr (parsePortDesc output portDesc)))"

definition dumpPortsRetries :: nat where "dumpPortsRetries = 3"

text \<open>The loop \<open>for i := 0; i <= dumpPortsRetries\<close>, with \<open>i\<close> and the last error.\<close>

function mustScrapePortDesc_loop ::
  "env \<Rightarrow> string \<Rightarrow> portDesc \<Rightarrow> nat \<Rightarrow> error option \<Rightarrow> ('x, portDesc) io" where
  "mustScrapePortDesc_loop E bridgeName portDesc i err =
     (if i \<le> dumpPortsRetries
      then bindM (scrapePortDesc E bridgeName portDesc) (\<lambda>r.
           case r of Inr pd \<Rightarrow> retM pd
           | Inl e \<Rightarrow> thenM (sleepM (i + 1))
               (mustScrapePortDesc_loop E bridgeName portDesc (i + 1) (Some e)))
      else (case err of Some e \<Rightarrow> panicM e | None \<Rightarrow> panicM NilDereference))"
  by pat_completeness auto
termination
  by (relation "measure (\<lambda>(E, b, pd, i, err). Suc dumpPortsRetries - i)") auto

declare mustScrapePortDesc_loop.simps [simp del]

definition mustScrapePortDesc :: "env \<Rightarrow> string \<Rightarrow> portDesc \<Rightarrow> ('x, portDesc) io" where
  "mustScrapePortDesc E bridgeName portDesc = mustScrapePortDesc_loop E bridgeName portDesc 0 None"

section \<open>Choosing a port number\<close>

text \<open>The loop over the sorted port numbers, started at 1.\<close>

primrec lowestFree_loop :: "int list \<Rightarrow> int \<Rightarrow> int" where
  "lowestFree_loop [] intLowestFreePort = intLowestFreePort"
| "lowestFree_loop (existingPort # ports) intLowestFreePort =
     (if existingPort \<noteq> intLowestFreePort then intLowestFreePort
      else lowestFree_loop ports (intLowestFreePort + 1))"

definition lowestFree :: "OFPortType list \<Rightarrow> OFPortType" where
  "lowestFree ofports = of_int (lowestFree_loop (sort (map uint ofports)) 1)"

definition mustLowestFreePortOnBridge :: "env \<Rightarrow> string \<Rightarrow> ('x, OFPortType) io" where
  "mustLowestFreePortOnBridge E bridgeName =
     bindM (mustScrapePortDesc E bridgeName []) (\<lambda>portDesc.
     bindM (rangePortM E portDesc) (\<lambda>existingOfPorts.
     retM (lowestFree existingOfPorts)))"

section \<open>Adding and deleting ports\<close>

definition ofport_request :: "OFPortType \<Rightarrow> string" where
  "ofport_request p = ''ofport_request='' @ dec (uint p)"

text \<open>
  \<open>%u\<close> is not a Go format verb: with a tag the argument is the text Go prints for a bad verb.
\<close>

definition addInternalPort ::
  "env \<Rightarrow> string \<Rightarrow> string \<Rightarrow> uint \<Rightarrow> ('x, OFPortType \<times> string \<times> error option) io" where
  "addInternalPort E bridgeName portName tag =
     bindM (mustLowestFreePortOnBridge E bridgeName) (\<lambda>lowestFreePort.
     if tag \<noteq> 0 then
       bindM (VsCtl E [''add-port'', bridgeName, portName, ''tag=%!u(uint='' @ dec (uint tag) @ '')'',
              ''--'', ''set'', ''Interface'', portName, ofport_request lowestFreePort]) (\<lambda>(value, err).
       retM (lowestFreePort, value, err))
     else
       bindM (VsCtl E [''add-port'', bridgeName, portName,
              ''--'', ''set'', ''Interface'', portName, ofport_request lowestFreePort]) (\<lambda>(value, err).
       retM (lowestFreePort, value, err)))"

definition mustAddInternalPort ::
  "env \<Rightarrow> string \<Rightarrow> string \<Rightarrow> uint \<Rightarrow> ('x, OFPortType \<times> string) io" where
  "mustAddInternalPort E bridgeName portName tag =
     bindM (addInternalPort E bridgeName portName tag) (\<lambda>(lowestFreePort, value, err).
     thenM (mustM err) (retM (lowestFreePort, value)))"

definition mustAddPatchPort ::
  "env \<Rightarrow> string \<Rightarrow> string \<Rightarrow> OFPortType \<Rightarrow> OFPortType \<Rightarrow> ('x, OFPortType \<times> OFPortType) io" where
  "mustAddPatchPort E bridgeName bridgeNamePeer port portPeer =
     bindM (if port = 0 then mustLowestFreePortOnBridge E bridgeName else retM port) (\<lambda>port.
     bindM (if portPeer = 0 then mustLowestFreePortOnBridge E bridgeNamePeer else retM portPeer) (\<lambda>portPeer.
     bindM (liftO (patchName bridgeName bridgeNamePeer)) (\<lambda>portName.
     bindM (liftO (patchName bridgeNamePeer bridgeName)) (\<lambda>portNamePeer.
     let pair = \<lparr>veth_Name = portName, veth_PeerName = portNamePeer\<rparr> in
     thenM (callM (LinkAdd pair) (\<lambda>h. nlLinkAdd E h pair))
     (thenM (callM (LinkSetUp portName) (\<lambda>h. nlLinkSetUp E h portName))
     (thenM (callM (LinkSetUp portNamePeer) (\<lambda>h. nlLinkSetUp E h portNamePeer))
     (thenM (VsCtl E [''add-port'', bridgeName, portName,
              ''--'', ''set'', ''Interface'', portName, ofport_request port])
     (thenM (VsCtl E [''add-port'', bridgeNamePeer, portNamePeer,
              ''--'', ''set'', ''Interface'', portNamePeer, ofport_request portPeer])
     (retM (port, portPeer))))))))))"

definition mustDeletePort :: "env \<Rightarrow> string \<Rightarrow> string \<Rightarrow> ('x, unit) io" where
  "mustDeletePort E bridgeName portName =
     thenM (mustVsCtl E [''del-port'', bridgeName, portName]) (retM ())"

definition mustDeletePatchPort :: "env \<Rightarrow> string \<Rightarrow> string \<Rightarrow> ('x, unit) io" where
  "mustDeletePatchPort E bridgeName bridgeNamePeer =
     bindM (liftO (patchName bridgeName bridgeNamePeer)) (\<lambda>portName.
     bindM (liftO (patchName bridgeNamePeer bridgeName)) (\<lambda>portNamePeer.
     thenM (mustDeletePort E bridgeName portName)
     (thenM (mustDeletePort E bridgeNamePeer portNamePeer)
     (let pair = \<lparr>veth_Name = portName, veth_PeerName = portNamePeer\<rparr> in
      thenM (callM (LinkDel pair) (\<lambda>h. nlLinkDel E h pair)) (retM ())))))"

definition getOfPort :: "env \<Rightarrow> string \<Rightarrow> ('x, error + OFPortType) io" where
  "getOfPort E portName =
     bindM (mustVsCtl E [''get'', ''Interface'', portName, ''ofport'']) (\<lambda>output.
     retM (ParseUint32 output))"

definition mustGetOfPort :: "env \<Rightarrow> string \<Rightarrow> ('x, OFPortType) io" where
  "mustGetOfPort E portName = bindM (getOfPort E portName) mustSum"

definition addVxlanPort ::
  "env \<Rightarrow> string \<Rightarrow> string \<Rightarrow> string \<Rightarrow> ('x, string \<times> error option) io" where
  "addVxlanPort E bridgeName portName peerAddress =
     VsCtl E [''add-port'', bridgeName, portName, ''--'', ''set'', ''interface'', portName,
              ''type=vxlan'', ''options:remote_ip='' @ peerAddress]"

section \<open>Frame\<close>

lemma io_scrapePortDesc [io_intros]: "talks (scrapePortDesc E b pd)"
  unfolding scrapePortDesc_def by (intro io_intros pure_intros)

lemma io_mustScrapePortDesc_loop [io_intros]:
  "talks (mustScrapePortDesc_loop E b pd i err)"
proof (induction "Suc dumpPortsRetries - i" arbitrary: i err rule: less_induct)
  case less
  show ?case
    by (subst mustScrapePortDesc_loop.simps) (auto intro!: io_intros pure_intros less)
qed

lemma io_mustScrapePortDesc [io_intros]: "talks (mustScrapePortDesc E b pd)"
  unfolding mustScrapePortDesc_def by (intro io_intros pure_intros)

lemma io_mustLowestFreePortOnBridge [io_intros]: "talks (mustLowestFreePortOnBridge E b)"
  unfolding mustLowestFreePortOnBridge_def by (intro io_intros pure_intros)

lemma io_addInternalPort [io_intros]: "talks (addInternalPort E b p t)"
  unfolding addInternalPort_def by (intro io_intros pure_intros)

lemma io_mustAddInternalPort [io_intros]: "talks (mustAddInternalPort E b p t)"
  unfolding mustAddInternalPort_def by (intro io_intros pure_intros)

lemma io_mustAddPatchPort [io_intros]: "talks (mustAddPatchPort E b b' p p')"
  unfolding mustAddPatchPort_def by (intro io_intros pure_intros)

lemma io_mustDeletePort [io_intros]: "talks (mustDeletePort E b p)"
  unfolding mustDeletePort_def by (intro io_intros pure_intros)

lemma io_mustDeletePatchPort [io_intros]: "talks (mustDeletePatchPort E b b')"
  unfolding mustDeletePatchPort_def by (intro io_intros pure_intros)

lemma io_getOfPort [io_intros]: "talks (getOfPort E p)"
  unfolding getOfPort_def by (intro io_intros pure_intros)

lemma io_mustGetOfPort [io_intros]: "talks (mustGetOfPort E p)"
  unfolding mustGetOfPort_def by (intro io_intros pure_intros)

lemma io_addVxlanPort [io_intros]: "talks (addVxlanPort E b p a)"
  unfolding addVxlanPort_def by (intro io_intros pure_intros)

section \<open>Correctness\<close>

subsection \<open>Patch names\<close>

lemma patchName_Ret: "patchName a b = Ret (patchPrefix @ patchStr a @ patchStr b)"
  using patchStr_length [of a] patchStr_length [of b]
  by (simp add: patchName_def Let_def patchPrefix_def ovsDovesnapPrefix_def)

subsection \<open>Lines of the port table\<close>

lemma re_space_digit: "is_digit c \<Longrightarrow> \<not> re_space c"
  by (auto simp: re_space_def is_digit_iff)

lemma find_rev_last:
  assumes "n < length run" "0 < n" "P n" "\<And>k. n < k \<Longrightarrow> k < length run \<Longrightarrow> \<not> P k"
  shows "find P (rev [1..<length run]) = Some n"
proof -
  have "[1..<length run] = [1..<n] @ n # [Suc n..<length run]"
    using assms(1,2) upt_add_eq_append [of 1 n "length run - n"] by (simp add: upt_conv_Cons)
  moreover have "find P (rev [Suc n..<length run]) = None"
    using assms(4) by (auto simp: find_None_iff)
  ultimately show ?thesis using assms(3) by (simp add: find_None_append)
qed

definition port_line :: "string \<Rightarrow> OFPortType \<Rightarrow> string \<Rightarrow> string \<Rightarrow> string" where
  "port_line blanks p name rest = blanks @ dec (uint p) @ ''('' @ name @ '')'' @ rest"

definition port_line_ok :: "string \<Rightarrow> string \<Rightarrow> string \<Rightarrow> bool" where
  "port_line_ok blanks name rest \<longleftrightarrow>
     list_all re_space blanks \<and> name \<noteq> [] \<and> list_all (\<lambda>c. \<not> re_space c) name \<and> rest \<noteq> [] \<and>
     CHR '')'' \<notin> set (takeWhile (\<lambda>c. \<not> re_space c) rest)"

lemma match_port_line_port_line:
  assumes "port_line_ok blanks name rest"
  shows "match_port_line (port_line blanks p name rest) = Some (dec (uint p), name)"
proof -
  let ?ns = "\<lambda>c. \<not> re_space c"
  let ?r = "name @ CHR '')'' # rest" and ?d = "dec (uint p)"
  let ?run = "takeWhile ?ns ?r"
  obtain c cs where d: "?d = c # cs" by (cases ?d) simp
  have "is_digit c" using dec_digits [of "uint p" c] d by simp
  then have sp: "dropWhile re_space (port_line blanks p name rest) = ?d @ CHR ''('' # ?r"
    using assms by (simp add: port_line_def port_line_ok_def d list_all_iff dropWhile_append re_space_digit)
  have dg: "\<not> is_digit (CHR ''('')" "\<forall>x\<in>set ?d. is_digit x"
    by (simp add: is_digit_iff) (auto dest: dec_digits [rotated])
  then have tw: "takeWhile is_digit (?d @ CHR ''('' # ?r) = ?d"
      "dropWhile is_digit (?d @ CHR ''('' # ?r) = CHR ''('' # ?r"
    by (simp_all add: takeWhile_append dropWhile_append)
  have nsp: "\<not> re_space (CHR '')'')" by (simp add: re_space_def)
  have run: "?run = name @ CHR '')'' # takeWhile ?ns rest"
    using assms nsp by (simp add: port_line_ok_def list_all_iff takeWhile_append)
  have "find (\<lambda>k. ?run ! k = CHR '')'' \<and> Suc k < length ?r) (rev [1..<length ?run]) = Some (length name)"
  proof (rule find_rev_last)
    show "length name < length ?run" "0 < length name"
      using assms by (simp_all add: run port_line_ok_def)
    show "?run ! length name = CHR '')'' \<and> Suc (length name) < length ?r"
      using assms by (simp add: run port_line_ok_def)
  next
    fix k assume k: "length name < k" "k < length ?run"
    then obtain j where j: "k = Suc (length name + j)" by (metis less_imp_Suc_add)
    have "?run ! k \<in> set (takeWhile ?ns rest)" using k by (simp add: run j nth_append)
    then show "\<not> (?run ! k = CHR '')'' \<and> Suc k < length ?r)"
      using assms by (auto simp: port_line_ok_def)
  qed
  then show ?thesis unfolding match_port_line_def Let_def sp tw by simp
qed

lemma parsePortDesc_port_line:
  "port_line_ok blanks name rest \<Longrightarrow>
   parsePortDesc_line (port_line blanks p name rest) pd = map_put p name pd"
  by (simp add: parsePortDesc_line_def match_port_line_port_line ParseUint32_dec)

lemma map_ok_parsePortDesc_line: "map_ok pd \<Longrightarrow> map_ok (parsePortDesc_line l pd)"
  by (auto simp: parsePortDesc_line_def split: option.split)

lemma map_ok_fold_lines: "map_ok pd \<Longrightarrow> map_ok (fold parsePortDesc_line ls pd)"
  by (induction ls arbitrary: pd) (auto simp: map_ok_parsePortDesc_line)

lemma map_ok_parsePortDesc: "map_ok pd \<Longrightarrow> map_ok (parsePortDesc output pd)"
  by (simp add: parsePortDesc_def map_ok_fold_lines)

subsection \<open>The lowest free port\<close>

lemma lowestFree_loop_spec:
  assumes "sorted xs" "distinct xs" "\<And>x. x \<in> set xs \<Longrightarrow> n \<le> x"
  shows "lowestFree_loop xs n \<notin> set xs" "n \<le> lowestFree_loop xs n"
    "\<And>q. n \<le> q \<Longrightarrow> q < lowestFree_loop xs n \<Longrightarrow> q \<in> set xs"
proof -
  have "lowestFree_loop xs n \<notin> set xs \<and> n \<le> lowestFree_loop xs n \<and>
    (\<forall>q. n \<le> q \<longrightarrow> q < lowestFree_loop xs n \<longrightarrow> q \<in> set xs)"
    using assms
  proof (induction xs arbitrary: n)
    case (Cons x xs)
    show ?case
    proof (cases "x = n")
      case True
      have "n + 1 \<le> y" if "y \<in> set xs" for y
        using Cons.prems that True by (auto simp: order_less_le add1_zle_eq)
      then have IH: "lowestFree_loop xs (n + 1) \<notin> set xs" "n + 1 \<le> lowestFree_loop xs (n + 1)"
          "\<forall>q. n + 1 \<le> q \<longrightarrow> q < lowestFree_loop xs (n + 1) \<longrightarrow> q \<in> set xs"
        using Cons.IH [of "n + 1"] Cons.prems by auto
      have "q \<in> set (x # xs)" if "n \<le> q" "q < lowestFree_loop xs (n + 1)" for q
        using IH(3) that True by (cases "q = n") auto
      with IH(1,2) True show ?thesis by auto
    next
      case False
      then have "n < x" using Cons.prems(3) [of x] by simp
      then have "n < y" if "y \<in> set (x # xs)" for y
        using that Cons.prems(1) by (auto intro: order_less_le_trans)
      with False show ?thesis by auto
    qed
  qed simp
  then show "lowestFree_loop xs n \<notin> set xs" "n \<le> lowestFree_loop xs n"
    "\<And>q. n \<le> q \<Longrightarrow> q < lowestFree_loop xs n \<Longrightarrow> q \<in> set xs" by blast+
qed

lemma uint_pos_iff: "1 \<le> uint (w :: 'a::len word) \<longleftrightarrow> w \<noteq> 0"
proof -
  have "0 \<le> uint w" by (rule uint_ge_0)
  moreover have "uint w = 0 \<longleftrightarrow> w = 0" by (rule uint_0_iff)
  ultimately show ?thesis by linarith
qed

lemma lowestFree_spec:
  fixes ports :: "OFPortType list"
  assumes "distinct ports" "0 \<notin> set ports" and free: "q \<noteq> 0" "q \<notin> set ports"
  shows "lowestFree ports \<notin> set ports" "lowestFree ports \<noteq> 0"
    "\<And>p. p \<noteq> 0 \<Longrightarrow> p < lowestFree ports \<Longrightarrow> p \<in> set ports"
proof -
  let ?xs = "sort (map uint ports)" let ?n = "lowestFree_loop ?xs 1"
  have d: "distinct ?xs" using assms(1) by (simp add: distinct_map inj_on_def word_uint_eq_iff)
  have pos: "1 \<le> x" if "x \<in> set ?xs" for x
    using that assms(2) uint_pos_iff by fastforce
  note L = lowestFree_loop_spec [OF sorted_sort d pos]
  have "?n \<le> uint q"
  proof (rule ccontr)
    assume "\<not> ?n \<le> uint q"
    then have "uint q \<in> set ?xs" using L(3) [of "uint q"] free(1) uint_pos_iff [of q] by simp
    with free(2) show False by (auto simp flip: word_uint_eq_iff)
  qed
  then have "0 \<le> ?n" "?n < 2 ^ 32" using uint_lt32 [of q] L(2) by auto
  then have n: "uint (lowestFree ports) = ?n"
    by (simp add: lowestFree_def uint_word_of_int)
  show "lowestFree ports \<notin> set ports" using L(1) n by force
  show "lowestFree ports \<noteq> 0" using L(2) n by auto
  show "p \<in> set ports" if "p \<noteq> 0" "p < lowestFree ports" for p
  proof -
    have "uint p \<in> set ?xs"
      using L(3) [of "uint p"] that n uint_pos_iff [of p] by (simp add: word_less_def)
    then show ?thesis by (auto simp flip: word_uint_eq_iff)
  qed
qed

subsection \<open>Reading the whole table\<close>

definition dump_line :: "string \<Rightarrow> (OFPortType \<Rightarrow> string) \<Rightarrow> OFPortType \<times> string \<Rightarrow> string" where
  "dump_line blanks rest = (\<lambda>(p, name). port_line blanks p name (rest p))"

lemma fold_dump_lines:
  "list_all (\<lambda>(p, name). port_line_ok blanks name (rest p)) xs \<Longrightarrow>
   fold parsePortDesc_line (map (dump_line blanks rest) xs) pd =
   fold (\<lambda>(p, name). map_put p name) xs pd"
  by (induction xs arbitrary: pd) (auto simp: parsePortDesc_port_line dump_line_def)

lemma get_fold_map_put:
  "distinct (map fst xs) \<Longrightarrow>
   map_get (fold (\<lambda>(p, name). map_put p name) xs pd) q =
   (case map_of xs q of Some name \<Rightarrow> Some name | None \<Rightarrow> map_get pd q)"
proof (induction xs arbitrary: pd)
  case (Cons x xs)
  obtain p name where x: "x = (p, name)" by (cases x)
  have "map_of xs p = None" using Cons.prems x by (simp add: map_of_eq_None_iff)
  with Cons x show ?case by (auto simp: gm.get_put split: option.split)
qed simp

subsection \<open>Retries\<close>

text \<open>The history after \<open>i\<close> failed attempts to read the port table of \<open>bridgeName\<close>.\<close>

definition scrape_history :: "string \<Rightarrow> history \<Rightarrow> nat \<Rightarrow> history" where
  "scrape_history bridgeName h i =
     h @ concat (map (\<lambda>j. [ofEvent [''dump-ports-desc'', bridgeName], Sleep (j + 1)]) [0..<i])"

definition scrape_answer :: "env \<Rightarrow> string \<Rightarrow> history \<Rightarrow> nat \<Rightarrow> string \<times> error option" where
  "scrape_answer E bridgeName h i =
     execCmd E (scrape_history bridgeName h i) ovsofctlPath [''dump-ports-desc'', bridgeName]"

lemma scrape_history_0 [simp]: "scrape_history b h 0 = h"
  by (simp add: scrape_history_def)

lemma scrape_history_Suc:
  "scrape_history b h (Suc i) = scrape_history b h i @ [ofEvent [''dump-ports-desc'', b], Sleep (i + 1)]"
  by (simp add: scrape_history_def)

lemma mustScrape_fail_step:
  assumes "i \<le> dumpPortsRetries" "snd (scrape_answer E b h i) = Some e"
  shows "mustScrapePortDesc_loop E b pd i err (w\<lparr>trace := scrape_history b h i\<rparr>) =
    mustScrapePortDesc_loop E b pd (Suc i) (Some e) (w\<lparr>trace := scrape_history b h (Suc i)\<rparr>)"
  using assms
  by (subst mustScrapePortDesc_loop.simps)
    (simp add: scrapePortDesc_def bindM_def OfCtl_run thenM_def sleepM_def scrape_answer_def
      scrape_history_Suc)

lemma mustScrape_ok_step:
  assumes "i \<le> dumpPortsRetries" "scrape_answer E b h i = (output, None)"
  shows "mustScrapePortDesc_loop E b pd i err (w\<lparr>trace := scrape_history b h i\<rparr>) =
    (Ret (parsePortDesc (TrimSuffix output [CHR 0x0A]) pd),
     w\<lparr>trace := scrape_history b h i @ [ofEvent [''dump-ports-desc'', b]]\<rparr>)"
  using assms
  by (subst mustScrapePortDesc_loop.simps)
    (simp add: scrapePortDesc_def bindM_def OfCtl_run scrape_answer_def)

lemma mustScrape_fail_steps:
  assumes "\<And>j. j < k \<Longrightarrow> snd (scrape_answer E b h j) \<noteq> None" "k \<le> Suc dumpPortsRetries"
  shows "\<exists>err. mustScrapePortDesc_loop E b pd 0 None (w\<lparr>trace := h\<rparr>) =
    mustScrapePortDesc_loop E b pd k err (w\<lparr>trace := scrape_history b h k\<rparr>) \<and>
    err = (if k = 0 then None else snd (scrape_answer E b h (k - 1)))"
  using assms
proof (induction k)
  case 0
  then show ?case by simp
next
  case (Suc k)
  then obtain err where e: "mustScrapePortDesc_loop E b pd 0 None (w\<lparr>trace := h\<rparr>) =
    mustScrapePortDesc_loop E b pd k err (w\<lparr>trace := scrape_history b h k\<rparr>)" by force
  obtain e where "snd (scrape_answer E b h k) = Some e" using Suc.prems(1) by blast
  with e Suc.prems(2) show ?case by (auto simp: mustScrape_fail_step)
qed

lemma mustScrapePortDesc_ok:
  assumes "k \<le> dumpPortsRetries" "\<And>j. j < k \<Longrightarrow> snd (scrape_answer E b (trace w) j) \<noteq> None"
    and "scrape_answer E b (trace w) k = (output, None)"
  shows "mustScrapePortDesc E b pd w =
    (Ret (parsePortDesc (TrimSuffix output [CHR 0x0A]) pd),
     w\<lparr>trace := scrape_history b (trace w) k @ [ofEvent [''dump-ports-desc'', b]]\<rparr>)"
proof -
  obtain err where "mustScrapePortDesc_loop E b pd 0 None (w\<lparr>trace := trace w\<rparr>) =
    mustScrapePortDesc_loop E b pd k err (w\<lparr>trace := scrape_history b (trace w) k\<rparr>)"
    using mustScrape_fail_steps [of k E b "trace w" pd w] assms(1,2) by auto
  then show ?thesis using mustScrape_ok_step [OF assms(1,3)] by (simp add: mustScrapePortDesc_def)
qed

lemma map_ok_mustScrape_loop:
  "map_ok pd \<Longrightarrow> mustScrapePortDesc_loop E b pd i err w = (Ret pd', w') \<Longrightarrow> map_ok pd'"
proof (induction "Suc dumpPortsRetries - i" arbitrary: i err w rule: less_induct)
  case less
  show ?case
  proof (cases "i \<le> dumpPortsRetries")
    case True
    let ?r = "execCmd E (trace w) ovsofctlPath [''dump-ports-desc'', b]"
    show ?thesis
    proof (cases "snd ?r")
      case None
      with less.prems True show ?thesis
        by (subst (asm) mustScrapePortDesc_loop.simps)
          (auto simp: scrapePortDesc_def bindM_def OfCtl_run map_ok_parsePortDesc)
    next
      case (Some e)
      with less.prems(2) True obtain w1 where
        "mustScrapePortDesc_loop E b pd (Suc i) (Some e) w1 = (Ret pd', w')"
        by (subst (asm) mustScrapePortDesc_loop.simps)
          (auto simp: scrapePortDesc_def bindM_def OfCtl_run thenM_def sleepM_def)
      then show ?thesis using less.hyps [of "Suc i"] less.prems(1) True by auto
    qed
  next
    case False
    with less.prems(2) show ?thesis
      by (subst (asm) mustScrapePortDesc_loop.simps) (simp split: option.splits)
  qed
qed

lemma map_ok_mustScrapePortDesc:
  "map_ok pd \<Longrightarrow> mustScrapePortDesc E b pd w = (Ret pd', w') \<Longrightarrow> map_ok pd'"
  unfolding mustScrapePortDesc_def by (rule map_ok_mustScrape_loop)

lemma mustLowestFree_least:
  assumes "range_ok E" and "mustScrapePortDesc E bridgeName [] w = (Ret portDesc, w')"
    and "map_get portDesc 0 = None" and "q \<noteq> 0" "map_get portDesc q = None"
  shows "\<exists>p. mustLowestFreePortOnBridge E bridgeName w = (Ret p, w') \<and>
    p \<noteq> 0 \<and> map_get portDesc p = None \<and> (\<forall>r. r \<noteq> 0 \<longrightarrow> r < p \<longrightarrow> map_get portDesc r \<noteq> None)"
proof -
  have "distinct (map_keys portDesc)"
    using map_ok_mustScrapePortDesc [OF _ assms(2)] by (simp add: gm.ok_keys)
  let ?ps = "rangePort E (trace w') (map_keys portDesc)"
  have s: "set ?ps = set (map_keys portDesc)" "distinct ?ps"
    using assms(1) \<open>distinct (map_keys portDesc)\<close> by (auto simp: range_ok_def)
  have m: "p \<in> set ?ps \<longleftrightarrow> map_get portDesc p \<noteq> None" for p by (simp add: s gm.in_keys)
  note L = lowestFree_spec [OF s(2), of q]
  have "mustLowestFreePortOnBridge E bridgeName w = (Ret (lowestFree ?ps), w')"
    using assms(2) by (simp add: mustLowestFreePortOnBridge_def bindM_def rangePortM_def)
  with L assms(3-5) m show ?thesis by auto
qed

section \<open>Properties\<close>

text \<open>
  C38. The name of a patch port between two bridges is always defined: three bytes of prefix
  and two base-62 checksums never exceed the 15 bytes of a Linux interface name, so
  \<open>patchName\<close> never panics.
\<close>

theorem patchName_fits:
  "\<exists>name. patchName a b = Ret name \<and> length name \<le> 15 \<and> HasPrefix name patchPrefix \<and>
     5 \<le> length name"
proof -
  have "0 < length (patchStr a)" "0 < length (patchStr b)" by (simp_all add: patchStr_not_Nil)
  then have "2 \<le> length (patchStr a) + length (patchStr b)" by linarith
  then show ?thesis
    using patchStr_length [of a] patchStr_length [of b]
    by (simp add: patchName_Ret) (simp add: patchPrefix_def ovsDovesnapPrefix_def)
qed

text \<open>
  C24. \<open>mustLowestFreePortOnBridge\<close> returns the least port number above 0 that the port table
  of the bridge does not list, whatever the order of the map loop, as long as the table
  lists no port 0 and some port is free.
\<close>

theorem lowest_free_port:
  assumes "range_ok E" and "mustScrapePortDesc E bridgeName [] w = (Ret portDesc, w')"
    and "map_get portDesc 0 = None" and "q \<noteq> 0" "map_get portDesc q = None"
  shows "\<exists>p. mustLowestFreePortOnBridge E bridgeName w = (Ret p, w') \<and>
    p \<noteq> 0 \<and> map_get portDesc p = None \<and> (\<forall>r. r \<noteq> 0 \<longrightarrow> r < p \<longrightarrow> map_get portDesc r \<noteq> None)"
  using assms by (rule mustLowestFree_least)

definition table_env :: env where
  "table_env = calm_env\<lparr>execCmd := (\<lambda>h cmd args.
     ('' 1(eth0): addr'' @ [CHR 0x0A] @ '' 3(eth1): addr'', None))\<rparr>"

theorem lowest_free_port_witness:
  "range_ok table_env \<and>
   mustScrapePortDesc table_env ''br'' [] calm_world =
     (Ret [(1, ''eth0''), (3, ''eth1'')], calm_world\<lparr>trace := [ofEvent [''dump-ports-desc'', ''br'']]\<rparr>) \<and>
   fst (mustLowestFreePortOnBridge table_env ''br'' calm_world) = Ret 2"
proof -
  have r: "range_ok table_env" by (simp add: table_env_def range_ok_calm_env)
  have s: "mustScrapePortDesc table_env ''br'' [] calm_world =
     (Ret [(1, ''eth0''), (3, ''eth1'')], calm_world\<lparr>trace := [ofEvent [''dump-ports-desc'', ''br'']]\<rparr>)"
    by code_simp
  have l: "fst (mustLowestFreePortOnBridge table_env ''br'' calm_world) = Ret 2" by code_simp
  show ?thesis using r s l lowest_free_port [OF r s, of 2] by simp
qed



text \<open>
  Reading the port table is retried: it succeeds as soon as one of four attempts does,
  with growing pauses in between, and panics with the last error when all four fail.
\<close>

theorem mustScrapePortDesc_retries:
  "mustScrapePortDesc E bridgeName portDesc w =
   (case find (\<lambda>k. snd (scrape_answer E bridgeName (trace w) k) = None) [0..<4] of
      Some k \<Rightarrow>
        (Ret (parsePortDesc (TrimSuffix (fst (scrape_answer E bridgeName (trace w) k)) [CHR 0x0A]) portDesc),
         w\<lparr>trace := scrape_history bridgeName (trace w) k @ [ofEvent [''dump-ports-desc'', bridgeName]]\<rparr>)
    | None \<Rightarrow>
        (Panic (the (snd (scrape_answer E bridgeName (trace w) 3))),
         w\<lparr>trace := scrape_history bridgeName (trace w) 4\<rparr>))"
  (is "_ = (case find ?P _ of Some k \<Rightarrow> _ | None \<Rightarrow> _)")
proof (cases "find ?P [0..<4]")
  case None
  then have f: "snd (scrape_answer E bridgeName (trace w) j) \<noteq> None" if "j < 4" for j
    using that by (auto simp: find_None_iff)
  then obtain err where
      "mustScrapePortDesc_loop E bridgeName portDesc 0 None (w\<lparr>trace := trace w\<rparr>) =
       mustScrapePortDesc_loop E bridgeName portDesc 4 err (w\<lparr>trace := scrape_history bridgeName (trace w) 4\<rparr>)"
    and "err = snd (scrape_answer E bridgeName (trace w) 3)"
    using mustScrape_fail_steps [of 4 E bridgeName "trace w" portDesc w]
    by (auto simp: dumpPortsRetries_def)
  with None f [of 3] show ?thesis
    by (auto simp: mustScrapePortDesc_def mustScrapePortDesc_loop.simps [of _ _ _ 4]
        dumpPortsRetries_def)
next
  case (Some k)
  then have k: "k \<le> dumpPortsRetries" "\<And>j. j < k \<Longrightarrow> snd (scrape_answer E bridgeName (trace w) j) \<noteq> None"
      "snd (scrape_answer E bridgeName (trace w) k) = None"
    by (auto simp: find_Some_iff dumpPortsRetries_def less_Suc_eq_le [symmetric])
  then have "scrape_answer E bridgeName (trace w) k =
      (fst (scrape_answer E bridgeName (trace w) k), None)" by (simp add: prod_eq_iff)
  from mustScrapePortDesc_ok [OF k(1,2) this] Some show ?thesis by simp
qed

end
