(* ===== verification/Ovs_Bridge.thy ===== *)
theory Ovs_Bridge
  imports Ovs_Port
begin

text \<open>
  \<^verbatim>\<open>ovs/ovs_bridge.go\<close>: creating, checking and deleting bridges, and the parser of the
  \<^verbatim>\<open>add_ports\<close> option.  (\<open>initBridge\<close>, which needs the network state, is in theory
  \<^verbatim>\<open>Driver_Bridges\<close>.)
\<close>

section \<open>Waiting for Open vSwitch\<close>

definition ovs_show :: "env \<Rightarrow> ('x, string \<times> error option) io" where
  "ovs_show E = VsCtl E [''show'']"

definition ovsStartupRetries :: nat where "ovsStartupRetries = 5"

primrec waitForOvs_loop :: "env \<Rightarrow> nat \<Rightarrow> ('x, unit) io" where
  "waitForOvs_loop E 0 = retM ()"
| "waitForOvs_loop E (Suc n) =
     bindM (ovs_show E) (\<lambda>(out, err).
     case err of None \<Rightarrow> retM () | Some _ \<Rightarrow> thenM (sleepM 5) (waitForOvs_loop E n))"

definition waitForOvs :: "env \<Rightarrow> ('x, unit) io" where
  "waitForOvs E =
     thenM (waitForOvs_loop E ovsStartupRetries)
     (bindM (ovs_show E) (\<lambda>(out, err).
      case err of None \<Rightarrow> retM ()
      | Some _ \<Rightarrow> panicM (Errorf ''could not connect to open vswitch'')))"

section \<open>Bridges\<close>

definition ifUp :: "env \<Rightarrow> string \<Rightarrow> ('x, bool) io" where
  "ifUp E ifName =
     bindM (callM (InterfaceByName ifName) (\<lambda>h. netInterfaceByName E h ifName)) (\<lambda>r.
     retM (case r of Inl _ \<Rightarrow> False | Inr flags \<Rightarrow> Contains flags ''up''))"

definition bridgeExists :: "env \<Rightarrow> string \<Rightarrow> ('x, string \<times> error option) io" where
  "bridgeExists E bridgeName = VsCtl E [''br-exists'', bridgeName]"

definition addBridge :: "env \<Rightarrow> string \<Rightarrow> ('x, string \<times> error option) io" where
  "addBridge E bridgeName =
     thenM (VsCtl E [''--if-exists'', ''del-br'', bridgeName])
     (VsCtl E [''add-br'', bridgeName, ''--'', ''set'', ''Bridge'', bridgeName, ''stp_enable=false''])"

definition addBridgeExists :: "env \<Rightarrow> string \<Rightarrow> ('x, string \<times> error option) io" where
  "addBridgeExists E bridgeName =
     VsCtl E [''--may-exist'', ''add-br'', bridgeName, ''--'', ''set'', ''Bridge'', bridgeName,
              ''stp_enable=false'']"

definition mustDeleteBridge :: "env \<Rightarrow> string \<Rightarrow> ('x, string) io" where
  "mustDeleteBridge E bridgeName = mustVsCtl E [''del-br'', bridgeName]"

definition makeMirrorBridge :: "env \<Rightarrow> string \<Rightarrow> OFPortType \<Rightarrow> ('x, unit) io" where
  "makeMirrorBridge E bridgeName mirrorBridgeOutPort =
     thenM (mustOfCtl E [''del-flows'', bridgeName])
     (thenM (mustOfCtl E [''add-flow'', bridgeName, ''priority=0,actions=drop''])
     (thenM (mustOfCtl E [''add-flow'', bridgeName,
              ''priority=1,actions=output:'' @ dec (uint mirrorBridgeOutPort)])
     (retM ())))"

text \<open>The named result lets the deferred function turn a panic into the returned error.\<close>

definition makeLoopbackBridge :: "env \<Rightarrow> string \<Rightarrow> ('x, error option) io" where
  "makeLoopbackBridge E bridgeName =
     recoverM
       (thenM (mustOfCtl E [''del-flows'', bridgeName])
       (thenM (mustOfCtl E [''add-flow'', bridgeName, ''priority=0,actions=drop''])
       (thenM (mustOfCtl E [''add-flow'', bridgeName, ''priority=1,actions=output:in_port''])
       (retM None))))
       (\<lambda>rerr. retM (Some (Wrap ''cannot makeLoopbackBridge: '' rerr)))"

section \<open>The add-ports option\<close>

text \<open>
  The maps the parser fills.  The last two are pointers that some callers pass as nil
  (\<open>None\<close>), in which case the corresponding parameter of a port is skipped.
\<close>

record addports =
  ap_ports :: "(string, OFPortType) gomap"
  ap_acls :: "(OFPortType, string) gomap option"
  ap_vlans :: "(string, uint) gomap option"

definition parseAddPort_vlan :: "string list \<Rightarrow> string \<Rightarrow> addports \<Rightarrow> addports outcome" where
  "parseAddPort_vlan add_port_params add_port ap =
     (if length add_port_params \<ge> 4 \<and> add_port_params ! 3 \<noteq> [] then
        (case ap_vlans ap of
           None \<Rightarrow> Ret ap
         | Some vlans \<Rightarrow>
             (case ParseUint32 (add_port_params ! 3) of
                Inl err \<Rightarrow> Panic (Wrap (''invalid VLAN for port '' @ add_port @ '': '') err)
              | Inr vlan \<Rightarrow>
                  if vlan < 1 \<or> vlan > 4094
                  then Panic (Errorf (''VLAN '' @ dec (uint vlan) @ '' for port '' @ add_port @
                              '' out of range (1-4094)''))
                  else Ret (ap\<lparr>ap_vlans := Some (map_put add_port (ucast vlan) vlans)\<rparr>)))
      else Ret ap)"

definition parseAddPort :: "addports \<Rightarrow> string \<Rightarrow> addports outcome" where
  "parseAddPort ap add_port_params_str =
     (let add_port_params = Split add_port_params_str (CHR ''/'') in
      bindO (indexO add_port_params 0) (\<lambda>add_port.
      let ap = ap\<lparr>ap_ports := map_put add_port 0 (ap_ports ap)\<rparr> in
      if length add_port_params \<ge> 2 \<and> add_port_params ! 1 \<noteq> [] then
        (case ParseUint32 (add_port_params ! 1) of
           Inl err \<Rightarrow> Panic err
         | Inr port_no \<Rightarrow>
             let ap = ap\<lparr>ap_ports := map_put add_port port_no (ap_ports ap)\<rparr>;
                 ap = (if length add_port_params \<ge> 3 \<and> add_port_params ! 2 \<noteq> []
                       then ap\<lparr>ap_acls := map_option (map_put port_no (add_port_params ! 2)) (ap_acls ap)\<rparr>
                       else ap)
             in parseAddPort_vlan add_port_params add_port ap)
      else parseAddPort_vlan add_port_params add_port ap))"

definition parseAddPorts :: "string \<Rightarrow> addports \<Rightarrow> addports outcome" where
  "parseAddPorts add_ports ap =
     (if add_ports = [] then Ret ap
      else foldO parseAddPort ap (Split add_ports (CHR '','')))"

section \<open>Creating a bridge\<close>

definition portCmd :: "string \<Rightarrow> string \<Rightarrow> OFPortType \<Rightarrow> string list" where
  "portCmd bridgeName add_port number =
     (if number > 0
      then [''add-port'', bridgeName, add_port, ''--'', ''set'', ''Interface'', add_port,
            ofport_request number]
      else [''add-port'', bridgeName, add_port])"

definition bridgeCmds :: "string \<Rightarrow> string \<Rightarrow> string \<Rightarrow> bool \<Rightarrow> string \<Rightarrow> string list list" where
  "bridgeCmds bridgeName controller dpid userspace ovsLocalMac =
     (if userspace then [[''set'', ''bridge'', bridgeName, ''datapath_type=netdev'']] else []) @
     (if ovsLocalMac \<noteq> [] then
        [[''set'', ''bridge'', bridgeName, ''other-config:hwaddr=\"'' @ ovsLocalMac @ ''\"'']] else []) @
     (if dpid \<noteq> [] then
        [[''set'', ''bridge'', bridgeName, ''other-config:datapath-id='' @ dpid]] else []) @
     (if controller \<noteq> [] then
        [[''set'', ''bridge'', bridgeName, ''fail-mode=secure''],
         [''set-controller'', bridgeName] @ Split controller (CHR '','')] else [])"

text \<open>The two loops that stop at the first error, deleting the bridge.\<close>

primrec runConfigCmds :: "env \<Rightarrow> string \<Rightarrow> string list list \<Rightarrow> ('x, error option) io" where
  "runConfigCmds E bridgeName [] = retM None"
| "runConfigCmds E bridgeName (cmd # cmds) =
     bindM (VsCtl E cmd) (\<lambda>(out, err).
     case err of
       Some e \<Rightarrow> thenM (VsCtl E [''del-br'', bridgeName]) (retM (Some e))
     | None \<Rightarrow> runConfigCmds E bridgeName cmds)"

primrec checkAddPorts :: "env \<Rightarrow> string \<Rightarrow> string list \<Rightarrow> ('x, error option) io" where
  "checkAddPorts E bridgeName [] = retM None"
| "checkAddPorts E bridgeName (add_port # ports) =
     bindM (getOfPort E add_port) (\<lambda>r.
     case r of
       Inl e \<Rightarrow> thenM (VsCtl E [''del-br'', bridgeName]) (retM (Some e))
     | Inr _ \<Rightarrow> checkAddPorts E bridgeName ports)"

definition createBridge ::
  "env \<Rightarrow> string \<Rightarrow> string \<Rightarrow> string \<Rightarrow> string \<Rightarrow> bool \<Rightarrow> bool \<Rightarrow> string \<Rightarrow> ('x, error option) io" where
  "createBridge E bridgeName controller dpid add_ports exists userspace ovsLocalMac =
     bindM (if exists then addBridgeExists E bridgeName else addBridge E bridgeName) (\<lambda>(out, err).
     case err of Some e \<Rightarrow> retM (Some e) | None \<Rightarrow>
     bindM (liftO (parseAddPorts add_ports \<lparr>ap_ports = [], ap_acls = None, ap_vlans = None\<rparr>)) (\<lambda>ap.
     let addPorts = ap_ports ap in
     bindM (rangeStrM E addPorts) (\<lambda>names.
     let ovsConfigCmds =
       bridgeCmds bridgeName controller dpid userspace ovsLocalMac @
       map (\<lambda>add_port. portCmd bridgeName add_port (the (map_get addPorts add_port))) names in
     bindM (runConfigCmds E bridgeName ovsConfigCmds) (\<lambda>err.
     case err of Some e \<Rightarrow> retM (Some e) | None \<Rightarrow>
     bindM (rangeStrM E addPorts) (\<lambda>names.
     bindM (checkAddPorts E bridgeName names) (\<lambda>err.
     case err of Some e \<Rightarrow> retM (Some e) | None \<Rightarrow>
     thenM (if controller \<noteq> [] then thenM (mustOfCtl E [''del-flows'', bridgeName]) (retM ()) else retM ())
     (bindM (interfaceUp E bridgeName) (\<lambda>err.
      case err of
        Some e \<Rightarrow> thenM (VsCtl E [''del-br'', bridgeName]) (retM (Some e))
      | None \<Rightarrow> retM None))))))))"

section \<open>Code without state\<close>

lemma pure_parseAddPort_vlan [pure_intros]: "pureO (parseAddPort_vlan ps p ap)"
  unfolding parseAddPort_vlan_def by (intro pure_intros)

lemma pure_parseAddPort [pure_intros]: "pureO (parseAddPort ap s)"
  unfolding parseAddPort_def by (intro pure_intros)

lemma pure_parseAddPorts [pure_intros]: "pureO (parseAddPorts s ap)"
  unfolding parseAddPorts_def by (intro pure_intros)

section \<open>Frame\<close>

lemma io_ovs_show [io_intros]: "talks (ovs_show E)"
  unfolding ovs_show_def by (intro io_intros pure_intros)

lemma io_waitForOvs_loop [io_intros]: "talks (waitForOvs_loop E n)"
  by (induction n) (auto intro!: io_intros pure_intros)

lemma io_waitForOvs [io_intros]: "talks (waitForOvs E)"
  unfolding waitForOvs_def by (intro io_intros pure_intros)

lemma io_ifUp [io_intros]: "talks (ifUp E i)"
  unfolding ifUp_def by (intro io_intros pure_intros)

lemma io_bridgeExists [io_intros]: "talks (bridgeExists E b)"
  unfolding bridgeExists_def by (intro io_intros pure_intros)

lemma io_addBridge [io_intros]: "talks (addBridge E b)"
  unfolding addBridge_def by (intro io_intros pure_intros)

lemma io_addBridgeExists [io_intros]: "talks (addBridgeExists E b)"
  unfolding addBridgeExists_def by (intro io_intros pure_intros)

lemma io_mustDeleteBridge [io_intros]: "talks (mustDeleteBridge E b)"
  unfolding mustDeleteBridge_def by (intro io_intros pure_intros)

lemma io_makeMirrorBridge [io_intros]: "talks (makeMirrorBridge E b p)"
  unfolding makeMirrorBridge_def by (intro io_intros pure_intros)

lemma io_makeLoopbackBridge [io_intros]: "talks (makeLoopbackBridge E b)"
  unfolding makeLoopbackBridge_def by (intro io_intros pure_intros)

lemma io_runConfigCmds [io_intros]: "talks (runConfigCmds E b cmds)"
  by (induction cmds) (auto intro!: io_intros pure_intros)

lemma io_checkAddPorts [io_intros]: "talks (checkAddPorts E b ps)"
  by (induction ps) (auto intro!: io_intros pure_intros)

lemma io_createBridge [io_intros]: "talks (createBridge E b c d a ex u m)"
  unfolding createBridge_def by (intro io_intros pure_intros)

section \<open>Correctness of the add-ports parser\<close>

lemma foldO_invariant:
  "(\<And>b x b'. I b \<Longrightarrow> f b x = Ret b' \<Longrightarrow> I b') \<Longrightarrow> I b \<Longrightarrow> foldO f b xs = Ret b' \<Longrightarrow> I b'"
  by (induction xs arbitrary: b) (auto simp: bindO_eq_Ret)

text \<open>Every VLAN in the map is a valid VLAN number.\<close>

definition vlans_ok :: "addports \<Rightarrow> bool" where
  "vlans_ok ap \<longleftrightarrow>
     (\<forall>vlans port v. ap_vlans ap = Some vlans \<longrightarrow> map_get vlans port = Some v \<longrightarrow> 1 \<le> v \<and> v \<le> 4094)"

lemma uint_ucast_64 [simp]: "uint (ucast (v :: 32 word) :: uint) = uint v"
proof -
  have "uint v < 2 ^ 64" using uint_lt32 [of v] by simp
  then show ?thesis by (simp add: unsigned_ucast_eq take_bit_int_eq_self_iff)
qed

lemma ucast_vlan_range:
  fixes v :: "32 word"
  assumes "\<not> (v < 1 \<or> v > 4094)"
  shows "1 \<le> (ucast v :: uint)" "(ucast v :: uint) \<le> 4094"
  using assms by (simp_all add: word_le_def word_less_def)

lemma parseAddPort_vlan_Ret:
  "parseAddPort_vlan ps p ap = Ret ap' \<Longrightarrow> ap' = ap \<or>
   (\<exists>vlans (v :: 32 word). ap_vlans ap = Some vlans \<and> \<not> (v < 1 \<or> v > 4094) \<and>
      ap' = ap\<lparr>ap_vlans := Some (map_put p (ucast v) vlans)\<rparr>)"
  unfolding parseAddPort_vlan_def by (auto simp del: word_less_1 split: if_split_asm option.split_asm sum.split_asm)

lemma vlans_ok_vlan: "vlans_ok ap \<Longrightarrow> parseAddPort_vlan ps p ap = Ret ap' \<Longrightarrow> vlans_ok ap'"
  using ucast_vlan_range by (fastforce dest: parseAddPort_vlan_Ret simp: vlans_ok_def gm.get_put split: if_splits)

lemma vlans_ok_ports [simp]: "vlans_ok (ap\<lparr>ap_ports := ps\<rparr>) = vlans_ok ap"
  and vlans_ok_acls [simp]: "vlans_ok (ap\<lparr>ap_acls := as\<rparr>) = vlans_ok ap"
  by (simp_all add: vlans_ok_def)

lemma vlans_ok_parseAddPort: "vlans_ok ap \<Longrightarrow> parseAddPort ap s = Ret ap' \<Longrightarrow> vlans_ok ap'"
  by (auto simp: parseAddPort_def Let_def bindO_eq_Ret split: if_splits sum.splits
      dest: vlans_ok_vlan [rotated])

text \<open>The documented form of an added port, and its text.\<close>

record port_spec =
  ps_name :: string
  ps_ofport :: "OFPortType option"
  ps_acl :: string
  ps_vlan :: "OFVidType option"

definition spec_ok :: "port_spec \<Rightarrow> bool" where
  "spec_ok ps \<longleftrightarrow>
     CHR ''/'' \<notin> set (ps_name ps) \<and> CHR '','' \<notin> set (ps_name ps) \<and>
     CHR ''/'' \<notin> set (ps_acl ps) \<and> CHR '','' \<notin> set (ps_acl ps) \<and>
     (case ps_vlan ps of None \<Rightarrow> True | Some v \<Rightarrow> 1 \<le> v \<and> v \<le> 4094)"

definition print_num :: "32 word option \<Rightarrow> string" where
  "print_num n = (case n of None \<Rightarrow> [] | Some p \<Rightarrow> dec (uint p))"

definition print_spec :: "port_spec \<Rightarrow> string" where
  "print_spec ps = Join [ps_name ps, print_num (ps_ofport ps), ps_acl ps, print_num (ps_vlan ps)] ''/''"

definition print_specs :: "port_spec list \<Rightarrow> string" where
  "print_specs specs = Join (map print_spec specs) '',''"

text \<open>What the option means: an ACL needs a port number, and a VLAN is kept per port name.\<close>

definition apply_spec :: "port_spec \<Rightarrow> addports \<Rightarrow> addports" where
  "apply_spec ps ap = \<lparr>
     ap_ports = map_put (ps_name ps) (case ps_ofport ps of None \<Rightarrow> 0 | Some p \<Rightarrow> p) (ap_ports ap),
     ap_acls = (case ps_ofport ps of
        Some p \<Rightarrow> if ps_acl ps = [] then ap_acls ap else map_option (map_put p (ps_acl ps)) (ap_acls ap)
      | None \<Rightarrow> ap_acls ap),
     ap_vlans = (case ps_vlan ps of
        Some v \<Rightarrow> map_option (map_put (ps_name ps) (ucast v)) (ap_vlans ap)
      | None \<Rightarrow> ap_vlans ap)\<rparr>"

lemma print_num_no_sep: "\<not> is_digit c \<Longrightarrow> c \<notin> set (print_num n)"
  by (auto simp: print_num_def split: option.split dest: dec_digits [rotated])

lemma sep_not_digit: "\<not> is_digit (CHR ''/'')" "\<not> is_digit (CHR '','')"
  by (simp_all add: is_digit_iff)

lemma Split_print_spec:
  "spec_ok ps \<Longrightarrow> Split (print_spec ps) (CHR ''/'') =
   [ps_name ps, print_num (ps_ofport ps), ps_acl ps, print_num (ps_vlan ps)]"
  unfolding print_spec_def by (rule Split_Join) (auto simp: spec_ok_def print_num_no_sep sep_not_digit)

lemma print_spec_no_comma: "spec_ok ps \<Longrightarrow> CHR '','' \<notin> set (print_spec ps)"
  by (simp add: print_spec_def spec_ok_def print_num_no_sep sep_not_digit)

lemma map_put_put [simp]: "map_put k v (map_put k u m) = map_put k v m"
  by (induction m) (auto simp: map_put_def)

lemma parse_vlan_spec:
  assumes "spec_ok ps"
  shows "parseAddPort_vlan [a, b, c, print_num (ps_vlan ps)] p ap =
    Ret (case ps_vlan ps of None \<Rightarrow> ap
         | Some v \<Rightarrow> ap\<lparr>ap_vlans := map_option (map_put p (ucast v)) (ap_vlans ap)\<rparr>)"
proof (cases "ps_vlan ps")
  case (Some v)
  then have "\<not> (v < 1 \<or> v > 4094)" using assms by (auto simp: spec_ok_def)
  with Some show ?thesis
    by (auto simp: parseAddPort_vlan_def print_num_def ParseUint32_dec split: option.split)
qed (simp add: parseAddPort_vlan_def print_num_def)

lemma parseAddPort_print_spec:
  assumes "spec_ok ps"
  shows "parseAddPort ap (print_spec ps) = Ret (apply_spec ps ap)"
proof (cases "ps_ofport ps")
  case None
  then show ?thesis
    by (simp add: parseAddPort_def Split_print_spec [OF assms] indexO_def print_num_def [of None]
        parse_vlan_spec [OF assms] apply_spec_def split: option.split)
next
  case (Some p)
  then have "print_num (ps_ofport ps) = dec (uint p)" by (simp add: print_num_def)
  with Some show ?thesis
    by (simp add: parseAddPort_def Split_print_spec [OF assms] indexO_def ParseUint32_dec
        parse_vlan_spec [OF assms] apply_spec_def split: option.split)
qed

lemma foldO_print_specs:
  "list_all spec_ok specs \<Longrightarrow>
   foldO parseAddPort ap (map print_spec specs) = Ret (fold apply_spec specs ap)"
  by (induction specs arbitrary: ap) (auto simp: parseAddPort_print_spec)

section \<open>Correctness of createBridge\<close>

definition delBr :: "string \<Rightarrow> event" where
  "delBr bridgeName = vsEvent [''del-br'', bridgeName]"

lemma runConfigCmds_err:
  "runConfigCmds E b cmds w = (Ret (Some e), w') \<Longrightarrow> trace w' \<noteq> [] \<and> last (trace w') = delBr b"
  by (induction cmds arbitrary: w)
    (auto simp: bindM_eq_Ret VsCtl_run thenM_def delBr_def split: option.splits)

lemma checkAddPorts_err:
  "checkAddPorts E b ps w = (Ret (Some e), w') \<Longrightarrow> trace w' \<noteq> [] \<and> last (trace w') = delBr b"
proof (induction ps arbitrary: w)
  case (Cons p ps)
  then obtain r u where "getOfPort E p w = (Ret r, u)"
    and "(case r of Inl e \<Rightarrow> thenM (VsCtl E [''del-br'', b]) (retM (Some e))
      | Inr _ \<Rightarrow> checkAddPorts E b ps) u = (Ret (Some e), w')"
    by (auto simp: bindM_eq_Ret)
  with Cons.IH show ?case
    by (cases r) (auto simp: thenM_def bindM_def VsCtl_run delBr_def)
qed simp

lemma runConfigCmds_ok:
  "runConfigCmds E b cmds w = (Ret None, w') \<Longrightarrow> w' = w\<lparr>trace := trace w @ map vsEvent cmds\<rparr>"
proof (induction cmds arbitrary: w)
  case (Cons cmd cmds)
  then have "runConfigCmds E b cmds (w\<lparr>trace := trace w @ [vsEvent cmd]\<rparr>) = (Ret None, w')"
    by (auto simp: bindM_def VsCtl_run thenM_def split: option.splits)
  from Cons.IH [OF this] show ?case by simp
qed simp

definition portQuery :: "string \<Rightarrow> event" where
  "portQuery add_port = vsEvent [''get'', ''Interface'', add_port, ''ofport'']"

lemma checkAddPorts_ok:
  "checkAddPorts E b ps w = (Ret None, w') \<Longrightarrow>
   w' = w\<lparr>trace := trace w @ map portQuery ps\<rparr>"
proof (induction ps arbitrary: w)
  case (Cons p ps)
  then have "checkAddPorts E b ps (w\<lparr>trace := trace w @ [portQuery p]\<rparr>) = (Ret None, w')"
    by (auto simp: bindM_def getOfPort_def portQuery_def mustVsCtl_run VsCtl_run thenM_def split: option.splits sum.splits)
  from Cons.IH [OF this] show ?case by simp
qed simp

definition addBridgeEvents :: "string \<Rightarrow> bool \<Rightarrow> event list" where
  "addBridgeEvents bridgeName exists =
     (if exists
      then [vsEvent [''--may-exist'', ''add-br'', bridgeName, ''--'', ''set'', ''Bridge'', bridgeName, ''stp_enable=false'']]
      else [vsEvent [''--if-exists'', ''del-br'', bridgeName],
            vsEvent [''add-br'', bridgeName, ''--'', ''set'', ''Bridge'', bridgeName, ''stp_enable=false'']])"

lemma addBridge_step:
  "(if exists then addBridgeExists E b else addBridge E b) w = (x, w') \<Longrightarrow>
   w' = w\<lparr>trace := trace w @ addBridgeEvents b exists\<rparr> \<and> (\<exists>out err. x = Ret (out, err))"
  by (auto simp: addBridgeExists_def addBridge_def thenM_def bindM_def VsCtl_run addBridgeEvents_def
      split: if_splits)

lemma del_br_last:
  "thenM (VsCtl E [''del-br'', b]) (retM (Some e)) w = (Ret r, w') \<Longrightarrow>
   r = Some e \<and> trace w' \<noteq> [] \<and> last (trace w') = delBr b"
  by (auto simp: thenM_def bindM_def VsCtl_run delBr_def)


lemma bindM_RetE:
  assumes "bindM m f s = (Ret b, t)"
  obtains a u where "m s = (Ret a, u)" "f a u = (Ret b, t)"
  using assms by (auto simp: bindM_eq_Ret)

text \<open>What is left to do once the bridge is configured.\<close>

lemma createBridge_finish:
  assumes "thenM (if controller \<noteq> [] then thenM (mustOfCtl E [''del-flows'', b]) (retM ()) else retM ())
     (bindM (interfaceUp E b) (\<lambda>err.
      case err of
        Some e \<Rightarrow> thenM (VsCtl E [''del-br'', b]) (retM (Some e))
      | None \<Rightarrow> retM None)) w = (Ret r, w')"
  shows "(\<exists>e. r = Some e \<and> trace w' \<noteq> [] \<and> last (trace w') = delBr b) \<or>
    r = None \<and> trace w' = trace w @ (if controller \<noteq> [] then [ofEvent [''del-flows'', b]] else []) @
      [LinkByName b, LinkSetUp b]"
  using assms
  by (auto simp: thenM_def bindM_def mustOfCtl_run VsCtl_run interfaceUp_def delBr_def
      split: if_splits option.splits prod.splits) (metis+)

text \<open>
  The commands of a successful run: the bridge, its options, one \<^verbatim>\<open>add-port\<close> per listed
  port, the check of every port's number, the removal of the default flows and the link.
  \<open>h\<close> and \<open>h'\<close> are the moments of the two loops over the map of ports.
\<close>

definition createdTrace ::
  "env \<Rightarrow> string \<Rightarrow> string \<Rightarrow> string \<Rightarrow> bool \<Rightarrow> bool \<Rightarrow> string \<Rightarrow> (string, OFPortType) gomap \<Rightarrow>
   history \<Rightarrow> history \<Rightarrow> event list" where
  "createdTrace E b controller dpid exists userspace ovsLocalMac ports h h' =
     addBridgeEvents b exists @
     map vsEvent (bridgeCmds b controller dpid userspace ovsLocalMac) @
     map (\<lambda>p. vsEvent (portCmd b p (the (map_get ports p)))) (rangeStr E h (map_keys ports)) @
     map portQuery (rangeStr E h' (map_keys ports)) @
     (if controller \<noteq> [] then [ofEvent [''del-flows'', b]] else []) @ [LinkByName b, LinkSetUp b]"

definition bridge_created ::
  "env \<Rightarrow> string \<Rightarrow> string \<Rightarrow> string \<Rightarrow> string \<Rightarrow> bool \<Rightarrow> bool \<Rightarrow> string \<Rightarrow> history \<Rightarrow> history \<Rightarrow> bool" where
  "bridge_created E b controller dpid add_ports exists userspace ovsLocalMac t t' \<longleftrightarrow>
     (\<exists>ap h h'. parseAddPorts add_ports \<lparr>ap_ports = [], ap_acls = None, ap_vlans = None\<rparr> = Ret ap \<and>
      t' = t @ createdTrace E b controller dpid exists userspace ovsLocalMac (ap_ports ap) h h')"

lemma bridge_createdI:
  "parseAddPorts add_ports \<lparr>ap_ports = [], ap_acls = None, ap_vlans = None\<rparr> = Ret ap \<Longrightarrow>
   t' = t @ createdTrace E b controller dpid exists userspace ovsLocalMac (ap_ports ap) h h' \<Longrightarrow>
   bridge_created E b controller dpid add_ports exists userspace ovsLocalMac t t'"
  by (auto simp: bridge_created_def)

lemma createBridge_cases:
  assumes "createBridge E b controller dpid add_ports exists userspace ovsLocalMac w = (Ret r, w')"
  shows "(r \<noteq> None \<and> trace w' = trace w @ addBridgeEvents b exists) \<or>
    (r \<noteq> None \<and> trace w' \<noteq> [] \<and> last (trace w') = delBr b) \<or>
    (r = None \<and> bridge_created E b controller dpid add_ports exists userspace ovsLocalMac (trace w) (trace w'))"
  using assms unfolding createBridge_def Let_def rangeStrM_def
  apply (elim bindM_RetE)
  apply (drule addBridge_step)
  apply (clarsimp split: option.split_asm elim!: bindM_RetE)
  subgoal
    apply (drule createBridge_finish, drule checkAddPorts_ok, drule runConfigCmds_ok)
    apply (auto intro!: bridge_createdI simp: createdTrace_def comp_def)
    done
  subgoal by (auto dest: checkAddPorts_err)
  subgoal by (auto dest: runConfigCmds_err)
  subgoal by auto
  done

lemma map_ok_parseAddPort:
  "map_ok (ap_ports ap) \<Longrightarrow> parseAddPort ap s = Ret ap' \<Longrightarrow> map_ok (ap_ports ap')"
  by (auto simp: parseAddPort_def Let_def bindO_eq_Ret split: if_splits sum.splits
      dest!: parseAddPort_vlan_Ret)

lemma map_ok_parseAddPorts:
  "map_ok (ap_ports ap) \<Longrightarrow> parseAddPorts s ap = Ret ap' \<Longrightarrow> map_ok (ap_ports ap')"
  unfolding parseAddPorts_def
  by (auto intro: foldO_invariant [where I = "\<lambda>ap. map_ok (ap_ports ap)"] map_ok_parseAddPort
      split: if_splits)

section \<open>Properties\<close>



text \<open>
  C34. Whatever the text, when \<open>parseAddPorts\<close> returns, every VLAN it recorded lies between 1
  and 4094, provided the map it was given had only such VLANs.
\<close>

theorem parseAddPorts_vlans_valid:
  assumes "vlans_ok ap" "parseAddPorts add_ports ap = Ret ap'"
    and "ap_vlans ap' = Some vlans" "map_get vlans port = Some v"
  shows "1 \<le> v \<and> v \<le> 4094"
proof -
  have "vlans_ok ap'"
    using assms(1,2) unfolding parseAddPorts_def
    by (auto intro: foldO_invariant [of vlans_ok parseAddPort ap] vlans_ok_parseAddPort split: if_splits)
  with assms(3,4) show ?thesis by (auto simp: vlans_ok_def)
qed

theorem parseAddPorts_vlans_valid_witness:
  "parseAddPorts ''eth0/5//4094'' \<lparr>ap_ports = [], ap_acls = None, ap_vlans = Some []\<rparr> =
     Ret \<lparr>ap_ports = [(''eth0'', 5)], ap_acls = None, ap_vlans = Some [(''eth0'', 4094)]\<rparr> \<and>
   1 \<le> (4094 :: uint) \<and> (4094 :: uint) \<le> 4094"
proof -
  have v: "vlans_ok \<lparr>ap_ports = [], ap_acls = None, ap_vlans = Some []\<rparr>" by (simp add: vlans_ok_def)
  have p: "parseAddPorts ''eth0/5//4094'' \<lparr>ap_ports = [], ap_acls = None, ap_vlans = Some []\<rparr> =
     Ret \<lparr>ap_ports = [(''eth0'', 5)], ap_acls = None, ap_vlans = Some [(''eth0'', 4094)]\<rparr>" by code_simp
  show ?thesis using p parseAddPorts_vlans_valid [OF v p, of "[(''eth0'', 4094)]" "''eth0''" 4094]
    by (simp add: map_get_def)
qed


definition failing_env :: "string list \<Rightarrow> env" where
  "failing_env args = calm_env\<lparr>execCmd := (\<lambda>h cmd as.
     if as = vsctlArgs args then ([], Some (External ''failed'')) else (''5'', None))\<rparr>"




end
