(* ===== verification/Ovs_Iptables.thy ===== *)
theory Ovs_Iptables
  imports Ovsdb "HOL-Library.Multiset"
begin

text \<open>
  \<^verbatim>\<open>ovs/ovs_iptables.go\<close>: masquerading for NAT networks and the port maps of containers.
  The last part gives the commands their meaning on a table of rules and shows that the
  deletions take back exactly what the additions put in.
\<close>

definition rawM :: "env \<Rightarrow> string list \<Rightarrow> ('x, string \<times> error option) io" where
  "rawM E args = callM (IptablesRaw args) (\<lambda>h. iptablesRaw E h args)"

definition mustIptablesRaw :: "env \<Rightarrow> string list \<Rightarrow> ('x, string) io" where
  "mustIptablesRaw E args =
     bindM (rawM E args) (\<lambda>(output, err). thenM (mustM err) (retM output))"

definition natOut :: "env \<Rightarrow> string \<Rightarrow> string \<Rightarrow> ('x, error option) io" where
  "natOut E cidr op =
     (let masquerade = [''POSTROUTING'', ''-t'', ''nat'', ''-s'', cidr, ''-j'', ''MASQUERADE''];
          incl = op # masquerade in
      bindM (rawM E incl) (\<lambda>(output, err).
      case err of Some e \<Rightarrow> retM (Some e) | None \<Rightarrow>
      if length output > 0 then retM (Some (ChainError ''POSTROUTING'' output))
      else bindM (rawM E [''-P'', ''FORWARD'', ''ACCEPT'']) (\<lambda>(output, err). retM err)))"

definition mustPortMap ::
  "env \<Rightarrow> string \<Rightarrow> string \<Rightarrow> string \<Rightarrow> string \<Rightarrow> string \<Rightarrow> string \<Rightarrow> string \<Rightarrow> ('x, unit) io" where
  "mustPortMap E op bridgeName ipProto gatewayIP hostIP hostPort port =
     (let dst = hostIP @ '':'' @ port in
      thenM (mustIptablesRaw E [''-t'', ''nat'', op, ''DOCKER'', ''-p'', ipProto, ''-d'', gatewayIP,
               ''--dport'', hostPort, ''-j'', ''DNAT'', ''--to-destination'', dst])
      (thenM (mustIptablesRaw E [''-t'', ''nat'', op, ''OUTPUT'', ''-p'', ipProto, ''-d'', gatewayIP,
               ''--dport'', hostPort, ''-j'', ''DNAT'', ''--to-destination'', dst])
      (thenM (mustIptablesRaw E [''-t'', ''nat'', op, ''POSTROUTING'', ''-p'', ipProto, ''-s'', hostIP,
               ''-d'', hostIP, ''--dport'', port, ''-j'', ''MASQUERADE''])
      (thenM (mustIptablesRaw E [''-t'', ''filter'', op, ''DOCKER'', ''!'', ''-i'', bridgeName, ''-o'', bridgeName,
               ''-p'', ''tcp'', ''-d'', hostIP, ''--dport'', port, ''-j'', ''ACCEPT''])
      (retM ())))))"

definition mustAddGatewayPortMap ::
  "env \<Rightarrow> string \<Rightarrow> string \<Rightarrow> string \<Rightarrow> string \<Rightarrow> string \<Rightarrow> string \<Rightarrow> ('x, unit) io" where
  "mustAddGatewayPortMap E bridgeName ipProto gatewayIP hostIP hostPort port =
     mustPortMap E ''-A'' bridgeName ipProto gatewayIP hostIP hostPort port"

definition mustDeleteGatewayPortMap ::
  "env \<Rightarrow> string \<Rightarrow> string \<Rightarrow> string \<Rightarrow> string \<Rightarrow> string \<Rightarrow> string \<Rightarrow> ('x, unit) io" where
  "mustDeleteGatewayPortMap E bridgeName ipProto gatewayIP hostIP hostPort port =
     mustPortMap E ''-D'' bridgeName ipProto gatewayIP hostIP hostPort port"

section \<open>Frame\<close>

lemma io_rawM [io_intros]: "talks (rawM E args)"
  unfolding rawM_def by (intro io_intros pure_intros)

lemma io_mustIptablesRaw [io_intros]: "talks (mustIptablesRaw E args)"
  unfolding mustIptablesRaw_def by (intro io_intros pure_intros)

lemma io_natOut [io_intros]: "talks (natOut E cidr op)"
  unfolding natOut_def by (intro io_intros pure_intros)

lemma io_mustPortMap [io_intros]: "talks (mustPortMap E op b pr g h hp p)"
  unfolding mustPortMap_def by (intro io_intros pure_intros)

lemma io_mustAddGatewayPortMap [io_intros]: "talks (mustAddGatewayPortMap E b pr g h hp p)"
  unfolding mustAddGatewayPortMap_def by (intro io_intros pure_intros)

lemma io_mustDeleteGatewayPortMap [io_intros]: "talks (mustDeleteGatewayPortMap E b pr g h hp p)"
  unfolding mustDeleteGatewayPortMap_def by (intro io_intros pure_intros)

section \<open>The meaning of the commands\<close>

text \<open>
  A rule is a command without its operation.  \<^verbatim>\<open>-A\<close> and \<^verbatim>\<open>-I\<close> add a rule, \<^verbatim>\<open>-D\<close> removes one
  copy of it; the policy command changes no rule.  The operation comes first or after the
  table.
\<close>

definition split_op :: "string list \<Rightarrow> string \<times> string list" where
  "split_op args = (case args of
     t # n # op # rest \<Rightarrow> if t = ''-t'' then (op, t # n # rest) else (t, n # op # rest)
   | _ \<Rightarrow> ([], args))"

definition rule_effect :: "event \<Rightarrow> string list multiset \<Rightarrow> string list multiset" where
  "rule_effect e M = (case e of
     IptablesRaw args \<Rightarrow> (let (op, rule) = split_op args in
       if op = ''-A'' \<or> op = ''-I'' then add_mset rule M
       else if op = ''-D'' then M - {#rule#} else M)
   | _ \<Rightarrow> M)"

definition rule_effects :: "event list \<Rightarrow> string list multiset \<Rightarrow> string list multiset" where
  "rule_effects = fold rule_effect"

lemma mustIptablesRaw_Ret:
  "mustIptablesRaw E args w = (Ret out, w') \<Longrightarrow> w' = w\<lparr>trace := trace w @ [IptablesRaw args]\<rparr>"
  by (auto simp: mustIptablesRaw_def rawM_def bindM_def thenM_def mustM_def
      split: prod.splits option.splits)

definition portMapRules ::
  "string \<Rightarrow> string \<Rightarrow> string \<Rightarrow> string \<Rightarrow> string \<Rightarrow> string \<Rightarrow> string list list" where
  "portMapRules bridgeName ipProto gatewayIP hostIP hostPort port =
     [[''-t'', ''nat'', ''DOCKER'', ''-p'', ipProto, ''-d'', gatewayIP, ''--dport'', hostPort,
       ''-j'', ''DNAT'', ''--to-destination'', hostIP @ '':'' @ port],
      [''-t'', ''nat'', ''OUTPUT'', ''-p'', ipProto, ''-d'', gatewayIP, ''--dport'', hostPort,
       ''-j'', ''DNAT'', ''--to-destination'', hostIP @ '':'' @ port],
      [''-t'', ''nat'', ''POSTROUTING'', ''-p'', ipProto, ''-s'', hostIP, ''-d'', hostIP,
       ''--dport'', port, ''-j'', ''MASQUERADE''],
      [''-t'', ''filter'', ''DOCKER'', ''!'', ''-i'', bridgeName, ''-o'', bridgeName, ''-p'', ''tcp'',
       ''-d'', hostIP, ''--dport'', port, ''-j'', ''ACCEPT'']]"

definition with_op :: "string \<Rightarrow> string list \<Rightarrow> event" where
  "with_op op rule = IptablesRaw (take 2 rule @ op # drop 2 rule)"

lemma mustPortMap_Ret:
  assumes "mustPortMap E op b pr g h hp p w = (Ret (), w')"
  shows "trace w' = trace w @ map (with_op op) (portMapRules b pr g h hp p)"
  using assms unfolding mustPortMap_def Let_def
  by (auto simp: thenM_def bindM_eq_Ret with_op_def portMapRules_def dest!: mustIptablesRaw_Ret)

lemma rule_effects_add:
  "list_all (\<lambda>r. take 1 r = [''-t''] \<and> 2 \<le> length r) rs \<Longrightarrow>
   rule_effects (map (with_op ''-A'') rs) M = M + mset rs"
  by (induction rs arbitrary: M)
    (auto simp: rule_effects_def rule_effect_def with_op_def split_op_def Suc_le_length_iff numeral_2_eq_2)

lemma rule_effects_del:
  "list_all (\<lambda>r. take 1 r = [''-t''] \<and> 2 \<le> length r) rs \<Longrightarrow>
   rule_effects (map (with_op ''-D'') rs) M = M - mset rs"
  by (induction rs arbitrary: M)
    (auto simp: rule_effects_def rule_effect_def with_op_def split_op_def Suc_le_length_iff numeral_2_eq_2)

lemma portMapRules_shape:
  "list_all (\<lambda>r. take 1 r = [''-t''] \<and> 2 \<le> length r) (portMapRules b pr g h hp p)"
  by (simp add: portMapRules_def)

lemma natOut_Ret:
  "natOut E cidr op w = (Ret None, w') \<Longrightarrow>
   trace w' = trace w @ [IptablesRaw [op, ''POSTROUTING'', ''-t'', ''nat'', ''-s'', cidr, ''-j'', ''MASQUERADE''],
     IptablesRaw [''-P'', ''FORWARD'', ''ACCEPT'']]"
  by (auto simp: natOut_def Let_def rawM_def bindM_def split: prod.splits option.splits if_splits)

section \<open>Properties\<close>

text \<open>
  The port maps of a container are taken back completely: on any table of rules, a
  successful addition adds one set of four rules, and a successful deletion with the same
  arguments removes exactly that set, whatever happened to other rules in between.
\<close>

theorem portmap_delete_undoes_add:
  assumes "mustAddGatewayPortMap E bridgeName ipProto gatewayIP hostIP hostPort port w = (Ret (), w1)"
    and "mustDeleteGatewayPortMap E bridgeName ipProto gatewayIP hostIP hostPort port w2 = (Ret (), w3)"
  shows "\<exists>adds dels rules. trace w1 = trace w @ adds \<and> trace w3 = trace w2 @ dels \<and> size rules = 4 \<and>
    (\<forall>M. rule_effects adds M = M + rules) \<and> (\<forall>M. rule_effects dels M = M - rules)"
  using mustPortMap_Ret [OF assms(1) [unfolded mustAddGatewayPortMap_def]]
    mustPortMap_Ret [OF assms(2) [unfolded mustDeleteGatewayPortMap_def]]
    rule_effects_add [OF portMapRules_shape] rule_effects_del [OF portMapRules_shape]
  by (intro exI [of _ "map (with_op ''-A'') (portMapRules bridgeName ipProto gatewayIP hostIP hostPort port)"]
      exI [of _ "map (with_op ''-D'') (portMapRules bridgeName ipProto gatewayIP hostIP hostPort port)"]
      exI [of _ "mset (portMapRules bridgeName ipProto gatewayIP hostIP hostPort port)"])
    (simp add: portMapRules_def)

definition portmap_run :: "string \<Rightarrow> event list" where
  "portmap_run op = map (with_op op) (portMapRules ''br'' ''udp'' ''10.0.0.1'' ''10.0.0.2'' ''80'' ''8080'')"

theorem portmap_delete_undoes_add_witness:
  "mustAddGatewayPortMap calm_env ''br'' ''udp'' ''10.0.0.1'' ''10.0.0.2'' ''80'' ''8080'' calm_world =
     (Ret (), calm_world\<lparr>trace := portmap_run ''-A''\<rparr>) \<and>
   (\<exists>rules. size rules = 4 \<and> (\<forall>M. rule_effects (portmap_run ''-A'') M = M + rules) \<and>
      (\<forall>M. rule_effects (portmap_run ''-D'') M = M - rules))"
proof -
  have a: "mustAddGatewayPortMap calm_env ''br'' ''udp'' ''10.0.0.1'' ''10.0.0.2'' ''80'' ''8080'' calm_world =
     (Ret (), calm_world\<lparr>trace := portmap_run ''-A''\<rparr>)" by code_simp
  have d: "mustDeleteGatewayPortMap calm_env ''br'' ''udp'' ''10.0.0.1'' ''10.0.0.2'' ''80'' ''8080'' calm_world =
     (Ret (), calm_world\<lparr>trace := portmap_run ''-D''\<rparr>)" by code_simp
  show ?thesis using a portmap_delete_undoes_add [OF a d] by (auto simp: calm_world_def)
qed

text \<open>
  C25. Deleting a NAT network's masquerading rule takes back what creating it inserted: the
  two calls of \<open>natOut\<close>, with \<^verbatim>\<open>-I\<close> and with \<^verbatim>\<open>-D\<close>, add and remove the same single rule.
\<close>

theorem natOut_delete_undoes_insert:
  assumes "natOut E cidr ''-I'' w = (Ret None, w1)" and "natOut E cidr ''-D'' w2 = (Ret None, w3)"
  shows "\<exists>ins dels rule. trace w1 = trace w @ ins \<and> trace w3 = trace w2 @ dels \<and>
    (\<forall>M. rule_effects ins M = add_mset rule M) \<and> (\<forall>M. rule_effects dels M = M - {#rule#})"
  using natOut_Ret [OF assms(1)] natOut_Ret [OF assms(2)]
  by (intro exI [of _ "[''POSTROUTING'', ''-t'', ''nat'', ''-s'', cidr, ''-j'', ''MASQUERADE'']"] exI)
    (auto simp: rule_effects_def rule_effect_def split_op_def)

definition nat_run :: "string \<Rightarrow> event list" where
  "nat_run op = [IptablesRaw [op, ''POSTROUTING'', ''-t'', ''nat'', ''-s'', ''10.0.0.1/24'', ''-j'', ''MASQUERADE''],
     IptablesRaw [''-P'', ''FORWARD'', ''ACCEPT'']]"

theorem natOut_delete_undoes_insert_witness:
  "natOut calm_env ''10.0.0.1/24'' ''-I'' calm_world = (Ret None, calm_world\<lparr>trace := nat_run ''-I''\<rparr>) \<and>
   (\<exists>rule. (\<forall>M. rule_effects (nat_run ''-I'') M = add_mset rule M) \<and>
      (\<forall>M. rule_effects (nat_run ''-D'') M = M - {#rule#}))"
proof -
  have i: "natOut calm_env ''10.0.0.1/24'' ''-I'' calm_world = (Ret None, calm_world\<lparr>trace := nat_run ''-I''\<rparr>)"
    by code_simp
  have d: "natOut calm_env ''10.0.0.1/24'' ''-D'' calm_world = (Ret None, calm_world\<lparr>trace := nat_run ''-D''\<rparr>)"
    by code_simp
  show ?thesis using i natOut_delete_undoes_insert [OF i d] by (auto simp: calm_world_def)
qed

end
