(* ===== verification/Ovs_Docker.thy ===== *)
theory Ovs_Docker
  imports Link_Utils
begin

text \<open>
  \<^verbatim>\<open>ovs/ovs_docker.go\<close>: the questions the driver asks the Docker daemon.  The daemon answers
  through the environment; the retry loops and the selection of containers are the
  driver's.
\<close>

definition DriverName :: string where "DriverName = ''dovesnap''"
definition dockerRetries :: nat where "dockerRetries = 5"

definition mustGetDockerClient :: "env \<Rightarrow> ('x, unit) io" where
  "mustGetDockerClient E =
     bindM (callM NewEnvClient (dkNewEnvClient E)) (\<lambda>err.
     case err of
       Some e \<Rightarrow> panicM (Wrap ''could not connect to docker: '' e)
     | None \<Rightarrow> retM ())"

definition mustGetShortEngineID :: "env \<Rightarrow> ('x, string) io" where
  "mustGetShortEngineID E =
     bindM (callM DockerInfo (dkInfo E)) (\<lambda>r.
     bindM (mustSum r) (\<lambda>info_ID.
     bindM (liftO (indexO (Split info_ID (CHR '':'')) 0)) (\<lambda>engineId.
     retM (base36to16 (bcConvert E) engineId))))"

primrec networkInspect_loop :: "env \<Rightarrow> string \<Rightarrow> nat \<Rightarrow> ('x, NetInspect) io" where
  "networkInspect_loop E NetworkID 0 = panicM (Errorf (''network '' @ NetworkID @ '' not found''))"
| "networkInspect_loop E NetworkID (Suc n) =
     bindM (callM (NetworkInspect NetworkID) (\<lambda>h. dkNetworkInspect E h NetworkID)) (\<lambda>r.
     case r of
       Inr netInspect \<Rightarrow> retM netInspect
     | Inl _ \<Rightarrow> thenM (sleepM 1) (networkInspect_loop E NetworkID n))"

definition mustGetNetworkInspectFromID :: "env \<Rightarrow> string \<Rightarrow> ('x, NetInspect) io" where
  "mustGetNetworkInspectFromID E NetworkID = networkInspect_loop E NetworkID dockerRetries"

definition mustGetNetworkNameFromID :: "env \<Rightarrow> string \<Rightarrow> ('x, string) io" where
  "mustGetNetworkNameFromID E NetworkID =
     bindM (mustGetNetworkInspectFromID E NetworkID) (\<lambda>netInspect. retM (net_Name netInspect))"

definition mustGetNetworkList :: "env \<Rightarrow> ('x, (string, string) gomap) io" where
  "mustGetNetworkList E =
     bindM (callM NetworkList (dkNetworkList E)) (\<lambda>r.
     case r of
       Inl e \<Rightarrow> panicM (Wrap ''could not get docker networks: '' e)
     | Inr networkList \<Rightarrow>
         retM (fold (\<lambda>net netlist. if sum_Driver net = DriverName
                then map_put (sum_ID net) (sum_Name net) netlist else netlist) networkList []))"

text \<open>
  The inner loop over the containers of the network: the first one with the endpoint that
  can be inspected; a failed inspection moves on to the next container.
\<close>

primrec findContainer_loop ::
  "env \<Rightarrow> NetInspect \<Rightarrow> string \<Rightarrow> string list \<Rightarrow> ('x, ContainerInspect option) io" where
  "findContainer_loop E netInspect EndpointID [] = retM None"
| "findContainer_loop E netInspect EndpointID (containerID # ids) =
     (if map_get (net_Containers netInspect) containerID = Some EndpointID
      then bindM (callM (ContainerInspectCall containerID) (\<lambda>h. dkContainerInspect E h containerID)) (\<lambda>r.
           case r of
             Inr containerInspect \<Rightarrow> retM (Some containerInspect)
           | Inl _ \<Rightarrow> findContainer_loop E netInspect EndpointID ids)
      else findContainer_loop E netInspect EndpointID ids)"

primrec getContainer_loop :: "env \<Rightarrow> string \<Rightarrow> string \<Rightarrow> nat \<Rightarrow> ('x, error + ContainerInspect) io" where
  "getContainer_loop E NetworkID EndpointID 0 =
     retM (Inl (Errorf (''endpoint '' @ EndpointID @ '' not found'')))"
| "getContainer_loop E NetworkID EndpointID (Suc n) =
     bindM (mustGetNetworkInspectFromID E NetworkID) (\<lambda>netInspect.
     bindM (rangeStrM E (net_Containers netInspect)) (\<lambda>ids.
     bindM (findContainer_loop E netInspect EndpointID ids) (\<lambda>r.
     case r of
       Some containerInspect \<Rightarrow> retM (Inr containerInspect)
     | None \<Rightarrow> thenM (sleepM 2) (getContainer_loop E NetworkID EndpointID n))))"

definition getContainerFromEndpoint ::
  "env \<Rightarrow> string \<Rightarrow> string \<Rightarrow> ('x, error + ContainerInspect) io" where
  "getContainerFromEndpoint E NetworkID EndpointID =
     getContainer_loop E NetworkID EndpointID dockerRetries"

section \<open>Frame\<close>

lemma io_mustGetDockerClient [io_intros]: "talks (mustGetDockerClient E)"
  unfolding mustGetDockerClient_def by (intro io_intros pure_intros)

lemma io_mustGetShortEngineID [io_intros]: "talks (mustGetShortEngineID E)"
  unfolding mustGetShortEngineID_def by (intro io_intros pure_intros)

lemma io_networkInspect_loop [io_intros]: "talks (networkInspect_loop E i n)"
  by (induction n) (auto intro!: io_intros pure_intros)

lemma io_mustGetNetworkInspectFromID [io_intros]: "talks (mustGetNetworkInspectFromID E i)"
  unfolding mustGetNetworkInspectFromID_def by (intro io_intros pure_intros)

lemma io_mustGetNetworkNameFromID [io_intros]: "talks (mustGetNetworkNameFromID E i)"
  unfolding mustGetNetworkNameFromID_def by (intro io_intros pure_intros)

lemma io_mustGetNetworkList [io_intros]: "talks (mustGetNetworkList E)"
  unfolding mustGetNetworkList_def by (intro io_intros pure_intros)

lemma io_findContainer_loop [io_intros]: "talks (findContainer_loop E ni ep ids)"
  by (induction ids) (auto intro!: io_intros pure_intros)

lemma io_getContainer_loop [io_intros]: "talks (getContainer_loop E i ep n)"
  by (induction n) (auto intro!: io_intros pure_intros)

lemma io_getContainerFromEndpoint [io_intros]: "talks (getContainerFromEndpoint E i ep)"
  unfolding getContainerFromEndpoint_def by (intro io_intros pure_intros)

section \<open>Correctness\<close>

text \<open>A network the daemon reports is found at the first attempt.\<close>

lemma mustGetNetworkInspectFromID_first:
  assumes "dkNetworkInspect E (trace w) i = Inr ni"
  shows "mustGetNetworkInspectFromID E i w = (Ret ni, w\<lparr>trace := trace w @ [NetworkInspect i]\<rparr>)"
  using assms
  by (simp add: mustGetNetworkInspectFromID_def dockerRetries_def eval_nat_numeral bindM_def)

text \<open>The state and the number of attempts after \<open>k\<close> failures.\<close>

definition inspect_history :: "string \<Rightarrow> history \<Rightarrow> nat \<Rightarrow> history" where
  "inspect_history NetworkID h k = h @ concat (replicate k [NetworkInspect NetworkID, Sleep 1])"

lemma inspect_history_Suc:
  "inspect_history i (inspect_history i h (Suc 0)) k = inspect_history i h (Suc k)"
  by (simp add: inspect_history_def)

lemma networkInspect_loop_fails:
  "(\<And>j. j < n \<Longrightarrow> \<exists>e. dkNetworkInspect E (inspect_history i (trace w) j) i = Inl e) \<Longrightarrow>
   networkInspect_loop E i n w =
     (Panic (Errorf (''network '' @ i @ '' not found'')), w\<lparr>trace := inspect_history i (trace w) n\<rparr>)"
proof (induction n arbitrary: w)
  case 0
  then show ?case by (simp add: inspect_history_def)
next
  case (Suc n)
  obtain e where e: "dkNetworkInspect E (trace w) i = Inl e"
    using Suc.prems [of 0] by (auto simp: inspect_history_def)
  let ?w = "w\<lparr>trace := inspect_history i (trace w) (Suc 0)\<rparr>"
  have "networkInspect_loop E i n ?w =
      (Panic (Errorf (''network '' @ i @ '' not found'')), ?w\<lparr>trace := inspect_history i (trace ?w) n\<rparr>)"
    by (rule Suc.IH) (use Suc.prems [of "Suc j" for j] in \<open>simp add: inspect_history_Suc\<close>)
  with e show ?case
    by (simp add: bindM_def thenM_def sleepM_def inspect_history_def)
qed

lemma networkInspect_loop_Ret:
  "networkInspect_loop E i n w = (Ret ni, w') \<Longrightarrow> \<exists>h. dkNetworkInspect E h i = Inr ni"
proof (induction n arbitrary: w)
  case (Suc n)
  then show ?case
    by (cases "dkNetworkInspect E (trace w) i") (auto simp: bindM_def thenM_def sleepM_def)
qed simp

lemma findContainer_loop_Ret:
  "findContainer_loop E ni ep ids w = (Ret (Some ci), w') \<Longrightarrow>
   \<exists>cid h. cid \<in> set ids \<and> map_get (net_Containers ni) cid = Some ep \<and> dkContainerInspect E h cid = Inr ci"
proof (induction ids arbitrary: w)
  case (Cons cid ids)
  show ?case
  proof (cases "map_get (net_Containers ni) cid = Some ep")
    case True
    with Cons show ?thesis
      by (cases "dkContainerInspect E (trace w) cid") (fastforce simp: bindM_def)+
  next
    case False
    with Cons.prems have "findContainer_loop E ni ep ids w = (Ret (Some ci), w')" by simp
    from Cons.IH [OF this] show ?thesis by (meson list.set_intros(2))
  qed
qed simp

lemma getContainer_loop_Ret:
  "getContainer_loop E i ep n w = (Ret (Inr ci), w') \<Longrightarrow>
   \<exists>ni cid h h'. dkNetworkInspect E h i = Inr ni \<and> map_get (net_Containers ni) cid = Some ep \<and>
     dkContainerInspect E h' cid = Inr ci"
proof (induction n arbitrary: w)
  case (Suc n)
  then obtain ni w1 r w2 where
      ni: "mustGetNetworkInspectFromID E i w = (Ret ni, w1)"
    and r: "findContainer_loop E ni ep (rangeStr E (trace w1) (map_keys (net_Containers ni))) w1 = (Ret r, w2)"
    and rest: "(case r of Some containerInspect \<Rightarrow> retM (Inr containerInspect)
      | None \<Rightarrow> thenM (sleepM 2) (getContainer_loop E i ep n)) w2 = (Ret (Inr ci), w')"
    by (auto simp: bindM_eq_Ret rangeStrM_def)
  show ?case
  proof (cases r)
    case None
    with rest Suc.IH show ?thesis by (auto simp: thenM_def bindM_def sleepM_def)
  next
    case (Some c)
    with rest r findContainer_loop_Ret have "\<exists>cid h. map_get (net_Containers ni) cid = Some ep \<and>
        dkContainerInspect E h cid = Inr ci" by (metis Inr_inject outcome.inject prod.inject option.simps(5) retM_run)
    moreover have "\<exists>h. dkNetworkInspect E h i = Inr ni"
      using ni networkInspect_loop_Ret by (metis mustGetNetworkInspectFromID_def)
    ultimately show ?thesis by blast
  qed
qed simp

section \<open>Properties\<close>

text \<open>
  Asking for a network gives up only after five failed attempts, one second apart: the
  call then panics with \<^verbatim>\<open>network ... not found\<close> and has run exactly those attempts.
\<close>

theorem network_inspect_gives_up:
  assumes "\<And>k. k < 5 \<Longrightarrow>
    \<exists>e. dkNetworkInspect E (trace w @ concat (replicate k [NetworkInspect NetworkID, Sleep 1])) NetworkID = Inl e"
  shows "mustGetNetworkInspectFromID E NetworkID w =
    (Panic (Errorf (''network '' @ NetworkID @ '' not found'')),
     w\<lparr>trace := trace w @ concat (replicate 5 [NetworkInspect NetworkID, Sleep 1])\<rparr>)"
  using networkInspect_loop_fails [of dockerRetries E NetworkID w] assms
  by (simp add: mustGetNetworkInspectFromID_def inspect_history_def dockerRetries_def)

theorem network_inspect_gives_up_witness:
  "fst (mustGetNetworkInspectFromID calm_env ''net1'' calm_world) =
     Panic (Errorf ''network net1 not found'')"
  using network_inspect_gives_up [of calm_env calm_world "''net1''"] by (simp add: calm_env_def)

text \<open>
  C35. A container found for an endpoint is one that Docker reported: some inspection of the
  network listed a container with that endpoint, and the result is Docker's description of
  that container.
\<close>

theorem container_from_endpoint_sound:
  assumes "getContainerFromEndpoint E NetworkID EndpointID w = (Ret (Inr ci), w')"
  shows "\<exists>ni cid h h'. dkNetworkInspect E h NetworkID = Inr ni \<and>
    map_get (net_Containers ni) cid = Some EndpointID \<and> dkContainerInspect E h' cid = Inr ci"
  using getContainer_loop_Ret assms by (metis getContainerFromEndpoint_def)

definition one_container :: ContainerInspect where
  "one_container = \<lparr>ci_ID = ''c1c1c1'', ci_Name = ''/web'', ci_Pid = 42,
     ci_Networks = [(''net'', \<lparr>es_MacAddress = ''02:00:00:00:00:01'', es_IPAddress = ''10.0.0.2'', es_Gateway = ''10.0.0.1''\<rparr>)],
     ci_Labels = []\<rparr>"

definition one_network :: NetInspect where
  "one_network = \<lparr>net_Name = ''net'', net_ID = ''n1n1n1'', net_Options = Some [(''ovs.bridge.dpid'', ''0x1'')],
     net_IPAM_Config = [], net_Containers = [(''c0'', ''ep0''), (''c1c1c1'', ''ep1'')]\<rparr>"

definition docker_env :: env where
  "docker_env = calm_env\<lparr>dkNetworkInspect := (\<lambda>h i. Inr one_network),
     dkContainerInspect := (\<lambda>h i. Inr one_container)\<rparr>"

theorem container_from_endpoint_sound_witness:
  "fst (getContainerFromEndpoint docker_env ''n1n1n1'' ''ep1'' calm_world) = Ret (Inr one_container) \<and>
   (\<exists>ni cid h h'. dkNetworkInspect docker_env h ''n1n1n1'' = Inr ni \<and>
    map_get (net_Containers ni) cid = Some ''ep1'' \<and> dkContainerInspect docker_env h' cid = Inr one_container)"
proof -
  have "getContainerFromEndpoint docker_env ''n1n1n1'' ''ep1'' calm_world =
     (Ret (Inr one_container), calm_world\<lparr>trace := [NetworkInspect ''n1n1n1'', ContainerInspectCall ''c1c1c1'']\<rparr>)"
    by code_simp
  with container_from_endpoint_sound [OF this] show ?thesis by simp
qed

end
