(* ===== verification/Ovs_Faucetconfrpc.thy ===== *)
theory Ovs_Faucetconfrpc
  imports Link_Utils
begin

text \<open>
  \<^verbatim>\<open>ovs/ovs_faucetconfrpc.go\<close>: the requests to the faucetconfrpc server and the texts of the
  configurations it is given.
\<close>

section \<open>Connecting\<close>

text \<open>
  \<open>timeout\<close> is a \<open>time.Duration\<close>, a signed 64-bit number, first counted in seconds and
  multiplied to nanoseconds where it is used.
\<close>

definition seconds :: "64 word \<Rightarrow> int" where
  "seconds timeout = sint (timeout * 1000000000)"

primrec grpcDial_loop :: "env \<Rightarrow> string \<Rightarrow> 64 word \<Rightarrow> nat \<Rightarrow> ('x, unit) io" where
  "grpcDial_loop E addr timeout 0 = panicM (Errorf ''cannot connect to RPC server'')"
| "grpcDial_loop E addr timeout (Suc n) =
     (let timeout = (timeout + 1) * 2 in
      bindM (callM (GrpcDial addr (seconds timeout)) (\<lambda>h. grpcDial E h addr (seconds timeout))) (\<lambda>err.
      case err of
        None \<Rightarrow> retM ()
      | Some _ \<Rightarrow>
          thenM (callM (SleepFor (seconds timeout)) (\<lambda>_. ()))
          (grpcDial_loop E addr timeout n)))"

text \<open>
  The panic for certificates that cannot be added raises the boolean the call returned,
  \<open>false\<close>.
\<close>

definition mustGetGRPCClient ::
  "env \<Rightarrow> string \<Rightarrow> string \<Rightarrow> int \<Rightarrow> string \<Rightarrow> int \<Rightarrow> ('x, unit) io" where
  "mustGetGRPCClient E flagFaucetconfrpcClientName flagFaucetconfrpcServerName flagFaucetconfrpcServerPort
       flagFaucetconfrpcKeydir flagFaucetconfrpcConnRetries =
     (let crt_file = flagFaucetconfrpcKeydir @ ''/'' @ flagFaucetconfrpcClientName @ ''.crt'';
          key_file = flagFaucetconfrpcKeydir @ ''/'' @ flagFaucetconfrpcClientName @ ''.key'';
          ca_file = flagFaucetconfrpcKeydir @ ''/'' @ flagFaucetconfrpcServerName @ ''-ca.crt'' in
      bindM (callM (LoadX509KeyPair crt_file key_file) (\<lambda>h. tlsLoadX509KeyPair E h crt_file key_file)) (\<lambda>err.
      thenM (mustM err)
      (bindM (callM (ReadFile ca_file) (\<lambda>h. osReadFile E h ca_file)) (\<lambda>r.
       bindM (mustSum r) (\<lambda>ca.
       if \<not> appendCertsFromPEM E ca then panicM (Errorf ''false'')
       else
         (let addr = flagFaucetconfrpcServerName @ '':'' @ dec flagFaucetconfrpcServerPort in
          grpcDial_loop E addr 1 (nat flagFaucetconfrpcConnRetries)))))))"

section \<open>Requests\<close>

text \<open>
  An error that carries a gRPC status means the transport works and the server has no
  configuration yet; any other error panics.
\<close>

definition getDpNames :: "env \<Rightarrow> ('x, (string, bool) gomap) io" where
  "getDpNames E =
     bindM (callM GetDpNames (rpcDpNames E)) (\<lambda>r.
     case r of
       Inr names \<Rightarrow> retM (fold (\<lambda>dpName dpNames. map_put dpName True dpNames) names [])
     | Inl f \<Rightarrow> (case f of GrpcError \<Rightarrow> retM [] | TransportError e \<Rightarrow> panicM e))"

definition mustRpc :: "env \<Rightarrow> rpc_request \<Rightarrow> ('x, unit) io" where
  "mustRpc E req = bindM (callM (Rpc req) (\<lambda>h. rpcCall E h req)) mustM"

definition mustSetFaucetConfigFile :: "env \<Rightarrow> string \<Rightarrow> ('x, unit) io" where
  "mustSetFaucetConfigFile E config_yaml = mustRpc E (SetConfigFileRequest config_yaml True)"

definition mustSetPortAcl :: "env \<Rightarrow> string \<Rightarrow> OFPortType \<Rightarrow> string \<Rightarrow> ('x, unit) io" where
  "mustSetPortAcl E dpName portNo acls = mustRpc E (SetPortAclRequest dpName portNo acls)"

definition mustSetVlanOutAcl :: "env \<Rightarrow> string \<Rightarrow> string \<Rightarrow> ('x, unit) io" where
  "mustSetVlanOutAcl E vlan_name acl_out = mustRpc E (SetVlanOutAclRequest vlan_name acl_out)"

definition mustDeleteDpInterface :: "env \<Rightarrow> string \<Rightarrow> OFPortType \<Rightarrow> ('x, unit) io" where
  "mustDeleteDpInterface E dpName ofport = mustRpc E (DelDpInterfacesRequest [(dpName, [ofport])] True)"

definition mustDeleteDp :: "env \<Rightarrow> string \<Rightarrow> ('x, unit) io" where
  "mustDeleteDp E dpName = mustRpc E (DelDpsRequest [dpName])"

definition mustAddPortMirror :: "env \<Rightarrow> string \<Rightarrow> OFPortType \<Rightarrow> OFPortType \<Rightarrow> ('x, unit) io" where
  "mustAddPortMirror E dpName ofport mirrorofport = mustRpc E (AddPortMirrorRequest dpName ofport mirrorofport)"

definition mustSetRemoteMirrorPort ::
  "env \<Rightarrow> string \<Rightarrow> OFPortType \<Rightarrow> OFVidType \<Rightarrow> string \<Rightarrow> OFPortType \<Rightarrow> ('x, unit) io" where
  "mustSetRemoteMirrorPort E dpName ofport vid remoteDpName remoteofport =
     mustRpc E (SetRemoteMirrorPortRequest dpName ofport vid remoteDpName remoteofport)"

section \<open>Configuration texts\<close>

definition coproInterfaceYaml :: "OFPortType \<Rightarrow> string \<Rightarrow> string \<Rightarrow> string" where
  "coproInterfaceYaml ofport description strategy =
     dec (uint ofport) @ '': {description: '' @ description @ '', coprocessor: {strategy: '' @ strategy @ ''}},''"

definition vlanInterfaceYaml :: "OFPortType \<Rightarrow> string \<Rightarrow> uint \<Rightarrow> string \<Rightarrow> string" where
  "vlanInterfaceYaml ofport description vlan acls_in =
     dec (uint ofport) @ '': {description: '' @ description @ '', native_vlan: '' @ dec (uint vlan) @
     '', acls_in: ['' @ acls_in @ '']},''"

definition localVlanInterfaceYaml :: "OFPortType \<Rightarrow> string \<Rightarrow> uint \<Rightarrow> string \<Rightarrow> string" where
  "localVlanInterfaceYaml ofport description vlan acls_in =
     dec (uint ofport) @ '': {opstatus_reconf: False, description: '' @ description @ '', native_vlan: '' @
     dec (uint vlan) @ '', acls_in: ['' @ acls_in @ '']},''"

definition stackInterfaceYaml :: "OFPortType \<Rightarrow> string \<Rightarrow> OFPortType \<Rightarrow> string" where
  "stackInterfaceYaml ofport remoteDpName remoteOfport =
     dec (uint ofport) @ '': {description: stack link to '' @ remoteDpName @ '', stack: {dp: '' @ remoteDpName @
     '', port: '' @ dec (uint remoteOfport) @ ''}},''"

definition mergeDpInterfacesMinimalYaml :: "string \<Rightarrow> string \<Rightarrow> string" where
  "mergeDpInterfacesMinimalYaml dpName addInterfaces =
     dpName @ '': {interfaces: {'' @ addInterfaces @ ''}},''"

definition mergeDpInterfacesYaml :: "string \<Rightarrow> 64 word \<Rightarrow> string \<Rightarrow> string \<Rightarrow> bool \<Rightarrow> string" where
  "mergeDpInterfacesYaml dpName uintDpid description addInterfaces egressPipeline =
     (let egressPipelineStr = (if egressPipeline then ''true'' else ''false'') in
      dpName @ '': {dp_id: '' @ dec (uint uintDpid) @ '', description: '' @ description @ '', hardware: '' @
      ''Open vSwitch'' @ '', egress_pipeline: '' @ egressPipelineStr @ '', interfaces: {'' @ addInterfaces @ ''}},'')"

definition mergeSingleDpMinimalYaml :: "string \<Rightarrow> string \<Rightarrow> string" where
  "mergeSingleDpMinimalYaml dpName addInterfaces =
     ''{dps: {'' @ mergeDpInterfacesMinimalYaml dpName addInterfaces @ ''}}''"

definition mergeSingleDpYaml :: "string \<Rightarrow> 64 word \<Rightarrow> string \<Rightarrow> string \<Rightarrow> bool \<Rightarrow> string" where
  "mergeSingleDpYaml dpName uintDpid description addInterfaces egressPipeline =
     ''{dps: {'' @ mergeDpInterfacesYaml dpName uintDpid description addInterfaces egressPipeline @ ''}}''"

section \<open>Frame\<close>

lemma io_grpcDial_loop [io_intros]: "talks (grpcDial_loop E a t n)"
  by (induction n arbitrary: t) (auto simp: Let_def intro!: io_intros pure_intros)

lemma io_mustGetGRPCClient [io_intros]: "talks (mustGetGRPCClient E c s p k r)"
  unfolding mustGetGRPCClient_def by (intro io_intros pure_intros)

lemma io_getDpNames [io_intros]: "talks (getDpNames E)"
  unfolding getDpNames_def by (auto intro!: io_intros pure_intros split: rpc_failure.split)

lemma io_mustRpc [io_intros]: "talks (mustRpc E req)"
  unfolding mustRpc_def by (intro io_intros pure_intros)

lemma io_rpcs [io_intros]:
  "talks (mustSetFaucetConfigFile E y)"
  "talks (mustSetPortAcl E d p acl)"
  "talks (mustSetVlanOutAcl E v acl)"
  "talks (mustDeleteDpInterface E d p)"
  "talks (mustDeleteDp E d)"
  "talks (mustAddPortMirror E d p q)"
  "talks (mustSetRemoteMirrorPort E d p vid r q)"
  by (simp_all add: mustSetFaucetConfigFile_def mustSetPortAcl_def mustSetVlanOutAcl_def
      mustDeleteDpInterface_def mustDeleteDp_def mustAddPortMirror_def mustSetRemoteMirrorPort_def io_mustRpc)

lemma mustRpc_run [go_run]:
  "mustRpc E req w =
   ((case rpcCall E (trace w) req of None \<Rightarrow> Ret () | Some e \<Rightarrow> Panic e), w\<lparr>trace := trace w @ [Rpc req]\<rparr>)"
  by (simp add: mustRpc_def bindM_def mustM_def split: option.split)

section \<open>Nesting of the configuration texts\<close>

text \<open>
  The brackets of a text, checked against a stack of open ones.  A text is well nested when
  reading it returns to the stack it started with.
\<close>

fun brackets :: "string \<Rightarrow> string \<Rightarrow> string option" where
  "brackets [] st = Some st"
| "brackets (c # cs) st =
     (if c = CHR ''{'' \<or> c = CHR ''['' then brackets cs (c # st)
      else if c = CHR ''}'' then (case st of b # st' \<Rightarrow> if b = CHR ''{'' then brackets cs st' else None | [] \<Rightarrow> None)
      else if c = CHR '']'' then (case st of b # st' \<Rightarrow> if b = CHR ''['' then brackets cs st' else None | [] \<Rightarrow> None)
      else brackets cs st)"

definition nested :: "string \<Rightarrow> bool" where
  "nested s \<longleftrightarrow> (\<forall>st. brackets s st = Some st)"

definition plain :: "string \<Rightarrow> bool" where
  "plain s \<longleftrightarrow> set s \<inter> set ''{}[]'' = {}"

lemma brackets_append: "brackets (s @ t) st = (case brackets s st of None \<Rightarrow> None | Some st' \<Rightarrow> brackets t st')"
  by (induction s st rule: brackets.induct) (auto split: list.split)

lemma nestedI: "(\<And>st. brackets s st = Some st) \<Longrightarrow> nested s"
  by (simp add: nested_def)

lemma nested_Nil [simp]: "nested []"
  by (simp add: nested_def)

lemma nested_append: "nested s \<Longrightarrow> nested t \<Longrightarrow> nested (s @ t)"
  by (simp add: nested_def brackets_append)

lemma nested_plain: "plain s \<Longrightarrow> nested s"
proof (induction s)
  case (Cons c s)
  then show ?case by (auto simp: nested_def plain_def)
qed simp

lemma nested_braces: "nested s \<Longrightarrow> nested (CHR ''{'' # s @ [CHR ''}''])"
  by (simp add: nested_def brackets_append)

lemma nested_square: "nested s \<Longrightarrow> nested (CHR ''['' # s @ [CHR '']''])"
  by (simp add: nested_def brackets_append)

lemma plain_dec: "0 \<le> n \<Longrightarrow> plain (dec n)"
  by (auto simp: plain_def dest!: dec_digits [rotated] simp: is_digit_iff)

lemma nested_concat: "(\<And>s. s \<in> set ss \<Longrightarrow> nested s) \<Longrightarrow> nested (concat ss)"
  by (induction ss) (auto intro: nested_append)

lemma brackets_nested: "nested s \<Longrightarrow> brackets (s @ t) st = brackets t st"
  by (simp add: brackets_append nested_def)

lemmas nested_pieces = brackets_nested nested_plain plain_dec

lemma nested_vlanInterfaceYaml:
  "plain description \<Longrightarrow> plain acls_in \<Longrightarrow> nested (vlanInterfaceYaml p description vlan acls_in)"
  by (rule nestedI) (simp add: vlanInterfaceYaml_def nested_pieces)

lemma nested_localVlanInterfaceYaml:
  "plain description \<Longrightarrow> plain acls_in \<Longrightarrow> nested (localVlanInterfaceYaml p description vlan acls_in)"
  by (rule nestedI) (simp add: localVlanInterfaceYaml_def nested_pieces)

lemma nested_coproInterfaceYaml:
  "plain description \<Longrightarrow> plain strategy \<Longrightarrow> nested (coproInterfaceYaml p description strategy)"
  by (rule nestedI) (simp add: coproInterfaceYaml_def nested_pieces)

lemma nested_stackInterfaceYaml: "plain dp \<Longrightarrow> nested (stackInterfaceYaml p dp q)"
  by (rule nestedI) (simp add: stackInterfaceYaml_def nested_pieces)

lemma nested_mergeDpInterfacesYaml:
  "plain dpName \<Longrightarrow> plain description \<Longrightarrow> nested ifs \<Longrightarrow>
   nested (mergeDpInterfacesYaml dpName dpid description ifs egress)"
  by (rule nestedI) (simp add: mergeDpInterfacesYaml_def Let_def nested_pieces)

lemma nested_mergeDpInterfacesMinimalYaml:
  "plain dpName \<Longrightarrow> nested ifs \<Longrightarrow> nested (mergeDpInterfacesMinimalYaml dpName ifs)"
  by (rule nestedI) (simp add: mergeDpInterfacesMinimalYaml_def nested_pieces)

lemma nested_mergeSingleDpYaml:
  "plain dpName \<Longrightarrow> plain description \<Longrightarrow> nested ifs \<Longrightarrow>
   nested (mergeSingleDpYaml dpName dpid description ifs egress)"
  by (rule nestedI) (simp add: mergeSingleDpYaml_def brackets_nested nested_mergeDpInterfacesYaml)

lemma nested_mergeSingleDpMinimalYaml:
  "plain dpName \<Longrightarrow> nested ifs \<Longrightarrow> nested (mergeSingleDpMinimalYaml dpName ifs)"
  by (rule nestedI) (simp add: mergeSingleDpMinimalYaml_def brackets_nested nested_mergeDpInterfacesMinimalYaml)

section \<open>Retrying the connection\<close>

text \<open>The time limit of attempt \<open>k\<close>, in seconds, and the events of the failed attempts.\<close>

definition backoff :: "nat \<Rightarrow> int" where
  "backoff k = 3 * 2 ^ k - 2"

definition failed_dials :: "string \<Rightarrow> nat \<Rightarrow> nat \<Rightarrow> event list" where
  "failed_dials addr k n =
     concat (map (\<lambda>i. [GrpcDial addr (backoff i * 1000000000), SleepFor (backoff i * 1000000000)]) [Suc k..<Suc (k + n)])"

lemma failed_dials_0 [simp]: "failed_dials addr k 0 = []"
  by (simp add: failed_dials_def)

lemma failed_dials_Suc:
  "failed_dials addr k (Suc n) =
   GrpcDial addr (backoff (Suc k) * 1000000000) # SleepFor (backoff (Suc k) * 1000000000) #
   failed_dials addr (Suc k) n"
  by (simp add: failed_dials_def upt_conv_Cons del: upt_Suc)

lemma backoff_Suc: "(of_int (backoff k) + 1) * 2 = (of_int (backoff (Suc k)) :: 64 word)"
proof -
  have "(backoff k + 1) * 2 = backoff (Suc k)" by (simp add: backoff_def)
  then have "(of_int ((backoff k + 1) * 2) :: 64 word) = of_int (backoff (Suc k))" by simp
  then show ?thesis by simp
qed

lemma seconds_backoff:
  assumes "k \<le> 31"
  shows "seconds (of_int (backoff k)) = backoff k * 1000000000"
proof -
  have "(2::int) ^ k \<le> 2 ^ 31" using assms by (intro power_increasing) auto
  moreover have "(1::int) \<le> 2 ^ k" by simp
  ultimately have "0 \<le> backoff k * 1000000000" "backoff k * 1000000000 < 2 ^ 63"
    by (simp_all add: backoff_def del: one_le_power)
  then have "sint (of_int (backoff k * 1000000000) :: 64 word) = backoff k * 1000000000"
    by (simp only: signed_of_int) (simp add: signed_take_bit_int_eq_self_iff)
  then show ?thesis by (simp add: seconds_def)
qed

lemma grpcDial_loop_fails:
  assumes "\<And>h t. grpcDial E h addr t \<noteq> None" "k + n \<le> 31"
  shows "grpcDial_loop E addr (of_int (backoff k)) n w =
    (Panic (Errorf ''cannot connect to RPC server''), w\<lparr>trace := trace w @ failed_dials addr k n\<rparr>)"
  using assms(2)
proof (induction n arbitrary: k w)
  case (Suc n)
  then have s: "seconds (of_int (backoff (Suc k))) = backoff (Suc k) * 1000000000"
    by (intro seconds_backoff) simp
  obtain e where "grpcDial E (trace w) addr (backoff (Suc k) * 1000000000) = Some e" using assms(1) by blast
  with Suc s show ?case unfolding grpcDial_loop.simps Let_def backoff_Suc
    by (simp add: bindM_def thenM_def failed_dials_Suc)
qed simp

section \<open>Properties\<close>

text \<open>The interfaces of a configuration, and the text the driver writes for them.\<close>

datatype if_conf =
    VlanIf OFPortType string uint string
  | LocalVlanIf OFPortType string uint string
  | CoproIf OFPortType string string
  | StackIf OFPortType string OFPortType

primrec if_text :: "if_conf \<Rightarrow> string" where
  "if_text (VlanIf p d v a) = vlanInterfaceYaml p d v a"
| "if_text (LocalVlanIf p d v a) = localVlanInterfaceYaml p d v a"
| "if_text (CoproIf p d s) = coproInterfaceYaml p d s"
| "if_text (StackIf p dp q) = stackInterfaceYaml p dp q"

primrec if_plain :: "if_conf \<Rightarrow> bool" where
  "if_plain (VlanIf p d v a) = (plain d \<and> plain a)"
| "if_plain (LocalVlanIf p d v a) = (plain d \<and> plain a)"
| "if_plain (CoproIf p d s) = (plain d \<and> plain s)"
| "if_plain (StackIf p dp q) = plain dp"

lemma nested_if_text: "if_plain c \<Longrightarrow> nested (if_text c)"
  by (cases c) (simp_all add: nested_vlanInterfaceYaml nested_localVlanInterfaceYaml
      nested_coproInterfaceYaml nested_stackInterfaceYaml)



text \<open>
  C37. Connecting to the faucetconfrpc server: if the certificates load and no attempt ever
  succeeds, the driver makes exactly the configured number of attempts with time limits of
  4, 10, 22, ... (three times a power of two, less two) seconds, pauses as long after each,
  and then panics.  For up to 31 attempts the durations do not overflow.
\<close>

theorem grpc_connect_backoff:
  assumes "tlsLoadX509KeyPair E (trace w) (keydir @ ''/'' @ client @ ''.crt'') (keydir @ ''/'' @ client @ ''.key'') = None"
    and "\<And>h. osReadFile E h (keydir @ ''/'' @ server @ ''-ca.crt'') = Inr ca" "appendCertsFromPEM E ca"
    and "\<And>h a t. grpcDial E h a t \<noteq> None" and "n \<le> 31"
  shows "mustGetGRPCClient E client server port keydir (int n) w =
    (Panic (Errorf ''cannot connect to RPC server''),
     w\<lparr>trace := trace w @ [LoadX509KeyPair (keydir @ ''/'' @ client @ ''.crt'') (keydir @ ''/'' @ client @ ''.key''),
       ReadFile (keydir @ ''/'' @ server @ ''-ca.crt'')] @ failed_dials (server @ '':'' @ dec port) 0 n\<rparr>)"
  using assms(1,2,3,5)
  by (simp add: mustGetGRPCClient_def Let_def bindM_def thenM_def mustM_def mustSum_def backoff_def
      grpcDial_loop_fails [of E _ 0 n, OF assms(4), simplified backoff_def, simplified])

theorem grpc_connect_backoff_witness:
  "mustGetGRPCClient (calm_env\<lparr>grpcDial := (\<lambda>h a t. Some (External ''down''))\<rparr>) ''c'' ''s'' 59999 ''/k'' 3 calm_world =
    (Panic (Errorf ''cannot connect to RPC server''),
     calm_world\<lparr>trace := [LoadX509KeyPair ''/k/c.crt'' ''/k/c.key'', ReadFile ''/k/s-ca.crt'',
       GrpcDial ''s:59999'' 4000000000, SleepFor 4000000000, GrpcDial ''s:59999'' 10000000000, SleepFor 10000000000,
       GrpcDial ''s:59999'' 22000000000, SleepFor 22000000000]\<rparr>)"
proof -
  have d: "failed_dials (''s'' @ '':'' @ dec 59999) 0 3 =
     [GrpcDial ''s:59999'' 4000000000, SleepFor 4000000000, GrpcDial ''s:59999'' 10000000000, SleepFor 10000000000,
       GrpcDial ''s:59999'' 22000000000, SleepFor 22000000000]" by code_simp
  show ?thesis
    using grpc_connect_backoff [of "calm_env\<lparr>grpcDial := (\<lambda>h a t. Some (External ''down''))\<rparr>" calm_world "''/k''" "''c''" "''s''"
        "''10.0.0.9''" 3 59999] d
    by (simp add: calm_env_def calm_world_def)
qed

end
