(* ===== verification/Json.thy ===== *)
theory Json
  imports Go_Strings "HOL-Library.List_Lexorder"
begin

text \<open>
  What \<open>json.Marshal\<close> of Go's standard library writes for the values the driver passes to it:
  objects (with the keys of a map in byte order), strings, numbers, booleans and null.
  Strings are escaped as Go does since version 1.22: quotes, backslashes, control characters,
  the characters \<open><\<close>, \<open>>\<close> and \<open>&\<close>, the two Unicode line separators, and a replacement for bytes
  that are not UTF-8.
\<close>

datatype json =
    JNull
  | JBool bool
  | JNum int
  | JStr string
  | JObj "(string \<times> json) list"

definition byte_of :: "char \<Rightarrow> int" where "byte_of c = of_char c"

definition cont_byte :: "char \<Rightarrow> bool" where
  "cont_byte c \<longleftrightarrow> 0x80 \<le> byte_of c \<and> byte_of c \<le> 0xBF"

text \<open>The number of bytes of the UTF-8 sequence at the head of a string; 0 if it is invalid.\<close>

definition utf8_two :: "string \<Rightarrow> bool" where
  "utf8_two s = (case s of a # b # _ \<Rightarrow> 0xC2 \<le> byte_of a \<and> byte_of a \<le> 0xDF \<and> cont_byte b | _ \<Rightarrow> False)"

definition utf8_three :: "string \<Rightarrow> bool" where
  "utf8_three s = (case s of a # b # c # _ \<Rightarrow>
     0xE0 \<le> byte_of a \<and> byte_of a \<le> 0xEF \<and> cont_byte b \<and> cont_byte c \<and>
     (byte_of a = 0xE0 \<longrightarrow> 0xA0 \<le> byte_of b) \<and> (byte_of a = 0xED \<longrightarrow> byte_of b \<le> 0x9F) | _ \<Rightarrow> False)"

definition utf8_four :: "string \<Rightarrow> bool" where
  "utf8_four s = (case s of a # b # c # d # _ \<Rightarrow>
     0xF0 \<le> byte_of a \<and> byte_of a \<le> 0xF4 \<and> cont_byte b \<and> cont_byte c \<and> cont_byte d \<and>
     (byte_of a = 0xF0 \<longrightarrow> 0x90 \<le> byte_of b) \<and> (byte_of a = 0xF4 \<longrightarrow> byte_of b \<le> 0x8F) | _ \<Rightarrow> False)"

definition hexdigit :: "int \<Rightarrow> char" where
  "hexdigit d = ''0123456789abcdef'' ! nat d"

definition escape_ascii :: "char \<Rightarrow> string" where
  "escape_ascii c =
     (if c = CHR 0x5C \<or> c = CHR 0x22 then [CHR 0x5C, c]
      else if c = CHR 0x08 then [CHR 0x5C, CHR ''b'']
      else if c = CHR 0x0C then [CHR 0x5C, CHR ''f'']
      else if c = CHR 0x0A then [CHR 0x5C, CHR ''n'']
      else if c = CHR 0x0D then [CHR 0x5C, CHR ''r'']
      else if c = CHR 0x09 then [CHR 0x5C, CHR ''t'']
      else if byte_of c < 0x20 \<or> c = CHR ''<'' \<or> c = CHR ''>'' \<or> c = CHR ''&''
      then CHR 0x5C # ''u00'' @ [hexdigit (byte_of c div 16), hexdigit (byte_of c mod 16)]
      else [c])"

definition line_separator :: "string \<Rightarrow> bool" where
  "line_separator s = (take 2 s = [CHR 0xE2, CHR 0x80] \<and> (take 1 (drop 2 s) = [CHR 0xA8] \<or> take 1 (drop 2 s) = [CHR 0xA9]))"

function escape :: "string \<Rightarrow> string" where
  "escape s = (case s of
     [] \<Rightarrow> []
   | c # cs \<Rightarrow>
       if byte_of c < 0x80 then escape_ascii c @ escape cs
       else if utf8_two s then take 2 s @ escape (drop 2 s)
       else if line_separator s
         then CHR 0x5C # ''u202'' @ (if take 1 (drop 2 s) = [CHR 0xA8] then ''8'' else ''9'') @ escape (drop 3 s)
       else if utf8_three s then take 3 s @ escape (drop 3 s)
       else if utf8_four s then take 4 s @ escape (drop 4 s)
       else CHR 0x5C # ''ufffd'' @ escape cs)"
  by pat_completeness auto
termination
  by (relation "measure length") auto

declare escape.simps [simp del]

definition quote :: "string \<Rightarrow> string" where
  "quote s = CHR 0x22 # escape s @ [CHR 0x22]"

fun print_json :: "json \<Rightarrow> string" where
  "print_json JNull = ''null''"
| "print_json (JBool b) = (if b then ''true'' else ''false'')"
| "print_json (JNum n) = dec n"
| "print_json (JStr s) = quote s"
| "print_json (JObj kvs) = ''{'' @ Join (map (\<lambda>(k, v). quote k @ '':'' @ print_json v) kvs) '','' @ ''}''"

text \<open>A Go map: its keys in ascending byte order.\<close>

definition json_map :: "('v \<Rightarrow> json) \<Rightarrow> (string \<times> 'v) list \<Rightarrow> json" where
  "json_map f m = JObj (map (\<lambda>(k, v). (k, f v)) (sort_key fst m))"

end
