(* ===== verification/Go_Net.thy ===== *)
theory Go_Net
  imports Json Utils
begin

text \<open>
  The parts of Go's packages net and net/netip that the status page uses: \<^verbatim>\<open>ParseIP\<close>,
  \<^verbatim>\<open>ParseCIDR\<close>, \<^verbatim>\<open>IPNet.Contains\<close> and \<^verbatim>\<open>SplitHostPort\<close>, and the way package fmt prints a format
  string that has no arguments.  An address is a list of bytes; nil is the empty list.
\<close>

section \<open>Addresses\<close>

text \<open>
  The fields of an IPv4 address: four decimal numbers up to 255 without leading zeros.
\<close>

definition parseIPv4Field :: "string \<Rightarrow> byte option" where
  "parseIPv4Field f =
     (if f \<noteq> [] \<and> list_all is_digit f \<and> (length f = 1 \<or> hd f \<noteq> CHR ''0'') \<and> dec_val f \<le> 255
      then Some (of_int (dec_val f)) else None)"

definition parseIPv4Fields :: "string \<Rightarrow> byte list option" where
  "parseIPv4Fields s =
     (let fs = Split s (CHR ''.'') in if length fs = 4 then those (map parseIPv4Field fs) else None)"

definition is_hex :: "char \<Rightarrow> bool" where
  "is_hex c \<longleftrightarrow> is_digit c \<or> CHR ''a'' \<le> c \<and> c \<le> CHR ''f'' \<or> CHR ''A'' \<le> c \<and> c \<le> CHR ''F''"

definition hex_val :: "char \<Rightarrow> int" where
  "hex_val c = (if is_digit c then of_char c - 48
     else if CHR ''a'' \<le> c \<and> c \<le> CHR ''f'' then of_char c - 87 else of_char c - 55)"

text \<open>
  The loop over the groups of an IPv6 address: the bytes so far, the position of the ellipsis,
  and what is left of the text when it ends.
\<close>

function parseIPv6_loop :: "string \<Rightarrow> byte list \<Rightarrow> nat option \<Rightarrow> (byte list \<times> nat option \<times> string) option" where
  "parseIPv6_loop s ip ellipsis =
     (if 16 \<le> length ip then Some (ip, ellipsis, s)
      else
        let ds = takeWhile is_hex s; rest = drop (length ds) s;
            acc = foldl (\<lambda>n c. n * 16 + hex_val c) 0 ds; ip' = ip @ [of_int (acc div 256), of_int acc] in
        if ds = [] \<or> 4 < length ds then None
        else case rest of
          [] \<Rightarrow> Some (ip', ellipsis, [])
        | c # s' \<Rightarrow>
            if c = CHR ''.'' then
              (if ellipsis = None \<and> length ip \<noteq> 12 \<or> 16 < length ip + 4 then None
               else (case parseIPv4Fields s of None \<Rightarrow> None | Some b \<Rightarrow> Some (ip @ b, ellipsis, [])))
            else if c \<noteq> CHR '':'' \<or> s' = [] then None
            else if hd s' = CHR '':'' then
              (if ellipsis \<noteq> None then None
               else if tl s' = [] then Some (ip', Some (length ip'), [])
               else parseIPv6_loop (tl s') ip' (Some (length ip')))
            else parseIPv6_loop s' ip' ellipsis)"
  by pat_completeness auto
termination
proof (relation "measure (\<lambda>(s, ip, e). length s)", simp, goal_cases)
  case (1 s ip e ds rest acc ip' c s')
  have "length (c # s') \<le> length s" using 1 by (metis length_drop diff_le_self)
  then show ?case by (cases s') auto
next
  case (2 s ip e ds rest acc ip' c s')
  have "length (c # s') \<le> length s" using 2 by (metis length_drop diff_le_self)
  then show ?case by simp
qed

declare parseIPv6_loop.simps [simp del]

text \<open>The address without its zone; the zone is everything after a percent sign.\<close>

definition expandEllipsis :: "byte list \<times> nat option \<times> string \<Rightarrow> byte list option" where
  "expandEllipsis = (\<lambda>(ip, ellipsis, s).
     if s \<noteq> [] then None
     else if length ip < 16 then
       (case ellipsis of None \<Rightarrow> None
        | Some e \<Rightarrow> Some (take e ip @ replicate (16 - length ip) 0 @ drop e ip))
     else if ellipsis \<noteq> None then None else Some ip)"

definition parseIPv6Text :: "string \<Rightarrow> byte list option" where
  "parseIPv6Text s =
     (if HasPrefix s ''::'' then
        (if drop 2 s = [] then Some (replicate 16 0)
         else Option.bind (parseIPv6_loop (drop 2 s) [] (Some 0)) expandEllipsis)
      else Option.bind (parseIPv6_loop s [] None) expandEllipsis)"

datatype Addr = Addr4 "byte list" | Addr6 "byte list" string

definition parseIPv6 :: "string \<Rightarrow> Addr option" where
  "parseIPv6 inp =
     (let s = takeWhile (\<lambda>c. c \<noteq> CHR ''%'') inp; zone = drop (Suc (length s)) inp in
      if length s < length inp \<and> zone = [] then None
      else map_option (\<lambda>ip. Addr6 ip zone) (parseIPv6Text s))"

definition ParseAddr :: "string \<Rightarrow> Addr option" where
  "ParseAddr s = (case find (\<lambda>c. c \<in> {CHR ''.'', CHR '':'', CHR ''%''}) s of
     Some c \<Rightarrow>
       if c = CHR ''.'' then map_option Addr4 (parseIPv4Fields s)
       else if c = CHR '':'' then parseIPv6 s else None
   | None \<Rightarrow> None)"

definition v4InV6Prefix :: "byte list" where
  "v4InV6Prefix = [0, 0, 0, 0, 0, 0, 0, 0, 0, 0, 0xff, 0xff]"

definition ParseIP :: "string \<Rightarrow> byte list" where
  "ParseIP s = (case ParseAddr s of
     Some (Addr4 b) \<Rightarrow> v4InV6Prefix @ b
   | Some (Addr6 b zone) \<Rightarrow> if zone = [] then b else []
   | None \<Rightarrow> [])"

definition To4 :: "byte list \<Rightarrow> byte list" where
  "To4 ip = (if length ip = 4 then ip
     else if length ip = 16 \<and> take 12 ip = v4InV6Prefix then drop 12 ip else [])"

section \<open>Networks\<close>

record IPNet =
  net_IP :: "byte list"
  net_Mask :: "byte list"

primrec CIDRMask :: "nat \<Rightarrow> nat \<Rightarrow> byte list" where
  "CIDRMask n 0 = []"
| "CIDRMask n (Suc l) =
     (if 8 \<le> n then 0xff # CIDRMask (n - 8) l else NOT (drop_bit n 0xff) # CIDRMask 0 l)"

text \<open>\<open>dtoi\<close>: all of the text must be digits, and the number below \<open>0xFFFFFF\<close>.\<close>

definition dtoi :: "string \<Rightarrow> nat option" where
  "dtoi s = (if s \<noteq> [] \<and> list_all is_digit s \<and> dec_val s < 0xFFFFFF then Some (nat (dec_val s)) else None)"

definition maskIP :: "byte list \<Rightarrow> byte list \<Rightarrow> byte list" where
  "maskIP ip m = map2 (AND) ip m"

definition ParseCIDR :: "string \<Rightarrow> IPNet option" where
  "ParseCIDR s =
     (let addr = takeWhile (\<lambda>c. c \<noteq> CHR ''/'') s; mask_text = drop (Suc (length addr)) s in
      if CHR ''/'' \<notin> set s then None
      else case (ParseAddr addr, dtoi mask_text) of
        (Some (Addr4 b), Some n) \<Rightarrow>
          if n \<le> 32 then (let m = CIDRMask n 4 in Some \<lparr>net_IP = maskIP b m, net_Mask = m\<rparr>) else None
      | (Some (Addr6 b zone), Some n) \<Rightarrow>
          if zone = [] \<and> n \<le> 128 then (let m = CIDRMask n 16 in Some \<lparr>net_IP = maskIP b m, net_Mask = m\<rparr>) else None
      | _ \<Rightarrow> None)"

text \<open>The number and the mask that \<open>Contains\<close> compares; both empty when the sizes do not fit.\<close>

definition networkNumberAndMask :: "IPNet \<Rightarrow> byte list \<times> byte list" where
  "networkNumberAndMask n =
     (let ip = (if To4 (net_IP n) = [] then net_IP n else To4 (net_IP n)); m = net_Mask n in
      if length ip \<noteq> 4 \<and> length ip \<noteq> 16 then ([], [])
      else if length m = 4 then (if length ip = 4 then (ip, m) else ([], []))
      else if length m = 16 then (if length ip = 4 then (ip, drop 12 m) else (ip, m))
      else ([], []))"

definition IPNet_Contains :: "IPNet \<Rightarrow> byte list \<Rightarrow> bool" where
  "IPNet_Contains n ip =
     (let (nn, m) = networkNumberAndMask n; ip = (if To4 ip = [] then ip else To4 ip) in
      length ip = length nn \<and> maskIP nn m = maskIP ip m)"

section \<open>Host and port\<close>

definition addrError :: "string \<Rightarrow> string \<Rightarrow> error" where
  "addrError addr why = Errorf (''address '' @ addr @ '': '' @ why)"

definition SplitHostPort :: "string \<Rightarrow> error + string \<times> string" where
  "SplitHostPort hostport =
     (if CHR '':'' \<notin> set hostport then Inl (addrError hostport ''missing port in address'')
      else
        let i = length hostport - Suc (length (takeWhile (\<lambda>c. c \<noteq> CHR '':'') (rev hostport)));
            stop = length (takeWhile (\<lambda>c. c \<noteq> CHR '']'') hostport);
            port = drop (Suc i) hostport in
        if hd hostport = CHR ''['' then
          (if CHR '']'' \<notin> set hostport then Inl (addrError hostport (''missing '' @ [CHR 0x27, CHR '']'', CHR 0x27] @ '' in address''))
           else if stop + 1 = length hostport then Inl (addrError hostport ''missing port in address'')
           else if stop + 1 \<noteq> i then
             Inl (addrError hostport (if hostport ! (stop + 1) = CHR '':'' then ''too many colons in address'' else ''missing port in address''))
           else if CHR ''['' \<in> set (drop 1 hostport) then Inl (addrError hostport (''unexpected '' @ [CHR 0x27, CHR ''['', CHR 0x27] @ '' in address''))
           else if CHR '']'' \<in> set (drop (stop + 1) hostport) then Inl (addrError hostport (''unexpected '' @ [CHR 0x27, CHR '']'', CHR 0x27] @ '' in address''))
           else Inr (take (stop - 1) (drop 1 hostport), port))
        else if CHR '':'' \<in> set (take i hostport) then Inl (addrError hostport ''too many colons in address'')
        else if CHR ''['' \<in> set hostport then Inl (addrError hostport (''unexpected '' @ [CHR 0x27, CHR ''['', CHR 0x27] @ '' in address''))
        else if CHR '']'' \<in> set hostport then Inl (addrError hostport (''unexpected '' @ [CHR 0x27, CHR '']'', CHR 0x27] @ '' in address''))
        else Inr (take i hostport, port))"

section \<open>A format string without arguments\<close>

text \<open>A decimal number; one that gets too large ends the format.\<close>

fun parsenum_loop :: "int \<Rightarrow> bool \<Rightarrow> string \<Rightarrow> bool \<times> string" where
  "parsenum_loop num isnum [] = (isnum, [])"
| "parsenum_loop num isnum (c # s) =
     (if \<not> is_digit c then (isnum, c # s)
      else if 1000000 < num then (False, [])
      else parsenum_loop (num * 10 + digit_val c) True s)"

definition parsenum :: "string \<Rightarrow> bool \<times> string" where
  "parsenum s = parsenum_loop 0 False s"

text \<open>An argument index: whether the format is still good, the rest, and whether an index was read.\<close>

definition argNumber :: "string \<Rightarrow> bool \<times> string \<times> bool" where
  "argNumber s =
     (if s = [] \<or> hd s \<noteq> CHR ''['' then (True, s, False)
      else if length s < 3 \<or> CHR '']'' \<notin> set (tl s) then (False, tl s, False)
      else
        let inside = takeWhile (\<lambda>c. c \<noteq> CHR '']'') (tl s); (isnum, rest) = parsenum inside in
        (False, drop (length inside + 2) s, isnum \<and> rest = []))"

definition starts :: "char \<Rightarrow> string \<Rightarrow> bool" where
  "starts c s \<longleftrightarrow> s \<noteq> [] \<and> hd s = c"

text \<open>The verb at the head of a text, as it is printed, and the rest.\<close>

definition fmtVerb :: "string \<Rightarrow> string \<times> string" where
  "fmtVerb s =
     (if byte_of (hd s) < 0x80 then ([hd s], tl s)
      else if utf8_two s then (take 2 s, drop 2 s)
      else if utf8_three s then (take 3 s, drop 3 s)
      else if utf8_four s then (take 4 s, drop 4 s)
      else ([CHR 0xEF, CHR 0xBF, CHR 0xBD], tl s))"

text \<open>
  The stages of a directive after its flags: width, precision, and the verb.  Each stage gets and gives
  the output so far, the rest of the format, whether an index was just read, and whether the
  format is still good.
\<close>

type_synonym fmt_state = "string \<times> string \<times> bool \<times> bool"

definition fmtIndex :: "string \<Rightarrow> fmt_state" where
  "fmtIndex s = (let (good, r, after) = argNumber s in ([], r, after, good))"

definition fmtWidth :: "fmt_state \<Rightarrow> fmt_state" where
  "fmtWidth = (\<lambda>(out, s, after, good).
     if starts (CHR ''*'') s then (out @ ''%!(BADWIDTH)'', tl s, False, good)
     else (let (isnum, r) = parsenum s in (out, r, after, good \<and> \<not> (after \<and> isnum))))"

definition fmtPrecision :: "fmt_state \<Rightarrow> fmt_state" where
  "fmtPrecision = (\<lambda>(out, s, after, good).
     if starts (CHR ''.'') s then
       (let (ok, r, found) = argNumber (tl s) in
        if starts (CHR ''*'') r then (out @ ''%!(BADPREC)'', tl r, False, good \<and> \<not> after \<and> ok)
        else (out, snd (parsenum r), found, good \<and> \<not> after \<and> ok))
     else (out, s, after, good))"

definition fmtLastIndex :: "fmt_state \<Rightarrow> fmt_state" where
  "fmtLastIndex = (\<lambda>(out, s, after, good).
     if after then (out, s, after, good)
     else (let (ok, r, found) = argNumber s in (out, r, found, good \<and> ok)))"

definition fmtFinish :: "fmt_state \<Rightarrow> string \<times> string" where
  "fmtFinish = (\<lambda>(out, s, after, good).
     if s = [] then (out @ ''%!(NOVERB)'', [])
     else
       let (verb, rest) = fmtVerb s in
       (out @ (if verb = ''%'' then ''%'' else ''%!'' @ verb @ (if good then ''(MISSING)'' else ''(BADINDEX)'')), rest))"

definition fmtDirective :: "string \<Rightarrow> string \<times> string" where
  "fmtDirective s =
     fmtFinish (fmtLastIndex (fmtPrecision (fmtWidth (fmtIndex (dropWhile (\<lambda>c. c \<in> set ''#0+- '') s)))))"

lemma parsenum_loop_length: "length (snd (parsenum_loop n b s)) \<le> length s"
  by (induction n b s rule: parsenum_loop.induct) auto

lemma parsenum_length: "length (snd (parsenum s)) \<le> length s"
  by (simp add: parsenum_def parsenum_loop_length)

lemma argNumber_length: "length (fst (snd (argNumber s))) \<le> length s"
  by (auto simp: argNumber_def Let_def split: prod.split)

lemma fmtVerb_length: "length (snd (fmtVerb s)) \<le> length s"
  by (simp add: fmtVerb_def)

lemma fmt_lengths:
  "length (fst (snd (fmtIndex s))) \<le> length s"
  "length (fst (snd (fmtWidth f))) \<le> length (fst (snd f))"
  "length (fst (snd (fmtPrecision f))) \<le> length (fst (snd f))"
  "length (fst (snd (fmtLastIndex f))) \<le> length (fst (snd f))"
  "length (snd (fmtFinish f)) \<le> length (fst (snd f))"
  using argNumber_length parsenum_length fmtVerb_length
    apply (simp_all add: fmtIndex_def fmtWidth_def fmtPrecision_def fmtLastIndex_def fmtFinish_def Let_def split: prod.split)
  by (metis le_diff_conv add_leD1 dual_order.trans fst_conv snd_conv le_add1 length_tl diff_le_self)+

lemma fmtDirective_length: "length (snd (fmtDirective s)) \<le> length s"
  unfolding fmtDirective_def using fmt_lengths length_dropWhile_le dual_order.trans by meson

text \<open>\<open>fmt.Fprintf(w, format)\<close>.\<close>

function Sprintf0 :: "string \<Rightarrow> string" where
  "Sprintf0 format = (case format of
     [] \<Rightarrow> []
   | c # s \<Rightarrow> if c = CHR ''%'' then fst (fmtDirective s) @ Sprintf0 (snd (fmtDirective s)) else c # Sprintf0 s)"
  by pat_completeness auto
termination
  by (relation "measure length") (auto simp: less_Suc_eq_le fmtDirective_length)

declare Sprintf0.simps [simp del]

lemma Sprintf0_plain: "CHR ''%'' \<notin> set s \<Longrightarrow> Sprintf0 s = s"
  by (induction s) (subst Sprintf0.simps, auto)+

section \<open>Correctness\<close>

text \<open>An IPv4 address in dotted form is read back.\<close>

definition dotted :: "byte list \<Rightarrow> string" where
  "dotted b = Join (map (\<lambda>x. dec (uint x)) b) ''.''"

lemma parseIPv4Field_dec: "parseIPv4Field (dec (uint b)) = Some b" for b :: byte
proof -
  have "uint b < 2 ^ 8" using uint_lt2p [of b] by simp
  moreover have "list_all is_digit (dec (uint b))" by (auto simp: list_all_iff intro: dec_digits)
  moreover have "length (dec (uint b)) = 1 \<or> hd (dec (uint b)) \<noteq> CHR ''0''"
  proof (cases "uint b = 0")
    case True
    then show ?thesis by (simp add: dec_def dec_pos.simps)
  next
    case False
    then have "0 < uint b" by (simp add: order_neq_le_trans)
    then show ?thesis using hd_dec_pos by (simp add: dec_def)
  qed
  ultimately show ?thesis by (simp add: parseIPv4Field_def)
qed

lemma dec_no_dot: "0 \<le> n \<Longrightarrow> \<not> is_digit c \<Longrightarrow> c \<notin> set (dec n)"
  using dec_digits by blast

lemma parseIPv4_dotted:
  assumes "length b = 4"
  shows "parseIPv4Fields (dotted b) = Some b"
proof -
  have "Split (dotted b) (CHR ''.'') = map (\<lambda>x. dec (uint x)) b"
    unfolding dotted_def using assms by (intro Split_Join) (auto simp: dec_no_dot is_digit_iff)
  moreover have "those (map (\<lambda>x. parseIPv4Field (dec (uint x))) b) = Some b"
    by (induction b) (simp_all add: parseIPv4Field_dec)
  ultimately show ?thesis using assms by (simp add: parseIPv4Fields_def o_def)
qed

lemma find_dotted: "length b = 4 \<Longrightarrow> find (\<lambda>c. c \<in> {CHR ''.'', CHR '':'', CHR ''%''}) (dotted b) = Some (CHR ''.'')"
proof -
  assume "length b = 4"
  then obtain b0 b1 r where b: "b = b0 # b1 # r" by (auto simp: numeral_eq_Suc length_Suc_conv)
  then obtain tail where d: "dotted b = dec (uint b0) @ CHR ''.'' # tail" by (cases r) (auto simp: dotted_def)
  have "find (\<lambda>c. c \<in> {CHR ''.'', CHR '':'', CHR ''%''}) (dec (uint b0)) = None"
    by (auto simp: find_None_iff dest!: dec_digits [rotated] simp: is_digit_iff)
  then show ?thesis by (simp add: d find_None_append)
qed

lemma ParseAddr_dotted: "length b = 4 \<Longrightarrow> ParseAddr (dotted b) = Some (Addr4 b)"
  by (simp only: ParseAddr_def find_dotted) (simp add: parseIPv4_dotted)

lemma ParseIP_dotted: "length b = 4 \<Longrightarrow> ParseIP (dotted b) = v4InV6Prefix @ b"
  by (simp add: ParseIP_def ParseAddr_dotted)

lemma To4_v4 [simp]: "length b = 4 \<Longrightarrow> To4 b = b" "length b = 4 \<Longrightarrow> To4 (v4InV6Prefix @ b) = b"
  by (simp_all add: To4_def v4InV6Prefix_def)

text \<open>The bits of an address, most significant first; comparing under a mask compares a prefix of them.\<close>

definition byteBits :: "byte \<Rightarrow> bool list" where
  "byteBits b = map (bit b) (rev [0..<8])"

definition ipBits :: "byte list \<Rightarrow> bool list" where
  "ipBits ip = concat (map byteBits ip)"

lemma length_byteBits [simp]: "length (byteBits b) = 8"
  by (simp add: byteBits_def)

lemma byteBits_eq: "byteBits a = byteBits b \<longleftrightarrow> a = b"
proof -
  have "byteBits a = byteBits b \<longleftrightarrow> (\<forall>i<8. bit a i = bit b i)" by (auto simp: byteBits_def)
  also have "\<dots> \<longleftrightarrow> a = b" by (auto simp: bit_eq_iff dest: bit_imp_le_length)
  finally show ?thesis .
qed

lemma take_byteBits:
  assumes "n < 8"
  shows "take n (byteBits a) = take n (byteBits b) \<longleftrightarrow> a AND NOT (drop_bit n 0xff) = b AND NOT (drop_bit n 0xff)"
proof -
  have f: "bit (0xff :: byte) i \<longleftrightarrow> i < 8" for i
  proof -
    have "(0xff :: byte) = -1" by simp
    then show ?thesis by (simp only: bit_minus_1_iff) simp
  qed
  have m: "bit (NOT (drop_bit n 0xff) :: byte) i \<longleftrightarrow> i < 8 \<and> 8 \<le> i + n" for i
    by (simp only: bit_not_iff bit_drop_bit_eq possible_bit_word o_def f) auto
  have "take n (byteBits a) = take n (byteBits b) \<longleftrightarrow> (\<forall>i<n. bit a (7 - i) = bit b (7 - i))"
    using assms by (auto simp: byteBits_def list_eq_iff_nth_eq rev_nth simp del: rev_map upt_rec_numeral)
  also have "\<dots> \<longleftrightarrow> (\<forall>i<8. 8 \<le> i + n \<longrightarrow> bit a i = bit b i)"
  proof
    assume l: "\<forall>i<n. bit a (7 - i) = bit b (7 - i)"
    show "\<forall>i<8. 8 \<le> i + n \<longrightarrow> bit a i = bit b i"
    proof (intro allI impI)
      fix i assume "i < (8::nat)" "8 \<le> i + n"
      then have "7 - i < n" "7 - (7 - i) = i" by auto
      with l show "bit a i = bit b i" by metis
    qed
  next
    assume "\<forall>i<8. 8 \<le> i + n \<longrightarrow> bit a i = bit b i"
    with assms show "\<forall>i<n. bit a (7 - i) = bit b (7 - i)" by auto
  qed
  also have "\<dots> \<longleftrightarrow> a AND NOT (drop_bit n 0xff) = b AND NOT (drop_bit n 0xff)"
    by (simp only: bit_eq_iff bit_and_iff m possible_bit_word) auto
  finally show ?thesis .
qed

lemma mask_prefix:
  "length a = l \<Longrightarrow> length b = l \<Longrightarrow>
   maskIP a (CIDRMask n l) = maskIP b (CIDRMask n l) \<longleftrightarrow> take n (ipBits a) = take n (ipBits b)"
proof (induction l arbitrary: n a b)
  case 0
  then show ?case by (simp add: maskIP_def ipBits_def)
next
  case (Suc l)
  then obtain x xs y ys where a: "a = x # xs" "length xs = l" and b: "b = y # ys" "length ys = l"
    by (auto simp: length_Suc_conv)
  show ?case
  proof (cases "8 \<le> n")
    case True
    have "(0xff :: byte) = -1" by simp
    then have "z AND 0xff = z" for z :: byte by (simp only: and.right_neutral)
    with True Suc.IH [OF a(2) b(2), of "n - 8"] a b show ?thesis
      by (simp add: maskIP_def ipBits_def byteBits_eq)
  next
    case False
    have "maskIP xs (CIDRMask 0 l) = maskIP ys (CIDRMask 0 l)" using Suc.IH [OF a(2) b(2), of 0] by simp
    with False a b take_byteBits [of n x y] show ?thesis
      by (auto simp: maskIP_def ipBits_def)
  qed
qed

lemma maskIP_mask: "length a = length m \<Longrightarrow> maskIP (maskIP a m) m = maskIP a m"
  by (induction a m rule: list_induct2) (simp_all add: maskIP_def and.assoc)

lemma length_CIDRMask [simp]: "length (CIDRMask n l) = l"
  by (induction l arbitrary: n) simp_all

lemma networkNumber_v4:
  "length (net_IP n) = 4 \<Longrightarrow> length (net_Mask n) = 4 \<Longrightarrow> networkNumberAndMask n = (net_IP n, net_Mask n)"
  by (auto simp: networkNumberAndMask_def Let_def)

text \<open>A network given in CIDR form contains exactly the addresses that agree with it on its prefix.\<close>

lemma ParseCIDR_dotted:
  assumes "length a = 4" "n \<le> 32"
  shows "ParseCIDR (dotted a @ ''/'' @ dec (int n)) = Some \<lparr>net_IP = maskIP a (CIDRMask n 4), net_Mask = CIDRMask n 4\<rparr>"
proof -
  have s: "CHR ''/'' \<notin> set (dotted a)"
    using set_Join [of "map (\<lambda>x. dec (uint x)) a" "''.''"] dec_no_dot [of _ "CHR ''/''"]
    by (auto simp: dotted_def is_digit_iff)
  then have t: "takeWhile (\<lambda>c. c \<noteq> CHR ''/'') (dotted a @ CHR ''/'' # dec (int n)) = dotted a"
    by (auto simp: takeWhile_append)
  have "dtoi (dec (int n)) = Some n"
    using assms(2) by (auto simp: dtoi_def list_all_iff intro: dec_digits [of "int n"])
  then show ?thesis
    using assms by (simp add: ParseCIDR_def t ParseAddr_dotted Let_def)
qed

lemma Contains_prefix:
  assumes "length a = 4" "length b = 4" "n \<le> 32"
  shows "IPNet_Contains \<lparr>net_IP = maskIP a (CIDRMask n 4), net_Mask = CIDRMask n 4\<rparr> (v4InV6Prefix @ b) \<longleftrightarrow>
    take n (ipBits a) = take n (ipBits b)"
proof -
  have l: "length (maskIP a (CIDRMask n 4)) = 4" using assms by (simp add: maskIP_def)
  with assms have "networkNumberAndMask \<lparr>net_IP = maskIP a (CIDRMask n 4), net_Mask = CIDRMask n 4\<rparr> =
      (maskIP a (CIDRMask n 4), CIDRMask n 4)" by (simp add: networkNumber_v4)
  with l assms show ?thesis
    by (auto simp: IPNet_Contains_def maskIP_mask mask_prefix [OF assms(1,2)])
qed

text \<open>Joining a host and a port with a colon is undone by \<open>SplitHostPort\<close>.\<close>

lemma SplitHostPort_join:
  assumes "CHR '':'' \<notin> set host" "CHR ''['' \<notin> set host" "CHR '']'' \<notin> set host"
    and "CHR '':'' \<notin> set port" "CHR ''['' \<notin> set port" "CHR '']'' \<notin> set port"
  shows "SplitHostPort (host @ '':'' @ port) = Inr (host, port)"
proof -
  have "takeWhile (\<lambda>c. c \<noteq> CHR '':'') (rev (host @ '':'' @ port)) = rev port"
    using assms(4) by (auto simp: takeWhile_append)
  moreover have "hd (host @ '':'' @ port) \<noteq> CHR ''[''" using assms(2) by (cases host) auto
  ultimately show ?thesis using assms by (simp add: SplitHostPort_def Let_def)
qed

end
