(* ===== verification/Driver_State.thy ===== *)
theory Driver_State
  imports Ovs_Bridge Ovs_Iptables Ovs_Docker Ovs_Faucetconfrpc Go_Net
begin

text \<open>
  The data types of \<^verbatim>\<open>ovs/driver.go\<close> and the state of a running driver.

  The struct \<open>Driver\<close> is split in two.  What \<open>NewDriver\<close> fixes once is the record \<open>Driver\<close>,
  which every operation receives as its receiver \<open>d\<close>.  What changes is the record \<open>drv\<close>, an
  extension of the world of theory \<^verbatim>\<open>World\<close>: the two maps of networks, the channel of
  operations, the wait group, the reply channels, the sent notifications, and the two maps
  that are local variables of \<open>resourceManager\<close>.

  A \<open>NetworkState\<close> is copied by value all over the driver while the three maps inside its
  \<open>DynamicNetworkState\<close> stay shared.  They are therefore kept in a store, and a
  \<open>DynamicNetworkState\<close> holds a reference to its three maps; the zero value of the struct,
  whose maps are nil, has no reference.
\<close>

section \<open>Data\<close>

record ContainerState =
  cs_Name :: string
  cs_Id :: string
  cs_OFPort :: OFPortType
  cs_MacAddress :: string
  cs_HostIP :: string
  cs_Labels :: "(string, string) gomap"
  cs_IfName :: string

record ExternalPortState =
  xp_Name :: string
  xp_OFPort :: OFPortType
  xp_MacAddress :: string

record OtherBridgePortState =
  ob_Name :: string
  ob_PeerName :: string
  ob_OFPort :: OFPortType
  ob_PeerOFPort :: OFPortType
  ob_PeerBridgeName :: string

record DynMaps =
  Containers :: "(string, ContainerState) gomap"
  ExternalPorts :: "(string, ExternalPortState) gomap"
  OtherBridgePorts :: "(string, OtherBridgePortState) gomap"

record DynamicNetworkState =
  ShortEngineId :: string
  dyn_ref :: "nat option"

record NetworkState =
  NetworkName :: string
  BridgeName :: string
  BridgeDpid :: string
  BridgeDpidUint :: "64 word"
  BridgeVLAN :: uint
  MTU :: uint
  PreAllocatePorts :: uint
  Mode :: string
  AddPorts :: string
  AddCoproPorts :: string
  Gateway :: string
  GatewayMask :: string
  FlatBindInterface :: string
  UseDHCP :: bool
  Userspace :: bool
  NATAcl :: string
  VLANOutAcl :: string
  DefaultAcl :: string
  OvsLocalMac :: string
  Controller :: string
  DynamicNetworkStates :: DynamicNetworkState

text \<open>Go's zero value, which reading a missing key of \<open>d.networks\<close> gives.\<close>

definition zeroNetworkState :: NetworkState where
  "zeroNetworkState = \<lparr>NetworkName = [], BridgeName = [], BridgeDpid = [], BridgeDpidUint = 0,
     BridgeVLAN = 0, MTU = 0, PreAllocatePorts = 0, Mode = [], AddPorts = [], AddCoproPorts = [],
     Gateway = [], GatewayMask = [], FlatBindInterface = [], UseDHCP = False, Userspace = False,
     NATAcl = [], VLANOutAcl = [], DefaultAcl = [], OvsLocalMac = [], Controller = [],
     DynamicNetworkStates = \<lparr>ShortEngineId = [], dyn_ref = None\<rparr>\<rparr>"

record StackMirrorConfig =
  LbPort :: OFPortType
  TunnelVid :: OFVidType
  RemoteDpName :: string
  RemoteMirrorPort :: OFPortType

definition zeroStackMirrorConfig :: StackMirrorConfig where
  "zeroStackMirrorConfig = \<lparr>LbPort = 0, TunnelVid = 0, RemoteDpName = [], RemoteMirrorPort = 0\<rparr>"

type_synonym options = "(string, iface) gomap option"

text \<open>The container and the DHCP client are absent (nil pointers) until the container joins.\<close>

record OFPortContainer =
  of_OFPort :: OFPortType
  of_containerInspect :: "ContainerInspect option"
  of_udhcpcCmd :: "string list option"
  of_Options :: options

record DovesnapOpReply =
  re_NewNetworkState :: NetworkState
  re_NewOFPortContainer :: OFPortContainer
  re_NetworkStateString :: string

definition zeroReply :: DovesnapOpReply where
  "zeroReply = \<lparr>re_NewNetworkState = zeroNetworkState,
     re_NewOFPortContainer = \<lparr>of_OFPort = 0, of_containerInspect = None, of_udhcpcCmd = None, of_Options = None\<rparr>,
     re_NetworkStateString = []\<rparr>"

text \<open>\<open>Reply\<close> is the number of a reply channel, or nil.\<close>

record DovesnapOp =
  Operation :: string
  NewNetworkState :: NetworkState
  NewStackMirrorConfig :: StackMirrorConfig
  op_AddPorts :: string
  op_AddCoproPorts :: string
  op_Mode :: string
  NetworkID :: string
  EndpointID :: string
  op_Options :: options
  op_OFPort :: OFPortType
  Reply :: "nat option"

definition zeroOp :: DovesnapOp where
  "zeroOp = \<lparr>Operation = [], NewNetworkState = zeroNetworkState,
     NewStackMirrorConfig = zeroStackMirrorConfig, op_AddPorts = [], op_AddCoproPorts = [],
     op_Mode = [], NetworkID = [], EndpointID = [], op_Options = None, op_OFPort = 0, Reply = None\<rparr>"

record NotifyMsg =
  nm_NetworkState :: NetworkState
  nm_Type :: string
  nm_Operation :: string
  nm_Details :: "(string, string) gomap"

record StackingPort =
  sp_OFPort :: OFPortType
  sp_RemoteDP :: string
  sp_RemotePort :: OFPortType

record Driver =
  stackPriority1 :: string
  stackingInterfaces :: "string list"
  stackMirrorInterface :: "string list"
  stackDefaultControllers :: string
  mirrorBridgeIn :: string
  mirrorBridgeOut :: string
  shortEngineId :: string
  mirrorBridgeName :: string
  loopbackBridgeName :: string
  stackDpName :: string
  authIPs :: "IPNet list"

record drv = world +
  networks :: "(string, NetworkState) gomap"
  stackMirrorConfigs :: "(string, StackMirrorConfig) gomap"
  dyn_store :: "DynMaps list"
  createDeleteNetworkWG :: int
  lastDhcpMtime :: nat
  dovesnapOpChan :: "DovesnapOp list"
  notifyMsgs :: "NotifyMsg list"
  replies :: "DovesnapOpReply list list"
  OFPorts :: "(string, OFPortContainer) gomap"
  AllPortDesc :: "(string, portDesc) gomap"

type_synonym 'a drvM = "(drv, 'a) go"

definition chanSize :: nat where "chanSize = 64"

section \<open>Which kind of mirroring and stacking is in use\<close>

definition usingMirrorBridge :: "Driver \<Rightarrow> bool" where
  "usingMirrorBridge d \<longleftrightarrow> mirrorBridgeOut d \<noteq> []"

text \<open>
  The first stacking interface always exists, because \<open>stackingInterfaces\<close> is the result of
  \<open>strings.Split\<close>; the empty list would be an index out of range.
\<close>

definition usingStacking :: "Driver \<Rightarrow> bool outcome" where
  "usingStacking d =
     (if usingMirrorBridge d then Ret False
      else bindO (indexO (stackingInterfaces d) 0) (\<lambda>s. Ret (s \<noteq> [])))"

definition usingStackMirroring :: "Driver \<Rightarrow> bool outcome" where
  "usingStackMirroring d =
     bindO (usingStacking d) (\<lambda>b. Ret (b \<and> length (stackMirrorInterface d) > 1))"

lemma pure_usingStacking [pure_intros]: "pureO (usingStacking d)"
  unfolding usingStacking_def by (intro pure_intros)

lemma pure_usingStackMirroring [pure_intros]: "pureO (usingStackMirroring d)"
  unfolding usingStackMirroring_def by (intro pure_intros)

section \<open>Primitive steps on the state\<close>

text \<open>\<open>d.networks[id]\<close> and \<open>d.stackMirrorConfigs[id]\<close>, zero values when missing.\<close>

definition getNetwork :: "string \<Rightarrow> NetworkState drvM" where
  "getNetwork nid = getM (\<lambda>s. case map_get (networks s) nid of None \<Rightarrow> zeroNetworkState | Some ns \<Rightarrow> ns)"

definition getMirrorConfig :: "string \<Rightarrow> StackMirrorConfig drvM" where
  "getMirrorConfig nid =
     getM (\<lambda>s. case map_get (stackMirrorConfigs s) nid of None \<Rightarrow> zeroStackMirrorConfig | Some sc \<Rightarrow> sc)"

text \<open>\<open>make\<close> of the three maps.\<close>

definition emptyDynMaps :: DynMaps where
  "emptyDynMaps = \<lparr>Containers = [], ExternalPorts = [], OtherBridgePorts = []\<rparr>"

definition makeDynamicNetworkState :: "string \<Rightarrow> DynamicNetworkState drvM" where
  "makeDynamicNetworkState engine =
     bindM (getM (\<lambda>s. length (dyn_store s))) (\<lambda>r.
     thenM (modifyM (\<lambda>s. s\<lparr>dyn_store := dyn_store s @ [emptyDynMaps]\<rparr>))
     (retM \<lparr>ShortEngineId = engine, dyn_ref = Some r\<rparr>))"

text \<open>Reading the shared maps (nil maps read as empty) and writing to them (nil maps panic).\<close>

definition lookupDyn :: "drv \<Rightarrow> DynamicNetworkState \<Rightarrow> DynMaps" where
  "lookupDyn s dn = (case dyn_ref dn of
     None \<Rightarrow> emptyDynMaps
   | Some r \<Rightarrow> if r < length (dyn_store s) then dyn_store s ! r else emptyDynMaps)"

definition readDyn :: "DynamicNetworkState \<Rightarrow> DynMaps drvM" where
  "readDyn dn = getM (\<lambda>s. lookupDyn s dn)"

definition updateDyn :: "nat \<Rightarrow> (DynMaps \<Rightarrow> DynMaps) \<Rightarrow> drv \<Rightarrow> drv" where
  "updateDyn r f s = s\<lparr>dyn_store := (dyn_store s)[r := f (dyn_store s ! r)]\<rparr>"

definition writeDyn :: "DynamicNetworkState \<Rightarrow> (DynMaps \<Rightarrow> DynMaps) \<Rightarrow> unit drvM" where
  "writeDyn dn f = (case dyn_ref dn of
     None \<Rightarrow> panicM NilMapWrite
   | Some r \<Rightarrow> modifyM (updateDyn r f))"

text \<open>\<open>delete\<close> on a nil map does nothing.\<close>

definition deleteDyn :: "DynamicNetworkState \<Rightarrow> (DynMaps \<Rightarrow> DynMaps) \<Rightarrow> unit drvM" where
  "deleteDyn dn f = (case dyn_ref dn of
     None \<Rightarrow> retM ()
   | Some r \<Rightarrow> modifyM (updateDyn r f))"

definition wgAdd :: "unit drvM" where
  "wgAdd = modifyM (\<lambda>s. s\<lparr>createDeleteNetworkWG := createDeleteNetworkWG s + 1\<rparr>)"

text \<open>\<open>Done\<close> panics when the counter becomes negative; the counter has been changed then.\<close>

definition wgDone :: "unit drvM" where
  "wgDone = thenM (modifyM (\<lambda>s. s\<lparr>createDeleteNetworkWG := createDeleteNetworkWG s - 1\<rparr>))
     (bindM (getM createDeleteNetworkWG) (\<lambda>n. if n < 0 then panicM NegativeWaitGroup else retM ()))"

text \<open>A reply channel holds two replies; sending on a nil or full channel blocks.\<close>

definition sendReply :: "nat option \<Rightarrow> DovesnapOpReply \<Rightarrow> unit drvM" where
  "sendReply ch rep = (case ch of
     None \<Rightarrow> blockM
   | Some c \<Rightarrow>
       bindM (getM replies) (\<lambda>rs.
       if c < length rs \<and> length (rs ! c) < 2
       then modifyM (\<lambda>s. s\<lparr>replies := (replies s)[c := replies s ! c @ [rep]]\<rparr>)
       else blockM))"

definition makeReplyChan :: "nat drvM" where
  "makeReplyChan =
     bindM (getM (\<lambda>s. length (replies s))) (\<lambda>c.
     thenM (modifyM (\<lambda>s. s\<lparr>replies := replies s @ [[]]\<rparr>)) (retM c))"

text \<open>The channel of notifications has \<open>chanSize\<close> places; a send waits while it is full.\<close>

definition notifyM :: "NotifyMsg \<Rightarrow> unit drvM" where
  "notifyM msg =
     bindM (getM notifyMsgs) (\<lambda>q.
     if length q < chanSize then modifyM (\<lambda>s. s\<lparr>notifyMsgs := notifyMsgs s @ [msg]\<rparr>) else blockM)"

lemma notifyM_run:
  "notifyM msg s = (if length (notifyMsgs s) < chanSize then (Ret (), s\<lparr>notifyMsgs := notifyMsgs s @ [msg]\<rparr>) else (Blocked, s))"
  by (simp add: notifyM_def bindM_def)

text \<open>
  A handler whose deferred function recovers from a panic (and logs it) and then runs \<open>fin\<close>.
\<close>

definition deferM :: "unit drvM \<Rightarrow> unit drvM \<Rightarrow> unit drvM" where
  "deferM body fin = thenM (recoverM body (\<lambda>rerr. retM ())) fin"

section \<open>Facts about the state\<close>

lemma more_drv_fields:
  fixes s t :: drv
  assumes "world.more t = world.more s"
  shows "networks t = networks s" "stackMirrorConfigs t = stackMirrorConfigs s"
    "dyn_store t = dyn_store s" "createDeleteNetworkWG t = createDeleteNetworkWG s"
    "lastDhcpMtime t = lastDhcpMtime s" "dovesnapOpChan t = dovesnapOpChan s"
    "notifyMsgs t = notifyMsgs s" "replies t = replies s" "OFPorts t = OFPorts s"
    "AllPortDesc t = AllPortDesc s"
  using assms by (cases s; cases t; simp)+

lemma more_eqI:
  fixes s t :: drv
  assumes "world.more t = world.more s" "trace t = trace s"
  shows "t = s"
  using assms by (cases s; cases t; simp)

text \<open>
  A relation on the driver's state that does not look at the trace holds between the states
  before and after anything that only talks to the outside.
\<close>

locale driver_preorder = state_preorder R for R :: "drv \<Rightarrow> drv \<Rightarrow> bool" +
  assumes R_more: "world.more t = world.more s \<Longrightarrow> R s t"
begin

lemma steps_io: "talks (m :: 'a drvM) \<Longrightarrow> steps_in R m"
  using R_more by (auto dest!: talks_steps simp: steps_in_def io_ext_def)

lemma steps_getNetwork: "steps_in R (getNetwork nid)"
  by (simp add: getNetwork_def steps_get)

lemma steps_getMirrorConfig: "steps_in R (getMirrorConfig nid)"
  by (simp add: getMirrorConfig_def steps_get)

lemma steps_readDyn: "steps_in R (readDyn dn)"
  by (simp add: readDyn_def steps_get)

lemma steps_modify: "(\<And>s. R s (f s)) \<Longrightarrow> steps_in R (modifyM f)"
  by (simp add: steps_in_def)

lemma steps_defer: "steps_in R m \<Longrightarrow> steps_in R fin \<Longrightarrow> steps_in R (deferM m fin)"
  unfolding deferM_def by (intro steps_then steps_recover steps_ret)

lemmas driver_intros =
  steps_intros steps_io steps_getNetwork steps_getMirrorConfig steps_readDyn steps_defer

end

end
