(* ===== verification/Ovs_Config.thy ===== *)
theory Ovs_Config
  imports Driver_State
begin

text \<open>
  \<^verbatim>\<open>ovs/ovs_config.go\<close>: the options of a network, read either from Docker's request to create
  it or from Docker's description of an existing network.
\<close>

section \<open>Names and defaults\<close>

definition genericOption :: string where "genericOption = ''com.docker.network.generic''"
definition internalOption :: string where "internalOption = ''com.docker.network.internal''"
definition portMapOption :: string where "portMapOption = ''com.docker.network.portmap''"

definition bindInterfaceOption :: string where "bindInterfaceOption = ''ovs.bridge.bind_interface''"
definition bridgeAddPorts :: string where "bridgeAddPorts = ''ovs.bridge.add_ports''"
definition bridgeAddCoproPorts :: string where "bridgeAddCoproPorts = ''ovs.bridge.add_copro_ports''"
definition bridgeController :: string where "bridgeController = ''ovs.bridge.controller''"
definition bridgeDpid :: string where "bridgeDpid = ''ovs.bridge.dpid''"
definition bridgeLbPort :: string where "bridgeLbPort = ''ovs.bridge.lbport''"
definition bridgeNameOption :: string where "bridgeNameOption = ''ovs.bridge.name''"
definition dhcpOption :: string where "dhcpOption = ''ovs.bridge.dhcp''"
definition mirrorTunnelVid :: string where "mirrorTunnelVid = ''ovs.bridge.mirror_tunnel_vid''"
definition modeOption :: string where "modeOption = ''ovs.bridge.mode''"
definition NATAclOption :: string where "NATAclOption = ''ovs.bridge.nat_acl''"
definition mtuOption :: string where "mtuOption = ''ovs.bridge.mtu''"
definition vlanOption :: string where "vlanOption = ''ovs.bridge.vlan''"
definition userspaceOption :: string where "userspaceOption = ''ovs.bridge.userspace''"
definition ovsLocalMacOption :: string where "ovsLocalMacOption = ''ovs.bridge.ovs_local_mac''"
definition vlanOutAclOption :: string where "vlanOutAclOption = ''ovs.bridge.vlan_out_acl''"
definition defaultAclOption :: string where "defaultAclOption = ''ovs.bridge.default_acl''"
definition preAllocatePortsOption :: string where "preAllocatePortsOption = ''ovs.bridge.preallocate_ports''"

definition defaultLbPort :: uint where "defaultLbPort = 99"
definition defaultMTU :: uint where "defaultMTU = 1500"
definition defaultTunnelVLANOffset :: uint where "defaultTunnelVLANOffset = 256"
definition defaultVLAN :: uint where "defaultVLAN = 100"

definition modeFlat :: string where "modeFlat = ''flat''"
definition modeNAT :: string where "modeNAT = ''nat''"
definition modeRouted :: string where "modeRouted = ''routed''"
definition defaultMode :: string where "defaultMode = modeFlat"
definition validModes :: "string list" where "validModes = [modeNAT, modeFlat, modeRouted]"

definition bridgePrefix :: string where "bridgePrefix = ovsDovesnapPrefix @ ''br''"
definition containerEthName :: string where "containerEthName = ''eth''"
definition dhcpStatePath :: string where "dhcpStatePath = ''/var/run''"
definition ofPortLocal :: OFPortType where "ofPortLocal = 4294967294"
definition stackDpidPrefix :: string where "stackDpidPrefix = ''0x0E0F00''"

section \<open>Options of a request\<close>

text \<open>The fields of Docker's request that the driver reads; \<open>IPAMData\<close> entries may be nil.\<close>

record CreateNetworkRequest =
  cr_NetworkID :: string
  cr_Options :: options
  cr_IPv4Data :: "string option list" \<comment> \<open>the gateways\<close>
  cr_IPv6Data :: "string option list"

definition mustGetInternalOption :: "CreateNetworkRequest \<Rightarrow> bool outcome" where
  "mustGetInternalOption r = (case cr_Options r of
     None \<Rightarrow> Ret False
   | Some opts \<Rightarrow> (case map_get opts internalOption of
       Some (IfBool b) \<Rightarrow> Ret b | _ \<Rightarrow> Panic TypeAssertion))"

definition getGenericOption :: "CreateNetworkRequest \<Rightarrow> string \<Rightarrow> string" where
  "getGenericOption r optionName = (case cr_Options r of
     None \<Rightarrow> []
   | Some opts \<Rightarrow> (case map_get opts genericOption of
       Some (IfMap optionsMap) \<Rightarrow> (case map_get optionsMap optionName of
           Some (IfStr optionValue) \<Rightarrow> optionValue | _ \<Rightarrow> [])
     | _ \<Rightarrow> []))"

definition getGenericUintOption :: "CreateNetworkRequest \<Rightarrow> string \<Rightarrow> uint \<Rightarrow> uint" where
  "getGenericUintOption r optionName defaultOption =
     defaultUint (getGenericOption r optionName) defaultOption"

definition truncateID :: "string \<Rightarrow> string outcome" where
  "truncateID nid = sliceToO nid 5"

definition mustGetBridgeMTU :: "CreateNetworkRequest \<Rightarrow> uint" where
  "mustGetBridgeMTU r = getGenericUintOption r mtuOption defaultMTU"

definition mustGetPreAllocatePorts :: "CreateNetworkRequest \<Rightarrow> uint" where
  "mustGetPreAllocatePorts r = getGenericUintOption r preAllocatePortsOption 0"

definition mustGetLbPort :: "CreateNetworkRequest \<Rightarrow> uint" where
  "mustGetLbPort r = getGenericUintOption r bridgeLbPort defaultLbPort"

definition mustGetBridgeName :: "CreateNetworkRequest \<Rightarrow> string outcome" where
  "mustGetBridgeName r =
     bindO (truncateID (cr_NetworkID r)) (\<lambda>short.
     let bridgeName = bridgePrefix @ short; name = getGenericOption r bridgeNameOption in
     Ret (if name \<noteq> [] then name else bridgeName))"

definition mustGetOvsLocalMac :: "CreateNetworkRequest \<Rightarrow> string" where
  "mustGetOvsLocalMac r = getGenericOption r ovsLocalMacOption"

definition mustGetBridgeMode :: "CreateNetworkRequest \<Rightarrow> string outcome" where
  "mustGetBridgeMode r =
     (let mode = getGenericOption r modeOption in
      if mode \<noteq> [] then
        (if mode \<notin> set validModes then Panic (Errorf (mode @ '' is not a valid mode'')) else Ret mode)
      else Ret defaultMode)"

definition mustGetBridgeController :: "CreateNetworkRequest \<Rightarrow> string" where
  "mustGetBridgeController r = getGenericOption r bridgeController"

definition mustGetBridgeDpid :: "CreateNetworkRequest \<Rightarrow> string" where
  "mustGetBridgeDpid r = getGenericOption r bridgeDpid"

definition mustGetBridgeVLAN :: "CreateNetworkRequest \<Rightarrow> uint" where
  "mustGetBridgeVLAN r = getGenericUintOption r vlanOption defaultVLAN"

definition mustGetTunnelVid :: "CreateNetworkRequest \<Rightarrow> uint" where
  "mustGetTunnelVid r =
     getGenericUintOption r mirrorTunnelVid (mustGetBridgeVLAN r + defaultTunnelVLANOffset)"

definition mustGetBridgeVLANOutAcl :: "CreateNetworkRequest \<Rightarrow> string" where
  "mustGetBridgeVLANOutAcl r = getGenericOption r vlanOutAclOption"

definition mustGetDefaultAcl :: "CreateNetworkRequest \<Rightarrow> string" where
  "mustGetDefaultAcl r = getGenericOption r defaultAclOption"

definition mustGetBridgeAddPorts :: "CreateNetworkRequest \<Rightarrow> string" where
  "mustGetBridgeAddPorts r = getGenericOption r bridgeAddPorts"

definition mustGetBridgeAddCoproPorts :: "CreateNetworkRequest \<Rightarrow> string" where
  "mustGetBridgeAddCoproPorts r = getGenericOption r bridgeAddCoproPorts"

definition mustGetNATAcl :: "CreateNetworkRequest \<Rightarrow> string" where
  "mustGetNATAcl r = getGenericOption r NATAclOption"

definition mustGetGatewayIPFromData :: "string option list \<Rightarrow> string" where
  "mustGetGatewayIPFromData data = (case data of
     Some gw # _ \<Rightarrow> if gw \<noteq> [] then gw else []
   | _ \<Rightarrow> [])"

definition mustGetGatewayIP :: "CreateNetworkRequest \<Rightarrow> (string \<times> string) outcome" where
  "mustGetGatewayIP r =
     (let ipv6Gw = mustGetGatewayIPFromData (cr_IPv6Data r);
          ipv4Gw = mustGetGatewayIPFromData (cr_IPv4Data r);
          gatewayIP = (if ipv4Gw \<noteq> [] then ipv4Gw else ipv6Gw) in
      if gatewayIP = [] then Ret ([], [])
      else
        (let parts = Split gatewayIP (CHR ''/'') in
         if length parts = 2 \<and> parts ! 0 \<noteq> [] \<and> parts ! 1 \<noteq> []
         then Ret (parts ! 0, parts ! 1)
         else Panic (Errorf (''cannot parse gateway IP: '' @ gatewayIP))))"

definition mustGetBindInterface :: "CreateNetworkRequest \<Rightarrow> string" where
  "mustGetBindInterface r = getGenericOption r bindInterfaceOption"

definition parseBool :: "string \<Rightarrow> bool" where
  "parseBool optionVal = (case ParseBool optionVal of Inl _ \<Rightarrow> False | Inr b \<Rightarrow> b)"

definition mustGetUseDHCP :: "CreateNetworkRequest \<Rightarrow> bool" where
  "mustGetUseDHCP r = parseBool (getGenericOption r dhcpOption)"

definition mustGetUserspace :: "CreateNetworkRequest \<Rightarrow> bool" where
  "mustGetUserspace r = parseBool (getGenericOption r userspaceOption)"

section \<open>Stacking and mirroring\<close>

definition mustGetStackBridgeLink :: "Driver \<Rightarrow> (string \<times> OFPortType) outcome" where
  "mustGetStackBridgeLink d =
     bindO (indexO (stackMirrorInterface d) 0) (\<lambda>dp.
     bindO (indexO (stackMirrorInterface d) 1) (\<lambda>port.
     Ret (dp, ucast (defaultUint port 0))))"

text \<open>The conversions to \<open>OFPortType\<close> and \<open>OFVidType\<close> keep the low 32 bits.\<close>

definition getStackMirrorConfig :: "Driver \<Rightarrow> CreateNetworkRequest \<Rightarrow> StackMirrorConfig outcome" where
  "getStackMirrorConfig d r =
     (let lbPort = mustGetLbPort r in
      bindO (usingStackMirroring d) (\<lambda>mirroring.
      if mirroring then
        bindO (mustGetStackBridgeLink d) (\<lambda>(remoteDpName, mirrorPort).
        Ret \<lparr>LbPort = ucast lbPort, TunnelVid = ucast (mustGetTunnelVid r),
             RemoteDpName = remoteDpName, RemoteMirrorPort = mirrorPort\<rparr>)
      else
        Ret \<lparr>LbPort = ucast lbPort, TunnelVid = 0, RemoteDpName = [], RemoteMirrorPort = 0\<rparr>))"

definition mustGetStackDPName :: "string \<Rightarrow> string" where
  "mustGetStackDPName engine = ''dovesnap'' @ engine"

definition mustGetStackDP :: "string \<Rightarrow> string \<times> string" where
  "mustGetStackDP engine = (stackDpidPrefix @ engine, mustGetStackDPName engine)"

definition mustGetLoopbackBrName :: "string \<Rightarrow> string" where
  "mustGetLoopbackBrName engine = ovsDovesnapPrefix @ ''lb'' @ engine"

definition mustGetMirrorBrName :: "string \<Rightarrow> string" where
  "mustGetMirrorBrName engine = ovsDovesnapPrefix @ ''mir'' @ engine"

definition mustGetStackingInterface :: "string \<Rightarrow> (string \<times> OFPortType \<times> string) outcome" where
  "mustGetStackingInterface stackingInterface =
     (let stackSlice = Split stackingInterface (CHR '':'') in
      bindO (indexO stackSlice 0) (\<lambda>remoteDP.
      bindO (indexO stackSlice 1) (\<lambda>port.
      case ParseUint32 port of
        Inl err \<Rightarrow> Panic (Wrap ''unable to convert remote port to an unsigned integer because: '' err)
      | Inr remotePort \<Rightarrow>
          bindO (indexO stackSlice 2) (\<lambda>localInterface. Ret (remoteDP, remotePort, localInterface)))))"

definition mustGetStackBridgeConfig :: "env \<Rightarrow> Driver \<Rightarrow> ('x, string \<times> string \<times> 64 word \<times> string) io" where
  "mustGetStackBridgeConfig E d =
     (let (dpid, dpName) = mustGetStackDP (shortEngineId d) in
      bindM (callM Hostname (osHostname E)) (\<lambda>r.
      bindM (mustSum r) (\<lambda>hostname.
      bindM (liftO (mustGetUintFromHexStr (bcConvert E) dpid)) (\<lambda>uintDpid.
      retM (hostname, dpid, uintDpid, dpName)))))"

section \<open>Options of an existing network\<close>

definition mustGetBridgeNameFromResource :: "NetInspect \<Rightarrow> string outcome" where
  "mustGetBridgeNameFromResource r =
     bindO (truncateID (net_ID r)) (\<lambda>short. Ret (bridgePrefix @ short))"

definition getStrOptionFromResource :: "NetInspect \<Rightarrow> string \<Rightarrow> string \<Rightarrow> string" where
  "getStrOptionFromResource r optionName defaultOptionValue = (case net_Options r of
     None \<Rightarrow> defaultOptionValue
   | Some opts \<Rightarrow> (case map_get opts optionName of
       None \<Rightarrow> defaultOptionValue | Some optionValue \<Rightarrow> optionValue))"

definition getUintOptionFromResource :: "NetInspect \<Rightarrow> string \<Rightarrow> uint \<Rightarrow> uint" where
  "getUintOptionFromResource r optionName defaultOptionValue =
     defaultUint (getStrOptionFromResource r optionName []) defaultOptionValue"

definition mustGetBridgeDpidFromResource :: "bc_convert \<Rightarrow> NetInspect \<Rightarrow> (string \<times> 64 word) outcome" where
  "mustGetBridgeDpidFromResource bc r =
     (let dpid = getStrOptionFromResource r bridgeDpid [] in
      bindO (mustGetUintFromHexStr bc dpid) (\<lambda>uintDpid. Ret (dpid, uintDpid)))"

definition getGatewayFromResource :: "NetInspect \<Rightarrow> string \<times> string" where
  "getGatewayFromResource r = (case net_IPAM_Config r of
     [] \<Rightarrow> ([], [])
   | config # _ \<Rightarrow>
       (let parts = Split (Subnet config) (CHR ''/'') in
        if length parts = 2 \<and> parts ! 0 \<noteq> [] \<and> parts ! 1 \<noteq> []
        then (ipam_Gateway config, parts ! 1) else ([], [])))"

text \<open>One step of the loop, and the loop: the last matching part of the list wins.\<close>

definition strForNetwork_step :: "string \<Rightarrow> string \<Rightarrow> string \<Rightarrow> string" where
  "strForNetwork_step networkName pairStr networkStrs =
     (let networkStrsPair = Split pairStr (CHR '':'') in
      if length networkStrsPair = 1 then networkStrsPair ! 0
      else if length networkStrsPair = 2 then
        (if networkName = networkStrsPair ! 0 then networkStrsPair ! 1 else networkStrs)
      else networkStrs)"

definition getStrForNetwork :: "string \<Rightarrow> string \<Rightarrow> string" where
  "getStrForNetwork networkStr networkName =
     fold (strForNetwork_step networkName) (Split networkStr (CHR ''/'')) []"

text \<open>
  The deferred function assigns a local variable, not the result: after a panic the function
  returns the zero \<open>NetworkState\<close> and no error.  The allocation of the three maps is the last
  thing the struct literal evaluates.
\<close>

definition getNetworkStateFromResource ::
  "env \<Rightarrow> NetInspect \<Rightarrow> string \<Rightarrow> (NetworkState \<times> error option) drvM" where
  "getNetworkStateFromResource E r engine =
     recoverM
       (bindM (liftO (mustGetBridgeDpidFromResource (bcConvert E) r)) (\<lambda>(dpid, uintDpid).
        let (gateway, mask) = getGatewayFromResource r in
        bindM (liftO (mustGetBridgeNameFromResource r)) (\<lambda>bridgeName.
        bindM (makeDynamicNetworkState engine) (\<lambda>dyn.
        retM (\<lparr>NetworkName = net_Name r,
               BridgeName = bridgeName,
               BridgeDpid = dpid,
               BridgeDpidUint = uintDpid,
               BridgeVLAN = getUintOptionFromResource r vlanOption defaultVLAN,
               MTU = getUintOptionFromResource r mtuOption defaultMTU,
               PreAllocatePorts = getUintOptionFromResource r preAllocatePortsOption 0,
               Mode = getStrOptionFromResource r modeOption defaultMode,
               AddPorts = getStrOptionFromResource r bridgeAddPorts [],
               AddCoproPorts = getStrOptionFromResource r bridgeAddCoproPorts [],
               Gateway = gateway,
               GatewayMask = mask,
               FlatBindInterface = getStrOptionFromResource r bindInterfaceOption [],
               UseDHCP = parseBool (getStrOptionFromResource r dhcpOption []),
               Userspace = parseBool (getStrOptionFromResource r userspaceOption []),
               NATAcl = getStrOptionFromResource r NATAclOption [],
               VLANOutAcl = getStrOptionFromResource r vlanOutAclOption [],
               DefaultAcl = getStrOptionFromResource r defaultAclOption [],
               OvsLocalMac = getStrOptionFromResource r ovsLocalMacOption [],
               Controller = getStrOptionFromResource r bridgeController [],
               DynamicNetworkStates = dyn\<rparr>, None)))))
       (\<lambda>rerr. retM (zeroNetworkState, None))"

definition getStackMirrorConfigFromResource :: "Driver \<Rightarrow> NetInspect \<Rightarrow> StackMirrorConfig outcome" where
  "getStackMirrorConfigFromResource d r =
     (let lbPort = getUintOptionFromResource r bridgeLbPort defaultLbPort in
      bindO (usingStackMirroring d) (\<lambda>mirroring.
      if mirroring then
        (let vlan = getUintOptionFromResource r vlanOption defaultVLAN;
             tunnelVid = getUintOptionFromResource r mirrorTunnelVid (vlan + defaultTunnelVLANOffset) in
         bindO (mustGetStackBridgeLink d) (\<lambda>(remoteDpName, mirrorPort).
         Ret \<lparr>LbPort = ucast lbPort, TunnelVid = ucast tunnelVid,
              RemoteDpName = remoteDpName, RemoteMirrorPort = mirrorPort\<rparr>))
      else
        Ret \<lparr>LbPort = ucast lbPort, TunnelVid = 0, RemoteDpName = [], RemoteMirrorPort = 0\<rparr>))"

section \<open>Code without state\<close>

lemma pure_truncateID [pure_intros]: "pureO (truncateID i)"
  unfolding truncateID_def by (intro pure_intros)

lemma pure_mustGetInternalOption [pure_intros]: "pureO (mustGetInternalOption r)"
  unfolding mustGetInternalOption_def by (auto intro!: pure_intros split: option.split iface.split)

lemma pure_request [pure_intros]:
  "pureO (mustGetBridgeName r)" "pureO (mustGetBridgeMode r)" "pureO (mustGetGatewayIP r)"
  unfolding mustGetBridgeName_def mustGetBridgeMode_def mustGetGatewayIP_def by (intro pure_intros)+

lemma pure_stacking [pure_intros]:
  "pureO (mustGetStackBridgeLink d)" "pureO (mustGetStackingInterface i)"
  unfolding mustGetStackBridgeLink_def mustGetStackingInterface_def by (intro pure_intros)+

lemma pure_mirrorConfig [pure_intros]:
  "pureO (getStackMirrorConfig d r)" "pureO (getStackMirrorConfigFromResource d ni)"
  unfolding getStackMirrorConfig_def getStackMirrorConfigFromResource_def by (intro pure_intros)+

lemma pure_resource [pure_intros]:
  "pureO (mustGetBridgeNameFromResource ni)" "pureO (mustGetBridgeDpidFromResource bc ni)"
  unfolding mustGetBridgeNameFromResource_def mustGetBridgeDpidFromResource_def by (intro pure_intros)+

lemma io_mustGetStackBridgeConfig [io_intros]: "talks (mustGetStackBridgeConfig E d)"
  unfolding mustGetStackBridgeConfig_def by (auto intro!: io_intros pure_intros split: prod.split)

section \<open>Correctness\<close>

subsection \<open>Per-network strings\<close>

definition pair_text :: "string \<times> string \<Rightarrow> string" where
  "pair_text = (\<lambda>(net, val). net @ '':'' @ val)"

definition sep_free :: "string \<Rightarrow> bool" where
  "sep_free s \<longleftrightarrow> CHR ''/'' \<notin> set s \<and> CHR '':'' \<notin> set s"

lemma step_default: "sep_free dflt \<Longrightarrow> strForNetwork_step name dflt acc = dflt"
  by (simp add: strForNetwork_step_def sep_free_def)

lemma step_pair:
  "sep_free net \<Longrightarrow> sep_free val \<Longrightarrow>
   strForNetwork_step name (pair_text (net, val)) acc = (if name = net then val else acc)"
  by (simp add: strForNetwork_step_def sep_free_def pair_text_def Split_append_sep)

lemma fold_pairs:
  "list_all (\<lambda>(net, val). sep_free net \<and> sep_free val) pairs \<Longrightarrow>
   fold (strForNetwork_step name) (map pair_text pairs) acc =
   (case map_of (rev pairs) name of None \<Rightarrow> acc | Some val \<Rightarrow> val)"
proof (induction pairs arbitrary: acc)
  case (Cons p pairs)
  then show ?case
    by (cases p) (auto simp: step_pair map_add_def split: option.split)
qed simp

subsection \<open>Gateways\<close>

lemma Split_two: "Split s c = [a, b] \<longleftrightarrow> s = a @ c # b \<and> c \<notin> set a \<and> c \<notin> set b"
proof
  assume "Split s c = [a, b]"
  then show "s = a @ c # b \<and> c \<notin> set a \<and> c \<notin> set b"
    using Join_Split [of s c] Split_no_sep [of _ s c] by (metis Join.simps(2,3) append_Cons append_Nil list.set_intros(1,2))
qed (simp add: Split_append_sep)

lemma length2_parts:
  "(length ps = 2 \<and> ps ! 0 \<noteq> [] \<and> ps ! 1 \<noteq> []) \<longleftrightarrow> (\<exists>a b. ps = [a, b] \<and> a \<noteq> [] \<and> b \<noteq> [])"
  by (auto simp: numeral_2_eq_2 length_Suc_conv)

definition requestedGateway :: "CreateNetworkRequest \<Rightarrow> string" where
  "requestedGateway r =
     (if mustGetGatewayIPFromData (cr_IPv4Data r) \<noteq> [] then mustGetGatewayIPFromData (cr_IPv4Data r)
      else mustGetGatewayIPFromData (cr_IPv6Data r))"

lemma gateway_Ret:
  assumes "requestedGateway r \<noteq> []"
  shows "mustGetGatewayIP r = Ret (ip, gmask) \<longleftrightarrow>
    requestedGateway r = ip @ ''/'' @ gmask \<and> ip \<noteq> [] \<and> gmask \<noteq> [] \<and>
    CHR ''/'' \<notin> set ip \<and> CHR ''/'' \<notin> set gmask"
proof -
  have "mustGetGatewayIP r =
    (let parts = Split (requestedGateway r) (CHR ''/'') in
     if length parts = 2 \<and> parts ! 0 \<noteq> [] \<and> parts ! 1 \<noteq> [] then Ret (parts ! 0, parts ! 1)
     else Panic (Errorf (''cannot parse gateway IP: '' @ requestedGateway r)))"
    using assms by (simp add: mustGetGatewayIP_def requestedGateway_def Let_def)
  then show ?thesis unfolding Let_def length2_parts Split_two
    by (auto simp: Split_append_sep append_Cons_eq_iff)
qed

section \<open>Properties\<close>

text \<open>
  C32. An option of the form \<^verbatim>\<open>default/net1:val1/net2:val2\<close> is read per network: the network's
  own value if the list has one (the last, if several), otherwise the default.
\<close>

theorem getStrForNetwork_selects:
  assumes "sep_free dflt" "list_all (\<lambda>(net, val). sep_free net \<and> sep_free val) pairs"
  shows "getStrForNetwork (Join (dflt # map pair_text pairs) ''/'') networkName =
    (case map_of (rev pairs) networkName of None \<Rightarrow> dflt | Some val \<Rightarrow> val)"
proof -
  have "Split (Join (dflt # map pair_text pairs) ''/'') (CHR ''/'') = dflt # map pair_text pairs"
    by (rule Split_Join) (use assms in \<open>auto simp: sep_free_def list_all_iff pair_text_def\<close>)
  then show ?thesis
    using assms by (simp add: getStrForNetwork_def step_default fold_pairs)
qed

theorem getStrForNetwork_selects_witness:
  "getStrForNetwork ''allow/net1:deny/net2:mirror'' ''net2'' = ''mirror'' \<and>
   getStrForNetwork ''allow/net1:deny/net2:mirror'' ''net3'' = ''allow''"
  using getStrForNetwork_selects [of "''allow''" "[(''net1'', ''deny''), (''net2'', ''mirror'')]" "''net2''"]
    getStrForNetwork_selects [of "''allow''" "[(''net1'', ''deny''), (''net2'', ''mirror'')]" "''net3''"]
  by (simp add: pair_text_def sep_free_def)

text \<open>
  C33. The gateway of a request: IPv4 is preferred to IPv6, no gateway at all is accepted, and
  otherwise the address is accepted exactly when it is \<^verbatim>\<open>ip/mask\<close> with both parts present.
\<close>

theorem gateway_accepted_iff:
  "mustGetGatewayIP r = Ret (ip, gmask) \<longleftrightarrow>
   (if requestedGateway r = [] then ip = [] \<and> gmask = []
    else requestedGateway r = ip @ ''/'' @ gmask \<and> ip \<noteq> [] \<and> gmask \<noteq> [] \<and>
      CHR ''/'' \<notin> set ip \<and> CHR ''/'' \<notin> set gmask)"
proof (cases "requestedGateway r = []")
  case True
  then have "mustGetGatewayIP r = Ret ([], [])"
    by (auto simp: mustGetGatewayIP_def requestedGateway_def Let_def split: if_splits)
  with True show ?thesis by auto
qed (simp add: gateway_Ret)

text \<open>
  The bridges the driver creates for itself and the bridges it names after networks never
  share a name: the loopback, mirror and stacking bridges differ from each other and from
  every default bridge name.
\<close>

theorem bridge_names_disjoint:
  assumes "getGenericOption r bridgeNameOption = []" "mustGetBridgeName r = Ret b"
  shows "distinct [b, mustGetLoopbackBrName engine, mustGetMirrorBrName engine, mustGetStackDPName engine] \<and>
    length b = 10"
  using assms
  by (auto simp: mustGetBridgeName_def truncateID_def sliceToO_def bridgePrefix_def ovsDovesnapPrefix_def
      mustGetLoopbackBrName_def mustGetMirrorBrName_def mustGetStackDPName_def split: if_splits)

theorem bridge_names_disjoint_witness:
  "let r = \<lparr>cr_NetworkID = ''0123456789'', cr_Options = None, cr_IPv4Data = [], cr_IPv6Data = []\<rparr>
   in mustGetBridgeName r = Ret ''odsbr01234'' \<and>
      distinct [''odsbr01234'', mustGetLoopbackBrName ''0ABCDE'', mustGetMirrorBrName ''0ABCDE'', mustGetStackDPName ''0ABCDE'']"
proof -
  let ?r = "\<lparr>cr_NetworkID = ''0123456789'', cr_Options = None, cr_IPv4Data = [], cr_IPv6Data = []\<rparr>"
  have "getGenericOption ?r bridgeNameOption = []" "mustGetBridgeName ?r = Ret ''odsbr01234''" by code_simp+
  with bridge_names_disjoint [OF this] show ?thesis by (simp only: Let_def simp_thms)
qed

end
