(* ===== verification/Driver_Bridges.thy ===== *)
theory Driver_Bridges
  imports Ovs_Config
begin

text \<open>
  The bridges of the driver: its own loopback, mirror and stacking bridges, and setting up and
  taking down the bridge of a network (\<^verbatim>\<open>createLoopbackBridge\<close>, \<^verbatim>\<open>createMirrorBridge\<close>,
  \<^verbatim>\<open>createStackingBridge\<close>, \<^verbatim>\<open>InitBridge\<close> and \<^verbatim>\<open>mustDeleteBridgeAndPorts\<close> of \<^verbatim>\<open>ovs/driver.go\<close>,
  \<^verbatim>\<open>initBridge\<close> of \<^verbatim>\<open>ovs/ovs_bridge.go\<close>).  None of them touches the driver's own state.
\<close>

definition createLoopbackBridge :: "env \<Rightarrow> Driver \<Rightarrow> ('x, error option) io" where
  "createLoopbackBridge E d =
     bindM (addBridgeExists E (loopbackBridgeName d)) (\<lambda>(out, err).
     case err of Some e \<Rightarrow> retM (Some e) | None \<Rightarrow> makeLoopbackBridge E (loopbackBridgeName d))"

definition createMirrorBridge :: "env \<Rightarrow> Driver \<Rightarrow> ('x, unit) io" where
  "createMirrorBridge E d =
     bindM (bridgeExists E (mirrorBridgeName d)) (\<lambda>(out, err).
     case err of None \<Rightarrow> retM () | Some _ \<Rightarrow>
     (let add_ports = (if mirrorBridgeIn d \<noteq> [] then mirrorBridgeOut d @ '','' @ mirrorBridgeIn d
                       else mirrorBridgeOut d) in
      bindM (createBridge E (mirrorBridgeName d) [] [] add_ports True False []) (\<lambda>err.
      thenM (mustM err)
      (bindM (mustGetOfPort E (mirrorBridgeOut d)) (\<lambda>port.
       makeMirrorBridge E (mirrorBridgeName d) port)))))"

text \<open>The two loops of \<open>createStackingBridge\<close>.\<close>

definition stackingStep ::
  "env \<Rightarrow> Driver \<Rightarrow> string \<Rightarrow> StackingPort list \<times> string \<Rightarrow> string \<Rightarrow> ('x, StackingPort list \<times> string) io" where
  "stackingStep E d dpName = (\<lambda>(stackingPorts, remoteStackingConfig) stackingInterface.
     bindM (liftO (mustGetStackingInterface stackingInterface)) (\<lambda>(remoteDP, remotePort, localInterface).
     bindM (mustAddInternalPort E dpName localInterface 0) (\<lambda>(ofPort, out).
     let stackConfig = (if stackPriority1 d = remoteDP then ''stack: {priority: 1},'' else []) in
     retM (stackingPorts @ [\<lparr>sp_OFPort = ofPort, sp_RemoteDP = remoteDP, sp_RemotePort = remotePort\<rparr>],
           remoteStackingConfig @ remoteDP @ '': {'' @ stackConfig @ '' interfaces: {'' @
           stackInterfaceYaml remotePort dpName ofPort @ ''}},''))))"

definition localStackingText :: "StackingPort list \<Rightarrow> string" where
  "localStackingText stackingPorts =
     foldl (\<lambda>s sp. s @ stackInterfaceYaml (sp_OFPort sp) (sp_RemoteDP sp) (sp_RemotePort sp)) [] stackingPorts"

definition createStackingBridge :: "env \<Rightarrow> Driver \<Rightarrow> ('x, error option) io" where
  "createStackingBridge E d =
     bindM (mustGetStackBridgeConfig E d) (\<lambda>(hostname, dpid, intDpid, dpName).
     if stackDefaultControllers d = []
     then panicM (Errorf ''default OF controllers must be defined for stacking'')
     else
       bindM (bridgeExists E dpName) (\<lambda>(out, err).
       case err of None \<Rightarrow> retM None | Some _ \<Rightarrow>
       thenM (createBridge E dpName (stackDefaultControllers d) dpid [] True False [])
       (bindM (foldM (stackingStep E d dpName) ([], []) (stackingInterfaces d)) (\<lambda>(stackingPorts, remoteStackingConfig).
        let localStackingConfig =
              mergeDpInterfacesYaml dpName intDpid (''Dovesnap Stacking Bridge for '' @ hostname)
                (localStackingText stackingPorts) False;
            stackingConfig = ''{dps: {'' @ localStackingConfig @ '' '' @ remoteStackingConfig @ ''}}'' in
        thenM (mustSetFaucetConfigFile E stackingConfig) (retM None)))))"

definition initBridge ::
  "env \<Rightarrow> NetworkState \<Rightarrow> string \<Rightarrow> string \<Rightarrow> string \<Rightarrow> bool \<Rightarrow> string \<Rightarrow> ('x, error option) io" where
  "initBridge E ns controller dpid add_ports userspace ovsLocalMac =
     (let bridgeName = BridgeName ns in
      bindM (createBridge E bridgeName controller dpid add_ports False userspace ovsLocalMac) (\<lambda>err.
      case err of Some e \<Rightarrow> retM (Some e) | None \<Rightarrow>
      if Mode ns = modeNAT \<or> Mode ns = modeRouted then
        (let gatewayIP = Gateway ns @ ''/'' @ GatewayMask ns in
         thenM (setInterfaceIP E bridgeName gatewayIP)
         (bindM (getIfaceAddr E bridgeName) (\<lambda>r.
          case r of Inl _ \<Rightarrow> fatalM | Inr _ \<Rightarrow>
          if Mode ns = modeNAT then
            bindM (natOut E gatewayIP ''-I'') (\<lambda>err.
            case err of Some _ \<Rightarrow> fatalM | None \<Rightarrow> retM None)
          else retM None)))
      else retM None))"

definition allAddedPorts :: "NetworkState \<Rightarrow> string" where
  "allAddedPorts ns =
     Join ((if AddPorts ns \<noteq> [] then [AddPorts ns] else []) @
           (if AddCoproPorts ns \<noteq> [] then [AddCoproPorts ns] else [])) '',''"

text \<open>The ports of \<open>InitBridge\<close> between the new bridge and the driver's own bridges.\<close>

definition initMirrorPort :: "env \<Rightarrow> Driver \<Rightarrow> NetworkState \<Rightarrow> StackMirrorConfig \<Rightarrow> ('x, unit) io" where
  "initMirrorPort E d ns sc =
     thenM (mustAddPatchPort E (BridgeName ns) (mirrorBridgeName d) (LbPort sc) 0)
     (bindM (liftO (patchName (mirrorBridgeName d) (BridgeName ns))) (\<lambda>mirrorPortName.
      bindM (mustGetOfPort E mirrorPortName) (\<lambda>mirrorOfPort.
      let flowStr = ''priority=2,in_port='' @ dec (uint mirrorOfPort) @
            '',dl_vlan=0xffff,actions=mod_vlan_vid:'' @ dec (uint (BridgeVLAN ns)) @ '',output:1'' in
      thenM (mustOfCtl E [''add-flow'', mirrorBridgeName d, flowStr]) (retM ()))))"

definition InitBridge :: "env \<Rightarrow> Driver \<Rightarrow> NetworkState \<Rightarrow> StackMirrorConfig \<Rightarrow> ('x, unit) io" where
  "InitBridge E d ns sc =
     bindM (initBridge E ns (Controller ns) (BridgeDpid ns) (allAddedPorts ns) (Userspace ns) (OvsLocalMac ns)) (\<lambda>err.
     thenM (mustM err)
     (thenM (if usingMirrorBridge d then initMirrorPort E d ns sc else retM ())
     (bindM (liftO (usingStacking d)) (\<lambda>stacking.
      thenM (if stacking then thenM (mustAddPatchPort E (BridgeName ns) (stackDpName d) 0 0) (retM ()) else retM ())
      (bindM (liftO (usingStackMirroring d)) (\<lambda>mirroring.
       if mirroring
       then thenM (mustAddPatchPort E (BridgeName ns) (loopbackBridgeName d) (LbPort sc) 0) (retM ())
       else retM ()))))))"

definition mustDeleteBridgeAndPorts :: "env \<Rightarrow> Driver \<Rightarrow> string \<Rightarrow> ('x, unit) io" where
  "mustDeleteBridgeAndPorts E d bridgeName =
     thenM (if usingMirrorBridge d then mustDeletePatchPort E bridgeName (mirrorBridgeName d) else retM ())
     (bindM (liftO (usingStacking d)) (\<lambda>stacking.
      thenM (if stacking
         then thenM (mustDeletePatchPort E bridgeName (stackDpName d))
           (bindM (liftO (usingStackMirroring d)) (\<lambda>mirroring.
            if mirroring then mustDeletePatchPort E bridgeName (loopbackBridgeName d) else retM ()))
         else retM ())
      (thenM (mustDeleteBridge E bridgeName) (retM ()))))"

section \<open>Frame\<close>

lemma io_createLoopbackBridge [io_intros]: "talks (createLoopbackBridge E d)"
  unfolding createLoopbackBridge_def by (intro io_intros pure_intros)

lemma io_createMirrorBridge [io_intros]: "talks (createMirrorBridge E d)"
  unfolding createMirrorBridge_def by (intro io_intros pure_intros)

lemma io_stackingStep [io_intros]: "talks (stackingStep E d dpName acc i)"
  unfolding stackingStep_def by (cases acc) (auto intro!: io_intros pure_intros)

lemma io_createStackingBridge [io_intros]: "talks (createStackingBridge E d)"
  unfolding createStackingBridge_def by (intro io_intros pure_intros)

lemma io_initBridge [io_intros]: "talks (initBridge E ns c dp ap u m)"
  unfolding initBridge_def by (intro io_intros pure_intros)

lemma io_initMirrorPort [io_intros]: "talks (initMirrorPort E d ns sc)"
  unfolding initMirrorPort_def by (intro io_intros pure_intros)

lemma io_InitBridge [io_intros]: "talks (InitBridge E d ns sc)"
  unfolding InitBridge_def by (intro io_intros pure_intros)

lemma io_mustDeleteBridgeAndPorts [io_intros]: "talks (mustDeleteBridgeAndPorts E d b)"
  unfolding mustDeleteBridgeAndPorts_def by (intro io_intros pure_intros)

end
