(* ===== verification/Driver_Handlers.thy ===== *)
theory Driver_Handlers
  imports Driver_Bridges
begin

text \<open>
  The handlers of \<^verbatim>\<open>ovs/driver.go\<close> that the resource manager runs, one operation at a time:
  creating and deleting networks, reserving a port, containers joining and leaving, and
  reading a network's state.  Each handler is written with the code's deferred function:
  a panic inside is recovered, and what the deferred function does afterwards still happens.
\<close>

section \<open>Networks\<close>

definition deleteNetwork_body :: "env \<Rightarrow> Driver \<Rightarrow> DovesnapOp \<Rightarrow> unit drvM" where
  "deleteNetwork_body E d opMsg =
     bindM (getNetwork (NetworkID opMsg)) (\<lambda>ns.
     thenM (mustDeleteDp E (NetworkName ns))
     (thenM (if Mode ns = modeNAT
        then bindM (natOut E (Gateway ns @ ''/'' @ GatewayMask ns) ''-D'') (\<lambda>err.
             case err of Some _ \<Rightarrow> fatalM | None \<Rightarrow> retM ())
        else retM ())
     (thenM (mustDeleteBridgeAndPorts E d (BridgeName ns))
     (thenM (modifyM (\<lambda>s. s\<lparr>networks := map_del (NetworkID opMsg) (networks s)\<rparr>))
     (thenM (modifyM (\<lambda>s. s\<lparr>stackMirrorConfigs := map_del (NetworkID opMsg) (stackMirrorConfigs s)\<rparr>))
     (thenM (sendReply (Reply opMsg) zeroReply)
     (notifyM \<lparr>nm_NetworkState = ns, nm_Type = ''NETWORK'', nm_Operation = ''DELETE'', nm_Details = []\<rparr>)))))))"

definition mustHandleDeleteNetwork :: "env \<Rightarrow> Driver \<Rightarrow> DovesnapOp \<Rightarrow> unit drvM" where
  "mustHandleDeleteNetwork E d opMsg = deferM (deleteNetwork_body E d opMsg) wgDone"

definition getExternalPortState :: "env \<Rightarrow> string \<Rightarrow> OFPortType \<Rightarrow> ('x, ExternalPortState) io" where
  "getExternalPortState E ifName ofPort =
     bindM (getMacAddr E ifName) (\<lambda>mac.
     retM \<lparr>xp_Name = ifName, xp_OFPort = ofPort, xp_MacAddress = mac\<rparr>)"

definition putExternalPort :: "env \<Rightarrow> NetworkState \<Rightarrow> string \<Rightarrow> OFPortType \<Rightarrow> unit drvM" where
  "putExternalPort E ns ifName ofPort =
     bindM (getExternalPortState E ifName ofPort) (\<lambda>xp.
     writeDyn (DynamicNetworkStates ns) (\<lambda>m. m\<lparr>ExternalPorts := map_put ifName xp (ExternalPorts m)\<rparr>))"

text \<open>The loop over the ports given with the network, with its two kinds of entry.\<close>

definition createAddPort ::
  "env \<Rightarrow> NetworkState \<Rightarrow> (string, uint) gomap \<Rightarrow> string \<Rightarrow> string \<Rightarrow> string drvM" where
  "createAddPort E ns addPortsVlans add_interfaces add_port =
     bindM (mustGetOfPort E add_port) (\<lambda>ofPort.
     let portVlan = (case map_get addPortsVlans add_port of Some customVlan \<Rightarrow> customVlan | None \<Rightarrow> BridgeVLAN ns) in
     thenM (putExternalPort E ns add_port ofPort)
     (retM (add_interfaces @ vlanInterfaceYaml ofPort (''Physical interface '' @ add_port) portVlan [])))"

definition createCoproPort :: "env \<Rightarrow> NetworkState \<Rightarrow> string \<Rightarrow> string \<Rightarrow> string drvM" where
  "createCoproPort E ns add_interfaces add_port =
     bindM (mustGetOfPort E add_port) (\<lambda>ofPort.
     thenM (putExternalPort E ns add_port ofPort)
     (retM (add_interfaces @ coproInterfaceYaml ofPort (''Physical interface '' @ add_port) ''vlan_vid'')))"

definition createAddPorts ::
  "env \<Rightarrow> NetworkState \<Rightarrow> string \<Rightarrow> (string \<times> (OFPortType, string) gomap) drvM" where
  "createAddPorts E ns add_ports =
     (if add_ports = [] then retM ([], [])
      else
        bindM (liftO (parseAddPorts add_ports \<lparr>ap_ports = [], ap_acls = Some [], ap_vlans = Some []\<rparr>)) (\<lambda>ap.
        bindM (rangeStrM E (ap_ports ap)) (\<lambda>names.
        bindM (foldM (createAddPort E ns (the (ap_vlans ap))) [] names) (\<lambda>add_interfaces.
        retM (add_interfaces, the (ap_acls ap))))))"

definition createCoproPorts ::
  "env \<Rightarrow> NetworkState \<Rightarrow> string \<Rightarrow> string \<times> (OFPortType, string) gomap \<Rightarrow> (string \<times> (OFPortType, string) gomap) drvM" where
  "createCoproPorts E ns add_copro_ports = (\<lambda>(add_interfaces, addPortsAcls).
     if add_copro_ports = [] then retM (add_interfaces, addPortsAcls)
     else
       bindM (liftO (parseAddPorts add_copro_ports \<lparr>ap_ports = [], ap_acls = Some addPortsAcls, ap_vlans = None\<rparr>)) (\<lambda>ap.
       bindM (rangeStrM E (ap_ports ap)) (\<lambda>names.
       bindM (foldM (createCoproPort E ns) add_interfaces names) (\<lambda>add_interfaces.
       retM (add_interfaces, the (ap_acls ap))))))"

text \<open>The loop \<open>for prePort := 0; prePort < ns.PreAllocatePorts\<close>; the port number wraps.\<close>

primrec preallocate :: "nat \<Rightarrow> OFPortType \<Rightarrow> uint \<Rightarrow> string \<Rightarrow> string" where
  "preallocate 0 nextPrePort vlan defaultAcl = []"
| "preallocate (Suc n) nextPrePort vlan defaultAcl =
     vlanInterfaceYaml nextPrePort ''preallocated port'' vlan defaultAcl @
     preallocate n (nextPrePort + 1) vlan defaultAcl"

definition createMirrorEntry ::
  "env \<Rightarrow> Driver \<Rightarrow> NetworkState \<Rightarrow> string \<Rightarrow> string \<Rightarrow> string drvM" where
  "createMirrorEntry E d ns networkID add_interfaces =
     (if usingMirrorBridge d then
        bindM (getMirrorConfig networkID) (\<lambda>stackMirrorConfig.
        bindM (liftO (patchName (BridgeName ns) (mirrorBridgeName d))) (\<lambda>mirrorPortName.
        bindM (liftO (patchName (mirrorBridgeName d) (BridgeName ns))) (\<lambda>peerMirrorPortName.
        let ofPort = LbPort stackMirrorConfig in
        bindM (mustGetOfPort E peerMirrorPortName) (\<lambda>peerOfPort.
        thenM (writeDyn (DynamicNetworkStates ns) (\<lambda>m. m\<lparr>OtherBridgePorts := map_put mirrorPortName
            \<lparr>ob_Name = mirrorPortName, ob_PeerName = peerMirrorPortName, ob_OFPort = ofPort,
             ob_PeerOFPort = peerOfPort, ob_PeerBridgeName = mirrorBridgeName d\<rparr> (OtherBridgePorts m)\<rparr>))
        (retM (add_interfaces @ dec (uint ofPort) @ '': {description: mirror, output_only: true},''))))))
      else retM add_interfaces)"

text \<open>The configuration text, which describes both ends of the link when stacking.\<close>

definition createConfigYaml ::
  "env \<Rightarrow> Driver \<Rightarrow> NetworkState \<Rightarrow> string \<Rightarrow> bool \<Rightarrow> string drvM" where
  "createConfigYaml E d ns add_interfaces egressPipeline =
     bindM (liftO (usingStacking d)) (\<lambda>stacking.
     if stacking then
       bindM (liftO (patchName (BridgeName ns) (stackDpName d))) (\<lambda>ofPortName.
       bindM (liftO (patchName (stackDpName d) (BridgeName ns))) (\<lambda>peerOfPortName.
       bindM (mustGetOfPort E ofPortName) (\<lambda>ofPort.
       bindM (mustGetOfPort E peerOfPortName) (\<lambda>peerOfPort.
       thenM (writeDyn (DynamicNetworkStates ns) (\<lambda>m. m\<lparr>OtherBridgePorts := map_put ofPortName
            \<lparr>ob_Name = ofPortName, ob_PeerName = peerOfPortName, ob_OFPort = ofPort,
             ob_PeerOFPort = peerOfPort, ob_PeerBridgeName = stackDpName d\<rparr> (OtherBridgePorts m)\<rparr>))
       (let localDpYaml = mergeDpInterfacesYaml (NetworkName ns) (BridgeDpidUint ns) (''OVS Bridge '' @ BridgeName ns)
              (add_interfaces @ stackInterfaceYaml ofPort (stackDpName d) peerOfPort) egressPipeline;
            remoteDpYaml = stackDpName d @ '': {interfaces: {'' @ stackInterfaceYaml peerOfPort (NetworkName ns) ofPort @ ''}}''
        in retM (''{dps: {'' @ localDpYaml @ '' '' @ remoteDpYaml @ ''}}''))))))
     else retM (mergeSingleDpYaml (NetworkName ns) (BridgeDpidUint ns) (''OVS Bridge '' @ BridgeName ns)
            add_interfaces egressPipeline))"

definition setPortAcl ::
  "env \<Rightarrow> NetworkState \<Rightarrow> (OFPortType, string) gomap \<Rightarrow> OFPortType \<Rightarrow> unit drvM" where
  "setPortAcl E ns addPortsAcls port_no =
     (let networkAcls = getStrForNetwork (the (map_get addPortsAcls port_no)) (NetworkName ns) in
      if networkAcls \<noteq> [] then mustSetPortAcl E (NetworkName ns) port_no networkAcls else retM ())"

definition createNetwork_config ::
  "env \<Rightarrow> Driver \<Rightarrow> DovesnapOp \<Rightarrow> NetworkState \<Rightarrow> NetworkState \<Rightarrow> unit drvM" where
  "createNetwork_config E d opMsg inspectNs ns =
     (let egressPipeline = (VLANOutAcl ns \<noteq> []) in
      bindM (createAddPorts E ns (op_AddPorts opMsg)) (\<lambda>acc.
      bindM (createCoproPorts E ns (op_AddCoproPorts opMsg) acc) (\<lambda>(add_interfaces, addPortsAcls).
      bindM (mustLowestFreePortOnBridge E (BridgeName ns)) (\<lambda>nextPrePort.
      let defaultAcl = (if DefaultAcl ns \<noteq> [] then getStrForNetwork (DefaultAcl ns) (NetworkName ns) else []);
          add_interfaces = add_interfaces @ preallocate (unat (PreAllocatePorts ns)) nextPrePort (BridgeVLAN ns) defaultAcl in
      bindM (if op_Mode opMsg = ''nat'' \<or> op_Mode opMsg = ''routed'' then
          (let netAcl = getStrForNetwork (NATAcl ns) (NetworkName ns) in
           thenM (putExternalPort E ns (BridgeName inspectNs) ofPortLocal)
           (retM (add_interfaces @ localVlanInterfaceYaml ofPortLocal ''OVS Port default gateway'' (BridgeVLAN ns) netAcl)))
        else retM add_interfaces) (\<lambda>add_interfaces.
      bindM (createMirrorEntry E d ns (NetworkID opMsg) add_interfaces) (\<lambda>add_interfaces.
      bindM (createConfigYaml E d ns add_interfaces egressPipeline) (\<lambda>configYaml.
      thenM (mustSetFaucetConfigFile E configYaml)
      (let vlanOutAcl = getStrForNetwork (VLANOutAcl ns) (NetworkName ns) in
       thenM (if vlanOutAcl \<noteq> [] then mustSetVlanOutAcl E (dec (uint (BridgeVLAN ns))) vlanOutAcl else retM ())
       (bindM (liftO (usingStackMirroring d)) (\<lambda>mirroring.
        thenM (if mirroring then
            bindM (getMirrorConfig (NetworkID opMsg)) (\<lambda>sc.
            mustSetRemoteMirrorPort E (NetworkName ns) (LbPort sc) (TunnelVid sc) (RemoteDpName sc) (RemoteMirrorPort sc))
          else retM ())
        (bindM (rangePortM E addPortsAcls) (\<lambda>ports.
         thenM (forM (setPortAcl E ns addPortsAcls) ports)
         (notifyM \<lparr>nm_NetworkState = ns, nm_Type = ''NETWORK'', nm_Operation = ''CREATE'', nm_Details = []\<rparr>)))))))))))))"

definition createNetwork_body :: "env \<Rightarrow> Driver \<Rightarrow> DovesnapOp \<Rightarrow> unit drvM" where
  "createNetwork_body E d opMsg =
     bindM (mustGetNetworkInspectFromID E (NetworkID opMsg)) (\<lambda>netInspect.
     bindM (getNetworkStateFromResource E netInspect (shortEngineId d)) (\<lambda>(inspectNs, err).
     thenM (mustM err)
     (thenM (modifyM (\<lambda>s. s\<lparr>stackMirrorConfigs :=
          map_put (NetworkID opMsg) (NewStackMirrorConfig opMsg) (stackMirrorConfigs s)\<rparr>))
     (let ns = (NewNetworkState opMsg)\<lparr>NetworkName := NetworkName inspectNs\<rparr> in
      thenM (modifyM (\<lambda>s. s\<lparr>networks := map_put (NetworkID opMsg) ns (networks s)\<rparr>))
      (createNetwork_config E d opMsg inspectNs ns)))))"

definition mustHandleCreateNetwork :: "env \<Rightarrow> Driver \<Rightarrow> DovesnapOp \<Rightarrow> unit drvM" where
  "mustHandleCreateNetwork E d opMsg = deferM (createNetwork_body E d opMsg) wgDone"

text \<open>
  The deferred function sends the reply in either case; the body cannot panic, it only reads.
\<close>

definition mustHandleGetNetwork :: "env \<Rightarrow> Driver \<Rightarrow> DovesnapOp \<Rightarrow> unit drvM" where
  "mustHandleGetNetwork E d opMsg =
     bindM (getNetwork (NetworkID opMsg)) (\<lambda>ns.
     sendReply (Reply opMsg) (zeroReply\<lparr>re_NewNetworkState := ns\<rparr>))"

section \<open>Ports of containers\<close>

definition setOFPorts :: "string \<Rightarrow> OFPortContainer \<Rightarrow> unit drvM" where
  "setOFPorts ep c = modifyM (\<lambda>s. s\<lparr>OFPorts := map_put ep c (OFPorts s)\<rparr>)"

definition mustHandleReservePort :: "env \<Rightarrow> Driver \<Rightarrow> DovesnapOp \<Rightarrow> unit drvM" where
  "mustHandleReservePort E d opMsg =
     deferM
       (bindM (getNetwork (NetworkID opMsg)) (\<lambda>ns.
        bindM (liftO (truncateID (EndpointID opMsg))) (\<lambda>short.
        let vethName = veth_Name (vethPair short) in
        bindM (mustAddInternalPort E (BridgeName ns) vethName 0) (\<lambda>(ofPort, out).
        setOFPorts (EndpointID opMsg)
          \<lparr>of_OFPort = ofPort, of_containerInspect = None, of_udhcpcCmd = None, of_Options = None\<rparr>))))
       (retM ())"

text \<open>A number decoded from JSON, as \<open>int(x.(float64))\<close> reads it.\<close>

definition trunc :: "rat \<Rightarrow> int" where
  "trunc r = (if r < 0 then - \<lfloor>- r\<rfloor> else \<lfloor>r\<rfloor>)"

definition mapNumber :: "(string, iface) gomap \<Rightarrow> string \<Rightarrow> int outcome" where
  "mapNumber m key = (case map_get m key of Some (IfNum r) \<Rightarrow> Ret (trunc r) | _ \<Rightarrow> Panic TypeAssertion)"

definition mustGetPortMap :: "iface \<Rightarrow> (string \<times> string \<times> string) outcome" where
  "mustGetPortMap portMapRaw = (case portMapRaw of
     IfMap portMap \<Rightarrow>
       bindO (mapNumber portMap ''HostPort'') (\<lambda>hostPort.
       bindO (mapNumber portMap ''Port'') (\<lambda>port.
       bindO (mapNumber portMap ''Proto'') (\<lambda>ipProto.
       Ret (dec hostPort, dec port, if ipProto = 17 then ''udp'' else ''tcp''))))
   | _ \<Rightarrow> Panic TypeAssertion)"

text \<open>\<open>opts[portMapOption].([]interface{})\<close>; a missing key or nil map fails the assertion.\<close>

definition portMaps :: "options \<Rightarrow> iface list outcome" where
  "portMaps opts = (case opts of
     None \<Rightarrow> Panic TypeAssertion
   | Some m \<Rightarrow> (case map_get m portMapOption of Some (IfList xs) \<Rightarrow> Ret xs | _ \<Rightarrow> Panic TypeAssertion))"

definition defaultInterface :: string where "defaultInterface = ''eth0''"

definition execM :: "env \<Rightarrow> string \<Rightarrow> string list \<Rightarrow> ('x, unit) io" where
  "execM E cmd args =
     bindM (callM (ExecCmd cmd args) (\<lambda>h. execCmd E h cmd args)) (\<lambda>(output, err). mustM err)"

text \<open>
  The new MAC address is set on the interface only: the variable that is reported later is
  another one, still holding the address Docker chose.
\<close>

definition joinMac :: "env \<Rightarrow> ContainerInspect \<Rightarrow> string \<Rightarrow> ('x, unit) io" where
  "joinMac E ci macAddress = (case map_get (ci_Labels ci) ''dovesnap.faucet.mac_prefix'' of
     None \<Rightarrow> retM ()
   | Some macPrefix \<Rightarrow>
       if macPrefix = [] then retM ()
       else bindM (liftO (mustPrefixMAC macPrefix macAddress)) (\<lambda>newMac.
         execM E ''ip'' [''netns'', ''exec'', ci_ID ci, ''ip'', ''link'', ''set'', defaultInterface, ''address'', newMac]))"

definition addPortMapM :: "env \<Rightarrow> NetworkState \<Rightarrow> EndpointSettings \<Rightarrow> iface \<Rightarrow> ('x, unit) io" where
  "addPortMapM E ns es portMapRaw =
     bindM (liftO (mustGetPortMap portMapRaw)) (\<lambda>(hostPort, port, ipProto).
     mustAddGatewayPortMap E (BridgeName ns) ipProto (es_Gateway es) (es_IPAddress es) hostPort port)"

definition delPortMapM :: "env \<Rightarrow> NetworkState \<Rightarrow> EndpointSettings \<Rightarrow> iface \<Rightarrow> ('x, unit) io" where
  "delPortMapM E ns es portMapRaw =
     bindM (liftO (mustGetPortMap portMapRaw)) (\<lambda>(hostPort, port, ipProto).
     mustDeleteGatewayPortMap E (BridgeName ns) ipProto (es_Gateway es) (es_IPAddress es) hostPort port)"

text \<open>The ACL of a container: its label wins, then the network's default.\<close>

definition containerAcl :: "NetworkState \<Rightarrow> ContainerInspect \<Rightarrow> string" where
  "containerAcl ns ci =
     (let portAcl = (case map_get (ci_Labels ci) ''dovesnap.faucet.portacl'' of None \<Rightarrow> [] | Some l \<Rightarrow> l) in
      if portAcl \<noteq> [] then getStrForNetwork portAcl (NetworkName ns)
      else if DefaultAcl ns \<noteq> [] then getStrForNetwork (DefaultAcl ns) (NetworkName ns)
      else portAcl)"

definition joinMirror :: "env \<Rightarrow> Driver \<Rightarrow> DovesnapOp \<Rightarrow> NetworkState \<Rightarrow> ContainerInspect \<Rightarrow> OFPortType \<Rightarrow> unit drvM" where
  "joinMirror E d opMsg ns ci ofPort = (case map_get (ci_Labels ci) ''dovesnap.faucet.mirror'' of
     None \<Rightarrow> retM ()
   | Some mirror \<Rightarrow>
       if parseBool (getStrForNetwork mirror (NetworkName ns)) then
         bindM (getMirrorConfig (NetworkID opMsg)) (\<lambda>stackMirrorConfig.
         bindM (liftO (usingStackMirroring d)) (\<lambda>mirroring.
         if mirroring \<or> usingMirrorBridge d
         then mustAddPortMirror E (NetworkName ns) ofPort (LbPort stackMirrorConfig)
         else retM ()))
       else retM ())"

definition udhcpcArgs :: "ContainerInspect \<Rightarrow> string list" where
  "udhcpcArgs ci = [''netns'', ''exec'', ci_ID ci, ''/sbin/udhcpc'', ''-f'', ''-R'', ''-i'', defaultInterface, ''-s'', ''/udhcpclog.sh'']"

definition joinDhcp :: "env \<Rightarrow> NetworkState \<Rightarrow> ContainerInspect \<Rightarrow> ('x, string list option) io" where
  "joinDhcp E ns ci =
     (if UseDHCP ns then
        bindM (callM (StartCmd ''ip'' (udhcpcArgs ci) (osEnviron E @ [''CONTAINER_ID='' @ ci_ID ci]))
          (\<lambda>h. startCmd E h ''ip'' (udhcpcArgs ci))) (\<lambda>err.
        thenM (mustM err) (retM (Some (udhcpcArgs ci))))
      else retM None)"

definition joinContainer_body :: "env \<Rightarrow> Driver \<Rightarrow> DovesnapOp \<Rightarrow> unit drvM" where
  "joinContainer_body E d opMsg =
     bindM (getM (\<lambda>s. case map_get (OFPorts s) (EndpointID opMsg) of None \<Rightarrow> 0 | Some c \<Rightarrow> of_OFPort c)) (\<lambda>ofPort.
     bindM (getNetwork (NetworkID opMsg)) (\<lambda>ns.
     bindM (getContainerFromEndpoint E (NetworkID opMsg) (EndpointID opMsg)) (\<lambda>r.
     bindM (mustSum r) (\<lambda>ci.
     case map_get (ci_Networks ci) (NetworkName ns) of
       None \<Rightarrow> panicM NilDereference
     | Some es \<Rightarrow>
       (let macAddress = es_MacAddress es in
        thenM (createNsLink E (ci_Pid ci) (ci_ID ci))
        (thenM (joinMac E ci macAddress)
        (thenM (if Userspace ns
           then execM E ''ip'' [''netns'', ''exec'', ci_ID ci, ''/sbin/ethtool'', ''-K'', defaultInterface, ''tx'', ''off'']
           else retM ())
        (let hostIP = es_IPAddress es in
         bindM (liftO (portMaps (op_Options opMsg))) (\<lambda>maps.
         thenM (forM (addPortMapM E ns es) maps)
         (bindM (liftO (truncateID (ci_ID ci))) (\<lambda>short.
          let add_interfaces = vlanInterfaceYaml ofPort (ci_Name ci @ '' '' @ short) (BridgeVLAN ns) (containerAcl ns ci) in
          thenM (mustSetFaucetConfigFile E (mergeSingleDpMinimalYaml (NetworkName ns) add_interfaces))
          (thenM (joinMirror E d opMsg ns ci ofPort)
          (bindM (joinDhcp E ns ci) (\<lambda>udhcpcCmd.
           thenM (setOFPorts (EndpointID opMsg)
             \<lparr>of_OFPort = ofPort, of_containerInspect = Some ci, of_udhcpcCmd = udhcpcCmd, of_Options = op_Options opMsg\<rparr>)
           (thenM (writeDyn (DynamicNetworkStates ns) (\<lambda>m. m\<lparr>Containers := map_put (EndpointID opMsg)
               \<lparr>cs_Name = ci_Name ci, cs_Id = ci_ID ci, cs_OFPort = ofPort, cs_MacAddress = macAddress,
                cs_HostIP = hostIP, cs_Labels = ci_Labels ci, cs_IfName = defaultInterface\<rparr> (Containers m)\<rparr>))
           (notifyM \<lparr>nm_NetworkState = ns, nm_Type = ''CONTAINER'', nm_Operation = ''JOIN'',
             nm_Details = [(''name'', ci_Name ci), (''id'', ci_ID ci), (''port'', dec (uint ofPort)),
               (''mac'', macAddress), (''ip'', hostIP)]\<rparr>))))))))))))))))"

definition mustHandleJoinContainer :: "env \<Rightarrow> Driver \<Rightarrow> DovesnapOp \<Rightarrow> unit drvM" where
  "mustHandleJoinContainer E d opMsg = deferM (joinContainer_body E d opMsg) (retM ())"

definition killM :: "string list option \<Rightarrow> ('x, unit) io" where
  "killM udhcpcCmd = (case udhcpcCmd of None \<Rightarrow> retM () | Some args \<Rightarrow> callM (KillCmd args) (\<lambda>_. ()))"

definition leaveContainer_body :: "env \<Rightarrow> Driver \<Rightarrow> DovesnapOp \<Rightarrow> unit drvM" where
  "leaveContainer_body E d opMsg =
     bindM (getM (\<lambda>s. map_get (OFPorts s) (EndpointID opMsg))) (\<lambda>c.
     case c of
       None \<Rightarrow> panicM (Errorf (''endpoint '' @ EndpointID opMsg @ '' was not Join()d''))
     | Some containerMap \<Rightarrow>
       thenM (killM (of_udhcpcCmd containerMap))
       (bindM (liftO (truncateID (EndpointID opMsg))) (\<lambda>short.
        let portID = Sprintf0 (ovsPortPrefix @ short) in
        bindM (mustGetOfPort E portID) (\<lambda>ofPort.
        thenM (delVethPair E (vethPair short))
        (bindM (getNetwork (NetworkID opMsg)) (\<lambda>ns.
         thenM (mustDeletePort E (BridgeName ns) portID)
         (thenM (mustDeleteDpInterface E (NetworkName ns) ofPort)
         (case of_containerInspect containerMap of
            None \<Rightarrow> panicM NilDereference
          | Some ci \<Rightarrow>
            (case map_get (ci_Networks ci) (NetworkName ns) of
               None \<Rightarrow> panicM NilDereference
             | Some es \<Rightarrow>
               bindM (liftO (portMaps (of_Options containerMap))) (\<lambda>maps.
               thenM (forM (delPortMapM E ns es) maps)
               (thenM (modifyM (\<lambda>s. s\<lparr>OFPorts := map_del (EndpointID opMsg) (OFPorts s)\<rparr>))
               (thenM (deleteDyn (DynamicNetworkStates ns)
                    (\<lambda>m. m\<lparr>Containers := map_del (EndpointID opMsg) (Containers m)\<rparr>))
               (thenM (deleteNsLink E (ci_ID ci))
               (notifyM \<lparr>nm_NetworkState = ns, nm_Type = ''CONTAINER'', nm_Operation = ''LEAVE'',
                 nm_Details = [(''name'', ci_Name ci), (''id'', ci_ID ci), (''port'', dec (uint ofPort))]\<rparr>))))))))))))))"

definition mustHandleLeaveContainer :: "env \<Rightarrow> Driver \<Rightarrow> DovesnapOp \<Rightarrow> unit drvM" where
  "mustHandleLeaveContainer E d opMsg =
     deferM (leaveContainer_body E d opMsg) (sendReply (Reply opMsg) zeroReply)"

section \<open>Code without state\<close>

lemma pure_mapNumber [pure_intros]: "pureO (mapNumber m k)"
  unfolding mapNumber_def by (auto intro!: pure_intros split: option.split iface.split)

lemma pure_mustGetPortMap [pure_intros]: "pureO (mustGetPortMap x)"
  unfolding mustGetPortMap_def by (auto intro!: pure_intros split: iface.split)

lemma pure_portMaps [pure_intros]: "pureO (portMaps opts)"
  unfolding portMaps_def by (auto intro!: pure_intros split: option.split iface.split)

section \<open>Frame of the parts that only talk to the outside\<close>

lemma io_getExternalPortState [io_intros]: "talks (getExternalPortState E i p)"
  unfolding getExternalPortState_def by (intro io_intros pure_intros)

lemma io_execM [io_intros]: "talks (execM E cmd args)"
  unfolding execM_def by (intro io_intros pure_intros)

lemma io_joinMac [io_intros]: "talks (joinMac E ci m)"
  unfolding joinMac_def by (intro io_intros pure_intros)

lemma io_addPortMapM [io_intros]: "talks (addPortMapM E ns es x)"
  unfolding addPortMapM_def by (intro io_intros pure_intros)

lemma io_delPortMapM [io_intros]: "talks (delPortMapM E ns es x)"
  unfolding delPortMapM_def by (intro io_intros pure_intros)

lemma io_joinDhcp [io_intros]: "talks (joinDhcp E ns ci)"
  unfolding joinDhcp_def by (intro io_intros pure_intros)

lemma io_killM [io_intros]: "talks (killM c)"
  unfolding killM_def by (intro io_intros pure_intros)

lemma io_setPortAcl [io_intros]: "talks (setPortAcl E ns acls p)"
  unfolding setPortAcl_def by (intro io_intros pure_intros)

lemma io_joinMirror [io_intros]: "talks (joinMirror E d opMsg ns ci p)"
  unfolding joinMirror_def getMirrorConfig_def by (intro io_intros pure_intros)

end
