(* ===== verification/Driver_Reconcile.thy ===== *)
theory Driver_Reconcile
  imports Driver_Handlers Json
begin

text \<open>
  The periodic work of the resource manager (\<^verbatim>\<open>reconcileDhcpIp\<close>, \<^verbatim>\<open>reconcileOvs\<close> of
  \<^verbatim>\<open>ovs/driver.go\<close>) and the answer to a status request (\<^verbatim>\<open>mustHandleNetworks\<close>).
\<close>

section \<open>DHCP addresses\<close>

definition reconcileContainer :: "env \<Rightarrow> NetworkState \<Rightarrow> string \<Rightarrow> unit drvM" where
  "reconcileContainer E ns containerid =
     bindM (readDyn (DynamicNetworkStates ns)) (\<lambda>m.
     case map_get (Containers m) containerid of None \<Rightarrow> retM () | Some cont \<Rightarrow>
     (let ipFile = dhcpStatePath @ ''/'' @ cs_Id cont @ ''-ipv4.txt'' in
      bindM (callM (ReadFile ipFile) (\<lambda>h. osReadFile E h ipFile)) (\<lambda>r.
      case r of Inl _ \<Rightarrow> retM () | Inr content \<Rightarrow>
      writeDyn (DynamicNetworkStates ns) (\<lambda>m. m\<lparr>Containers :=
        map_put containerid (cont\<lparr>cs_HostIP := Trim content [CHR '' '', CHR 0x0A]\<rparr>) (Containers m)\<rparr>))))"

definition reconcileNetworkDhcp :: "env \<Rightarrow> string \<Rightarrow> unit drvM" where
  "reconcileNetworkDhcp E nid =
     bindM (getNetwork nid) (\<lambda>ns.
     if \<not> UseDHCP ns then retM ()
     else
       bindM (readDyn (DynamicNetworkStates ns)) (\<lambda>m.
       bindM (rangeStrM E (Containers m)) (\<lambda>ids.
       forM (reconcileContainer E ns) ids)))"

definition reconcileDhcpIp :: "env \<Rightarrow> unit drvM" where
  "reconcileDhcpIp E =
     (let path = dhcpStatePath @ ''/udhcpc.updated'' in
      bindM (callM (Stat path) (\<lambda>h. osStat E h path)) (\<lambda>st.
      case st of
        StatOk mtime \<Rightarrow>
          bindM (getM lastDhcpMtime) (\<lambda>last.
          if mtime = last then retM ()
          else
            thenM (modifyM (\<lambda>s. s\<lparr>lastDhcpMtime := mtime\<rparr>))
            (bindM (getM networks) (\<lambda>nets.
             bindM (rangeStrM E nets) (\<lambda>ids.
             forM (reconcileNetworkDhcp E) ids))))
      | _ \<Rightarrow> retM ()))"

section \<open>Ports of the bridges\<close>

text \<open>\<open>reflect.DeepEqual\<close> on two maps.\<close>

definition map_equal :: "('k, 'v) gomap \<Rightarrow> ('k, 'v) gomap \<Rightarrow> bool" where
  "map_equal m n \<longleftrightarrow> length m = length n \<and> list_all (\<lambda>(k, v). map_get n k = Some v) m"

definition removePort :: "env \<Rightarrow> NetworkState \<Rightarrow> portDesc \<Rightarrow> portDesc \<Rightarrow> OFPortType \<Rightarrow> unit drvM" where
  "removePort E ns portDesc newPortDesc ofPort =
     (let desc = the (map_get portDesc ofPort) in
      if map_get newPortDesc ofPort \<noteq> None then retM ()
      else if HasPrefix desc ovsPortPrefix then retM ()
      else
        thenM (mustDeleteDpInterface E (NetworkName ns) ofPort)
        (deleteDyn (DynamicNetworkStates ns) (\<lambda>m. m\<lparr>ExternalPorts := map_del desc (ExternalPorts m)\<rparr>)))"

definition addPort ::
  "env \<Rightarrow> NetworkState \<Rightarrow> StackMirrorConfig \<Rightarrow> (string, OFPortType) gomap \<Rightarrow> portDesc \<Rightarrow> string \<Rightarrow> OFPortType \<Rightarrow> string drvM" where
  "addPort E ns sc addPorts newPortDesc add_interfaces ofPort =
     (let desc = the (map_get newPortDesc ofPort) in
      if ofPort = ofPortLocal \<or> ofPort = LbPort sc then retM add_interfaces
      else if HasPrefix desc ovsPortPrefix \<or> HasPrefix desc patchPrefix then retM add_interfaces
      else if map_get addPorts desc \<noteq> None then retM add_interfaces
      else
        thenM (putExternalPort E ns desc ofPort)
        (retM (add_interfaces @ vlanInterfaceYaml ofPort (''Physical interface '' @ desc) (BridgeVLAN ns) [])))"

definition reconcileNetworkOvs :: "env \<Rightarrow> string \<Rightarrow> unit drvM" where
  "reconcileNetworkOvs E nid =
     bindM (getNetwork nid) (\<lambda>ns.
     bindM (getMirrorConfig nid) (\<lambda>stackMirrorConfig.
     bindM (scrapePortDesc E (BridgeName ns) []) (\<lambda>r.
     case r of Inl _ \<Rightarrow> retM () | Inr newPortDesc \<Rightarrow>
     bindM (liftO (bindO (parseAddPorts (AddPorts ns) \<lparr>ap_ports = [], ap_acls = None, ap_vlans = None\<rparr>)
                     (parseAddPorts (AddCoproPorts ns)))) (\<lambda>ap.
     bindM (getM (\<lambda>s. map_get (AllPortDesc s) nid)) (\<lambda>old.
     if (case old of Some portDesc \<Rightarrow> map_equal newPortDesc portDesc | None \<Rightarrow> False) then retM ()
     else
       thenM (case old of
           None \<Rightarrow> retM ()
         | Some portDesc \<Rightarrow>
             bindM (rangePortM E portDesc) (\<lambda>ports. forM (removePort E ns portDesc newPortDesc) ports))
       (bindM (rangePortM E newPortDesc) (\<lambda>ports.
        bindM (foldM (addPort E ns stackMirrorConfig (ap_ports ap) newPortDesc) [] ports) (\<lambda>add_interfaces.
        thenM (if add_interfaces \<noteq> []
           then mustSetFaucetConfigFile E (mergeSingleDpMinimalYaml (NetworkName ns) add_interfaces)
           else retM ())
        (modifyM (\<lambda>s. s\<lparr>AllPortDesc := map_put nid newPortDesc (AllPortDesc s)\<rparr>))))))))))"

definition reconcileOvs :: "env \<Rightarrow> unit drvM" where
  "reconcileOvs E =
     bindM (getM networks) (\<lambda>nets.
     bindM (rangeStrM E nets) (\<lambda>ids.
     forM (reconcileNetworkOvs E) ids))"

section \<open>The status page\<close>

definition container_json :: "ContainerState \<Rightarrow> json" where
  "container_json c = JObj
     [(''Name'', JStr (cs_Name c)), (''Id'', JStr (cs_Id c)), (''OFPort'', JNum (uint (cs_OFPort c))),
      (''MacAddress'', JStr (cs_MacAddress c)), (''HostIP'', JStr (cs_HostIP c)),
      (''Labels'', json_map JStr (cs_Labels c)), (''IfName'', JStr (cs_IfName c))]"

definition external_json :: "ExternalPortState \<Rightarrow> json" where
  "external_json x = JObj
     [(''Name'', JStr (xp_Name x)), (''OFPort'', JNum (uint (xp_OFPort x))), (''MacAddress'', JStr (xp_MacAddress x))]"

definition other_json :: "OtherBridgePortState \<Rightarrow> json" where
  "other_json p = JObj
     [(''Name'', JStr (ob_Name p)), (''PeerName'', JStr (ob_PeerName p)), (''OFPort'', JNum (uint (ob_OFPort p))),
      (''PeerOFPort'', JNum (uint (ob_PeerOFPort p))), (''PeerBridgeName'', JStr (ob_PeerBridgeName p))]"

definition dyn_json :: "drv \<Rightarrow> DynamicNetworkState \<Rightarrow> json" where
  "dyn_json s dn = (let m = lookupDyn s dn in JObj
     [(''ShortEngineId'', JStr (ShortEngineId dn)),
      (''Containers'', if dyn_ref dn = None then JNull else json_map container_json (Containers m)),
      (''ExternalPorts'', if dyn_ref dn = None then JNull else json_map external_json (ExternalPorts m)),
      (''OtherBridgePorts'', if dyn_ref dn = None then JNull else json_map other_json (OtherBridgePorts m))])"

definition network_json :: "drv \<Rightarrow> NetworkState \<Rightarrow> json" where
  "network_json s ns = JObj
     [(''NetworkName'', JStr (NetworkName ns)), (''BridgeName'', JStr (BridgeName ns)),
      (''BridgeDpid'', JStr (BridgeDpid ns)), (''BridgeDpidUint'', JNum (uint (BridgeDpidUint ns))),
      (''BridgeVLAN'', JNum (uint (BridgeVLAN ns))), (''MTU'', JNum (uint (MTU ns))),
      (''PreAllocatePorts'', JNum (uint (PreAllocatePorts ns))), (''Mode'', JStr (Mode ns)),
      (''AddPorts'', JStr (AddPorts ns)), (''AddCoproPorts'', JStr (AddCoproPorts ns)),
      (''Gateway'', JStr (Gateway ns)), (''GatewayMask'', JStr (GatewayMask ns)),
      (''FlatBindInterface'', JStr (FlatBindInterface ns)), (''UseDHCP'', JBool (UseDHCP ns)),
      (''Userspace'', JBool (Userspace ns)), (''NATAcl'', JStr (NATAcl ns)), (''VLANOutAcl'', JStr (VLANOutAcl ns)),
      (''DefaultAcl'', JStr (DefaultAcl ns)), (''OvsLocalMac'', JStr (OvsLocalMac ns)),
      (''Controller'', JStr (Controller ns)), (''DynamicNetworkStates'', dyn_json s (DynamicNetworkStates ns))]"

definition networks_json :: "drv \<Rightarrow> json" where
  "networks_json s = json_map (network_json s) (networks s)"

definition mustHandleNetworks :: "DovesnapOp \<Rightarrow> unit drvM" where
  "mustHandleNetworks opMsg =
     bindM (getM (\<lambda>s. print_json (networks_json s))) (\<lambda>encodedMsg.
     sendReply (Reply opMsg) (zeroReply\<lparr>re_NetworkStateString := encodedMsg\<rparr>))"

end
