(* ===== verification/Handler_Frame.thy ===== *)
theory Handler_Frame
  imports Driver_Reconcile
begin

text \<open>
  What the handlers may do to the driver's state, stated once as an interface: a relation
  between states that holds across every primitive change of an operation with the reply
  channel \<open>ch\<close> (\<open>op_frame\<close>, which extends \<open>state_frame\<close> for code that sends nothing), and also
  across registering and removing the network \<open>nid\<close> (\<open>handler_frame\<close>).  Every handler, and the reconciliation, then keeps to the relation.
\<close>

section \<open>The two changes of the maps of networks\<close>

definition registerNetwork :: "string \<Rightarrow> StackMirrorConfig \<Rightarrow> NetworkState \<Rightarrow> drv \<Rightarrow> drv" where
  "registerNetwork nid sc ns s =
     s\<lparr>stackMirrorConfigs := map_put nid sc (stackMirrorConfigs s), networks := map_put nid ns (networks s)\<rparr>"

definition unregisterNetwork :: "string \<Rightarrow> drv \<Rightarrow> drv" where
  "unregisterNetwork nid s =
     s\<lparr>networks := map_del nid (networks s), stackMirrorConfigs := map_del nid (stackMirrorConfigs s)\<rparr>"

lemma modify_modify: "thenM (modifyM f) (thenM (modifyM g) m) = thenM (modifyM (\<lambda>s. g (f s))) m"
  by (rule ext) (simp add: thenM_def bindM_def)

lemma createNetwork_body_register:
  "createNetwork_body E d opMsg =
     bindM (mustGetNetworkInspectFromID E (NetworkID opMsg)) (\<lambda>netInspect.
     bindM (getNetworkStateFromResource E netInspect (shortEngineId d)) (\<lambda>(inspectNs, err).
     thenM (mustM err)
     (let ns = (NewNetworkState opMsg)\<lparr>NetworkName := NetworkName inspectNs\<rparr> in
      thenM (modifyM (registerNetwork (NetworkID opMsg) (NewStackMirrorConfig opMsg) ns))
      (createNetwork_config E d opMsg inspectNs ns))))"
  by (simp add: createNetwork_body_def Let_def modify_modify registerNetwork_def [abs_def])

lemma deleteNetwork_body_unregister:
  "deleteNetwork_body E d opMsg =
     bindM (getNetwork (NetworkID opMsg)) (\<lambda>ns.
     thenM (mustDeleteDp E (NetworkName ns))
     (thenM (if Mode ns = modeNAT
        then bindM (natOut E (Gateway ns @ ''/'' @ GatewayMask ns) ''-D'') (\<lambda>err.
             case err of Some _ \<Rightarrow> fatalM | None \<Rightarrow> retM ())
        else retM ())
     (thenM (mustDeleteBridgeAndPorts E d (BridgeName ns))
     (thenM (modifyM (unregisterNetwork (NetworkID opMsg)))
     (thenM (sendReply (Reply opMsg) zeroReply)
     (notifyM \<lparr>nm_NetworkState = ns, nm_Type = ''NETWORK'', nm_Operation = ''DELETE'', nm_Details = []\<rparr>))))))"
  by (simp add: deleteNetwork_body_def modify_modify unregisterNetwork_def [abs_def])

text \<open>The deletion up to its reply; the result is the state the network had.\<close>

definition deleteNetwork_before :: "env \<Rightarrow> Driver \<Rightarrow> DovesnapOp \<Rightarrow> NetworkState drvM" where
  "deleteNetwork_before E d opMsg =
     bindM (getNetwork (NetworkID opMsg)) (\<lambda>ns.
     thenM (mustDeleteDp E (NetworkName ns))
     (thenM (if Mode ns = modeNAT
        then bindM (natOut E (Gateway ns @ ''/'' @ GatewayMask ns) ''-D'') (\<lambda>err.
             case err of Some _ \<Rightarrow> fatalM | None \<Rightarrow> retM ())
        else retM ())
     (thenM (mustDeleteBridgeAndPorts E d (BridgeName ns))
     (thenM (modifyM (unregisterNetwork (NetworkID opMsg))) (retM ns)))))"

definition deleteNotice :: "NetworkState \<Rightarrow> NotifyMsg" where
  "deleteNotice ns = \<lparr>nm_NetworkState = ns, nm_Type = ''NETWORK'', nm_Operation = ''DELETE'', nm_Details = []\<rparr>"

lemma deleteNetwork_body_split:
  "deleteNetwork_body E d opMsg =
     bindM (deleteNetwork_before E d opMsg) (\<lambda>ns.
     thenM (sendReply (Reply opMsg) zeroReply) (notifyM (deleteNotice ns)))"
  by (simp add: deleteNetwork_body_unregister deleteNetwork_before_def deleteNotice_def thenM_def bindM_assoc)

section \<open>The interface\<close>

locale state_frame = driver_preorder R for R :: "drv \<Rightarrow> drv \<Rightarrow> bool" +
  assumes R_dyn: "R s (updateDyn r f s)"
    and R_alloc: "R s (s\<lparr>dyn_store := dyn_store s @ [m]\<rparr>)"
    and R_ofports: "R s (s\<lparr>OFPorts := ps\<rparr>)"
    and R_portdesc: "R s (s\<lparr>AllPortDesc := pd\<rparr>)"
    and R_mtime: "R s (s\<lparr>lastDhcpMtime := t\<rparr>)"
begin

lemma steps_writeDyn: "steps_in R (writeDyn dn f)"
  unfolding writeDyn_def by (intro driver_intros steps_modify R_dyn)

lemma steps_deleteDyn: "steps_in R (deleteDyn dn f)"
  unfolding deleteDyn_def by (intro driver_intros steps_modify R_dyn)

lemma steps_makeDyn: "steps_in R (makeDynamicNetworkState e)"
  unfolding makeDynamicNetworkState_def by (intro driver_intros steps_modify R_alloc)

lemma steps_setOFPorts: "steps_in R (setOFPorts ep c)"
  unfolding setOFPorts_def by (intro steps_modify R_ofports)

lemma steps_delOFPorts: "steps_in R (modifyM (\<lambda>s. s\<lparr>OFPorts := map_del ep (OFPorts s)\<rparr>))"
  by (intro steps_modify R_ofports)

lemma steps_portDesc: "steps_in R (modifyM (\<lambda>s. s\<lparr>AllPortDesc := map_put i pd (AllPortDesc s)\<rparr>))"
  by (intro steps_modify R_portdesc)

lemma steps_mtime: "steps_in R (modifyM (\<lambda>s. s\<lparr>lastDhcpMtime := t\<rparr>))"
  by (intro steps_modify R_mtime)

lemmas state_intros =
  steps_writeDyn steps_deleteDyn steps_makeDyn steps_setOFPorts steps_delOFPorts steps_portDesc steps_mtime
  steps_ret steps_pair steps_panic steps_fatal steps_block steps_get steps_lift
  steps_bind steps_then steps_recover steps_forM steps_foldM
  steps_if steps_option steps_sum steps_prod steps_let
  steps_getNetwork steps_getMirrorConfig steps_readDyn steps_defer

lemmas steps_calls = talks_call [THEN steps_io]

lemmas steps_musts = talks_must [THEN steps_io]

lemma steps_resource: "steps_in R (getNetworkStateFromResource E r e)"
  unfolding getNetworkStateFromResource_def by (intro state_intros)

lemma steps_putExternalPort: "steps_in R (putExternalPort E ns i p)"
  unfolding putExternalPort_def by (intro state_intros steps_io [OF io_getExternalPortState])

lemma steps_createAddPorts: "steps_in R (createAddPorts E ns ap)"
  unfolding createAddPorts_def createAddPort_def
  by (intro state_intros steps_putExternalPort steps_calls steps_io [OF io_mustGetOfPort])

lemma steps_createCoproPorts: "steps_in R (createCoproPorts E ns ap acc)"
  unfolding createCoproPorts_def createCoproPort_def
  by (intro state_intros steps_putExternalPort steps_calls steps_io [OF io_mustGetOfPort])

lemma steps_createMirrorEntry: "steps_in R (createMirrorEntry E d ns i ifs)"
  unfolding createMirrorEntry_def by (intro state_intros steps_io [OF io_mustGetOfPort])

lemma steps_createConfigYaml: "steps_in R (createConfigYaml E d ns ifs eg)"
  unfolding createConfigYaml_def by (intro state_intros steps_io [OF io_mustGetOfPort])

lemmas steps_rpcs = io_rpcs [THEN steps_io]

lemma steps_reserve: "steps_in R (mustHandleReservePort E d opMsg)"
  unfolding mustHandleReservePort_def by (intro state_intros steps_io [OF io_mustAddInternalPort])

lemma steps_reconcileDhcpIp: "steps_in R (reconcileDhcpIp E)"
  unfolding reconcileDhcpIp_def reconcileNetworkDhcp_def reconcileContainer_def Let_def
  by (rule steps_bind, rule steps_calls)
    (auto split: stat_result.split intro!: state_intros steps_calls steps_calls)

lemma steps_removePort: "steps_in R (removePort E ns pd npd p)"
  unfolding removePort_def by (intro state_intros steps_rpcs)

lemma steps_addPort: "steps_in R (addPort E ns sc ap npd ifs p)"
  unfolding addPort_def by (intro state_intros steps_putExternalPort)

lemma steps_reconcileOvs: "steps_in R (reconcileOvs E)"
  unfolding reconcileOvs_def reconcileNetworkOvs_def
  by (intro state_intros steps_rpcs steps_removePort steps_addPort steps_calls
      steps_calls steps_io [OF io_scrapePortDesc])

end

text \<open>The handlers also send notifications and replies.\<close>

locale op_frame = state_frame R for R :: "drv \<Rightarrow> drv \<Rightarrow> bool" +
  fixes ch :: "nat option"
  assumes R_notify: "length (notifyMsgs s) < chanSize \<Longrightarrow> R s (s\<lparr>notifyMsgs := notifyMsgs s @ [msg]\<rparr>)"
    and R_reply: "ch = Some c \<Longrightarrow> R s (s\<lparr>replies := (replies s)[c := q]\<rparr>)"
begin

lemma steps_notify: "steps_in R (notifyM msg)"
  unfolding steps_in_def notifyM_run by (simp add: R_notify R_refl)

lemma steps_sendReply: "c = ch \<Longrightarrow> steps_in R (sendReply c rep)"
  unfolding sendReply_def by (intro driver_intros steps_modify R_reply) simp

lemmas handler_intros = steps_notify steps_sendReply state_intros

lemma steps_createNetwork_config: "steps_in R (createNetwork_config E d opMsg ins ns)"
  unfolding createNetwork_config_def
  by (intro handler_intros steps_createAddPorts steps_createCoproPorts steps_putExternalPort
      steps_createMirrorEntry steps_createConfigYaml steps_rpcs steps_io [OF io_mustLowestFreePortOnBridge]
      steps_calls steps_io [OF io_setPortAcl])

lemma steps_getNetworkHandler: "Reply opMsg = ch \<Longrightarrow> steps_in R (mustHandleGetNetwork E d opMsg)"
  unfolding mustHandleGetNetwork_def by (intro handler_intros)

lemma steps_join_body: "steps_in R (joinContainer_body E d opMsg)"
  unfolding joinContainer_body_def
  by (intro handler_intros steps_rpcs steps_io [OF io_getContainerFromEndpoint] steps_musts
      steps_io [OF io_createNsLink] steps_io [OF io_joinMac] steps_io [OF io_execM] steps_io [OF io_addPortMapM]
      steps_io [OF io_joinMirror] steps_io [OF io_joinDhcp])

lemma steps_join: "steps_in R (mustHandleJoinContainer E d opMsg)"
  unfolding mustHandleJoinContainer_def by (intro handler_intros steps_join_body)

lemma steps_leave_body: "steps_in R (leaveContainer_body E d opMsg)"
  unfolding leaveContainer_body_def
  by (intro handler_intros steps_rpcs steps_io [OF io_killM] steps_io [OF io_mustGetOfPort]
      steps_io [OF io_delVethPair] steps_io [OF io_mustDeletePort] steps_io [OF io_delPortMapM]
      steps_io [OF io_deleteNsLink])

lemma steps_leave: "Reply opMsg = ch \<Longrightarrow> steps_in R (mustHandleLeaveContainer E d opMsg)"
  unfolding mustHandleLeaveContainer_def by (intro handler_intros steps_leave_body)

lemma steps_networks: "Reply opMsg = ch \<Longrightarrow> steps_in R (mustHandleNetworks opMsg)"
  unfolding mustHandleNetworks_def by (intro handler_intros)

end

text \<open>The handlers that register and remove networks.\<close>

locale handler_frame = op_frame R ch for R :: "drv \<Rightarrow> drv \<Rightarrow> bool" and nid :: string and ch :: "nat option" +
  assumes R_register: "R s (registerNetwork nid sc ns s)"
    and R_unregister: "R s (unregisterNetwork nid s)"
begin

lemma steps_register: "i = nid \<Longrightarrow> steps_in R (modifyM (registerNetwork i sc ns))"
  by (simp add: steps_modify R_register)

lemma steps_unregister: "i = nid \<Longrightarrow> steps_in R (modifyM (unregisterNetwork i))"
  by (simp add: steps_modify R_unregister)

lemma steps_createNetwork_body: "NetworkID opMsg = nid \<Longrightarrow> steps_in R (createNetwork_body E d opMsg)"
  unfolding createNetwork_body_register
  by (intro handler_intros steps_register steps_unregister steps_resource steps_createNetwork_config
      steps_io [OF io_mustGetNetworkInspectFromID] steps_musts)

lemma steps_deleteNetwork_before: "NetworkID opMsg = nid \<Longrightarrow> steps_in R (deleteNetwork_before E d opMsg)"
  unfolding deleteNetwork_before_def
  by (intro handler_intros steps_register steps_unregister steps_rpcs steps_io [OF io_natOut] steps_io [OF io_mustDeleteBridgeAndPorts])

lemma steps_deleteNetwork_body:
  "NetworkID opMsg = nid \<Longrightarrow> Reply opMsg = ch \<Longrightarrow> steps_in R (deleteNetwork_body E d opMsg)"
  unfolding deleteNetwork_body_split by (intro handler_intros steps_register steps_unregister steps_deleteNetwork_before)

end

end
