(* ===== verification/Driver_Api.thy ===== *)
theory Driver_Api
  imports Handler_Frame
begin

text \<open>
  The calls Docker makes (\<^verbatim>\<open>CreateNetwork\<close>, \<^verbatim>\<open>DeleteNetwork\<close>, \<^verbatim>\<open>CreateEndpoint\<close>, \<^verbatim>\<open>Join\<close>,
  \<^verbatim>\<open>Leave\<close> and the ones that do nothing), \<^verbatim>\<open>restoreNetworks\<close>, and the status page, all of
  \<^verbatim>\<open>ovs/driver.go\<close>.  They run outside the resource manager and talk to it through the
  channel \<open>dovesnapOpChan\<close>.
\<close>

section \<open>Channels\<close>

text \<open>The send waits while the channel holds \<open>chanSize\<close> operations.\<close>

definition sendOp :: "DovesnapOp \<Rightarrow> unit drvM" where
  "sendOp opMsg =
     bindM (getM dovesnapOpChan) (\<lambda>q.
     if length q < chanSize then modifyM (\<lambda>s. s\<lparr>dovesnapOpChan := dovesnapOpChan s @ [opMsg]\<rparr>) else blockM)"

definition awaitReply :: "nat \<Rightarrow> DovesnapOpReply drvM" where
  "awaitReply c =
     bindM (getM replies) (\<lambda>rs.
     if c < length rs then
       (case rs ! c of
          [] \<Rightarrow> blockM
        | rep # rest \<Rightarrow> thenM (modifyM (\<lambda>s. s\<lparr>replies := (replies s)[c := rest]\<rparr>)) (retM rep))
     else blockM)"

definition wgWait :: "unit drvM" where
  "wgWait = bindM (getM createDeleteNetworkWG) (\<lambda>n. if n = 0 then retM () else blockM)"

section \<open>Creating a network\<close>

text \<open>The network state of a request, with the checks in the order of the code.\<close>

definition requestNetworkState :: "env \<Rightarrow> Driver \<Rightarrow> CreateNetworkRequest \<Rightarrow> NetworkState drvM" where
  "requestNetworkState E d r =
     bindM (liftO (mustGetBridgeName r)) (\<lambda>bridgeName.
     bindM (liftO (mustGetBridgeMode r)) (\<lambda>mode.
     let controller = (if mustGetBridgeController r = [] then stackDefaultControllers d
                       else mustGetBridgeController r);
         dpid = mustGetBridgeDpid r in
     bindM (liftO (mustGetGatewayIP r)) (\<lambda>(gateway, gwmask).
     let useDHCP = mustGetUseDHCP r in
     thenM (if useDHCP then
         (if mode \<noteq> ''flat'' then panicM (Errorf ''network must be flat when DHCP in use'')
          else if gateway \<noteq> [] then panicM (Errorf ''network must not have IP config when DHCP in use'')
          else bindM (liftO (mustGetInternalOption r)) (\<lambda>internal.
            if \<not> internal then panicM (Errorf ''network must be internal when DHCP in use'') else retM ()))
       else retM ())
     (bindM (liftO (mustGetUintFromHexStr (bcConvert E) dpid)) (\<lambda>uintDpid.
      bindM (makeDynamicNetworkState (shortEngineId d)) (\<lambda>dyn.
      retM \<lparr>NetworkName = [],
            BridgeName = bridgeName,
            BridgeDpid = dpid,
            BridgeDpidUint = uintDpid,
            BridgeVLAN = mustGetBridgeVLAN r,
            MTU = mustGetBridgeMTU r,
            PreAllocatePorts = mustGetPreAllocatePorts r,
            Mode = mode,
            AddPorts = mustGetBridgeAddPorts r,
            AddCoproPorts = mustGetBridgeAddCoproPorts r,
            Gateway = gateway,
            GatewayMask = gwmask,
            FlatBindInterface = mustGetBindInterface r,
            UseDHCP = useDHCP,
            Userspace = mustGetUserspace r,
            NATAcl = mustGetNATAcl r,
            VLANOutAcl = mustGetBridgeVLANOutAcl r,
            DefaultAcl = mustGetDefaultAcl r,
            OvsLocalMac = mustGetOvsLocalMac r,
            Controller = controller,
            DynamicNetworkStates = dyn\<rparr>))))))"

text \<open>Everything before the message is sent: the result is the message.\<close>

definition prepareCreate :: "env \<Rightarrow> Driver \<Rightarrow> CreateNetworkRequest \<Rightarrow> string \<Rightarrow> DovesnapOp drvM" where
  "prepareCreate E d r operation =
     bindM (requestNetworkState E d r) (\<lambda>ns.
     thenM (liftO (bindO (parseAddPorts (AddPorts ns) \<lparr>ap_ports = [], ap_acls = Some [], ap_vlans = None\<rparr>)
                    (parseAddPorts (AddCoproPorts ns))))
     (bindM (liftO (getStackMirrorConfig d r)) (\<lambda>stackMirrorConfig.
      thenM (if operation = ''create'' then InitBridge E d ns stackMirrorConfig else retM ())
      (thenM (mustSetInterfaceMTU E (BridgeName ns) (MTU ns))
      (retM (zeroOp\<lparr>NewNetworkState := ns, NewStackMirrorConfig := stackMirrorConfig,
              op_AddPorts := AddPorts ns, op_AddCoproPorts := AddCoproPorts ns, op_Mode := Mode ns,
              NetworkID := cr_NetworkID r, EndpointID := BridgeName ns, Operation := operation\<rparr>))))))"

definition ReOrCreateNetwork :: "env \<Rightarrow> Driver \<Rightarrow> CreateNetworkRequest \<Rightarrow> string \<Rightarrow> error option drvM" where
  "ReOrCreateNetwork E d r operation =
     recoverM
       (bindM (prepareCreate E d r operation) (\<lambda>createMsg.
        thenM wgAdd (thenM (sendOp createMsg) (retM None))))
       (\<lambda>rerr. retM (Some (Wrap ''cannot create network: '' rerr)))"

definition CreateNetwork :: "env \<Rightarrow> Driver \<Rightarrow> CreateNetworkRequest \<Rightarrow> error option drvM" where
  "CreateNetwork E d r = ReOrCreateNetwork E d r ''create''"

section \<open>Deleting a network\<close>

definition prepareDelete :: "string \<Rightarrow> DovesnapOp drvM" where
  "prepareDelete nid =
     bindM makeReplyChan (\<lambda>c. retM (zeroOp\<lparr>NetworkID := nid, Operation := ''delete'', Reply := Some c\<rparr>))"

definition DeleteNetwork :: "string \<Rightarrow> error option drvM" where
  "DeleteNetwork nid =
     bindM (prepareDelete nid) (\<lambda>deleteMsg.
     thenM wgAdd
     (thenM (sendOp deleteMsg)
     (thenM (awaitReply (the (Reply deleteMsg))) (retM None))))"

section \<open>Endpoints\<close>

text \<open>The interface of the request may be nil; of it only the MAC address is read.\<close>

record CreateEndpointRequest =
  ce_NetworkID :: string
  ce_EndpointID :: string
  ce_Interface :: "string option"

text \<open>Creating the link, and the MAC address of the response: empty when Docker asked for one.\<close>

definition endpointMac :: "env \<Rightarrow> CreateEndpointRequest \<Rightarrow> ('x, string) io" where
  "endpointMac E r =
     bindM (liftO (truncateID (ce_EndpointID r))) (\<lambda>short.
     let localVethPair = vethPair short; vethName = veth_PeerName localVethPair in
     thenM (addVethPair E localVethPair)
     (case ce_Interface r of
        None \<Rightarrow> panicM NilDereference
      | Some requested \<Rightarrow>
          if requested = [] then getMacAddr E vethName
          else thenM (mustSetInterfaceMac E vethName requested) (retM [])))"

definition prepareEndpoint :: "env \<Rightarrow> CreateEndpointRequest \<Rightarrow> (DovesnapOp \<times> string) drvM" where
  "prepareEndpoint E r =
     bindM (endpointMac E r) (\<lambda>macAddress.
     bindM makeReplyChan (\<lambda>c.
     retM (zeroOp\<lparr>NetworkID := ce_NetworkID r, EndpointID := ce_EndpointID r,
              Operation := ''reserveport'', Reply := Some c\<rparr>, macAddress)))"

definition CreateEndpoint :: "env \<Rightarrow> CreateEndpointRequest \<Rightarrow> string drvM" where
  "CreateEndpoint E r =
     bindM (prepareEndpoint E r) (\<lambda>(reservePortMsg, macAddress).
     thenM (sendOp reservePortMsg) (retM macAddress))"

record JoinRequest =
  jr_NetworkID :: string
  jr_EndpointID :: string
  jr_Options :: options

record JoinResponse =
  SrcName :: string
  DstPrefix :: string
  jr_Gateway :: string

definition prepareJoin :: "JoinRequest \<Rightarrow> (DovesnapOp \<times> JoinResponse) drvM" where
  "prepareJoin r =
     thenM wgWait
     (bindM (getNetwork (jr_NetworkID r)) (\<lambda>ns.
      bindM (liftO (truncateID (jr_EndpointID r))) (\<lambda>short.
      retM (zeroOp\<lparr>NetworkID := jr_NetworkID r, EndpointID := jr_EndpointID r,
               op_Options := jr_Options r, Operation := ''join''\<rparr>,
            \<lparr>SrcName = veth_PeerName (vethPair short), DstPrefix = containerEthName, jr_Gateway = Gateway ns\<rparr>))))"

definition Join_endpoint :: "JoinRequest \<Rightarrow> JoinResponse drvM" where
  "Join_endpoint r =
     bindM (prepareJoin r) (\<lambda>(joinMsg, res). thenM (sendOp joinMsg) (retM res))"

definition prepareLeave :: "string \<Rightarrow> string \<Rightarrow> DovesnapOp drvM" where
  "prepareLeave nid ep =
     bindM makeReplyChan (\<lambda>c.
     retM (zeroOp\<lparr>NetworkID := nid, EndpointID := ep, Operation := ''leave'', Reply := Some c\<rparr>))"

definition Leave :: "string \<Rightarrow> string \<Rightarrow> error option drvM" where
  "Leave nid ep =
     bindM (prepareLeave nid ep) (\<lambda>leaveMsg.
     thenM (sendOp leaveMsg)
     (thenM (awaitReply (the (Reply leaveMsg))) (retM None)))"

section \<open>Calls without effect\<close>

definition GetCapabilities :: "string \<times> error option" where
  "GetCapabilities = (''local'', None)"

definition ProgramExternalConnectivity :: "error option" where "ProgramExternalConnectivity = None"
definition RevokeExternalConnectivity :: "error option" where "RevokeExternalConnectivity = None"
definition FreeNetwork :: "error option" where "FreeNetwork = None"
definition DiscoverNew :: "error option" where "DiscoverNew = None"
definition DiscoverDelete :: "error option" where "DiscoverDelete = None"
definition DeleteEndpoint :: "error option" where "DeleteEndpoint = None"

definition AllocateNetwork :: "(string, string) gomap \<times> error option" where
  "AllocateNetwork = ([], None)"

definition EndpointInfo :: "(string, string) gomap \<times> error option" where
  "EndpointInfo = ([], None)"

section \<open>Restoring networks at start\<close>

text \<open>The operation for an existing network: its bridge is in order, has lost its address, or is down.\<close>

definition restoreOperation :: "env \<Rightarrow> string \<Rightarrow> ('x, string) io" where
  "restoreOperation E bridgeName =
     bindM (ifUp E bridgeName) (\<lambda>up.
     if up then
       bindM (getIfaceAddr E bridgeName) (\<lambda>r.
       retM (case r of Inl _ \<Rightarrow> ''recreatebadbridge'' | Inr _ \<Rightarrow> ''create''))
     else retM ''recreatedownbridge'')"

definition prepareRestore :: "env \<Rightarrow> Driver \<Rightarrow> string \<Rightarrow> DovesnapOp drvM" where
  "prepareRestore E d nid =
     bindM (mustGetNetworkInspectFromID E nid) (\<lambda>netInspect.
     bindM (getNetworkStateFromResource E netInspect (shortEngineId d)) (\<lambda>(ns, err).
     thenM (mustM err)
     (bindM (liftO (getStackMirrorConfigFromResource d netInspect)) (\<lambda>sc.
      thenM (modifyM (\<lambda>s. s\<lparr>stackMirrorConfigs := map_put nid sc (stackMirrorConfigs s)\<rparr>))
      (let ns = (if Controller ns = [] then ns\<lparr>Controller := stackDefaultControllers d\<rparr> else ns) in
       bindM (restoreOperation E (BridgeName ns)) (\<lambda>operation.
       retM (zeroOp\<lparr>NewNetworkState := ns, NewStackMirrorConfig := sc, op_AddPorts := AddPorts ns,
          op_Mode := Mode ns, NetworkID := nid, EndpointID := BridgeName ns, Operation := operation\<rparr>)))))))"

definition restoreNetwork :: "env \<Rightarrow> Driver \<Rightarrow> string \<Rightarrow> unit drvM" where
  "restoreNetwork E d nid =
     bindM (prepareRestore E d nid) (\<lambda>createMsg. thenM wgAdd (sendOp createMsg))"

definition restoreNetworks :: "env \<Rightarrow> Driver \<Rightarrow> unit drvM" where
  "restoreNetworks E d =
     bindM (mustGetNetworkList E) (\<lambda>netlist.
     bindM (rangeStrM E netlist) (\<lambda>ids.
     thenM (forM (restoreNetwork E d) ids) wgWait))"

section \<open>Status requests\<close>

text \<open>
  \<open>getWebResponse\<close> asks the resource manager and prints the text of the reply, which the
  code passes to \<open>fmt.Fprintf\<close> as the format string, without arguments.
\<close>

definition prepareWeb :: "string \<Rightarrow> DovesnapOp drvM" where
  "prepareWeb operation =
     bindM makeReplyChan (\<lambda>c. retM (zeroOp\<lparr>Operation := operation, Reply := Some c\<rparr>))"

definition getWebResponse :: "string \<Rightarrow> string drvM" where
  "getWebResponse operation =
     bindM (prepareWeb operation) (\<lambda>requestMsg.
     thenM (sendOp requestMsg)
     (bindM (awaitReply (the (Reply requestMsg))) (\<lambda>reply. retM (Sprintf0 (re_NetworkStateString reply)))))"

text \<open>
  The address a request comes from: the first one, in the two headers and then the connection,
  that is written as host and port and can be read; the empty list is Go's nil.
\<close>

record http_request =
  X_REAL_IP :: string
  X_FORWARDED_FOR :: string
  RemoteAddr :: string

definition hostPortIP :: "string \<Rightarrow> byte list" where
  "hostPortIP hostPort = (case SplitHostPort hostPort of Inl _ \<Rightarrow> [] | Inr (ip, _) \<Rightarrow> ParseIP ip)"

definition getRemoteIp :: "http_request \<Rightarrow> byte list" where
  "getRemoteIp r =
     (case find (\<lambda>hostPort. hostPortIP hostPort \<noteq> [])
        (concat (map (\<lambda>possibleIP. Split possibleIP (CHR '','')) [X_REAL_IP r, X_FORWARDED_FOR r, RemoteAddr r])) of
        None \<Rightarrow> [] | Some hostPort \<Rightarrow> hostPortIP hostPort)"

definition isAuthIP :: "byte list \<Rightarrow> IPNet list \<Rightarrow> bool" where
  "isAuthIP requestIP nets = list_ex (\<lambda>authIP. IPNet_Contains authIP requestIP) nets"

definition handleNetworksWeb :: "Driver \<Rightarrow> http_request \<Rightarrow> string drvM" where
  "handleNetworksWeb d r =
     (if isAuthIP (getRemoteIp r) (authIPs d) then getWebResponse ''networks''
      else retM (Sprintf0 ''not authorized''))"

section \<open>Shutting down\<close>

text \<open>The message of \<open>Quit\<close>, which then waits for the resource manager to return.\<close>

definition quitMsg :: DovesnapOp where
  "quitMsg = zeroOp\<lparr>Operation := ''quit''\<rparr>"

section \<open>Frame of the calls\<close>

lemma io_restoreOperation [io_intros]: "talks (restoreOperation E b)"
  unfolding restoreOperation_def by (intro io_intros pure_intros)

lemma io_endpointMac [io_intros]: "talks (endpointMac E r)"
  unfolding endpointMac_def by (intro io_intros pure_intros)

context op_frame
begin

lemma steps_requestNetworkState: "steps_in R (requestNetworkState E d r)"
  unfolding requestNetworkState_def by (intro handler_intros)

lemma steps_prepareCreate: "steps_in R (prepareCreate E d r operation)"
  unfolding prepareCreate_def
  by (intro handler_intros steps_requestNetworkState steps_io [OF io_InitBridge] steps_io [OF io_mustSetInterfaceMTU])

end

end
