(* ===== verification/Resource_Manager.thy ===== *)
theory Resource_Manager
  imports Driver_Api
begin

text \<open>
  The goroutine \<^verbatim>\<open>resourceManager\<close> of \<^verbatim>\<open>ovs/driver.go\<close>, which takes the operations from the
  channel one by one, and the system it forms with the concurrent calls.  A call is split
  where it can be interrupted: what it does before its message is sent, the send, and the
  receipt of the reply are separate steps; in between, the resource manager and other calls
  run.  Each of these parts is atomic in the model.
\<close>

section \<open>One operation\<close>

text \<open>The switch on the operation; the result says whether the loop goes on.\<close>

definition rmDispatch :: "env \<Rightarrow> Driver \<Rightarrow> DovesnapOp \<Rightarrow> bool drvM" where
  "rmDispatch E d opMsg =
     (if Operation opMsg = ''recreatebadbridge'' then
        thenM (mustDeleteBridgeAndPorts E d (EndpointID opMsg))
        (thenM (InitBridge E d (NewNetworkState opMsg) (NewStackMirrorConfig opMsg))
        (thenM (mustHandleCreateNetwork E d opMsg) (retM True)))
      else if Operation opMsg = ''recreatedownbridge'' then
        thenM (mustHandleDeleteNetwork E d opMsg)
        (thenM (InitBridge E d (NewNetworkState opMsg) (NewStackMirrorConfig opMsg))
        (thenM (mustHandleCreateNetwork E d opMsg) (retM True)))
      else if Operation opMsg = ''create'' then thenM (mustHandleCreateNetwork E d opMsg) (retM True)
      else if Operation opMsg = ''delete'' then thenM (mustHandleDeleteNetwork E d opMsg) (retM True)
      else if Operation opMsg = ''join'' then thenM (mustHandleJoinContainer E d opMsg) (retM True)
      else if Operation opMsg = ''leave'' then thenM (mustHandleLeaveContainer E d opMsg) (retM True)
      else if Operation opMsg = ''reserveport'' then thenM (mustHandleReservePort E d opMsg) (retM True)
      else if Operation opMsg = ''getnetwork'' then thenM (mustHandleGetNetwork E d opMsg) (retM True)
      else if Operation opMsg = ''networks'' then
        thenM (reconcileOvs E) (thenM (reconcileDhcpIp E) (thenM (mustHandleNetworks opMsg) (retM True)))
      else if Operation opMsg = ''quit'' then retM False
      else retM True)"

text \<open>One turn of the loop: an operation, or after three seconds without one the reconciliation.\<close>

definition rmStep :: "env \<Rightarrow> Driver \<Rightarrow> bool drvM" where
  "rmStep E d =
     bindM (getM dovesnapOpChan) (\<lambda>q.
     case q of
       [] \<Rightarrow> thenM (reconcileOvs E) (thenM (reconcileDhcpIp E) (retM True))
     | opMsg # rest \<Rightarrow> thenM (modifyM (\<lambda>s. s\<lparr>dovesnapOpChan := rest\<rparr>)) (rmDispatch E d opMsg))"

text \<open>The loop, for a number of turns; it ends early after \<^verbatim>\<open>quit\<close>.\<close>

primrec resourceManager :: "env \<Rightarrow> Driver \<Rightarrow> nat \<Rightarrow> bool drvM" where
  "resourceManager E d 0 = retM True"
| "resourceManager E d (Suc n) =
     bindM (rmStep E d) (\<lambda>continue. if continue then resourceManager E d n else retM False)"

section \<open>Frame facts\<close>

text \<open>No handler touches the channel of operations or, before its end, the wait group.\<close>

definition same_ops :: "drv \<Rightarrow> drv \<Rightarrow> bool" where
  "same_ops s t \<longleftrightarrow> createDeleteNetworkWG t = createDeleteNetworkWG s \<and> dovesnapOpChan t = dovesnapOpChan s"

interpretation ops: handler_frame same_ops nid ch for nid ch
  by unfold_locales
    (auto simp: same_ops_def updateDyn_def registerNetwork_def unregisterNetwork_def dest: more_drv_fields)

text \<open>An operation on one network leaves the entries of the others alone.\<close>

definition others_kept :: "string \<Rightarrow> drv \<Rightarrow> drv \<Rightarrow> bool" where
  "others_kept nid s t \<longleftrightarrow> (\<forall>j. j \<noteq> nid \<longrightarrow>
     map_get (networks t) j = map_get (networks s) j \<and>
     map_get (stackMirrorConfigs t) j = map_get (stackMirrorConfigs s) j)"

interpretation others: handler_frame "others_kept nid" nid ch for nid ch
  by unfold_locales
    (auto simp: others_kept_def updateDyn_def registerNetwork_def unregisterNetwork_def dest: more_drv_fields)

text \<open>The two maps are maps, and every network has a mirror configuration.\<close>

definition nets_ok :: "drv \<Rightarrow> bool" where
  "nets_ok s \<longleftrightarrow> map_ok (networks s) \<and> map_ok (stackMirrorConfigs s) \<and>
     set (map_keys (networks s)) \<subseteq> set (map_keys (stackMirrorConfigs s))"

definition nets_kept :: "drv \<Rightarrow> drv \<Rightarrow> bool" where
  "nets_kept s t \<longleftrightarrow> (nets_ok s \<longrightarrow> nets_ok t)"

lemma nets_ok_more: "world.more t = world.more s \<Longrightarrow> nets_ok t = nets_ok s"
  by (frule more_drv_fields(1), drule more_drv_fields(2)) (simp add: nets_ok_def)

interpretation nets: handler_frame nets_kept nid ch for nid ch
proof
  show "world.more t = world.more s \<Longrightarrow> nets_kept s t" for s t
    using nets_ok_more [of t s] by (simp add: nets_kept_def)
qed (auto simp: nets_kept_def nets_ok_def updateDyn_def registerNetwork_def unregisterNetwork_def)

text \<open>Reply channels other than the handler's own are left alone.\<close>

definition replies_kept :: "nat option \<Rightarrow> drv \<Rightarrow> drv \<Rightarrow> bool" where
  "replies_kept ch s t \<longleftrightarrow> length (replies t) = length (replies s) \<and>
     (\<forall>c. ch \<noteq> Some c \<longrightarrow> replies t ! c = replies s ! c)"

interpretation reps: handler_frame "replies_kept ch" nid ch for nid ch
  by unfold_locales
    (auto simp: replies_kept_def updateDyn_def registerNetwork_def unregisterNetwork_def nth_list_update
      dest: more_drv_fields)

text \<open>The channel of notifications keeps to its places.\<close>

definition notices_kept :: "drv \<Rightarrow> drv \<Rightarrow> bool" where
  "notices_kept s t \<longleftrightarrow> (length (notifyMsgs s) \<le> chanSize \<longrightarrow> length (notifyMsgs t) \<le> chanSize)"

interpretation notices: handler_frame notices_kept nid ch for nid ch
proof
  show "world.more t = world.more s \<Longrightarrow> notices_kept s t" for s t
    using more_drv_fields(7) [of t s] by (simp add: notices_kept_def)
qed (auto simp: notices_kept_def updateDyn_def registerNetwork_def unregisterNetwork_def)

text \<open>Code that sends no notification.\<close>

definition same_notices :: "drv \<Rightarrow> drv \<Rightarrow> bool" where
  "same_notices s t \<longleftrightarrow> notifyMsgs t = notifyMsgs s"

interpretation quiet: state_frame same_notices
  by unfold_locales (auto simp: same_notices_def updateDyn_def dest: more_drv_fields)

section \<open>Handlers neither wait nor panic\<close>

lemma unblocked_talks: "talks m \<Longrightarrow> unblocked m"
  by (rule talks_unblocked)

lemma unblocked_state [unblocked_intros]:
  "unblocked (getNetwork i)" "unblocked (getMirrorConfig i)" "unblocked (readDyn dn)"
  "unblocked (writeDyn dn f)" "unblocked (deleteDyn dn f)" "unblocked (makeDynamicNetworkState e)"
  "unblocked (setOFPorts ep c)" "unblocked wgDone"
  unfolding getNetwork_def getMirrorConfig_def readDyn_def writeDyn_def deleteDyn_def
    makeDynamicNetworkState_def setOFPorts_def wgDone_def
  by (intro unblocked_intros)+

lemma unblocked_resource [unblocked_intros]: "unblocked (getNetworkStateFromResource E r e)"
  unfolding getNetworkStateFromResource_def by (intro unblocked_intros pure_intros)

lemma unblocked_putExternalPort [unblocked_intros]: "unblocked (putExternalPort E ns i p)"
  unfolding putExternalPort_def by (intro unblocked_intros talks_unblocked [OF io_getExternalPortState])

lemma unblocked_createAddPorts [unblocked_intros]: "unblocked (createAddPorts E ns ap)"
  unfolding createAddPorts_def createAddPort_def
  by (intro unblocked_intros pure_intros talks_call [THEN talks_unblocked] talks_unblocked [OF io_mustGetOfPort])

lemma unblocked_createCoproPorts [unblocked_intros]: "unblocked (createCoproPorts E ns ap acc)"
  unfolding createCoproPorts_def createCoproPort_def
  by (intro unblocked_intros pure_intros talks_call [THEN talks_unblocked] talks_unblocked [OF io_mustGetOfPort])

lemma unblocked_createMirrorEntry [unblocked_intros]: "unblocked (createMirrorEntry E d ns i ifs)"
  unfolding createMirrorEntry_def by (intro unblocked_intros pure_intros talks_unblocked [OF io_mustGetOfPort])

lemma unblocked_createConfigYaml [unblocked_intros]: "unblocked (createConfigYaml E d ns ifs eg)"
  unfolding createConfigYaml_def by (intro unblocked_intros pure_intros talks_unblocked [OF io_mustGetOfPort])

lemmas unblocked_rpcs = io_rpcs [THEN talks_unblocked]
lemmas unblocked_calls = talks_call [THEN talks_unblocked] talks_must [THEN talks_unblocked]

lemma unblocked_deleteNetwork_before [unblocked_intros]: "unblocked (deleteNetwork_before E d opMsg)"
  unfolding deleteNetwork_before_def
  by (intro unblocked_intros unblocked_rpcs talks_unblocked [OF io_natOut] talks_unblocked [OF io_mustDeleteBridgeAndPorts])

lemma unblocked_reserve [unblocked_intros]: "unblocked (mustHandleReservePort E d opMsg)"
  unfolding mustHandleReservePort_def deferM_def
  by (intro unblocked_intros pure_intros talks_unblocked [OF io_mustAddInternalPort])

lemma unblocked_reconcileDhcpIp [unblocked_intros]: "unblocked (reconcileDhcpIp E)"
  unfolding reconcileDhcpIp_def reconcileNetworkDhcp_def reconcileContainer_def Let_def
  by (auto split: stat_result.split intro!: unblocked_intros unblocked_calls)

lemma unblocked_reconcileOvs [unblocked_intros]: "unblocked (reconcileOvs E)"
  unfolding reconcileOvs_def reconcileNetworkOvs_def removePort_def addPort_def
  by (intro unblocked_intros pure_intros unblocked_rpcs unblocked_calls talks_unblocked [OF io_scrapePortDesc])

text \<open>
  Code that sends at most one notification, as its last action: it only waits when the channel of
  notifications is full.
\<close>

definition sends_one :: "'a drvM \<Rightarrow> bool" where
  "sends_one m \<longleftrightarrow> (\<forall>s. length (notifyMsgs s) < chanSize \<longrightarrow> fst (m s) \<noteq> Blocked)"

lemma sends_basic: "sends_one (notifyM msg)" "sends_one (panicM e)" "sends_one (retM a)"
  by (simp_all add: sends_one_def notifyM_run)

lemma sends_bind:
  assumes "unblocked m" "steps_in same_notices m" "\<And>a. sends_one (f a)"
  shows "sends_one (bindM m f)"
  unfolding sends_one_def
proof (intro allI impI)
  fix s :: drv assume r: "length (notifyMsgs s) < chanSize"
  obtain x t where m: "m s = (x, t)" by force
  with assms(2) have "notifyMsgs t = notifyMsgs s" by (auto dest: steps_inD simp: same_notices_def)
  moreover have "x \<noteq> Blocked" using assms(1) m by (metis fst_conv unblocked_def)
  ultimately show "fst (bindM m f s) \<noteq> Blocked"
    using m r assms(3) by (cases x) (auto simp: bindM_def sends_one_def)
qed

lemma sends_then: "unblocked m \<Longrightarrow> steps_in same_notices m \<Longrightarrow> sends_one n \<Longrightarrow> sends_one (thenM m n)"
  by (simp add: thenM_def sends_bind)

lemma sends_branches:
  "sends_one m \<Longrightarrow> sends_one n \<Longrightarrow> sends_one (if c then m else n)"
  "sends_one m \<Longrightarrow> (\<And>a. sends_one (f a)) \<Longrightarrow> sends_one (case x of None \<Rightarrow> m | Some a \<Rightarrow> f a)"
  "(\<And>a b. sends_one (k a b)) \<Longrightarrow> sends_one (case z of (a, b) \<Rightarrow> k a b)"
  "(\<And>a. sends_one (l a)) \<Longrightarrow> sends_one (let a = u in l a)"
  by (simp_all split: option.split prod.split)

lemmas sends_intros = sends_basic sends_bind sends_then sends_branches

lemmas quiet_intros = quiet.state_intros quiet.steps_calls quiet.steps_musts quiet.steps_rpcs

lemma quiet_modify: "(\<And>s. notifyMsgs (f s) = notifyMsgs s) \<Longrightarrow> steps_in same_notices (modifyM f)"
  by (simp add: steps_in_def same_notices_def)

lemma sends_createNetwork_body: "sends_one (createNetwork_body E d opMsg)"
  unfolding createNetwork_body_def createNetwork_config_def
  by (intro sends_intros unblocked_intros pure_intros unblocked_rpcs unblocked_calls
      talks_unblocked [OF io_mustLowestFreePortOnBridge] talks_unblocked [OF io_setPortAcl]
      talks_unblocked [OF io_mustGetNetworkInspectFromID]
      quiet_intros quiet.steps_createAddPorts quiet.steps_createCoproPorts quiet.steps_putExternalPort
      quiet.steps_createMirrorEntry quiet.steps_createConfigYaml quiet.steps_resource
      quiet.steps_io [OF io_mustLowestFreePortOnBridge] quiet.steps_io [OF io_setPortAcl]
      quiet.steps_io [OF io_mustGetNetworkInspectFromID] quiet_modify) simp_all

lemma sends_join_body: "sends_one (joinContainer_body E d opMsg)"
  unfolding joinContainer_body_def
  by (intro sends_intros unblocked_intros pure_intros unblocked_rpcs unblocked_calls quiet_intros
      talks_unblocked [OF io_getContainerFromEndpoint] quiet.steps_io [OF io_getContainerFromEndpoint]
      talks_unblocked [OF io_createNsLink] quiet.steps_io [OF io_createNsLink]
      talks_unblocked [OF io_joinMac] quiet.steps_io [OF io_joinMac]
      talks_unblocked [OF io_execM] quiet.steps_io [OF io_execM]
      talks_unblocked [OF io_addPortMapM] quiet.steps_io [OF io_addPortMapM]
      talks_unblocked [OF io_joinMirror] quiet.steps_io [OF io_joinMirror]
      talks_unblocked [OF io_joinDhcp] quiet.steps_io [OF io_joinDhcp])

lemma sends_leave_body: "sends_one (leaveContainer_body E d opMsg)"
  unfolding leaveContainer_body_def
  by (intro sends_intros unblocked_intros pure_intros unblocked_rpcs quiet_intros
      talks_unblocked [OF io_killM] quiet.steps_io [OF io_killM]
      talks_unblocked [OF io_mustGetOfPort] quiet.steps_io [OF io_mustGetOfPort]
      talks_unblocked [OF io_delVethPair] quiet.steps_io [OF io_delVethPair]
      talks_unblocked [OF io_mustDeletePort] quiet.steps_io [OF io_mustDeletePort]
      talks_unblocked [OF io_delPortMapM] quiet.steps_io [OF io_delPortMapM]
      talks_unblocked [OF io_deleteNsLink] quiet.steps_io [OF io_deleteNsLink])

lemma quiet_deleteNetwork_before: "steps_in same_notices (deleteNetwork_before E d opMsg)"
  unfolding deleteNetwork_before_def
  by (intro quiet_intros quiet.steps_io [OF io_natOut] quiet.steps_io [OF io_mustDeleteBridgeAndPorts] quiet_modify)
    (simp add: unregisterNetwork_def)

section \<open>The end of a handler\<close>

lemma deferM_run:
  "fst (body s) \<noteq> Blocked \<Longrightarrow>
   deferM body fin s = (if fst (body s) = Fatal then (Fatal, snd (body s)) else fin (snd (body s)))"
  by (cases "body s"; cases "fst (body s)") (auto simp: deferM_def thenM_def bindM_def recoverM_def)

lemma wgDone_run:
  "wgDone s = (if 1 \<le> createDeleteNetworkWG s then Ret () else Panic NegativeWaitGroup,
     s\<lparr>createDeleteNetworkWG := createDeleteNetworkWG s - 1\<rparr>)"
  by (simp add: wgDone_def thenM_def bindM_def)

text \<open>A reply can be sent without waiting.\<close>

definition reply_free :: "drv \<Rightarrow> nat option \<Rightarrow> bool" where
  "reply_free s ch = (case ch of None \<Rightarrow> False | Some c \<Rightarrow> c < length (replies s) \<and> length (replies s ! c) < 2)"

lemma sendReply_run:
  "reply_free s ch \<Longrightarrow>
   sendReply ch rep s = (Ret (), s\<lparr>replies := (replies s)[the ch := replies s ! the ch @ [rep]]\<rparr>)"
  by (auto simp: reply_free_def sendReply_def bindM_def split: option.splits)

lemma reply_free_kept: "replies_kept None s t \<Longrightarrow> reply_free s ch \<Longrightarrow> reply_free t ch"
  by (auto simp: replies_kept_def reply_free_def split: option.splits)

lemma fst_not_Blocked: "unblocked m \<Longrightarrow> fst (m s) \<noteq> Blocked"
  by (simp add: unblocked_def)

lemma fst_bindM_not_Blocked:
  "fst (m s) \<noteq> Blocked \<Longrightarrow> (\<And>a t. m s = (Ret a, t) \<Longrightarrow> fst (f a t) \<noteq> Blocked) \<Longrightarrow> fst (bindM m f s) \<noteq> Blocked"
  by (cases "m s"; cases "fst (m s)") (auto simp: bindM_def)

text \<open>The channel of notifications has a free place.\<close>

definition notice_free :: "drv \<Rightarrow> bool" where
  "notice_free s \<longleftrightarrow> length (notifyMsgs s) < chanSize"

lemma sends_not_Blocked: "sends_one m \<Longrightarrow> notice_free s \<Longrightarrow> fst (m s) \<noteq> Blocked"
  by (simp add: sends_one_def notice_free_def)

lemma notice_free_kept: "same_notices s t \<Longrightarrow> notice_free t = notice_free s"
  by (simp add: same_notices_def notice_free_def)

lemma delete_body_not_Blocked:
  assumes "reply_free s (Reply opMsg)" "notice_free s"
  shows "fst (deleteNetwork_body E d opMsg s) \<noteq> Blocked"
  unfolding deleteNetwork_body_split
proof (rule fst_bindM_not_Blocked)
  show "fst (deleteNetwork_before E d opMsg s) \<noteq> Blocked"
    by (rule fst_not_Blocked [OF unblocked_deleteNetwork_before])
next
  fix ns t assume n: "deleteNetwork_before E d opMsg s = (Ret ns, t)"
  then have "replies_kept None s t"
    by (rule steps_inD [OF reps.steps_deleteNetwork_before [OF refl]])
  with assms(1) have "reply_free t (Reply opMsg)" by (rule reply_free_kept [rotated])
  moreover have "notice_free t"
    using notice_free_kept [OF steps_inD [OF quiet_deleteNetwork_before n]] assms(2) by simp
  ultimately show "fst (thenM (sendReply (Reply opMsg) zeroReply) (notifyM (deleteNotice ns)) t) \<noteq> Blocked"
    by (simp add: thenM_def bindM_def sendReply_run notifyM_run notice_free_def)
qed

section \<open>One dispatched operation\<close>

text \<open>Operations for which the wait group was raised, and operations that are answered.\<close>

definition counted :: "DovesnapOp \<Rightarrow> bool" where
  "counted opMsg \<longleftrightarrow> Operation opMsg \<in> {''create'', ''delete'', ''recreatebadbridge''}"

definition answered :: "DovesnapOp \<Rightarrow> bool" where
  "answered opMsg \<longleftrightarrow> Operation opMsg \<in> {''delete'', ''leave'', ''getnetwork'', ''networks''}"

definition ready :: "drv \<Rightarrow> DovesnapOp \<Rightarrow> bool" where
  "ready s opMsg \<longleftrightarrow> Operation opMsg \<noteq> ''recreatedownbridge'' \<and>
     (counted opMsg \<longrightarrow> 1 \<le> createDeleteNetworkWG s) \<and> (answered opMsg \<longrightarrow> reply_free s (Reply opMsg))"

text \<open>What every handler keeps, apart from the wait group at its end.\<close>

definition op_kept :: "string \<Rightarrow> nat option \<Rightarrow> drv \<Rightarrow> drv \<Rightarrow> bool" where
  "op_kept nid ch s t \<longleftrightarrow> same_ops s t \<and> replies_kept ch s t \<and> nets_kept s t \<and> others_kept nid s t \<and> notices_kept s t"

interpretation kept: handler_frame "op_kept nid ch" nid ch for nid ch
proof
  show "op_kept nid ch s s" for s
    by (simp add: op_kept_def ops.R_refl reps.R_refl nets.R_refl others.R_refl notices.R_refl)
  show "op_kept nid ch s u" if "op_kept nid ch s t" "op_kept nid ch t u" for s t u
    using that unfolding op_kept_def by (blast intro: ops.R_trans reps.R_trans nets.R_trans others.R_trans notices.R_trans)
qed (simp_all add: op_kept_def ops.R_more reps.R_more nets.R_more others.R_more notices.R_more
    ops.R_dyn reps.R_dyn nets.R_dyn others.R_dyn notices.R_dyn ops.R_alloc reps.R_alloc nets.R_alloc others.R_alloc notices.R_alloc
    ops.R_ofports reps.R_ofports nets.R_ofports others.R_ofports notices.R_ofports
    ops.R_portdesc reps.R_portdesc nets.R_portdesc others.R_portdesc notices.R_portdesc
    ops.R_mtime reps.R_mtime nets.R_mtime others.R_mtime notices.R_mtime
    ops.R_notify reps.R_notify nets.R_notify others.R_notify notices.R_notify
    ops.R_reply reps.R_reply nets.R_reply others.R_reply notices.R_reply
    ops.R_register reps.R_register nets.R_register others.R_register notices.R_register
    ops.R_unregister reps.R_unregister nets.R_unregister others.R_unregister notices.R_unregister)

text \<open>What a dispatched operation does to the parts of the state the system relies on.\<close>

definition dispatched :: "DovesnapOp \<Rightarrow> drv \<Rightarrow> drv \<Rightarrow> bool" where
  "dispatched opMsg s t \<longleftrightarrow>
     createDeleteNetworkWG t = createDeleteNetworkWG s - (if counted opMsg then 1 else 0) \<and>
     dovesnapOpChan t = dovesnapOpChan s \<and> replies_kept (Reply opMsg) s t \<and> nets_kept s t \<and>
     others_kept (NetworkID opMsg) s t \<and> notices_kept s t"

lemma dispatched_kept:
  "\<not> counted opMsg \<Longrightarrow> op_kept (NetworkID opMsg) (Reply opMsg) s t \<Longrightarrow> dispatched opMsg s t"
  by (simp add: dispatched_def op_kept_def same_ops_def)

lemma dispatched_trans:
  "op_kept (NetworkID opMsg) (Reply opMsg) s u \<Longrightarrow> dispatched opMsg u t \<Longrightarrow> dispatched opMsg s t"
  by (auto simp: dispatched_def op_kept_def same_ops_def replies_kept_def nets_kept_def others_kept_def notices_kept_def)

lemma dispatched_more: "world.more u = world.more s \<Longrightarrow> dispatched opMsg u t \<Longrightarrow> dispatched opMsg s t"
  by (rule dispatched_trans) (rule kept.R_more)

lemma dispatched_wgDone:
  "counted opMsg \<Longrightarrow> op_kept (NetworkID opMsg) (Reply opMsg) s u \<Longrightarrow>
   dispatched opMsg s (u\<lparr>createDeleteNetworkWG := createDeleteNetworkWG u - 1\<rparr>)"
  by (auto simp: dispatched_def op_kept_def same_ops_def replies_kept_def nets_kept_def nets_ok_def others_kept_def
      notices_kept_def)

lemma deferM_Ret_not_Blocked: "deferM body fin s = (Ret (), t) \<Longrightarrow> fst (body s) \<noteq> Blocked"
  by (cases "body s") (auto simp: deferM_def thenM_def bindM_def recoverM_def)

lemma handler_done:
  assumes "1 \<le> createDeleteNetworkWG s" "steps_in (op_kept (NetworkID opMsg) (Reply opMsg)) body"
  shows "fst (body s) \<noteq> Blocked \<Longrightarrow> fst (deferM body wgDone s) = Ret () \<or> fst (deferM body wgDone s) = Fatal"
    and "deferM body wgDone s = (Ret (), t) \<Longrightarrow> counted opMsg \<Longrightarrow> dispatched opMsg s t"
proof -
  obtain x u where b: "body s = (x, u)" by force
  with assms(2) have k: "op_kept (NetworkID opMsg) (Reply opMsg) s u" by (rule steps_inD)
  then have w: "1 \<le> createDeleteNetworkWG u" using assms(1) by (simp add: op_kept_def same_ops_def)
  show "fst (deferM body wgDone s) = Ret () \<or> fst (deferM body wgDone s) = Fatal" if "fst (body s) \<noteq> Blocked"
    using that b w by (simp add: deferM_run wgDone_run)
  show "dispatched opMsg s t" if r: "deferM body wgDone s = (Ret (), t)" and "counted opMsg"
    using dispatched_wgDone [OF \<open>counted opMsg\<close> k] deferM_Ret_not_Blocked [OF r] r b w
    by (auto simp: deferM_run wgDone_run split: if_splits)
qed

lemma create_done:
  assumes "1 \<le> createDeleteNetworkWG s"
  shows "notice_free s \<Longrightarrow>
      fst (mustHandleCreateNetwork E d opMsg s) = Ret () \<or> fst (mustHandleCreateNetwork E d opMsg s) = Fatal"
    and "mustHandleCreateNetwork E d opMsg s = (Ret (), t) \<Longrightarrow> counted opMsg \<Longrightarrow> dispatched opMsg s t"
  unfolding mustHandleCreateNetwork_def
  using handler_done [OF assms kept.steps_createNetwork_body [OF refl]] sends_not_Blocked [OF sends_createNetwork_body]
  by blast+

lemma delete_done:
  assumes "1 \<le> createDeleteNetworkWG s" "reply_free s (Reply opMsg)"
  shows "notice_free s \<Longrightarrow>
      fst (mustHandleDeleteNetwork E d opMsg s) = Ret () \<or> fst (mustHandleDeleteNetwork E d opMsg s) = Fatal"
    and "mustHandleDeleteNetwork E d opMsg s = (Ret (), t) \<Longrightarrow> counted opMsg \<Longrightarrow> dispatched opMsg s t"
  unfolding mustHandleDeleteNetwork_def
  using handler_done [OF assms(1) kept.steps_deleteNetwork_body [OF refl refl]] delete_body_not_Blocked [OF assms(2)]
  by blast+

lemma deferM_ret_outcome:
  "fst (body s) \<noteq> Blocked \<Longrightarrow> fst (deferM body (retM ()) s) = Ret () \<or> fst (deferM body (retM ()) s) = Fatal"
  by (simp add: deferM_run)

lemma join_done:
  "notice_free s \<Longrightarrow>
   fst (mustHandleJoinContainer E d opMsg s) = Ret () \<or> fst (mustHandleJoinContainer E d opMsg s) = Fatal"
  unfolding mustHandleJoinContainer_def by (intro deferM_ret_outcome sends_not_Blocked sends_join_body)

lemma reserve_done: "fst (mustHandleReservePort E d opMsg s) = Ret () \<or> fst (mustHandleReservePort E d opMsg s) = Fatal"
  unfolding mustHandleReservePort_def
  by (intro deferM_ret_outcome fst_not_Blocked unblocked_intros pure_intros talks_unblocked [OF io_mustAddInternalPort])

lemma leave_done:
  assumes "reply_free s (Reply opMsg)" "notice_free s"
  shows "fst (mustHandleLeaveContainer E d opMsg s) = Ret () \<or> fst (mustHandleLeaveContainer E d opMsg s) = Fatal"
proof -
  obtain x u where b: "leaveContainer_body E d opMsg s = (x, u)" by force
  have "reply_free u (Reply opMsg)"
    using steps_inD [OF reps.steps_leave_body b] assms(1) by (rule reply_free_kept)
  moreover have "x \<noteq> Blocked" using sends_not_Blocked [OF sends_leave_body assms(2), of E d opMsg] b by simp
  ultimately show ?thesis
    by (simp add: mustHandleLeaveContainer_def deferM_run b sendReply_run)
qed

lemma get_done:
  assumes "reply_free s (Reply opMsg)"
  shows "fst (mustHandleGetNetwork E d opMsg s) = Ret ()"
  using assms by (simp add: mustHandleGetNetwork_def getNetwork_def bindM_def sendReply_run)

lemma networks_done:
  assumes "reply_free s (Reply opMsg)"
  shows "fst (mustHandleNetworks opMsg s) = Ret ()"
  using assms by (simp add: mustHandleNetworks_def bindM_def sendReply_run)

lemma fst_then_True:
  "fst (m s) = Ret () \<or> fst (m s) = Fatal \<Longrightarrow>
   fst (thenM m (retM True) s) = Ret True \<or> fst (thenM m (retM True) s) = Fatal"
  by (cases "m s") (auto simp: thenM_def bindM_def)

lemma then_True_Ret: "thenM m (retM True) s = (Ret b, t) \<longleftrightarrow> b \<and> m s = (Ret (), t)"
  by (auto simp: thenM_def bindM_eq_Ret)

text \<open>Operations that run code outside the deferred functions of the handlers.\<close>

definition exposed :: "DovesnapOp \<Rightarrow> bool" where
  "exposed opMsg \<longleftrightarrow> Operation opMsg = ''recreatebadbridge'' \<or> Operation opMsg = ''networks''"

lemma dispatch_outcome:
  assumes "ready s opMsg" "notice_free s" "\<not> exposed opMsg"
  shows "fst (rmDispatch E d opMsg s) = Ret (Operation opMsg \<noteq> ''quit'') \<or> fst (rmDispatch E d opMsg s) = Fatal"
proof -
  note dones = create_done(1) delete_done(1) join_done reserve_done leave_done disjI1 [OF get_done]
  show ?thesis
    using assms unfolding ready_def exposed_def counted_def answered_def rmDispatch_def
    by (cases "Operation opMsg = ''create''"; cases "Operation opMsg = ''delete''"; cases "Operation opMsg = ''join''";
        cases "Operation opMsg = ''leave''"; cases "Operation opMsg = ''reserveport''"; cases "Operation opMsg = ''getnetwork''")
      (simp_all add: fst_then_True dones)
qed

lemma recreate_not_Blocked:
  assumes "1 \<le> createDeleteNetworkWG s" "notice_free s"
  shows "fst (thenM (mustDeleteBridgeAndPorts E d b) (thenM (InitBridge E d ns sc)
     (thenM (mustHandleCreateNetwork E d opMsg) (retM True))) s) \<noteq> Blocked"
  unfolding thenM_def
proof (intro fst_bindM_not_Blocked)
  show "fst (mustDeleteBridgeAndPorts E d b s) \<noteq> Blocked"
    by (rule fst_not_Blocked [OF talks_unblocked [OF io_mustDeleteBridgeAndPorts]])
  fix a t assume t: "mustDeleteBridgeAndPorts E d b s = (Ret a, t)"
  show "fst (InitBridge E d ns sc t) \<noteq> Blocked"
    by (rule fst_not_Blocked [OF talks_unblocked [OF io_InitBridge]])
  fix a' u assume u: "InitBridge E d ns sc t = (Ret a', u)"
  have "createDeleteNetworkWG u = createDeleteNetworkWG s" "notifyMsgs u = notifyMsgs s"
    using more_drv_fields(4,7) [OF io_run_more [OF io_mustDeleteBridgeAndPorts t]]
      more_drv_fields(4,7) [OF io_run_more [OF io_InitBridge u]] by simp_all
  then show "fst (mustHandleCreateNetwork E d opMsg u) \<noteq> Blocked"
    using create_done(1) [of u E d opMsg] assms by (auto simp: notice_free_def)
qed (simp)

lemma networks_not_Blocked:
  assumes "reply_free s (Reply opMsg)"
  shows "fst (thenM (reconcileOvs E) (thenM (reconcileDhcpIp E) (thenM (mustHandleNetworks opMsg) (retM True))) s) \<noteq> Blocked"
  unfolding thenM_def
proof (intro fst_bindM_not_Blocked)
  show "fst (reconcileOvs E s) \<noteq> Blocked" by (rule fst_not_Blocked [OF unblocked_reconcileOvs])
  fix a t assume t: "reconcileOvs E s = (Ret a, t)"
  show "fst (reconcileDhcpIp E t) \<noteq> Blocked" by (rule fst_not_Blocked [OF unblocked_reconcileDhcpIp])
  fix a' u assume u: "reconcileDhcpIp E t = (Ret a', u)"
  have "reply_free u (Reply opMsg)"
    using reply_free_kept [OF steps_inD [OF reps.steps_reconcileDhcpIp u]
      reply_free_kept [OF steps_inD [OF reps.steps_reconcileOvs t] assms]] .
  then show "fst (mustHandleNetworks opMsg u) \<noteq> Blocked" by (simp add: networks_done)
qed (simp)

lemma dispatch_not_Blocked:
  assumes "ready s opMsg" "notice_free s"
  shows "fst (rmDispatch E d opMsg s) \<noteq> Blocked"
proof (cases "exposed opMsg")
  case False
  with dispatch_outcome [OF assms] show ?thesis by (metis outcome.distinct(5,11))
next
  case True
  then consider "Operation opMsg = ''recreatebadbridge''" | "Operation opMsg = ''networks''"
    by (auto simp: exposed_def)
  then show ?thesis
  proof cases
    case 1
    with assms recreate_not_Blocked show ?thesis by (simp add: rmDispatch_def ready_def counted_def)
  next
    case 2
    with assms networks_not_Blocked show ?thesis by (simp add: rmDispatch_def ready_def answered_def)
  qed
qed

lemma dispatch_counted:
  assumes "ready s opMsg" "rmDispatch E d opMsg s = (Ret b, t)" "counted opMsg"
  shows "dispatched opMsg s t"
proof -
  consider (bad) "Operation opMsg = ''recreatebadbridge''" | (create) "Operation opMsg = ''create''"
    | (delete) "Operation opMsg = ''delete''"
    using assms(3) by (auto simp: counted_def)
  then show ?thesis
  proof cases
    case bad
    then obtain u v where u: "mustDeleteBridgeAndPorts E d (EndpointID opMsg) s = (Ret (), u)"
      and v: "InitBridge E d (NewNetworkState opMsg) (NewStackMirrorConfig opMsg) u = (Ret (), v)"
      and t: "mustHandleCreateNetwork E d opMsg v = (Ret (), t)"
      using assms(2) by (auto simp: rmDispatch_def thenM_def bindM_eq_Ret)
    have m: "world.more v = world.more s"
      using io_run_more [OF io_mustDeleteBridgeAndPorts u] io_run_more [OF io_InitBridge v] by simp
    have "1 \<le> createDeleteNetworkWG v"
      using more_drv_fields(4) [OF m] assms(1) bad by (simp add: ready_def counted_def)
    from create_done(2) [OF this t] bad have "dispatched opMsg v t" by (simp add: counted_def)
    then show ?thesis by (rule dispatched_more [OF m])
  next
    case create
    with assms create_done(2) [of s E d opMsg t] show ?thesis
      by (simp add: rmDispatch_def then_True_Ret ready_def counted_def)
  next
    case delete
    with assms delete_done(2) [of s opMsg E d t] show ?thesis
      by (simp add: rmDispatch_def then_True_Ret ready_def counted_def answered_def)
  qed
qed

lemma dispatch_uncounted:
  assumes "ready s opMsg" "rmDispatch E d opMsg s = (Ret b, t)" "\<not> counted opMsg"
  shows "op_kept (NetworkID opMsg) (Reply opMsg) s t"
proof -
  let ?R = "op_kept (NetworkID opMsg) (Reply opMsg)"
  have "steps_in ?R (thenM (mustHandleJoinContainer E d opMsg) (retM True))"
    "steps_in ?R (thenM (mustHandleLeaveContainer E d opMsg) (retM True))"
    "steps_in ?R (thenM (mustHandleReservePort E d opMsg) (retM True))"
    "steps_in ?R (thenM (mustHandleGetNetwork E d opMsg) (retM True))"
    "steps_in ?R (thenM (reconcileOvs E) (thenM (reconcileDhcpIp E) (thenM (mustHandleNetworks opMsg) (retM True))))"
    "steps_in ?R (retM False)" "steps_in ?R (retM True)"
    by (intro kept.steps_then kept.steps_ret kept.steps_join kept.steps_leave kept.steps_reserve
        kept.steps_getNetworkHandler kept.steps_reconcileOvs kept.steps_reconcileDhcpIp kept.steps_networks refl)+
  note this [THEN steps_inD]
  then show ?thesis
    using assms unfolding rmDispatch_def ready_def counted_def by (simp split: if_splits)
qed

lemma dispatch_effect:
  assumes "ready s opMsg" "rmDispatch E d opMsg s = (Ret b, t)"
  shows "dispatched opMsg s t"
  using dispatch_counted [OF assms] dispatched_kept [OF _ dispatch_uncounted [OF assms]] by blast

end
