(* ===== verification/Handler_Effects.thy ===== *)
theory Handler_Effects
  imports Resource_Manager
begin

text \<open>
  What each handler does to the driver's state: which networks, ports and containers are
  registered afterwards and what was answered, on success and after a panic.
\<close>

section \<open>Answers\<close>

lemma leave_reply:
  assumes "reply_free s (Some c)" "Reply msg = Some c" "mustHandleLeaveContainer E d msg s = (Ret (), t)"
  shows "replies t ! c = replies s ! c @ [zeroReply]"
proof -
  obtain x u where b: "leaveContainer_body E d msg s = (x, u)" by force
  have k: "replies_kept None s u" using steps_inD [OF reps.steps_leave_body b] .
  then have "reply_free u (Reply msg)" using assms(1,2) reply_free_kept by simp
  moreover have "x \<noteq> Blocked"
    using deferM_Ret_not_Blocked assms(3) b unfolding mustHandleLeaveContainer_def by (metis fst_conv)
  ultimately show ?thesis
    using assms k
    by (auto simp: mustHandleLeaveContainer_def deferM_run b sendReply_run replies_kept_def reply_free_def split: if_splits)
qed

text \<open>
  What a deletion does outside: the switch leaves FAUCET's configuration, the address
  translation goes, and then the bridge.
\<close>

definition takeDown :: "env \<Rightarrow> Driver \<Rightarrow> NetworkState \<Rightarrow> unit drvM" where
  "takeDown E d ns =
     thenM (mustDeleteDp E (NetworkName ns))
     (thenM (if Mode ns = modeNAT
        then bindM (natOut E (Gateway ns @ ''/'' @ GatewayMask ns) ''-D'') (\<lambda>err.
             case err of Some _ \<Rightarrow> fatalM | None \<Rightarrow> retM ())
        else retM ())
     (mustDeleteBridgeAndPorts E d (BridgeName ns)))"

lemma io_takeDown: "talks (takeDown E d ns)"
  unfolding takeDown_def by (intro io_intros pure_intros)

lemma delete_before_takeDown:
  "deleteNetwork_before E d msg =
     bindM (getNetwork (NetworkID msg)) (\<lambda>ns.
     thenM (takeDown E d ns) (thenM (modifyM (unregisterNetwork (NetworkID msg))) (retM ns)))"
  by (simp add: deleteNetwork_before_def takeDown_def thenM_def bindM_assoc)

text \<open>The deletion removes the network and answers, or fails and leaves the driver's state alone.\<close>

abbreviation registered :: "drv \<Rightarrow> string \<Rightarrow> NetworkState" where
  "registered s nid \<equiv> (case map_get (networks s) nid of None \<Rightarrow> zeroNetworkState | Some ns \<Rightarrow> ns)"

lemma delete_run:
  assumes "reply_free s (Some c)" "Reply msg = Some c" "1 \<le> createDeleteNetworkWG s"
    and "\<And>v. x = Ret v \<Longrightarrow> notice_free s" and "takeDown E d (registered s (NetworkID msg)) s = (x, u)"
  shows "mustHandleDeleteNetwork E d msg s =
    (case x of
       Ret _ \<Rightarrow> (Ret (), (unregisterNetwork (NetworkID msg) u)\<lparr>
         replies := (replies u)[c := replies u ! c @ [zeroReply]],
         notifyMsgs := notifyMsgs u @ [deleteNotice (registered s (NetworkID msg))],
         createDeleteNetworkWG := createDeleteNetworkWG u - 1\<rparr>)
     | Panic e \<Rightarrow> (Ret (), u\<lparr>createDeleteNetworkWG := createDeleteNetworkWG u - 1\<rparr>)
     | y \<Rightarrow> (Fatal, u))"
proof -
  have m: "world.more u = world.more s" using assms(5) by (rule io_run_more [OF io_takeDown])
  note f = more_drv_fields(4,7,8) [OF m]
  have "x \<noteq> Blocked" using fst_not_Blocked [OF talks_unblocked [OF io_takeDown], of E d _ s] assms(5) by (metis fst_conv)
  moreover have "reply_free (unregisterNetwork (NetworkID msg) u) (Some c)"
    using assms(1) f by (simp add: reply_free_def unregisterNetwork_def)
  ultimately show ?thesis
    using assms f
    by (cases x) (auto simp: mustHandleDeleteNetwork_def deferM_def deleteNetwork_body_split delete_before_takeDown
        getNetwork_def thenM_def bindM_def recoverM_def sendReply_run notifyM_run notice_free_def wgDone_run unregisterNetwork_def)
qed

lemma delete_full:
  assumes "\<not> notice_free s" "takeDown E d (registered s (NetworkID msg)) s = (Ret v, u)"
  shows "mustHandleDeleteNetwork E d msg s \<noteq> (Ret (), t)"
proof -
  have "\<not> notice_free u"
    using assms(1) more_drv_fields(7) [OF io_run_more [OF io_takeDown assms(2)]] by (simp add: notice_free_def)
  then have "fst (deleteNetwork_body E d msg s) = Blocked"
    using assms(2) by (simp add: deleteNetwork_body_split delete_before_takeDown getNetwork_def thenM_def bindM_def
        sendReply_def notifyM_run notice_free_def unregisterNetwork_def split: option.split)
  then show ?thesis using deferM_Ret_not_Blocked unfolding mustHandleDeleteNetwork_def by metis
qed

section \<open>Creating a network\<close>

text \<open>Everything but the two registrations leaves the maps of networks alone.\<close>

definition same_nets :: "drv \<Rightarrow> drv \<Rightarrow> bool" where
  "same_nets s t \<longleftrightarrow> networks t = networks s \<and> stackMirrorConfigs t = stackMirrorConfigs s"

interpretation same: op_frame same_nets ch for ch
  by unfold_locales (auto simp: same_nets_def updateDyn_def dest: more_drv_fields)

text \<open>
  The name of the network a resource gives.  It is empty when the datapath id cannot be read or
  the network id is too short: the error of \<open>getNetworkStateFromResource\<close> never reaches its caller.
\<close>

definition resourceName :: "env \<Rightarrow> NetInspect \<Rightarrow> string" where
  "resourceName E r = (case (mustGetBridgeDpidFromResource (bcConvert E) r, mustGetBridgeNameFromResource r) of
     (Ret _, Ret _) \<Rightarrow> net_Name r | _ \<Rightarrow> [])"

lemma resource_Ret:
  assumes "getNetworkStateFromResource E r e s = (Ret (ns, err), t)"
  shows "NetworkName ns = resourceName E r \<and> err = None"
  using assms unfolding getNetworkStateFromResource_def resourceName_def
  by (auto simp: recoverM_def bindM_def makeDynamicNetworkState_def thenM_def zeroNetworkState_def
      split: outcome.splits prod.splits)

lemma resource_not_Panic: "fst (getNetworkStateFromResource E r e s) \<noteq> Panic err"
  unfolding getNetworkStateFromResource_def
  by (auto simp: recoverM_def split: outcome.splits prod.splits)

definition create_registers :: "DovesnapOp \<Rightarrow> string \<Rightarrow> drv \<Rightarrow> drv \<Rightarrow> bool" where
  "create_registers opMsg name s t \<longleftrightarrow>
     networks t = map_put (NetworkID opMsg) ((NewNetworkState opMsg)\<lparr>NetworkName := name\<rparr>) (networks s) \<and>
     stackMirrorConfigs t = map_put (NetworkID opMsg) (NewStackMirrorConfig opMsg) (stackMirrorConfigs s)"

lemma bindM_not_Ret: "m s = (Panic e, t) \<Longrightarrow> bindM m f s = (Panic e, t)" "m s = (Fatal, t) \<Longrightarrow> bindM m f s = (Fatal, t)"
  by (simp_all add: bindM_def)

lemma create_body_registers:
  assumes "mustGetNetworkInspectFromID E (NetworkID opMsg) s = (Ret r, u)"
    and "createNetwork_body E d opMsg s = (x, t)" "x \<noteq> Fatal"
  shows "create_registers opMsg (resourceName E r) s t"
proof -
  have u: "same_nets s u" by (rule same.R_more [OF io_run_more [OF io_mustGetNetworkInspectFromID assms(1)]])
  obtain y v where v: "getNetworkStateFromResource E r (shortEngineId d) u = (y, v)" by force
  have "same_nets u v" by (rule steps_inD [OF same.steps_resource v])
  have "y \<noteq> Blocked" using fst_not_Blocked [OF unblocked_resource] v by (metis fst_conv)
  moreover have "y \<noteq> Fatal" using assms v by (auto simp: createNetwork_body_register bindM_def)
  moreover have "y \<noteq> Panic e" for e using resource_not_Panic [of E r] v by (metis fst_conv)
  ultimately obtain ns err where y: "y = Ret (ns, err)" by (cases y) auto
  have n: "NetworkName ns = resourceName E r" "err = None" using resource_Ret v y by auto
  let ?w = "registerNetwork (NetworkID opMsg) (NewStackMirrorConfig opMsg)
    ((NewNetworkState opMsg)\<lparr>NetworkName := resourceName E r\<rparr>) v"
  have "createNetwork_config E d opMsg ns ((NewNetworkState opMsg)\<lparr>NetworkName := resourceName E r\<rparr>) ?w = (x, t)"
    using assms v y n by (simp add: createNetwork_body_register bindM_def thenM_def mustM_def Let_def)
  then have "same_nets ?w t" by (rule steps_inD [OF same.steps_createNetwork_config])
  with u \<open>same_nets u v\<close> show ?thesis by (simp add: same_nets_def registerNetwork_def create_registers_def)
qed

lemma create_run:
  assumes "mustGetNetworkInspectFromID E (NetworkID opMsg) s = (Ret r, u)"
    and "mustHandleCreateNetwork E d opMsg s = (Ret (), t)"
  shows "create_registers opMsg (resourceName E r) s t"
proof -
  obtain x v where v: "createNetwork_body E d opMsg s = (x, v)" by force
  have "x \<noteq> Fatal" "x \<noteq> Blocked" using assms(2) v by (auto simp: mustHandleCreateNetwork_def deferM_def thenM_def bindM_def recoverM_def)
  then have "t = v\<lparr>createDeleteNetworkWG := createDeleteNetworkWG v - 1\<rparr>"
    using assms(2) v by (simp add: mustHandleCreateNetwork_def deferM_run wgDone_run split: if_splits)
  with create_body_registers [OF assms(1) v \<open>x \<noteq> Fatal\<close>] show ?thesis by (simp add: create_registers_def)
qed

lemma create_run_failed:
  assumes "mustGetNetworkInspectFromID E (NetworkID opMsg) s = (Panic e, u)"
    and "mustHandleCreateNetwork E d opMsg s = (Ret (), t)"
  shows "same_nets s t"
proof -
  have "t = u\<lparr>createDeleteNetworkWG := createDeleteNetworkWG u - 1\<rparr>"
    using assms
    by (simp add: mustHandleCreateNetwork_def deferM_run createNetwork_body_def bindM_not_Ret wgDone_run split: if_splits)
  moreover have "same_nets s u" by (rule same.R_more [OF io_run_more [OF io_mustGetNetworkInspectFromID assms(1)]])
  ultimately show ?thesis by (simp add: same_nets_def)
qed

section \<open>Reserving a port\<close>

text \<open>What is remembered of a reserved port.\<close>

definition reservedPort :: "OFPortType \<Rightarrow> OFPortContainer" where
  "reservedPort p = \<lparr>of_OFPort = p, of_containerInspect = None, of_udhcpcCmd = None, of_Options = None\<rparr>"

lemma reserve_run:
  assumes "5 \<le> length (EndpointID opMsg)"
    and "mustAddInternalPort E (BridgeName (registered s (NetworkID opMsg))) (ovsPortPrefix @ take 5 (EndpointID opMsg)) 0 s =
      (Ret (p, out), u)"
  shows "mustHandleReservePort E d opMsg s =
    (Ret (), u\<lparr>OFPorts := map_put (EndpointID opMsg) (reservedPort p) (OFPorts u)\<rparr>)"
  using assms
  by (simp add: mustHandleReservePort_def deferM_run getNetwork_def truncateID_def sliceToO_def vethPair_def
      reservedPort_def setOFPorts_def bindM_def)

section \<open>Containers\<close>

lemma bindM_option:
  "bindM (case x of None \<Rightarrow> panicM e | Some a \<Rightarrow> f a) g = (case x of None \<Rightarrow> panicM e | Some a \<Rightarrow> bindM (f a) g)"
  by (cases x) (auto simp: bindM_def)

text \<open>What a join does outside, and what it then records.\<close>

definition joinOutside :: "env \<Rightarrow> Driver \<Rightarrow> DovesnapOp \<Rightarrow>
    (NetworkState \<times> ContainerInspect \<times> EndpointSettings \<times> OFPortType \<times> string list option) drvM" where
  "joinOutside E d opMsg =
     bindM (getM (\<lambda>s. case map_get (OFPorts s) (EndpointID opMsg) of None \<Rightarrow> 0 | Some c \<Rightarrow> of_OFPort c)) (\<lambda>ofPort.
     bindM (getNetwork (NetworkID opMsg)) (\<lambda>ns.
     bindM (getContainerFromEndpoint E (NetworkID opMsg) (EndpointID opMsg)) (\<lambda>r.
     bindM (mustSum r) (\<lambda>ci.
     case map_get (ci_Networks ci) (NetworkName ns) of
       None \<Rightarrow> panicM NilDereference
     | Some es \<Rightarrow>
        thenM (createNsLink E (ci_Pid ci) (ci_ID ci))
        (thenM (joinMac E ci (es_MacAddress es))
        (thenM (if Userspace ns
           then execM E ''ip'' [''netns'', ''exec'', ci_ID ci, ''/sbin/ethtool'', ''-K'', defaultInterface, ''tx'', ''off'']
           else retM ())
        (bindM (liftO (portMaps (op_Options opMsg))) (\<lambda>maps.
         thenM (forM (addPortMapM E ns es) maps)
         (bindM (liftO (truncateID (ci_ID ci))) (\<lambda>short.
          thenM (mustSetFaucetConfigFile E (mergeSingleDpMinimalYaml (NetworkName ns)
            (vlanInterfaceYaml ofPort (ci_Name ci @ '' '' @ short) (BridgeVLAN ns) (containerAcl ns ci))))
          (thenM (joinMirror E d opMsg ns ci ofPort)
          (bindM (joinDhcp E ns ci) (\<lambda>udhcpcCmd. retM (ns, ci, es, ofPort, udhcpcCmd))))))))))))))"

definition joinedContainer :: "ContainerInspect \<Rightarrow> EndpointSettings \<Rightarrow> OFPortType \<Rightarrow> ContainerState" where
  "joinedContainer ci es ofPort =
     \<lparr>cs_Name = ci_Name ci, cs_Id = ci_ID ci, cs_OFPort = ofPort, cs_MacAddress = es_MacAddress es,
      cs_HostIP = es_IPAddress es, cs_Labels = ci_Labels ci, cs_IfName = defaultInterface\<rparr>"

definition joinRecord :: "DovesnapOp \<Rightarrow>
    NetworkState \<times> ContainerInspect \<times> EndpointSettings \<times> OFPortType \<times> string list option \<Rightarrow> unit drvM" where
  "joinRecord opMsg = (\<lambda>(ns, ci, es, ofPort, udhcpcCmd).
     thenM (setOFPorts (EndpointID opMsg)
       \<lparr>of_OFPort = ofPort, of_containerInspect = Some ci, of_udhcpcCmd = udhcpcCmd, of_Options = op_Options opMsg\<rparr>)
     (thenM (writeDyn (DynamicNetworkStates ns) (\<lambda>m. m\<lparr>Containers :=
         map_put (EndpointID opMsg) (joinedContainer ci es ofPort) (Containers m)\<rparr>))
     (notifyM \<lparr>nm_NetworkState = ns, nm_Type = ''CONTAINER'', nm_Operation = ''JOIN'',
       nm_Details = [(''name'', ci_Name ci), (''id'', ci_ID ci), (''port'', dec (uint ofPort)),
         (''mac'', es_MacAddress es), (''ip'', es_IPAddress es)]\<rparr>)))"

lemma join_body_split: "joinContainer_body E d opMsg = bindM (joinOutside E d opMsg) (joinRecord opMsg)"
  by (simp add: joinContainer_body_def joinOutside_def joinRecord_def joinedContainer_def thenM_def bindM_assoc
      bindM_option Let_def cong: option.case_cong)

lemma io_joinOutside: "talks (joinOutside E d opMsg)"
  unfolding joinOutside_def getNetwork_def by (intro io_intros pure_intros)

text \<open>Everything a leave does before it forgets the container.\<close>

definition leaveOutside :: "env \<Rightarrow> Driver \<Rightarrow> DovesnapOp \<Rightarrow> (NetworkState \<times> ContainerInspect \<times> OFPortType) drvM" where
  "leaveOutside E d opMsg =
     bindM (getM (\<lambda>s. map_get (OFPorts s) (EndpointID opMsg))) (\<lambda>c.
     case c of
       None \<Rightarrow> panicM (Errorf (''endpoint '' @ EndpointID opMsg @ '' was not Join()d''))
     | Some containerMap \<Rightarrow>
       thenM (killM (of_udhcpcCmd containerMap))
       (bindM (liftO (truncateID (EndpointID opMsg))) (\<lambda>short.
        bindM (mustGetOfPort E (Sprintf0 (ovsPortPrefix @ short))) (\<lambda>ofPort.
        thenM (delVethPair E (vethPair short))
        (bindM (getNetwork (NetworkID opMsg)) (\<lambda>ns.
         thenM (mustDeletePort E (BridgeName ns) (Sprintf0 (ovsPortPrefix @ short)))
         (thenM (mustDeleteDpInterface E (NetworkName ns) ofPort)
         (case of_containerInspect containerMap of
            None \<Rightarrow> panicM NilDereference
          | Some ci \<Rightarrow>
            (case map_get (ci_Networks ci) (NetworkName ns) of
               None \<Rightarrow> panicM NilDereference
             | Some es \<Rightarrow>
               bindM (liftO (portMaps (of_Options containerMap))) (\<lambda>maps.
               thenM (forM (delPortMapM E ns es) maps) (retM (ns, ci, ofPort))))))))))))"

definition leaveForget :: "env \<Rightarrow> DovesnapOp \<Rightarrow> NetworkState \<times> ContainerInspect \<times> OFPortType \<Rightarrow> unit drvM" where
  "leaveForget E opMsg = (\<lambda>(ns, ci, ofPort).
     thenM (modifyM (\<lambda>s. s\<lparr>OFPorts := map_del (EndpointID opMsg) (OFPorts s)\<rparr>))
     (thenM (deleteDyn (DynamicNetworkStates ns) (\<lambda>m. m\<lparr>Containers := map_del (EndpointID opMsg) (Containers m)\<rparr>))
     (thenM (deleteNsLink E (ci_ID ci))
     (notifyM \<lparr>nm_NetworkState = ns, nm_Type = ''CONTAINER'', nm_Operation = ''LEAVE'',
       nm_Details = [(''name'', ci_Name ci), (''id'', ci_ID ci), (''port'', dec (uint ofPort))]\<rparr>))))"

lemma leave_body_split: "leaveContainer_body E d opMsg = bindM (leaveOutside E d opMsg) (leaveForget E opMsg)"
  by (simp add: leaveContainer_body_def leaveOutside_def leaveForget_def thenM_def bindM_assoc
      bindM_option Let_def cong: option.case_cong)

lemma io_leaveOutside: "talks (leaveOutside E d opMsg)"
  unfolding leaveOutside_def getNetwork_def by (intro io_intros pure_intros)

lemma rpc_traced: "mustSetFaucetConfigFile E y s = (Ret (), t) \<Longrightarrow> Rpc (SetConfigFileRequest y True) \<in> set (trace t)"
  by (auto simp: mustSetFaucetConfigFile_def mustRpc_def bindM_def mustM_def split: option.splits)

lemma traced_later: "talks m \<Longrightarrow> m s = (x, t) \<Longrightarrow> e \<in> set (trace s) \<Longrightarrow> e \<in> set (trace t)"
  using io_run_trace set_mono_prefix by blast

lemma join_traced:
  "joinMirror E d opMsg ns ci p s = (y, u) \<Longrightarrow> joinDhcp E ns ci u = (x, t) \<Longrightarrow> e \<in> set (trace s) \<Longrightarrow> e \<in> set (trace t)"
  by (blast intro: traced_later [OF io_joinMirror] traced_later [OF io_joinDhcp])

lemma joinOutside_Ret:
  assumes "joinOutside E d opMsg s = (Ret (ns, ci, es, ofPort, cmd), t)"
  shows "ns = registered s (NetworkID opMsg) \<and>
    ofPort = (case map_get (OFPorts s) (EndpointID opMsg) of None \<Rightarrow> 0 | Some c \<Rightarrow> of_OFPort c) \<and>
    map_get (ci_Networks ci) (NetworkName ns) = Some es \<and> 
    Rpc (SetConfigFileRequest (mergeSingleDpMinimalYaml (NetworkName ns)
      (vlanInterfaceYaml ofPort (ci_Name ci @ '' '' @ take 5 (ci_ID ci)) (BridgeVLAN ns) (containerAcl ns ci))) True) \<in> set (trace t)"
  using assms unfolding joinOutside_def thenM_def
  by (elim bindM_RetE)
    (auto simp: getNetwork_def truncateID_def sliceToO_def elim!: bindM_RetE split: option.splits if_splits
      dest!: rpc_traced intro: join_traced)

text \<open>A join that succeeds.\<close>

lemma join_run:
  assumes "joinContainer_body E d opMsg s = (Ret (), t)"
  obtains ci es ofPort cmd r u where
    "ofPort = (case map_get (OFPorts s) (EndpointID opMsg) of None \<Rightarrow> 0 | Some c \<Rightarrow> of_OFPort c)"
    "map_get (ci_Networks ci) (NetworkName (registered s (NetworkID opMsg))) = Some es"
    "dyn_ref (DynamicNetworkStates (registered s (NetworkID opMsg))) = Some r"
    "OFPorts t = map_put (EndpointID opMsg) \<lparr>of_OFPort = ofPort, of_containerInspect = Some ci, of_udhcpcCmd = cmd,
       of_Options = op_Options opMsg\<rparr> (OFPorts s)"
    "dyn_store t = (dyn_store s)[r := (dyn_store s ! r)\<lparr>Containers :=
       map_put (EndpointID opMsg) (joinedContainer ci es ofPort) (Containers (dyn_store s ! r))\<rparr>]"
    "Rpc (SetConfigFileRequest (mergeSingleDpMinimalYaml (NetworkName (registered s (NetworkID opMsg)))
      (vlanInterfaceYaml ofPort (ci_Name ci @ '' '' @ take 5 (ci_ID ci)) (BridgeVLAN (registered s (NetworkID opMsg)))
        (containerAcl (registered s (NetworkID opMsg)) ci))) True) \<in> set (trace t)"
proof -
  obtain ns ci es p cmd u where o: "joinOutside E d opMsg s = (Ret (ns, ci, es, p, cmd), u)"
    and r: "joinRecord opMsg (ns, ci, es, p, cmd) u = (Ret (), t)"
    using assms by (auto simp: join_body_split elim!: bindM_RetE)
  have m: "world.more u = world.more s" using o by (rule io_run_more [OF io_joinOutside])
  obtain r where d: "dyn_ref (DynamicNetworkStates ns) = Some r"
    using r by (cases "dyn_ref (DynamicNetworkStates ns)") (simp_all add: joinRecord_def writeDyn_def setOFPorts_def thenM_def bindM_def)
  show thesis
    using joinOutside_Ret [OF o] r d more_drv_fields(3,9) [OF m]
    by (intro that [of p ci es r cmd])
      (auto simp: joinRecord_def writeDyn_def setOFPorts_def thenM_def bindM_def updateDyn_def notifyM_run split: if_splits)
qed

lemma leaveOutside_Ret:
  assumes "leaveOutside E d opMsg s = (Ret (ns, ci, ofPort), t)"
  shows "ns = registered s (NetworkID opMsg) \<and>
    (\<exists>c. map_get (OFPorts s) (EndpointID opMsg) = Some c \<and> of_containerInspect c = Some ci)"
proof -
  obtain c short u1 u2 u3 p where c: "map_get (OFPorts s) (EndpointID opMsg) = Some c"
    and 1: "killM (of_udhcpcCmd c) s = (Ret (), u1)" and 2: "mustGetOfPort E (Sprintf0 (ovsPortPrefix @ short)) u1 = (Ret p, u2)"
    and 3: "delVethPair E (vethPair short) u2 = (Ret (), u3)"
    and ns: "ns = registered u3 (NetworkID opMsg)" and ci: "of_containerInspect c = Some ci"
    using assms by (auto simp: leaveOutside_def thenM_def getNetwork_def elim!: bindM_RetE split: option.splits)
  have "world.more u3 = world.more s"
    using io_run_more [OF io_killM 1] io_run_more [OF io_mustGetOfPort 2] io_run_more [OF io_delVethPair 3] by simp
  from more_drv_fields(1) [OF this] c ns ci show ?thesis by simp
qed

text \<open>A leave that succeeds.\<close>

lemma leave_run:
  assumes "leaveContainer_body E d opMsg s = (Ret (), t)"
  shows "OFPorts t = map_del (EndpointID opMsg) (OFPorts s) \<and>
    dyn_store t = (case dyn_ref (DynamicNetworkStates (registered s (NetworkID opMsg))) of
        None \<Rightarrow> dyn_store s
      | Some r \<Rightarrow> (dyn_store s)[r := (dyn_store s ! r)\<lparr>Containers :=
          map_del (EndpointID opMsg) (Containers (dyn_store s ! r))\<rparr>])"
proof -
  obtain ns ci p u where o: "leaveOutside E d opMsg s = (Ret (ns, ci, p), u)"
    and f: "leaveForget E opMsg (ns, ci, p) u = (Ret (), t)"
    using assms by (auto simp: leave_body_split elim!: bindM_RetE)
  have m: "world.more u = world.more s" using o by (rule io_run_more [OF io_leaveOutside])
  obtain v w where v: "deleteDyn (DynamicNetworkStates ns) (\<lambda>m. m\<lparr>Containers := map_del (EndpointID opMsg) (Containers m)\<rparr>)
      (u\<lparr>OFPorts := map_del (EndpointID opMsg) (OFPorts u)\<rparr>) = (Ret (), v)"
    and w: "deleteNsLink E (ci_ID ci) v = (Ret (), w)" and t: "OFPorts t = OFPorts w" "dyn_store t = dyn_store w"
    using f by (auto simp: leaveForget_def thenM_def notifyM_run elim!: bindM_RetE split: if_splits)
  show ?thesis
    using v t more_drv_fields(3,9) [OF m] more_drv_fields(3,9) [OF io_run_more [OF io_deleteNsLink w]] leaveOutside_Ret [OF o]
    by (auto simp: deleteDyn_def updateDyn_def split: option.splits)
qed

lemma reserve_run_failed:
  assumes "5 \<le> length (EndpointID opMsg)"
    and "mustAddInternalPort E (BridgeName (registered s (NetworkID opMsg))) (ovsPortPrefix @ take 5 (EndpointID opMsg)) 0 s =
      (Panic e, u)"
  shows "mustHandleReservePort E d opMsg s = (Ret (), u)"
  using assms
  by (simp add: mustHandleReservePort_def deferM_run getNetwork_def truncateID_def sliceToO_def vethPair_def bindM_def)

section \<open>Properties\<close>

text \<open>A driver without mirroring and stacking, and a flat network, for the witnesses.\<close>

definition plain_driver :: Driver where
  "plain_driver = \<lparr>stackPriority1 = [], stackingInterfaces = [[]], stackMirrorInterface = [[]], stackDefaultControllers = [],
     mirrorBridgeIn = [], mirrorBridgeOut = [], shortEngineId = ''e1'', mirrorBridgeName = ''mirror'',
     loopbackBridgeName = ''lb'', stackDpName = [], authIPs = []\<rparr>"

definition flat_network :: NetworkState where
  "flat_network = zeroNetworkState\<lparr>BridgeName := ''ovsbr-n1n1n'', BridgeVLAN := 100, Mode := ''flat'',
     DynamicNetworkStates := \<lparr>ShortEngineId = ''e1'', dyn_ref = Some 0\<rparr>\<rparr>"

definition flat_op :: "string \<Rightarrow> DovesnapOp" where
  "flat_op operation = zeroOp\<lparr>Operation := operation, NetworkID := ''n1n1n1'', EndpointID := ''ep1ep1'',
     NewNetworkState := flat_network, op_Mode := ''flat'', op_Options := Some [(portMapOption, IfList [])], Reply := Some 0\<rparr>"

definition empty_drv :: drv where
  "empty_drv = \<lparr>trace = [], networks = [], stackMirrorConfigs = [], dyn_store = [emptyDynMaps], createDeleteNetworkWG = 1,
     lastDhcpMtime = 0, dovesnapOpChan = [], notifyMsgs = [], replies = [[]], OFPorts = [], AllPortDesc = []\<rparr>"

text \<open>
  C8. Creating a network registers it under its id with the name Docker gives it, together with
  its mirroring configuration, and touches no other network.  This holds whenever the
  handler returns, also when the configuration of the switch fails afterwards.
\<close>

theorem create_registers_network:
  assumes "mustGetNetworkInspectFromID E (NetworkID opMsg) s = (Ret r, u)"
    and "mustGetBridgeDpidFromResource (bcConvert E) r = Ret dp" "5 \<le> length (net_ID r)"
    and "mustHandleCreateNetwork E d opMsg s = (Ret (), t)"
  shows "map_get (networks t) j =
      (if j = NetworkID opMsg then Some ((NewNetworkState opMsg)\<lparr>NetworkName := net_Name r\<rparr>) else map_get (networks s) j) \<and>
    map_get (stackMirrorConfigs t) j =
      (if j = NetworkID opMsg then Some (NewStackMirrorConfig opMsg) else map_get (stackMirrorConfigs s) j)"
proof -
  have "resourceName E r = net_Name r"
    using assms(2,3) by (simp add: resourceName_def mustGetBridgeNameFromResource_def truncateID_def sliceToO_def)
  with create_run [OF assms(1,4)] show ?thesis by (simp add: create_registers_def)
qed

theorem create_registers_network_witness:
  "fst (mustHandleCreateNetwork docker_env plain_driver (flat_op ''create'') empty_drv) = Ret () \<and>
   map_get (networks (snd (mustHandleCreateNetwork docker_env plain_driver (flat_op ''create'') empty_drv))) ''n1n1n1'' =
     Some (flat_network\<lparr>NetworkName := ''net''\<rparr>)"
proof -
  have 1: "fst (mustHandleCreateNetwork docker_env plain_driver (flat_op ''create'') empty_drv) = Ret ()" by code_simp
  have 2: "fst (mustGetNetworkInspectFromID docker_env (NetworkID (flat_op ''create'')) empty_drv) = Ret one_network" by code_simp
  have 3: "mustGetBridgeDpidFromResource (bcConvert docker_env) one_network = Ret (''0x1'', 1)" by code_simp
  show ?thesis
    using 1 2 create_registers_network [of docker_env "flat_op ''create''" empty_drv one_network _ _ plain_driver,
        OF _ 3, of _ _ "''n1n1n1''"]
    by (cases "mustHandleCreateNetwork docker_env plain_driver (flat_op ''create'') empty_drv";
        cases "mustGetNetworkInspectFromID docker_env (NetworkID (flat_op ''create'')) empty_drv")
      (simp add: one_network_def flat_op_def)
qed

lemma run_fst: "fst p = x \<Longrightarrow> p = (x, snd p)"
  by (cases p) simp

text \<open>
  C9. Deleting a network: when taking down the bridge succeeds, the network and its mirroring
  configuration are gone, one empty reply is sent and a notification; when it panics, the
  panic is logged, the network stays registered and no reply is ever sent, so the call that
  asked for the deletion keeps waiting.  Either way the wait group goes down by one.
\<close>

theorem delete_answers_or_keeps:
  assumes "Reply opMsg = Some c" "c < length (replies s)" "replies s ! c = []" "1 \<le> createDeleteNetworkWG s"
    and "mustHandleDeleteNetwork E d opMsg s = (Ret (), t)"
  shows "createDeleteNetworkWG t = createDeleteNetworkWG s - 1 \<and>
    (if fst (deleteNetwork_body E d opMsg s) = Ret ()
     then networks t = map_del (NetworkID opMsg) (networks s) \<and>
       stackMirrorConfigs t = map_del (NetworkID opMsg) (stackMirrorConfigs s) \<and>
       replies t ! c = [zeroReply] \<and> length (notifyMsgs t) = Suc (length (notifyMsgs s))
     else networks t = networks s \<and> stackMirrorConfigs t = stackMirrorConfigs s \<and>
       fst (awaitReply c t) = Blocked \<and> notifyMsgs t = notifyMsgs s)"
proof -
  obtain x u where x: "takeDown E d (registered s (NetworkID opMsg)) s = (x, u)" by force
  have free: "reply_free s (Some c)" using assms(2,3) by (simp add: reply_free_def)
  note f = more_drv_fields [OF io_run_more [OF io_takeDown x]]
  have n: "notice_free s" if "x = Ret v" for v using delete_full [of s E d opMsg v u t] x that assms(5) by blast
  have b: "fst (deleteNetwork_body E d opMsg s) = Ret () \<longleftrightarrow> (\<exists>v. x = Ret v)"
    using x assms(1-3) f(7,8) n
    by (cases x) (simp_all add: deleteNetwork_body_split delete_before_takeDown getNetwork_def thenM_def bindM_def
        sendReply_def notifyM_run notice_free_def unregisterNetwork_def)
  show ?thesis
    using delete_run [OF free assms(1,4) n x] assms b f
    by (cases x) (auto simp: unregisterNetwork_def awaitReply_def bindM_def)
qed

definition deaf_env :: env where
  "deaf_env = docker_env\<lparr>rpcCall := (\<lambda>h r. Some (External ''unavailable''))\<rparr>"

theorem delete_answers_or_keeps_witness:
  "fst (deleteNetwork_body deaf_env plain_driver (flat_op ''delete'') empty_drv) \<noteq> Ret () \<and>
   fst (awaitReply 0 (snd (mustHandleDeleteNetwork deaf_env plain_driver (flat_op ''delete'') empty_drv))) = Blocked \<and>
   fst (deleteNetwork_body docker_env plain_driver (flat_op ''delete'') empty_drv) = Ret () \<and>
   replies (snd (mustHandleDeleteNetwork docker_env plain_driver (flat_op ''delete'') empty_drv)) ! 0 = [zeroReply]"
proof -
  have 1: "fst (mustHandleDeleteNetwork deaf_env plain_driver (flat_op ''delete'') empty_drv) = Ret ()"
    "fst (mustHandleDeleteNetwork docker_env plain_driver (flat_op ''delete'') empty_drv) = Ret ()" by code_simp+
  have 2: "fst (deleteNetwork_body deaf_env plain_driver (flat_op ''delete'') empty_drv) = Panic (External ''unavailable'')"
    "fst (deleteNetwork_body docker_env plain_driver (flat_op ''delete'') empty_drv) = Ret ()" by code_simp+
  have 3: "Reply (flat_op ''delete'') = Some 0" "0 < length (replies empty_drv)" "replies empty_drv ! 0 = []"
    "1 \<le> createDeleteNetworkWG empty_drv" by (simp_all add: flat_op_def empty_drv_def)
  show ?thesis
    using 2 delete_answers_or_keeps [OF 3 run_fst [OF 1(1)]] delete_answers_or_keeps [OF 3 run_fst [OF 1(2)]] by simp
qed

text \<open>
  C13. Reserving a port takes the least port number above 0 that is free on the bridge of the network and asks
  Open vSwitch for it.  When the command succeeds, exactly that number is remembered for the
  endpoint; when it fails, the map of ports is as before.
\<close>

theorem reserve_takes_lowest_free_port:
  assumes "range_ok E" "map_get (networks s) (NetworkID opMsg) = Some ns" "5 \<le> length (EndpointID opMsg)"
    and "mustScrapePortDesc E (BridgeName ns) [] s = (Ret portDesc, u)"
    and "map_get portDesc 0 = None" and "q \<noteq> 0" "map_get portDesc q = None"
  shows "\<exists>p args. p \<noteq> 0 \<and> map_get portDesc p = None \<and> (\<forall>r. r \<noteq> 0 \<longrightarrow> r < p \<longrightarrow> map_get portDesc r \<noteq> None) \<and>
    args = [''add-port'', BridgeName ns, ovsPortPrefix @ take 5 (EndpointID opMsg), ''--'', ''set'', ''Interface'',
      ovsPortPrefix @ take 5 (EndpointID opMsg), ofport_request p] \<and>
    mustHandleReservePort E d opMsg s = (Ret (), u\<lparr>trace := trace u @ [vsEvent args], OFPorts :=
      (if snd (execCmd E (trace u) ovsvsctlPath (vsctlArgs args)) = None
       then map_put (EndpointID opMsg) (reservedPort p) (OFPorts s) else OFPorts s)\<rparr>)"
proof -
  obtain p where p: "mustLowestFreePortOnBridge E (BridgeName ns) s = (Ret p, u)" "p \<noteq> 0" "map_get portDesc p = None"
    "\<forall>r. r \<noteq> 0 \<longrightarrow> r < p \<longrightarrow> map_get portDesc r \<noteq> None"
    using lowest_free_port [OF assms(1,4,5,6,7)] by blast
  define args where "args = [''add-port'', BridgeName ns, ovsPortPrefix @ take 5 (EndpointID opMsg), ''--'', ''set'',
    ''Interface'', ovsPortPrefix @ take 5 (EndpointID opMsg), ofport_request p]"
  let ?r = "execCmd E (trace u) ovsvsctlPath (vsctlArgs args)"
  have a: "mustAddInternalPort E (BridgeName (registered s (NetworkID opMsg))) (ovsPortPrefix @ take 5 (EndpointID opMsg)) 0 s =
    (case snd ?r of None \<Rightarrow> Ret (p, TrimSuffix (fst ?r) [CHR 0x0A]) | Some e \<Rightarrow> Panic e, u\<lparr>trace := trace u @ [vsEvent args]\<rparr>)"
    using p(1) assms(2)
    by (simp add: mustAddInternalPort_def addInternalPort_def bindM_def VsCtl_run thenM_def mustM_def args_def split: option.split)
  have "OFPorts u = OFPorts s" using more_drv_fields(9) [OF io_run_more [OF io_mustScrapePortDesc assms(4)]] .
  with a have "mustHandleReservePort E d opMsg s = (Ret (), u\<lparr>trace := trace u @ [vsEvent args], OFPorts :=
      (if snd ?r = None then map_put (EndpointID opMsg) (reservedPort p) (OFPorts s) else OFPorts s)\<rparr>)"
    using reserve_run [OF assms(3)] reserve_run_failed [OF assms(3)] by (cases "snd ?r") simp_all
  with p args_def show ?thesis by blast
qed

definition flat_drv :: drv where
  "flat_drv = empty_drv\<lparr>networks := [(''n1n1n1'', flat_network\<lparr>NetworkName := ''net''\<rparr>)],
     stackMirrorConfigs := [(''n1n1n1'', zeroStackMirrorConfig)]\<rparr>"

theorem reserve_takes_lowest_free_port_witness:
  "fst (mustScrapePortDesc table_env ''ovsbr-n1n1n'' [] flat_drv) = Ret [(1, ''eth0''), (3, ''eth1'')] \<and>
   (\<exists>p :: OFPortType. p \<noteq> 0 \<and> map_get [(1, ''eth0''), (3, ''eth1'')] p = None \<and>
     (\<forall>r. r \<noteq> 0 \<longrightarrow> r < p \<longrightarrow> map_get [(1, ''eth0''), (3, ''eth1'')] r \<noteq> None) \<and>
     map_get (OFPorts (snd (mustHandleReservePort table_env plain_driver (flat_op ''reserveport'') flat_drv))) ''ep1ep1'' =
       Some (reservedPort p))"
proof -
  have s: "fst (mustScrapePortDesc table_env ''ovsbr-n1n1n'' [] flat_drv) = Ret [(1, ''eth0''), (3, ''eth1'')]"
    by code_simp
  have n: "map_get (networks flat_drv) (NetworkID (flat_op ''reserveport'')) = Some (flat_network\<lparr>NetworkName := ''net''\<rparr>)"
    and b: "BridgeName (flat_network\<lparr>NetworkName := ''net''\<rparr>) = ''ovsbr-n1n1n''"
    and e: "EndpointID (flat_op ''reserveport'') = ''ep1ep1''"
    by (simp_all add: flat_drv_def flat_op_def flat_network_def map_get_def)
  have r: "range_ok table_env" by (simp add: table_env_def range_ok_calm_env)
  have x: "snd (execCmd table_env h c a) = None" for h c a by (simp add: table_env_def)
  have m: "map_get [(1, ''eth0''), (3, ''eth1'')] (0 :: OFPortType) = None" "(2 :: OFPortType) \<noteq> 0"
    "map_get [(1, ''eth0''), (3, ''eth1'')] (2 :: OFPortType) = None" by (simp_all add: map_get_def)
  have l: "5 \<le> length (EndpointID (flat_op ''reserveport''))" by (simp add: e)
  from reserve_takes_lowest_free_port [OF r n l run_fst [OF s [folded b]] m, of plain_driver] s
  show ?thesis by (auto simp: e x)
qed


text \<open>An endpoint id of five characters, as the code shortens them, that Docker maps to the container.\<close>

definition web_op :: "string \<Rightarrow> DovesnapOp" where
  "web_op operation = (flat_op operation)\<lparr>EndpointID := ''ep1ep''\<rparr>"

definition web_env :: env where
  "web_env = docker_env\<lparr>dkNetworkInspect := (\<lambda>h i. Inr (one_network\<lparr>net_Containers := [(''c1c1c1'', ''ep1ep'')]\<rparr>)),
     execCmd := (\<lambda>h cmd args. (''4'', None))\<rparr>"

definition reserved_drv :: drv where
  "reserved_drv = flat_drv\<lparr>OFPorts := [(''ep1ep'', reservedPort 4)]\<rparr>"

lemma join_test: "fst (joinContainer_body web_env plain_driver (web_op ''join'') reserved_drv) = Ret ()"
  by code_simp


text \<open>
  C11. A container that has left: if the leave does not panic, the endpoint is neither in the map
  of ports nor on the status page of its network any more, and the ports of all other endpoints are
  as before.
\<close>

theorem leave_forgets_container:
  assumes "map_get (networks s) (NetworkID opMsg) = Some ns"
    and "dyn_ref (DynamicNetworkStates ns) = Some r" "r < length (dyn_store s)"
    and "leaveContainer_body E d opMsg s = (Ret (), t)"
  shows "map_get (OFPorts t) ep = (if ep = EndpointID opMsg then None else map_get (OFPorts s) ep) \<and>
    map_get (Containers (dyn_store t ! r)) ep =
      (if ep = EndpointID opMsg then None else map_get (Containers (dyn_store s ! r)) ep)"
  using leave_run [OF assms(4)] assms(1-3) by simp

definition joined_drv :: drv where
  "joined_drv = flat_drv\<lparr>OFPorts := [(''ep1ep'', (reservedPort 4)\<lparr>of_containerInspect := Some one_container,
       of_Options := Some [(portMapOption, IfList [])]\<rparr>)],
     dyn_store := [emptyDynMaps\<lparr>Containers := [(''ep1ep'', joinedContainer one_container
       \<lparr>es_MacAddress = ''02:00:00:00:00:01'', es_IPAddress = ''10.0.0.2'', es_Gateway = ''10.0.0.1''\<rparr> 4)]\<rparr>]\<rparr>"

lemma leave_test: "fst (leaveContainer_body web_env plain_driver (web_op ''leave'') joined_drv) = Ret ()"
  by code_simp

theorem leave_forgets_container_witness:
  "map_get (OFPorts joined_drv) ''ep1ep'' \<noteq> None \<and>
   map_get (OFPorts (snd (leaveContainer_body web_env plain_driver (web_op ''leave'') joined_drv))) ''ep1ep'' = None"
proof -
  have "map_get (networks joined_drv) (NetworkID (web_op ''leave'')) = Some (flat_network\<lparr>NetworkName := ''net''\<rparr>)"
    "dyn_ref (DynamicNetworkStates (flat_network\<lparr>NetworkName := ''net''\<rparr>)) = Some 0" "0 < length (dyn_store joined_drv)"
    by (simp_all add: joined_drv_def flat_drv_def empty_drv_def web_op_def flat_op_def flat_network_def map_get_def)
  from leave_forgets_container [OF this run_fst [OF leave_test], of "''ep1ep''"] show ?thesis
    by (simp add: web_op_def joined_drv_def map_get_def)
qed

end
