(* ===== verification/Notifier.thy ===== *)
theory Notifier
  imports Driver_Reconcile
begin

text \<open>
  The goroutine \<^verbatim>\<open>notifier\<close> of \<^verbatim>\<open>ovs/driver.go\<close>, which takes the notifications the handlers send and
  logs each as a JSON line.  It reads the containers and ports of the network when it takes the
  notification, through the maps it shares with the resource manager.  The clock is an
  argument.
\<close>

record NotifyMsgJson =
  Version :: uint
  Time :: "64 word"
  Msg :: NotifyMsg

text \<open>A notification without details has a nil map; the others have entries.\<close>

definition notify_json :: "drv \<Rightarrow> NotifyMsg \<Rightarrow> json" where
  "notify_json s msg = JObj
     [(''NetworkState'', network_json s (nm_NetworkState msg)), (''Type'', JStr (nm_Type msg)),
      (''Operation'', JStr (nm_Operation msg)),
      (''Details'', if nm_Details msg = [] then JNull else json_map JStr (nm_Details msg))]"

definition notifyMsgJson_json :: "drv \<Rightarrow> NotifyMsgJson \<Rightarrow> json" where
  "notifyMsgJson_json s m = JObj
     [(''Version'', JNum (uint (Version m))), (''Time'', JNum (sint (Time m))), (''Msg'', notify_json s (Msg m))]"

text \<open>The text of the log line: the JSON is the format of \<open>Infof\<close>.\<close>

definition notifyLine :: "drv \<Rightarrow> 64 word \<Rightarrow> NotifyMsg \<Rightarrow> string" where
  "notifyLine s now notifyMsg =
     Sprintf0 (print_json (notifyMsgJson_json s \<lparr>Version = 1, Time = now, Msg = notifyMsg\<rparr>))"

text \<open>One turn: waits for a notification, takes it and returns the line that is logged.\<close>

definition notifierStep :: "64 word \<Rightarrow> string drvM" where
  "notifierStep now =
     bindM (getM notifyMsgs) (\<lambda>q.
     case q of
       [] \<Rightarrow> blockM
     | notifyMsg # rest \<Rightarrow>
         thenM (modifyM (\<lambda>s. s\<lparr>notifyMsgs := rest\<rparr>))
         (getM (\<lambda>s. notifyLine s now notifyMsg)))"

text \<open>A turn that is only taken when there is a notification.\<close>

definition notifierTurn :: "64 word \<Rightarrow> unit drvM" where
  "notifierTurn now =
     bindM (getM notifyMsgs) (\<lambda>q. if q = [] then retM () else thenM (notifierStep now) (retM ()))"

text \<open>The loop, for the turns at the given times.\<close>

primrec notifier :: "64 word list \<Rightarrow> string list drvM" where
  "notifier [] = retM []"
| "notifier (now # nows) =
     bindM (notifierStep now) (\<lambda>line. bindM (notifier nows) (\<lambda>lines. retM (line # lines)))"

lemma notifierStep_Ret:
  "notifierStep now s = (Ret line, t) \<longleftrightarrow>
     (\<exists>msg rest. notifyMsgs s = msg # rest \<and> t = s\<lparr>notifyMsgs := rest\<rparr> \<and> line = notifyLine t now msg)"
  by (auto simp: notifierStep_def bindM_def thenM_def split: list.splits)

lemma notifierStep_waits: "fst (notifierStep now s) = Blocked \<longleftrightarrow> notifyMsgs s = []"
  by (auto simp: notifierStep_def bindM_def thenM_def split: list.splits)

text \<open>A line depends on the shared maps only, not on the notifications that wait behind it.\<close>

lemma lookupDyn_queue: "lookupDyn (s\<lparr>notifyMsgs := q\<rparr>) dn = lookupDyn s dn"
  by (simp add: lookupDyn_def split: option.split)

lemma notifyLine_queue [simp]: "notifyLine (s\<lparr>notifyMsgs := q\<rparr>) now msg = notifyLine s now msg"
  by (simp only: notifyLine_def notifyMsgJson_json_def notify_json_def network_json_def dyn_json_def lookupDyn_queue)

lemma notifier_drains:
  "length nows = length (notifyMsgs s) \<Longrightarrow>
   notifier nows s = (Ret (map2 (notifyLine s) nows (notifyMsgs s)), s\<lparr>notifyMsgs := []\<rparr>)"
proof (induction nows arbitrary: s)
  case Nil
  then show ?case by simp
next
  case (Cons now nows)
  then obtain msg rest where q: "notifyMsgs s = msg # rest" by (cases "notifyMsgs s") auto
  have "notifierStep now s = (Ret (notifyLine s now msg), s\<lparr>notifyMsgs := rest\<rparr>)"
    using q by (simp add: notifierStep_Ret)
  moreover have "notifyLine (s\<lparr>notifyMsgs := rest\<rparr>) = notifyLine s" by (intro ext) simp
  ultimately show ?case using Cons q by (simp add: bindM_def)
qed

end
