(* ===== verification/Driver_System.thy ===== *)
theory Driver_System
  imports Handler_Effects Notifier
begin

text \<open>
  The running system: the state of the driver, the calls whose message has not been sent yet,
  and whether the resource manager is still in its loop.  Its steps are the parts of the
  calls and the turns of the resource manager and of the notifier, in any interleaving.  The invariant relates
  the wait group and the reply channels to the operations in flight.
\<close>

record sys =
  st :: drv
  pending :: "DovesnapOp list"
  running :: bool

section \<open>Steps\<close>

text \<open>
  A call up to its send: the state before, the message, the state after.  The calls that
  create or delete a network raise the wait group.  A network restored with its bridge down
  (operation \<^verbatim>\<open>recreatedownbridge\<close>) is left out here; what the resource manager does with
  that operation is the subject of a property of its own.
\<close>

inductive call :: "env \<Rightarrow> Driver \<Rightarrow> drv \<Rightarrow> DovesnapOp \<Rightarrow> drv \<Rightarrow> bool" for E d where
  create: "prepareCreate E d r ''create'' s = (Ret msg, t) \<Longrightarrow> call E d s msg (snd (wgAdd t))"
| delete: "prepareDelete nid s = (Ret msg, t) \<Longrightarrow> call E d s msg (snd (wgAdd t))"
| endpoint: "prepareEndpoint E r s = (Ret (msg, mac), t) \<Longrightarrow> call E d s msg t"
| join: "prepareJoin r s = (Ret (msg, res), t) \<Longrightarrow> call E d s msg t"
| leave: "prepareLeave nid ep s = (Ret msg, t) \<Longrightarrow> call E d s msg t"
| web: "prepareWeb ''networks'' s = (Ret msg, t) \<Longrightarrow> call E d s msg t"
| restore: "prepareRestore E d nid s = (Ret msg, t) \<Longrightarrow> Operation msg \<noteq> ''recreatedownbridge'' \<Longrightarrow>
     call E d s msg (snd (wgAdd t))"
| quit: "call E d s quitMsg s"

text \<open>A call that fails before its message is sent.\<close>

inductive failed_call :: "env \<Rightarrow> Driver \<Rightarrow> drv \<Rightarrow> drv \<Rightarrow> bool" for E d where
  create: "prepareCreate E d r ''create'' s = (Panic e, t) \<Longrightarrow> failed_call E d s t"
| endpoint: "prepareEndpoint E r s = (Panic e, t) \<Longrightarrow> failed_call E d s t"
| join: "prepareJoin r s = (Panic e, t) \<Longrightarrow> failed_call E d s t"

inductive sys_step :: "env \<Rightarrow> Driver \<Rightarrow> sys \<Rightarrow> sys \<Rightarrow> bool" for E d where
  called: "call E d (st s) msg t \<Longrightarrow> sys_step E d s (s\<lparr>st := t, pending := pending s @ [msg]\<rparr>)"
| failed: "failed_call E d (st s) t \<Longrightarrow> sys_step E d s (s\<lparr>st := t\<rparr>)"
| send: "pending s = before @ msg # after \<Longrightarrow> sendOp msg (st s) = (Ret (), t) \<Longrightarrow>
     sys_step E d s (s\<lparr>st := t, pending := before @ after\<rparr>)"
| receive: "awaitReply c (st s) = (Ret rep, t) \<Longrightarrow> sys_step E d s (s\<lparr>st := t\<rparr>)"
| manage: "running s \<Longrightarrow> rmStep E d (st s) = (Ret b, t) \<Longrightarrow> sys_step E d s (s\<lparr>st := t, running := b\<rparr>)"
| notify: "notifierStep now (st s) = (Ret line, t) \<Longrightarrow> sys_step E d s (s\<lparr>st := t\<rparr>)"

definition init_drv :: drv where
  "init_drv = \<lparr>trace = [], networks = [], stackMirrorConfigs = [], dyn_store = [], createDeleteNetworkWG = 0,
     lastDhcpMtime = 0, dovesnapOpChan = [], notifyMsgs = [], replies = [], OFPorts = [], AllPortDesc = []\<rparr>"

definition init_sys :: sys where
  "init_sys = \<lparr>st = init_drv, pending = [], running = True\<rparr>"

text \<open>The driver starts after \<open>NewDriver\<close> has talked to the outside: with any history.\<close>

inductive reachable :: "env \<Rightarrow> Driver \<Rightarrow> sys \<Rightarrow> bool" for E d where
  start: "reachable E d (init_sys\<lparr>st := init_drv\<lparr>trace := h\<rparr>\<rparr>)"
| step: "reachable E d s \<Longrightarrow> sys_step E d s t \<Longrightarrow> reachable E d t"

inductive_cases call_cases: "call E d s msg t"
inductive_cases failed_callE: "failed_call E d s t"
inductive_cases sys_stepE: "sys_step E d s t"

section \<open>The invariant\<close>

definition inflight :: "sys \<Rightarrow> DovesnapOp list" where
  "inflight s = pending s @ dovesnapOpChan (st s)"

text \<open>The reply channel of an operation in flight exists and nothing was sent on it yet.\<close>

definition unanswered :: "drv \<Rightarrow> DovesnapOp \<Rightarrow> bool" where
  "unanswered s msg \<longleftrightarrow> Operation msg \<noteq> ''recreatedownbridge'' \<and> (answered msg \<longrightarrow> Reply msg \<noteq> None) \<and>
     (case Reply msg of None \<Rightarrow> True | Some c \<Rightarrow> c < length (replies s) \<and> replies s ! c = [])"

definition chans :: "DovesnapOp list \<Rightarrow> nat list" where
  "chans msgs = concat (map (\<lambda>msg. case Reply msg of None \<Rightarrow> [] | Some c \<Rightarrow> [c]) msgs)"

definition sys_inv :: "sys \<Rightarrow> bool" where
  "sys_inv s \<longleftrightarrow>
     createDeleteNetworkWG (st s) = int (length (filter counted (inflight s))) \<and>
     length (dovesnapOpChan (st s)) \<le> chanSize \<and> length (notifyMsgs (st s)) \<le> chanSize \<and>
     list_all (unanswered (st s)) (inflight s) \<and> distinct (chans (inflight s)) \<and> nets_ok (st s)"

lemma chans_simps [simp]:
  "chans [] = []" "chans (xs @ ys) = chans xs @ chans ys"
  "chans (x # xs) = (case Reply x of None \<Rightarrow> [] | Some c \<Rightarrow> [c]) @ chans xs"
  by (simp_all add: chans_def)

lemma in_chans: "msg \<in> set msgs \<Longrightarrow> Reply msg = Some c \<Longrightarrow> c \<in> set (chans msgs)"
  by (force simp: chans_def)

lemma reachable_init: "reachable E d init_sys"
  using reachable.start [of E d "[]"] by (simp add: init_sys_def init_drv_def)

lemma sys_inv_init: "sys_inv (init_sys\<lparr>st := init_drv\<lparr>trace := h\<rparr>\<rparr>)"
  by (simp add: sys_inv_def init_sys_def init_drv_def inflight_def chanSize_def nets_ok_def)

section \<open>The calls keep the invariant\<close>

text \<open>Preparing a message leaves the wait group, the channel and the reply channels alone.\<close>

definition prep_kept :: "drv \<Rightarrow> drv \<Rightarrow> bool" where
  "prep_kept s t \<longleftrightarrow> createDeleteNetworkWG t = createDeleteNetworkWG s \<and> dovesnapOpChan t = dovesnapOpChan s \<and>
     replies t = replies s \<and> nets_kept s t \<and> notices_kept s t"

interpretation prep: handler_frame prep_kept nid None for nid
proof
  show "world.more t = world.more s \<Longrightarrow> prep_kept s t" for s t
    using more_drv_fields [of t s] nets.R_more [of t s] by (simp add: prep_kept_def notices_kept_def)
qed (auto simp: prep_kept_def nets_kept_def nets_ok_def notices_kept_def updateDyn_def registerNetwork_def unregisterNetwork_def)

lemma prep_restore: "steps_in prep_kept (prepareRestore E d nid)"
proof -
  have "steps_in prep_kept (modifyM (\<lambda>s. s\<lparr>stackMirrorConfigs := map_put nid sc (stackMirrorConfigs s)\<rparr>))" for sc
    by (rule prep.steps_modify) (auto simp: prep_kept_def nets_kept_def nets_ok_def notices_kept_def)
  then show ?thesis
    unfolding prepareRestore_def
    by (intro prep.handler_intros prep.steps_resource prep.steps_musts prep.steps_io [OF io_mustGetNetworkInspectFromID]
        prep.steps_io [OF io_restoreOperation])
qed

lemma prep_endpoint:
  assumes "prepareEndpoint E r s = (x, t)"
  shows "(\<exists>msg mac u. x = Ret (msg, mac) \<and> prep_kept s u \<and> t = u\<lparr>replies := replies u @ [[]]\<rparr> \<and>
      Reply msg = Some (length (replies u)) \<and> Operation msg = ''reserveport'') \<or>
    (\<forall>y. x \<noteq> Ret y) \<and> prep_kept s t"
proof -
  obtain y u where m: "endpointMac E r s = (y, u)" by force
  then have "prep_kept s u" by (rule prep.R_more [OF io_run_more [OF io_endpointMac]])
  with m assms show ?thesis
    by (cases y) (auto simp: prepareEndpoint_def bindM_def makeReplyChan_def thenM_def zeroOp_def)
qed

lemma prep_join:
  assumes "prepareJoin r s = (x, t)"
  shows "t = s" "x = Ret (msg, res) \<Longrightarrow> Operation msg = ''join'' \<and> Reply msg = None \<and> createDeleteNetworkWG s = 0"
  using assms
  by (auto simp: prepareJoin_def thenM_def bindM_def wgWait_def getNetwork_def zeroOp_def split: if_splits outcome.splits)

lemma create_msg:
  "prepareCreate E d r operation s = (Ret msg, t) \<Longrightarrow>
   Operation msg = operation \<and> Reply msg = None \<and> NetworkID msg = cr_NetworkID r"
  by (auto simp: prepareCreate_def bindM_eq_Ret thenM_def zeroOp_def)

lemma restoreOperation_Ret:
  "restoreOperation E b s = (Ret x, t) \<Longrightarrow> x \<in> {''create'', ''recreatebadbridge'', ''recreatedownbridge''}"
  unfolding restoreOperation_def
  by (elim bindM_RetE) (auto elim!: bindM_RetE split: if_splits sum.splits)

lemma restore_msg:
  "prepareRestore E d nid s = (Ret msg, t) \<Longrightarrow>
   Operation msg \<in> {''create'', ''recreatebadbridge'', ''recreatedownbridge''} \<and> Reply msg = None \<and> NetworkID msg = nid"
  unfolding prepareRestore_def thenM_def Let_def
  by (elim bindM_RetE) (auto simp: zeroOp_def elim!: bindM_RetE dest!: restoreOperation_Ret split: if_splits)

text \<open>What every call does.\<close>

definition call_effect :: "drv \<Rightarrow> DovesnapOp \<Rightarrow> drv \<Rightarrow> bool" where
  "call_effect s msg t \<longleftrightarrow>
     createDeleteNetworkWG t = createDeleteNetworkWG s + (if counted msg then 1 else 0) \<and>
     dovesnapOpChan t = dovesnapOpChan s \<and> nets_kept s t \<and> notices_kept s t \<and> Operation msg \<noteq> ''recreatedownbridge'' \<and>
     (answered msg \<longrightarrow> Reply msg \<noteq> None) \<and>
     (Reply msg = None \<and> replies t = replies s \<or>
      Reply msg = Some (length (replies s)) \<and> replies t = replies s @ [[]])"

lemma call_effect_prep:
  "prep_kept s u \<Longrightarrow> Reply msg = None \<Longrightarrow> \<not> answered msg \<Longrightarrow> counted msg \<Longrightarrow> call_effect s msg (snd (wgAdd u))"
  by (auto simp: call_effect_def prep_kept_def wgAdd_def counted_def nets_kept_def nets_ok_def notices_kept_def)

lemma call_call_effect: "call E d s msg t \<Longrightarrow> call_effect s msg t"
proof (induction rule: call.induct)
  case (create r s msg t)
  then show ?case
    using steps_inD [OF prep.steps_prepareCreate create] create_msg [OF create]
    by (intro call_effect_prep) (auto simp: answered_def counted_def)
next
  case (restore nid s msg t)
  then show ?case
    using steps_inD [OF prep_restore restore(1)] restore_msg [OF restore(1)]
    by (intro call_effect_prep) (auto simp: answered_def counted_def)
next
  case (endpoint r s msg mac t)
  with prep_endpoint [OF endpoint] show ?case
    by (auto simp: call_effect_def prep_kept_def counted_def answered_def nets_kept_def nets_ok_def notices_kept_def)
next
  case (join r s msg res t)
  then show ?case
    using prep_join [OF join] by (auto simp: call_effect_def counted_def answered_def nets_kept_def notices_kept_def)
qed (auto simp: prepareDelete_def prepareLeave_def prepareWeb_def makeReplyChan_def bindM_def thenM_def wgAdd_def
    quitMsg_def call_effect_def zeroOp_def counted_def answered_def nets_kept_def nets_ok_def notices_kept_def)

lemma failed_call_kept: "failed_call E d s t \<Longrightarrow> prep_kept s t"
  by (auto elim!: failed_callE dest: steps_inD [OF prep.steps_prepareCreate] prep_endpoint prep_join(1)
      simp: prep.R_refl)

section \<open>Every step keeps the invariant\<close>

lemma unanswered_chan: "list_all (unanswered s) msgs \<Longrightarrow> c \<in> set (chans msgs) \<Longrightarrow> c < length (replies s) \<and> replies s ! c = []"
  by (auto simp: chans_def list_all_iff unanswered_def split: option.splits)

lemma unanswered_cong: "replies t = replies s \<Longrightarrow> unanswered t = unanswered s"
  by (auto simp: unanswered_def fun_eq_iff split: option.split)

lemma unanswered_kept:
  "unanswered s msg \<Longrightarrow> length (replies s) \<le> length (replies t) \<Longrightarrow>
   (\<And>c. Reply msg = Some c \<Longrightarrow> c < length (replies s) \<Longrightarrow> replies t ! c = replies s ! c) \<Longrightarrow> unanswered t msg"
  by (auto simp: unanswered_def split: option.splits)

lemma list_all_unanswered_kept:
  assumes "list_all (unanswered s) msgs" "length (replies s) \<le> length (replies t)"
    and "\<And>c. c \<in> set (chans msgs) \<Longrightarrow> c < length (replies s) \<Longrightarrow> replies t ! c = replies s ! c"
  shows "list_all (unanswered t) msgs"
  using assms in_chans by (fastforce simp: list_all_iff intro: unanswered_kept)

lemma called_inv:
  assumes "sys_inv s" "call_effect (st s) msg t"
  shows "sys_inv (s\<lparr>st := t, pending := pending s @ [msg]\<rparr>)"
proof -
  have old: "list_all (unanswered (st s)) (inflight s)" "distinct (chans (inflight s))"
    using assms(1) by (auto simp: sys_inv_def)
  have "list_all (unanswered t) (inflight s)"
    using assms(2) by (intro list_all_unanswered_kept [OF old(1)]) (auto simp: call_effect_def nth_append)
  moreover have "unanswered t msg"
    using assms(2) by (auto simp: call_effect_def unanswered_def)
  moreover have "distinct (chans (pending s @ [msg] @ dovesnapOpChan (st s)))"
    using assms(2) old unanswered_chan [OF old(1)] by (fastforce simp: call_effect_def inflight_def)
  ultimately show ?thesis
    using assms by (auto simp: sys_inv_def inflight_def call_effect_def nets_kept_def notices_kept_def)
qed

lemma prep_inv: "sys_inv s \<Longrightarrow> prep_kept (st s) t \<Longrightarrow> sys_inv (s\<lparr>st := t\<rparr>)"
  using unanswered_cong [of t "st s"] by (auto simp: sys_inv_def inflight_def prep_kept_def nets_kept_def notices_kept_def)

lemma send_inv:
  assumes "sys_inv s" "pending s = before @ msg # after" "sendOp msg (st s) = (Ret (), t)"
  shows "sys_inv (s\<lparr>st := t, pending := before @ after\<rparr>)"
proof -
  have t: "t = (st s)\<lparr>dovesnapOpChan := dovesnapOpChan (st s) @ [msg]\<rparr>" "length (dovesnapOpChan (st s)) < chanSize"
    using assms(3) by (auto simp: sendOp_def bindM_def split: if_splits)
  have "unanswered t = unanswered (st s)" by (rule unanswered_cong) (simp add: t)
  then show ?thesis
    using assms(1,2) t by (auto simp: sys_inv_def inflight_def nets_ok_def)
qed

lemma receive_inv:
  assumes "sys_inv s" "awaitReply c (st s) = (Ret rep, t)"
  shows "sys_inv (s\<lparr>st := t\<rparr>)"
proof -
  obtain rest where c: "c < length (replies (st s))" "replies (st s) ! c = rep # rest"
      "t = (st s)\<lparr>replies := (replies (st s))[c := rest]\<rparr>"
    using assms(2) by (auto simp: awaitReply_def bindM_def thenM_def split: if_splits list.splits)
  have old: "list_all (unanswered (st s)) (inflight s)" using assms(1) by (simp add: sys_inv_def)
  have "list_all (unanswered t) (inflight s)"
    using unanswered_chan [OF old] c by (intro list_all_unanswered_kept [OF old]) (auto simp: nth_list_update)
  then show ?thesis using assms(1) c by (simp add: sys_inv_def inflight_def nets_ok_def)
qed

lemma queue_ready:
  assumes "sys_inv s" "dovesnapOpChan (st s) = msg # rest"
  shows "ready (st s\<lparr>dovesnapOpChan := rest\<rparr>) msg"
proof -
  have "unanswered (st s) msg" using assms by (simp add: sys_inv_def inflight_def)
  then show ?thesis
    using assms by (auto simp: ready_def sys_inv_def inflight_def unanswered_def reply_free_def split: option.splits)
qed

lemma dispatched_inv:
  assumes "sys_inv s" "dovesnapOpChan (st s) = msg # rest" "dispatched msg (st s\<lparr>dovesnapOpChan := rest\<rparr>) t"
  shows "sys_inv (s\<lparr>st := t\<rparr>)"
proof -
  let ?msgs = "pending s @ rest"
  have old: "list_all (unanswered (st s)) ?msgs" "distinct (chans (pending s @ msg # rest))"
    using assms(1,2) by (auto simp: sys_inv_def inflight_def)
  have "list_all (unanswered t) ?msgs"
  proof (rule list_all_unanswered_kept [OF old(1)])
    show "length (replies (st s)) \<le> length (replies t)" using assms(3) by (simp add: dispatched_def replies_kept_def)
    fix c assume "c \<in> set (chans ?msgs)"
    then have "Reply msg \<noteq> Some c" using old(2) by auto
    then show "replies t ! c = replies (st s) ! c" using assms(3) by (simp add: dispatched_def replies_kept_def)
  qed
  moreover have "nets_ok t" using assms by (auto simp: sys_inv_def dispatched_def nets_kept_def nets_ok_def)
  ultimately show ?thesis
    using assms old by (auto simp: sys_inv_def inflight_def dispatched_def notices_kept_def)
qed

lemma rmStep_idle:
  assumes "dovesnapOpChan s = []"
  shows "rmStep E d s = thenM (reconcileOvs E) (thenM (reconcileDhcpIp E) (retM True)) s"
  using assms by (simp add: rmStep_def bindM_def)

lemma rmStep_busy:
  assumes "dovesnapOpChan s = msg # rest"
  shows "rmStep E d s = rmDispatch E d msg (s\<lparr>dovesnapOpChan := rest\<rparr>)"
  using assms by (simp add: rmStep_def bindM_def thenM_def)

lemma idle_kept: "steps_in prep_kept (thenM (reconcileOvs E) (thenM (reconcileDhcpIp E) (retM True)))"
  by (intro prep.steps_then prep.steps_reconcileOvs prep.steps_reconcileDhcpIp prep.steps_ret)

lemma sys_inv_running [simp]: "sys_inv (s\<lparr>running := b\<rparr>) = sys_inv s"
  by (simp add: sys_inv_def inflight_def)

lemma manage_inv:
  assumes "sys_inv s" "rmStep E d (st s) = (Ret b, t)"
  shows "sys_inv (s\<lparr>st := t\<rparr>)"
proof (cases "dovesnapOpChan (st s)")
  case Nil
  with assms(2) have "prep_kept (st s) t" by (simp add: rmStep_idle steps_inD [OF idle_kept])
  with assms(1) show ?thesis by (rule prep_inv)
next
  case (Cons msg rest)
  with assms(2) have "rmDispatch E d msg (st s\<lparr>dovesnapOpChan := rest\<rparr>) = (Ret b, t)"
    by (simp add: rmStep_busy)
  with dispatch_effect [OF queue_ready [OF assms(1) Cons]]
  show ?thesis by (intro dispatched_inv [OF assms(1) Cons])
qed

lemma notify_kept: "notifierStep now s = (Ret line, t) \<Longrightarrow> prep_kept s t"
  by (auto simp: notifierStep_Ret prep_kept_def nets_kept_def nets_ok_def notices_kept_def)

lemma sys_step_inv: "sys_step E d s t \<Longrightarrow> sys_inv s \<Longrightarrow> sys_inv t"
  by (induction rule: sys_step.induct)
    (auto intro: called_inv [OF _ call_call_effect] prep_inv [OF _ failed_call_kept] send_inv receive_inv manage_inv
      prep_inv [OF _ notify_kept])

lemma reachable_inv: "reachable E d s \<Longrightarrow> sys_inv s"
  by (induction rule: reachable.induct) (auto intro: sys_inv_init sys_step_inv)

section \<open>Turns of the resource manager\<close>

lemma rmStep_not_Blocked: "sys_inv s \<Longrightarrow> notice_free (st s) \<Longrightarrow> fst (rmStep E d (st s)) \<noteq> Blocked"
  by (cases "dovesnapOpChan (st s)")
    (simp_all add: rmStep_idle rmStep_busy dispatch_not_Blocked queue_ready fst_not_Blocked unblocked_intros notice_free_def)

lemma rmStep_ordinary:
  assumes "sys_inv s" "notice_free (st s)" "dovesnapOpChan (st s) = msg # rest" "\<not> exposed msg"
  shows "fst (rmStep E d (st s)) = Ret (Operation msg \<noteq> ''quit'') \<or> fst (rmStep E d (st s)) = Fatal"
  using dispatch_outcome [OF queue_ready [OF assms(1,3)] _ assms(4)] assms(2)
  by (simp add: rmStep_busy [OF assms(3)] notice_free_def)

lemma rmStep_effect:
  assumes "sys_inv s" "dovesnapOpChan (st s) = msg # rest" "rmStep E d (st s) = (Ret b, t)"
  shows "dispatched msg (st s\<lparr>dovesnapOpChan := rest\<rparr>) t"
  using assms dispatch_effect [OF queue_ready [OF assms(1,2)]] by (simp add: rmStep_busy)

text \<open>The notifier makes room for a notification.\<close>

lemma notifierTurn_kept:
  assumes "sys_inv s"
  shows "\<exists>t. notifierTurn now (st s) = (Ret (), t) \<and> sys_inv (s\<lparr>st := t\<rparr>) \<and> notice_free t \<and>
    dovesnapOpChan t = dovesnapOpChan (st s)"
proof (cases "notifyMsgs (st s)")
  case Nil
  with assms show ?thesis by (simp add: notifierTurn_def bindM_def notice_free_def chanSize_def)
next
  case (Cons msg rest)
  let ?t = "st s\<lparr>notifyMsgs := rest\<rparr>"
  have n: "notifierStep now (st s) = (Ret (notifyLine ?t now msg), ?t)" using Cons by (simp add: notifierStep_Ret)
  have "length rest < chanSize" using assms Cons by (simp add: sys_inv_def)
  with n Cons prep_inv [OF assms notify_kept [OF n]] show ?thesis
    by (simp add: notifierTurn_def bindM_def thenM_def notice_free_def)
qed

text \<open>
  The two goroutines take turns, for a number of rounds: the notifier logs a notification, if there
  is one, and the resource manager has a turn.
\<close>

primrec takeTurns :: "env \<Rightarrow> Driver \<Rightarrow> 64 word list \<Rightarrow> bool drvM" where
  "takeTurns E d [] = retM True"
| "takeTurns E d (now # nows) =
     thenM (notifierTurn now) (bindM (rmStep E d) (\<lambda>continue. if continue then takeTurns E d nows else retM False))"

text \<open>A queue of ordinary operations is worked off.\<close>

definition ordinary :: "DovesnapOp \<Rightarrow> bool" where
  "ordinary msg \<longleftrightarrow> \<not> exposed msg \<and> Operation msg \<noteq> ''quit''"

lemma one_round:
  assumes "sys_inv s" "dovesnapOpChan (st s) = msg # rest" "ordinary msg"
  shows "fst (takeTurns E d (now # nows) (st s)) = Fatal \<or>
    (\<exists>t. takeTurns E d (now # nows) (st s) = takeTurns E d nows t \<and> dovesnapOpChan t = rest \<and> sys_inv (s\<lparr>st := t\<rparr>))"
proof -
  obtain u where u: "notifierTurn now (st s) = (Ret (), u)" "sys_inv (s\<lparr>st := u\<rparr>)" "notice_free u" "dovesnapOpChan u = msg # rest"
    using notifierTurn_kept [OF assms(1)] assms(2) by metis
  obtain x t where t: "rmStep E d u = (x, t)" by force
  have "x = Ret True \<or> x = Fatal"
    using rmStep_ordinary [OF u(2), of msg rest E d] u(3,4) assms(3) t by (auto simp: ordinary_def)
  then show ?thesis
  proof
    assume x: "x = Ret True"
    have "sys_inv (s\<lparr>st := t\<rparr>)" using manage_inv [OF u(2), of E d True t] t x by simp
    moreover have "dovesnapOpChan t = rest" using rmStep_effect [OF u(2), of msg rest E d True t] u(4) t x by (simp add: dispatched_def)
    ultimately show ?thesis using u(1) t x by (auto simp: thenM_def bindM_def)
  qed (use u(1) t in \<open>simp add: thenM_def bindM_def\<close>)
qed

lemma rounds_work_off:
  assumes "sys_inv s" "dovesnapOpChan (st s) = ops @ rest" "list_all ordinary ops" "length nows = length ops"
  shows "fst (takeTurns E d (nows @ later) (st s)) = Fatal \<or>
    (\<exists>t. takeTurns E d (nows @ later) (st s) = takeTurns E d later t \<and> dovesnapOpChan t = rest \<and> sys_inv (s\<lparr>st := t\<rparr>))"
  using assms
proof (induction ops arbitrary: s nows)
  case Nil
  then show ?case by auto
next
  case (Cons msg ops)
  then obtain now ns where n: "nows = now # ns" "length ns = length ops" by (cases nows) auto
  have q: "dovesnapOpChan (st s) = msg # ops @ rest" "ordinary msg" "list_all ordinary ops" using Cons.prems by simp_all
  show ?case
  proof (cases "fst (takeTurns E d (now # ns @ later) (st s)) = Fatal")
    case True
    with n show ?thesis by simp
  next
    case False
    then obtain t where t: "takeTurns E d (now # ns @ later) (st s) = takeTurns E d (ns @ later) t"
        "dovesnapOpChan t = ops @ rest" "sys_inv (s\<lparr>st := t\<rparr>)"
      using one_round [OF Cons.prems(1) q(1,2), of E d now "ns @ later"] by blast
    with Cons.IH [of "s\<lparr>st := t\<rparr>" ns] q(3) n show ?thesis by simp
  qed
qed

section \<open>Waiting for the networks\<close>

lemma wait_group_zero:
  assumes "sys_inv s"
  shows "createDeleteNetworkWG (st s) = 0 \<longleftrightarrow> \<not> list_ex counted (pending s @ dovesnapOpChan (st s))"
proof -
  have "createDeleteNetworkWG (st s) = int (length (filter counted (pending s @ dovesnapOpChan (st s))))"
    using assms by (simp only: sys_inv_def inflight_def)
  then have "createDeleteNetworkWG (st s) = 0 \<longleftrightarrow> filter counted (pending s @ dovesnapOpChan (st s)) = []"
    by (simp only: of_nat_eq_0_iff length_0_conv)
  then show ?thesis by (simp only: filter_empty_conv list_ex_iff) blast
qed

lemma prepareJoin_Blocked: "fst (prepareJoin r s) = Blocked \<longleftrightarrow> createDeleteNetworkWG s \<noteq> 0"
  by (simp add: prepareJoin_def thenM_def bindM_def wgWait_def getNetwork_def truncateID_def sliceToO_def)

lemma prepareJoin_Ret:
  "prepareJoin r s = (Ret (msg, res), t) \<Longrightarrow> t = s \<and>
   jr_Gateway res = (case map_get (networks s) (jr_NetworkID r) of None \<Rightarrow> [] | Some ns \<Rightarrow> Gateway ns)"
  by (auto simp: prepareJoin_def thenM_def bindM_def wgWait_def getNetwork_def zeroNetworkState_def truncateID_def
      sliceToO_def split: if_splits option.splits)

section \<open>Some runs\<close>

text \<open>Runs for the witnesses: a call is prepared, its message is sent, and the resource manager takes it.\<close>

definition send_sys :: "drv \<Rightarrow> DovesnapOp \<Rightarrow> sys" where
  "send_sys t msg = \<lparr>st = t\<lparr>dovesnapOpChan := [msg]\<rparr>, pending = [], running = True\<rparr>"

lemma reachable_send:
  assumes "call E d init_drv msg t"
  shows "reachable E d (send_sys t msg)"
proof -
  have "dovesnapOpChan t = []" using call_call_effect [OF assms] by (simp add: call_effect_def init_drv_def)
  then have s: "sendOp msg t = (Ret (), t\<lparr>dovesnapOpChan := [msg]\<rparr>)"
    by (simp add: sendOp_def bindM_def chanSize_def)
  have 1: "sys_step E d init_sys (init_sys\<lparr>st := t, pending := pending init_sys @ [msg]\<rparr>)"
    using assms by (intro sys_step.called) (simp add: init_sys_def)
  have "sys_step E d (init_sys\<lparr>st := t, pending := pending init_sys @ [msg]\<rparr>)
    ((init_sys\<lparr>st := t, pending := pending init_sys @ [msg]\<rparr>)\<lparr>st := t\<lparr>dovesnapOpChan := [msg]\<rparr>, pending := [] @ []\<rparr>)"
    using s by (intro sys_step.send) (simp_all add: init_sys_def)
  then have "sys_step E d (init_sys\<lparr>st := t, pending := pending init_sys @ [msg]\<rparr>) (send_sys t msg)"
    by (simp add: send_sys_def init_sys_def)
  with 1 show ?thesis by (blast intro: reachable.step reachable_init)
qed

definition restored :: "DovesnapOp \<times> drv" where
  "restored = (case prepareRestore docker_env plain_driver ''n1n1n1'' init_drv of
     (Ret msg, t) \<Rightarrow> (msg, t) | (_, t) \<Rightarrow> (zeroOp, t))"

definition restored_sys :: sys where
  "restored_sys = send_sys (snd (wgAdd (snd restored))) (fst restored)"

lemma restored_run: "prepareRestore docker_env plain_driver ''n1n1n1'' init_drv = (Ret (fst restored), snd restored)"
  "Operation (fst restored) = ''create''"
proof -
  have "(case fst (prepareRestore docker_env plain_driver ''n1n1n1'' init_drv) of Ret msg \<Rightarrow> Operation msg = ''create'' | _ \<Rightarrow> False)"
    by code_simp
  then show "prepareRestore docker_env plain_driver ''n1n1n1'' init_drv = (Ret (fst restored), snd restored)"
    "Operation (fst restored) = ''create''"
    by (auto simp: restored_def split: outcome.splits prod.splits)
qed

lemma reachable_restored: "reachable docker_env plain_driver restored_sys"
  unfolding restored_sys_def
  by (intro reachable_send call.restore [OF restored_run(1)]) (simp add: restored_run(2))

lemma restored_turn: "fst (rmStep docker_env plain_driver (st restored_sys)) = Ret True"
  "map_get (networks (snd (rmStep docker_env plain_driver (st restored_sys)))) ''n1n1n1'' \<noteq> None"
  "dovesnapOpChan (st restored_sys) = [fst restored]" "NetworkID (fst restored) = ''n1n1n1''"
  by code_simp+

section \<open>Properties\<close>


definition delete_msg :: DovesnapOp where
  "delete_msg = zeroOp\<lparr>NetworkID := ''net1'', Operation := ''delete'', Reply := Some 0\<rparr>"

definition deleting_sys :: sys where
  "deleting_sys = \<lparr>st = init_drv\<lparr>createDeleteNetworkWG := 1, replies := [[]]\<rparr>, pending = [delete_msg], running = True\<rparr>"

definition queued_sys :: sys where
  "queued_sys = \<lparr>st = init_drv\<lparr>createDeleteNetworkWG := 1, replies := [[]], dovesnapOpChan := [delete_msg]\<rparr>,
     pending = [], running = True\<rparr>"

lemma reachable_deleting: "reachable E d deleting_sys"
proof -
  have "prepareDelete ''net1'' init_drv = (Ret delete_msg, init_drv\<lparr>replies := [[]]\<rparr>)"
    by (simp add: prepareDelete_def makeReplyChan_def bindM_def thenM_def delete_msg_def init_drv_def)
  from sys_step.called [of E d init_sys, OF call.delete] this
  have "sys_step E d init_sys deleting_sys"
    by (force simp: init_sys_def deleting_sys_def wgAdd_def init_drv_def)
  then show ?thesis by (rule reachable.step [OF reachable_init])
qed

lemma reachable_queued: "reachable E d queued_sys"
proof -
  have "sendOp delete_msg (st deleting_sys) = (Ret (), st queued_sys)"
    by (simp add: sendOp_def bindM_def deleting_sys_def queued_sys_def chanSize_def init_drv_def)
  then have "sys_step E d deleting_sys (deleting_sys\<lparr>st := st queued_sys, pending := [] @ []\<rparr>)"
    by (intro sys_step.send) (simp_all add: deleting_sys_def)
  then have "sys_step E d deleting_sys queued_sys" by (simp add: deleting_sys_def queued_sys_def)
  with reachable_deleting show ?thesis by (rule reachable.step)
qed



definition join_request :: JoinRequest where
  "join_request = \<lparr>jr_NetworkID = ''net1'', jr_EndpointID = ''ep1ep1'', jr_Options = None\<rparr>"




text \<open>
  C4. The queue is worked off: from every reachable state whose channel holds only operations other
  than re-creations, status requests and \<open>quit\<close>, when the notifier and the resource manager take
  turns, as many rounds as there are operations empty the channel (unless the process exits), and the wait group then counts exactly the calls
  that have not sent their message yet; without such calls it is zero and joins go on.
\<close>

theorem manager_drains:
  assumes "reachable E d s" "list_all ordinary (dovesnapOpChan (st s))" "length nows = length (dovesnapOpChan (st s))"
  shows "fst (takeTurns E d nows (st s)) = Fatal \<or>
    (\<exists>t. takeTurns E d nows (st s) = (Ret True, t) \<and> dovesnapOpChan t = [] \<and>
      createDeleteNetworkWG t = int (length (filter counted (pending s))) \<and>
      (pending s = [] \<longrightarrow> fst (prepareJoin r t) \<noteq> Blocked))"
  using rounds_work_off [OF reachable_inv [OF assms(1)] _ assms(2,3), of "[]" E d "[]"]
  by (auto simp: sys_inv_def inflight_def prepareJoin_Blocked)

theorem manager_drains_witness:
  "list_all ordinary (dovesnapOpChan (st queued_sys)) \<and>
   (fst (takeTurns docker_env plain_driver [0] (st queued_sys)) = Fatal \<or>
    (\<exists>t. takeTurns docker_env plain_driver [0] (st queued_sys) = (Ret True, t) \<and> dovesnapOpChan t = [] \<and> createDeleteNetworkWG t = 0))"
proof -
  have o: "list_all ordinary (dovesnapOpChan (st queued_sys))" "length [0 :: 64 word] = length (dovesnapOpChan (st queued_sys))"
    "pending queued_sys = []"
    by (simp_all add: queued_sys_def ordinary_def exposed_def delete_msg_def)
  with manager_drains [OF reachable_queued o(1,2)] show ?thesis by auto
qed

text \<open>
  C17. The maps of networks stay in order: in every reachable state both maps hold each network id
  once and every registered network has a mirroring configuration, so reading one never
  gives the zero value by accident.
\<close>

theorem networks_have_mirror_config:
  assumes "reachable E d s" "map_get (networks (st s)) nid = Some ns"
  shows "(\<exists>sc. map_get (stackMirrorConfigs (st s)) nid = Some sc) \<and>
    distinct (map_keys (networks (st s))) \<and> distinct (map_keys (stackMirrorConfigs (st s)))"
proof -
  have n: "nets_ok (st s)" using reachable_inv [OF assms(1)] by (simp add: sys_inv_def)
  have "nid \<in> set (map_keys (networks (st s)))" using assms(2) by (simp add: gm.in_keys)
  with n have "nid \<in> set (map_keys (stackMirrorConfigs (st s)))" by (auto simp: nets_ok_def)
  with n show ?thesis by (auto simp: nets_ok_def gm.in_keys gm.ok_keys)
qed

theorem networks_have_mirror_config_witness:
  "\<exists>s ns sc. reachable docker_env plain_driver s \<and> map_get (networks (st s)) ''n1n1n1'' = Some ns \<and>
     map_get (stackMirrorConfigs (st s)) ''n1n1n1'' = Some sc"
proof -
  have "sys_step docker_env plain_driver restored_sys
      (restored_sys\<lparr>st := snd (rmStep docker_env plain_driver (st restored_sys)), running := True\<rparr>)"
    by (rule sys_step.manage [OF _ run_fst [OF restored_turn(1)]]) (simp add: restored_sys_def send_sys_def)
  from reachable.step [OF reachable_restored this] restored_turn(2) networks_have_mirror_config [OF reachable.step [OF reachable_restored this]]
  show ?thesis by fastforce
qed

text \<open>
  C16. Operations are local: a turn of the resource manager for one network leaves the registered
  state and the mirroring configuration of every other network alone.
\<close>

theorem operations_are_local:
  assumes "reachable E d s" "dovesnapOpChan (st s) = msg # rest" "rmStep E d (st s) = (Ret b, t)" "j \<noteq> NetworkID msg"
  shows "map_get (networks t) j = map_get (networks (st s)) j \<and>
    map_get (stackMirrorConfigs t) j = map_get (stackMirrorConfigs (st s)) j \<and> dovesnapOpChan t = rest"
  using rmStep_effect [OF reachable_inv [OF assms(1)] assms(2,3)] assms(4)
  by (simp add: dispatched_def others_kept_def)

theorem operations_are_local_witness:
  "map_get (networks (snd (rmStep docker_env plain_driver (st restored_sys)))) ''n2n2n2'' =
     map_get (networks (st restored_sys)) ''n2n2n2'' \<and> dovesnapOpChan (st restored_sys) \<noteq> []"
  using operations_are_local [OF reachable_restored restored_turn(3) run_fst [OF restored_turn(1)], of "''n2n2n2''"]
    restored_turn(3,4) by simp

text \<open>
  C14. Every leave is answered: when the resource manager has taken a leave from the channel and
  there is room for its notification, the turn ends with exactly one reply on the reply channel of
  that call, whether the handler succeeded or panicked (or the process exits).
\<close>

theorem leave_is_answered:
  assumes "reachable E d s" "dovesnapOpChan (st s) = msg # rest" "Operation msg = ''leave''"
    and "length (notifyMsgs (st s)) < 64"
  shows "fst (rmStep E d (st s)) = Fatal \<or>
    (\<exists>c t. Reply msg = Some c \<and> rmStep E d (st s) = (Ret True, t) \<and> replies t ! c = [zeroReply])"
proof -
  let ?s = "st s\<lparr>dovesnapOpChan := rest\<rparr>"
  note i = reachable_inv [OF assms(1)]
  have u: "unanswered (st s) msg" using i assms(2) by (simp add: sys_inv_def inflight_def)
  then obtain c where c: "Reply msg = Some c" "c < length (replies (st s))" "replies (st s) ! c = []"
    using assms(3) by (auto simp: unanswered_def answered_def split: option.splits)
  then have f: "reply_free ?s (Some c)" by (simp add: reply_free_def)
  have r: "rmStep E d (st s) = thenM (mustHandleLeaveContainer E d msg) (retM True) ?s"
    using assms(2,3) by (simp add: rmStep_busy rmDispatch_def)
  show ?thesis
  proof (cases "fst (mustHandleLeaveContainer E d msg ?s) = Fatal")
    case True
    then show ?thesis by (cases "mustHandleLeaveContainer E d msg ?s") (simp add: r thenM_def bindM_def)
  next
    case False
    then have "fst (mustHandleLeaveContainer E d msg ?s) = Ret ()" using leave_done [of ?s msg] f c(1) assms(4) by (auto simp: notice_free_def chanSize_def)
    from run_fst [OF this] leave_reply [OF f c(1) run_fst [OF this]] c show ?thesis
      by (auto simp: r then_True_Ret)
  qed
qed

definition leaving_sys :: sys where
  "leaving_sys = send_sys (init_drv\<lparr>replies := [[]]\<rparr>) (zeroOp\<lparr>NetworkID := ''n1n1n1'', EndpointID := ''ep1'', Operation := ''leave'', Reply := Some 0\<rparr>)"

lemma reachable_leaving: "reachable E d leaving_sys"
  unfolding leaving_sys_def
  by (intro reachable_send call.leave [of "''n1n1n1''" "''ep1''"])
    (simp add: prepareLeave_def makeReplyChan_def bindM_def thenM_def init_drv_def)

theorem leave_is_answered_witness:
  "fst (rmStep docker_env plain_driver (st leaving_sys)) = Ret True \<and>
   replies (snd (rmStep docker_env plain_driver (st leaving_sys))) ! 0 = [zeroReply]"
proof -
  have r: "fst (rmStep docker_env plain_driver (st leaving_sys)) = Ret True" by code_simp
  have "dovesnapOpChan (st leaving_sys) = [zeroOp\<lparr>NetworkID := ''n1n1n1'', EndpointID := ''ep1'', Operation := ''leave'', Reply := Some 0\<rparr>]"
    by (simp add: leaving_sys_def send_sys_def)
  from leave_is_answered [OF reachable_leaving this, of docker_env plain_driver] r show ?thesis
    by (auto simp: leaving_sys_def send_sys_def init_drv_def)
qed

lemma recreate_down_not_Ret:
  assumes "Operation msg = ''recreatedownbridge''" "Reply msg = None" "createDeleteNetworkWG s = 1"
  shows "fst (rmDispatch E d msg s) \<noteq> Ret b"
proof
  assume "fst (rmDispatch E d msg s) = Ret b"
  then obtain t u v where d: "mustHandleDeleteNetwork E d msg s = (Ret (), u)"
    and i: "InitBridge E d (NewNetworkState msg) (NewStackMirrorConfig msg) u = (Ret (), v)"
    and c: "mustHandleCreateNetwork E d msg v = (Ret (), t)"
    using assms(1) by (auto dest!: run_fst simp: rmDispatch_def thenM_def bindM_eq_Ret)
  have w: "createDeleteNetworkWG (snd (deleteNetwork_body E d msg s)) = 1"
    using steps_inD [OF ops.steps_deleteNetwork_body [OF refl refl], of E d msg s] assms(3)
    by (cases "deleteNetwork_body E d msg s") (auto simp: same_ops_def)
  have "createDeleteNetworkWG u = 0"
    using d w by (auto simp: mustHandleDeleteNetwork_def deferM_def thenM_def bindM_def recoverM_def wgDone_run
        split: prod.splits outcome.splits if_splits)
  then have "createDeleteNetworkWG v = 0" using more_drv_fields(4) [OF io_run_more [OF io_InitBridge i]] by simp
  then have "createDeleteNetworkWG (snd (createNetwork_body E d msg v)) = 0"
    using steps_inD [OF ops.steps_createNetwork_body [OF refl], of E d msg v]
    by (cases "createNetwork_body E d msg v") (auto simp: same_ops_def)
  with c show False
    by (auto simp: mustHandleCreateNetwork_def deferM_def thenM_def bindM_def recoverM_def wgDone_run
        split: prod.splits outcome.splits if_splits)
qed


definition down_env :: env where
  "down_env = docker_env\<lparr>netInterfaceByName := (\<lambda>h name. Inr ''broadcast'')\<rparr>"


end
