(* ===== verification/Json_Read.thy ===== *)
theory Json_Read
  imports Json Utils
begin

text \<open>
  A reader of compact JSON, and that it reads back what \<open>json.Marshal\<close> wrote, as long as the strings
  are UTF-8.
\<close>

section \<open>The reader\<close>

definition hex4 :: "char \<Rightarrow> char \<Rightarrow> char \<Rightarrow> char \<Rightarrow> int option" where
  "hex4 a b c d = (case (hex_digit a, hex_digit b, hex_digit c, hex_digit d) of
     (Some w, Some x, Some y, Some z) \<Rightarrow> Some (4096 * w + 256 * x + 16 * y + z) | _ \<Rightarrow> None)"

text \<open>The UTF-8 encoding of a code point of at most 16 bits.\<close>

definition utf8 :: "int \<Rightarrow> string" where
  "utf8 n =
     (if n < 0x80 then [char_of n]
      else if n < 0x800 then [char_of (0xC0 + n div 64), char_of (0x80 + n mod 64)]
      else [char_of (0xE0 + n div 4096), char_of (0x80 + n div 64 mod 64), char_of (0x80 + n mod 64)])"

text \<open>What stands after a backslash.\<close>

definition unescape :: "string \<Rightarrow> (string \<times> string) option" where
  "unescape s = (case s of
     [] \<Rightarrow> None
   | e # r \<Rightarrow>
       if e = CHR 0x22 \<or> e = CHR 0x5C \<or> e = CHR ''/'' then Some ([e], r)
       else if e = CHR ''b'' then Some ([CHR 0x08], r)
       else if e = CHR ''f'' then Some ([CHR 0x0C], r)
       else if e = CHR ''n'' then Some ([CHR 0x0A], r)
       else if e = CHR ''r'' then Some ([CHR 0x0D], r)
       else if e = CHR ''t'' then Some ([CHR 0x09], r)
       else if e = CHR ''u'' then
         (case r of
            a # b # c # d # r' \<Rightarrow> (case hex4 a b c d of Some n \<Rightarrow> Some (utf8 n, r') | None \<Rightarrow> None)
          | _ \<Rightarrow> None)
       else None)"

lemma unescape_length: "unescape s = Some (t, r) \<Longrightarrow> length r < length s"
  by (auto simp: unescape_def split: list.splits if_splits option.splits)

text \<open>A string up to its closing quote, and the rest.\<close>

function read_string :: "string \<Rightarrow> (string \<times> string) option" where
  "read_string s = (case s of
     [] \<Rightarrow> None
   | c # cs \<Rightarrow>
       if c = CHR 0x22 then Some ([], cs)
       else if c = CHR 0x5C then
         (case unescape cs of None \<Rightarrow> None | Some (t, r) \<Rightarrow>
           (case read_string r of None \<Rightarrow> None | Some (t', r') \<Rightarrow> Some (t @ t', r')))
       else if byte_of c < 0x20 then None
       else (case read_string cs of None \<Rightarrow> None | Some (t, r) \<Rightarrow> Some (c # t, r)))"
  by pat_completeness auto
termination
  by (relation "measure length") (auto dest: unescape_length)

declare read_string.simps [simp del]

definition read_number :: "string \<Rightarrow> (json \<times> string) option" where
  "read_number s =
     (let neg = (take 1 s = ''-''); t = (if neg then drop 1 s else s); ds = takeWhile is_digit t in
      if ds = [] then None
      else Some (JNum (if neg then - dec_val ds else dec_val ds), dropWhile is_digit t))"

definition expect :: "string \<Rightarrow> json \<Rightarrow> string \<Rightarrow> (json \<times> string) option" where
  "expect word j s = (if take (length word) s = word then Some (j, drop (length word) s) else None)"

text \<open>Values and the members of an object; the number bounds the nesting.\<close>

fun read_value :: "nat \<Rightarrow> string \<Rightarrow> (json \<times> string) option"
  and read_members :: "nat \<Rightarrow> string \<Rightarrow> ((string \<times> json) list \<times> string) option" where
  "read_value 0 s = None"
| "read_value (Suc n) s = (case s of
     [] \<Rightarrow> None
   | c # cs \<Rightarrow>
       if c = CHR ''{'' then
         (if take 1 cs = ''}'' then Some (JObj [], drop 1 cs)
          else (case read_members n cs of None \<Rightarrow> None | Some (kvs, r) \<Rightarrow> Some (JObj kvs, r)))
       else if c = CHR 0x22 then (case read_string cs of None \<Rightarrow> None | Some (t, r) \<Rightarrow> Some (JStr t, r))
       else if c = CHR ''n'' then expect ''null'' JNull s
       else if c = CHR ''t'' then expect ''true'' (JBool True) s
       else if c = CHR ''f'' then expect ''false'' (JBool False) s
       else read_number s)"
| "read_members 0 s = None"
| "read_members (Suc n) s =
     (if take 1 s \<noteq> [CHR 0x22] then None
      else (case read_string (drop 1 s) of None \<Rightarrow> None | Some (k, r) \<Rightarrow>
        if take 1 r \<noteq> '':'' then None
        else (case read_value n (drop 1 r) of None \<Rightarrow> None | Some (v, r') \<Rightarrow>
          if take 1 r' = ''}'' then Some ([(k, v)], drop 1 r')
          else if take 1 r' = '','' then
            (case read_members n (drop 1 r') of None \<Rightarrow> None | Some (kvs, r'') \<Rightarrow> Some ((k, v) # kvs, r''))
          else None)))"

definition read_json :: "string \<Rightarrow> json option" where
  "read_json s = (case read_value (length s) s of Some (j, []) \<Rightarrow> Some j | _ \<Rightarrow> None)"

section \<open>Strings\<close>

function valid_utf8 :: "string \<Rightarrow> bool" where
  "valid_utf8 s = (case s of
     [] \<Rightarrow> True
   | c # cs \<Rightarrow>
       if byte_of c < 0x80 then valid_utf8 cs
       else if utf8_two s then valid_utf8 (drop 2 s)
       else if utf8_three s then valid_utf8 (drop 3 s)
       else utf8_four s \<and> valid_utf8 (drop 4 s))"
  by pat_completeness auto
termination
  by (relation "measure length") auto

declare valid_utf8.simps [simp del]

lemma byte_of_range: "0 \<le> byte_of c" "byte_of c < 256"
  unfolding byte_of_def by (cases c; simp)+

lemma char_of_byte_of [simp]: "char_of (byte_of c) = c"
  by (simp add: byte_of_def)

lemma byte_of_inject: "byte_of c = byte_of d \<longleftrightarrow> c = d"
  by (metis char_of_byte_of)

lemma hex_digit_hexdigit: "0 \<le> d \<Longrightarrow> d < 16 \<Longrightarrow> hex_digit (hexdigit d) = Some d"
proof -
  have "\<forall>d\<in>set [0..15]. hex_digit (hexdigit d) = Some d" by code_simp
  moreover assume "0 \<le> d" "d < 16"
  ultimately show ?thesis by auto
qed

text \<open>One escaped character is read back.\<close>

lemma unescape_hex:
  assumes "byte_of c < 0x80"
  shows "unescape (''u00'' @ hexdigit (byte_of c div 16) # hexdigit (byte_of c mod 16) # r) = Some ([c], r)"
proof -
  have "hex_digit (CHR ''0'') = Some 0" by (simp add: hex_digit_def)
  moreover have "hex_digit (hexdigit (byte_of c div 16)) = Some (byte_of c div 16)"
    "hex_digit (hexdigit (byte_of c mod 16)) = Some (byte_of c mod 16)"
    using byte_of_range [of c] assms by (auto intro!: hex_digit_hexdigit)
  ultimately show ?thesis using assms by (simp add: unescape_def hex4_def utf8_def)
qed

lemma read_plain: "c \<noteq> CHR 0x22 \<Longrightarrow> c \<noteq> CHR 0x5C \<Longrightarrow> 0x20 \<le> byte_of c \<Longrightarrow>
  read_string (c # cs) = (case read_string cs of None \<Rightarrow> None | Some (t, r) \<Rightarrow> Some (c # t, r))"
  by (subst read_string.simps) simp

lemma read_escaped: "unescape cs = Some (t, r) \<Longrightarrow>
  read_string (CHR 0x5C # cs) = (case read_string r of None \<Rightarrow> None | Some (t', r') \<Rightarrow> Some (t @ t', r'))"
  by (subst read_string.simps) simp

lemma read_escaped_one: "unescape cs = Some ([c], r) \<Longrightarrow>
  read_string (CHR 0x5C # cs) = (case read_string r of None \<Rightarrow> None | Some (t', r') \<Rightarrow> Some (c # t', r'))"
  using read_escaped [of cs "[c]" r] unfolding append_Cons append_Nil .

lemma read_short_escapes:
  "read_string (CHR 0x5C # e # s) = (case read_string s of None \<Rightarrow> None | Some (t, r) \<Rightarrow> Some (c # t, r))"
  if "(e, c) \<in> {(CHR 0x22, CHR 0x22), (CHR 0x5C, CHR 0x5C), (CHR ''b'', CHR 0x08), (CHR ''f'', CHR 0x0C),
    (CHR ''n'', CHR 0x0A), (CHR ''r'', CHR 0x0D), (CHR ''t'', CHR 0x09)}"
proof -
  have "unescape (e # s) = Some ([c], s)" using that unfolding unescape_def by (elim insertE) simp_all
  then show ?thesis by (rule read_escaped_one)
qed

lemma read_escape_ascii:
  assumes "byte_of c < 0x80"
  shows "read_string (escape_ascii c @ s) = (case read_string s of None \<Rightarrow> None | Some (t, r) \<Rightarrow> Some (c # t, r))"
proof (cases "byte_of c < 0x20 \<or> c = CHR ''<'' \<or> c = CHR ''>'' \<or> c = CHR ''&''")
  case True
  have q: "c \<noteq> CHR 0x5C" "c \<noteq> CHR 0x22" using True by (auto simp: byte_of_def)
  show ?thesis
  proof (cases "c \<in> {CHR 0x08, CHR 0x0C, CHR 0x0A, CHR 0x0D, CHR 0x09}")
    case True
    then show ?thesis by (auto simp: escape_ascii_def read_short_escapes)
  next
    case False
    with True q show ?thesis
      using read_escaped_one [OF unescape_hex [OF assms, of s]] by (simp add: escape_ascii_def)
  qed
next
  case False
  show ?thesis
  proof (cases "c = CHR 0x5C \<or> c = CHR 0x22")
    case True
    then show ?thesis by (auto simp: escape_ascii_def read_short_escapes)
  next
    case f: False
    have "c \<notin> {CHR 0x08, CHR 0x0C, CHR 0x0A, CHR 0x0D, CHR 0x09}" using False by (auto simp: byte_of_def)
    with False f show ?thesis by (auto simp: escape_ascii_def read_plain)
  qed
qed

lemma read_high:
  "\<forall>c\<in>set p. 0x80 \<le> byte_of c \<Longrightarrow>
   read_string (p @ s) = (case read_string s of None \<Rightarrow> None | Some (t, r) \<Rightarrow> Some (p @ t, r))"
proof (induction p)
  case (Cons c p)
  then have "c \<noteq> CHR 0x22" "c \<noteq> CHR 0x5C" "0x20 \<le> byte_of c" by (auto simp: byte_of_def)
  with Cons show ?case by (simp add: read_plain split: option.split prod.split)
qed (simp split: option.split prod.split)

lemma utf8_high:
  "utf8_two s \<Longrightarrow> \<forall>c\<in>set (take 2 s). 0x80 \<le> byte_of c"
  "utf8_three s \<Longrightarrow> \<forall>c\<in>set (take 3 s). 0x80 \<le> byte_of c"
  "utf8_four s \<Longrightarrow> \<forall>c\<in>set (take 4 s). 0x80 \<le> byte_of c"
  by (auto simp: utf8_two_def utf8_three_def utf8_four_def cont_byte_def split: list.splits)

lemma line_separator_iff:
  "line_separator s \<longleftrightarrow> (\<exists>x r. s = CHR 0xE2 # CHR 0x80 # x # r \<and> (x = CHR 0xA8 \<or> x = CHR 0xA9))"
  by (cases s; cases "tl s"; cases "tl (tl s)") (auto simp: line_separator_def numeral_2_eq_2)

lemma read_separator:
  assumes "line_separator s"
  shows "unescape (''u202'' @ (if take 1 (drop 2 s) = [CHR 0xA8] then ''8'' else ''9'') @ r) = Some (take 3 s, r)"
proof -
  obtain x u where x: "s = CHR 0xE2 # CHR 0x80 # x # u" "x = CHR 0xA8 \<or> x = CHR 0xA9"
    using assms by (auto simp: line_separator_iff)
  have h: "hex4 (CHR ''2'') (CHR ''0'') (CHR ''2'') (CHR ''8'') = Some 0x2028"
    "hex4 (CHR ''2'') (CHR ''0'') (CHR ''2'') (CHR ''9'') = Some 0x2029"
    "utf8 0x2028 = [CHR 0xE2, CHR 0x80, CHR 0xA8]" "utf8 0x2029 = [CHR 0xE2, CHR 0x80, CHR 0xA9]" by code_simp+
  show ?thesis using x(2) unfolding x(1) by (elim disjE) (simp_all add: unescape_def h)
qed

lemma line_separator_three: "line_separator s \<Longrightarrow> \<not> utf8_two s \<and> utf8_three s"
  by (auto simp: line_separator_iff utf8_two_def utf8_three_def cont_byte_def byte_of_def)

lemma read_escape:
  "valid_utf8 s \<Longrightarrow> read_string (escape s @ CHR 0x22 # r) = Some (s, r)"
proof (induction s rule: escape.induct)
  case (1 s)
  show ?case
  proof (cases s)
    case Nil
    then show ?thesis by (subst escape.simps) (simp add: read_string.simps [of "CHR 0x22 # r"])
  next
    case (Cons c cs)
    have split: "take n s @ drop n s = s" for n by simp
    consider (ascii) "byte_of c < 0x80" | (two) "\<not> byte_of c < 0x80" "utf8_two s"
      | (sep) "\<not> byte_of c < 0x80" "\<not> utf8_two s" "line_separator s"
      | (three) "\<not> byte_of c < 0x80" "\<not> utf8_two s" "\<not> line_separator s" "utf8_three s"
      | (four) "\<not> byte_of c < 0x80" "\<not> utf8_two s" "\<not> line_separator s" "\<not> utf8_three s" "utf8_four s"
      using "1.prems" Cons by (subst (asm) valid_utf8.simps) (auto split: if_splits)
    then show ?thesis
    proof cases
      case ascii
      have "valid_utf8 cs" using "1.prems" Cons ascii by (subst (asm) valid_utf8.simps) simp
      with "1.IH"(1) [OF Cons ascii] Cons ascii show ?thesis
        by (subst escape.simps) (simp add: read_escape_ascii)
    next
      case two
      have "valid_utf8 (drop 2 s)" using "1.prems" Cons two by (subst (asm) valid_utf8.simps) simp
      note ih = "1.IH"(2) [OF Cons two this]
      have "escape s = take 2 s @ escape (drop 2 s)" using Cons two by (subst escape.simps) simp
      then show ?thesis
        by (simp only: append_assoc read_high [OF utf8_high(1) [OF two(2)]] ih option.case prod.case split)
    next
      case sep
      have "valid_utf8 (drop 3 s)"
        using "1.prems" Cons sep line_separator_three [OF sep(3)] by (subst (asm) valid_utf8.simps) simp
      with "1.IH"(3) [OF Cons sep]
      have "read_string (escape (drop 3 s) @ CHR 0x22 # r) = Some (drop 3 s, r)" .
      then have "read_string (CHR 0x5C # ''u202'' @ (if take 1 (drop 2 s) = [CHR 0xA8] then ''8'' else ''9'') @
          escape (drop 3 s) @ CHR 0x22 # r) = Some (s, r)"
        using read_escaped [OF read_separator [OF sep(3)]] by (simp only: option.case prod.case split)
      moreover have "escape s = CHR 0x5C # ''u202'' @ (if take 1 (drop 2 s) = [CHR 0xA8] then ''8'' else ''9'') @ escape (drop 3 s)"
        using Cons sep by (subst escape.simps) simp
      ultimately show ?thesis by (simp only: append_Cons append_assoc)
    next
      case three
      have "valid_utf8 (drop 3 s)" using "1.prems" Cons three by (subst (asm) valid_utf8.simps) simp
      note ih = "1.IH"(4) [OF Cons three this]
      have "escape s = take 3 s @ escape (drop 3 s)" using Cons three by (subst escape.simps) simp
      then show ?thesis
        by (simp only: append_assoc read_high [OF utf8_high(2) [OF three(4)]] ih option.case prod.case split)
    next
      case four
      have "valid_utf8 (drop 4 s)" using "1.prems" Cons four by (subst (asm) valid_utf8.simps) simp
      note ih = "1.IH"(5) [OF Cons four this]
      have "escape s = take 4 s @ escape (drop 4 s)" using Cons four by (subst escape.simps) simp
      then show ?thesis
        by (simp only: append_assoc read_high [OF utf8_high(3) [OF four(5)]] ih option.case prod.case split)
    qed
  qed
qed

lemma read_quote: "valid_utf8 s \<Longrightarrow> read_string (drop 1 (quote s @ r)) = Some (s, r)"
  by (simp add: quote_def read_escape)

section \<open>Values\<close>

text \<open>All strings of a value are UTF-8.\<close>

fun json_utf8 :: "json \<Rightarrow> bool" where
  "json_utf8 (JStr s) \<longleftrightarrow> valid_utf8 s"
| "json_utf8 (JObj kvs) \<longleftrightarrow> list_all (\<lambda>(k, v). valid_utf8 k \<and> json_utf8 v) kvs"
| "json_utf8 j \<longleftrightarrow> True"

definition no_digit :: "string \<Rightarrow> bool" where
  "no_digit r \<longleftrightarrow> (case r of [] \<Rightarrow> True | c # _ \<Rightarrow> \<not> is_digit c)"

lemma number_split:
  assumes "0 \<le> n" "no_digit r"
  shows "takeWhile is_digit (dec_pos n @ r) = dec_pos n" "dropWhile is_digit (dec_pos n @ r) = r"
proof -
  have d: "\<forall>c\<in>set (dec_pos n). is_digit c" using dec_pos_digits assms(1) by blast
  then show "takeWhile is_digit (dec_pos n @ r) = dec_pos n"
    using assms(2) by (cases r) (auto simp: takeWhile_append no_digit_def takeWhile_eq_all_conv)
  show "dropWhile is_digit (dec_pos n @ r) = r"
    using d assms(2) by (cases r) (auto simp: dropWhile_append no_digit_def)
qed

lemma read_number_dec: "no_digit r \<Longrightarrow> read_number (dec n @ r) = Some (JNum n, r)"
proof (cases "n < 0")
  case False
  assume r: "no_digit r"
  have "hd (dec_pos n) \<noteq> CHR ''-''" using dec_pos_digits [of n "hd (dec_pos n)"] False by (auto simp: is_digit_def)
  then have "take 1 (dec_pos n @ r) \<noteq> ''-''" by (cases "dec_pos n") simp_all
  with False r show ?thesis by (simp add: read_number_def dec_def number_split dec_val_dec_pos)
qed (simp add: read_number_def dec_def number_split dec_val_dec_pos)

lemma hd_dec: "hd (dec n) = CHR ''-'' \<or> is_digit (hd (dec n))"
  using dec_pos_digits [of n "hd (dec_pos n)"] by (auto simp: dec_def)

lemma read_value_number: "no_digit r \<Longrightarrow> read_value (Suc m) (dec n @ r) = Some (JNum n, r)"
proof -
  assume r: "no_digit r"
  obtain c cs where c: "dec n = c # cs" by (cases "dec n") auto
  then have "c = CHR ''-'' \<or> is_digit c" using hd_dec [of n] by simp
  then have "c \<notin> {CHR ''{'', CHR 0x22, CHR ''n'', CHR ''t'', CHR ''f''}" by (auto simp: is_digit_def)
  with read_number_dec [OF r, of n] c show ?thesis by simp
qed

definition member_text :: "string \<times> json \<Rightarrow> string" where
  "member_text = (\<lambda>(k, v). quote k @ '':'' @ print_json v)"

lemma print_JObj: "print_json (JObj kvs) = ''{'' @ Join (map member_text kvs) '','' @ ''}''"
  by (simp add: member_text_def)

text \<open>What is proved of each value, for every rest of the text.\<close>

definition reads_back :: "json \<Rightarrow> bool" where
  "reads_back j \<longleftrightarrow> (\<forall>n r. no_digit r \<longrightarrow> length (print_json j) \<le> n \<longrightarrow> read_value n (print_json j @ r) = Some (j, r))"

lemma read_member:
  assumes "valid_utf8 k" "reads_back v" "length (member_text (k, v)) \<le> n" "no_digit r"
  shows "read_members (Suc n) (member_text (k, v) @ r) =
    (if take 1 r = ''}'' then Some ([(k, v)], drop 1 r)
     else if take 1 r = '','' then
       (case read_members n (drop 1 r) of None \<Rightarrow> None | Some (kvs, r') \<Rightarrow> Some ((k, v) # kvs, r'))
     else None)"
proof -
  have q: "take 1 (quote k @ x) = [CHR 0x22]" for x by (simp add: quote_def)
  have v: "read_value n (print_json v @ r) = Some (v, r)"
    using assms(2-4) by (simp add: reads_back_def member_text_def)
  show ?thesis
    using read_quote [OF assms(1), of "'':'' @ print_json v @ r"] q v by (simp add: member_text_def)
qed

lemma read_object:
  assumes "kvs \<noteq> []" "list_all (\<lambda>(k, v). valid_utf8 k \<and> reads_back v) kvs"
    and "length (Join (map member_text kvs) '','') < n"
  shows "read_members n (Join (map member_text kvs) '','' @ ''}'' @ r) = Some (kvs, r)"
  using assms
proof (induction kvs arbitrary: n)
  case (Cons kv kvs)
  obtain k v where kv: "kv = (k, v)" by force
  obtain m where n: "n = Suc m" using Cons.prems(3) by (cases n) auto
  have p: "valid_utf8 k" "reads_back v" using Cons.prems(2) kv by auto
  show ?case
  proof (cases kvs)
    case Nil
    then show ?thesis
      using read_member [OF p, of m "''}'' @ r"] Cons.prems(3) kv n by (simp add: no_digit_def is_digit_def)
  next
    case (Cons kv' kvs')
    then have j: "Join (map member_text (kv # kvs)) '','' = member_text kv @ '','' @ Join (map member_text kvs) '',''" by simp
    have "read_members m (Join (map member_text kvs) '','' @ ''}'' @ r) = Some (kvs, r)"
      using Cons.IH Cons.prems Cons j n by simp
    then show ?thesis
      using read_member [OF p, of m "'','' @ Join (map member_text kvs) '','' @ ''}'' @ r"] Cons.prems(3) kv n j
      by (simp add: no_digit_def is_digit_def)
  qed
qed simp

lemma print_reads_back: "json_utf8 j \<Longrightarrow> reads_back j"
proof (induction j)
  case JNull
  show ?case by (auto simp: reads_back_def expect_def gr0_conv_Suc dest!: Suc_le_D)
next
  case (JBool b)
  show ?case by (cases b) (auto simp: reads_back_def expect_def dest!: Suc_le_D)
next
  case (JNum n)
  show ?case
    unfolding reads_back_def
  proof (intro allI impI)
    fix m r assume r: "no_digit r" and "length (print_json (JNum n)) \<le> m"
    then obtain m' where "m = Suc m'" by (cases m) auto
    with read_value_number [OF r] show "read_value m (print_json (JNum n) @ r) = Some (JNum n, r)" by simp
  qed
next
  case (JStr s)
  then have "valid_utf8 s" by simp
  from read_escape [OF this] show ?case
    by (auto simp: reads_back_def quote_def dest!: Suc_le_D)
next
  case (JObj kvs)
  have p: "list_all (\<lambda>(k, v). valid_utf8 k \<and> reads_back v) kvs"
    using JObj by (fastforce simp: list_all_iff)
  show ?case
    unfolding reads_back_def print_JObj
  proof (intro allI impI)
    fix n r assume "length (''{'' @ Join (map member_text kvs) '','' @ ''}'') \<le> n"
    then obtain m where n: "n = Suc m" "length (Join (map member_text kvs) '','') < m" by (cases n) auto
    show "read_value n ((''{'' @ Join (map member_text kvs) '','' @ ''}'') @ r) = Some (JObj kvs, r)"
    proof (cases kvs)
      case Nil
      then show ?thesis by (simp add: n)
    next
      case (Cons kv rest)
      have "take 1 (Join (map member_text kvs) '','' @ x) \<noteq> ''}''" for x
        using Cons by (cases kv; cases rest) (simp_all add: member_text_def quote_def)
      with read_object [OF _ p n(2), of r] Cons show ?thesis by (simp add: n)
    qed
  qed
qed

lemma read_print:
  assumes "json_utf8 j"
  shows "read_json (print_json j) = Some j"
proof -
  have "no_digit []" by (simp add: no_digit_def)
  with print_reads_back [OF assms] have "read_value (length (print_json j)) (print_json j @ []) = Some (j, [])"
    unfolding reads_back_def by blast
  then show ?thesis by (simp add: read_json_def)
qed

end
