(* ===== verification/Driver_Main.thy ===== *)
theory Driver_Main
  imports Driver_System Json_Read
begin

text \<open>
  Starting and stopping: \<^verbatim>\<open>NewDriver\<close>, \<^verbatim>\<open>runWeb\<close> and \<^verbatim>\<open>Quit\<close> of \<^verbatim>\<open>ovs/driver.go\<close>, and the
  values \<^verbatim>\<open>main.go\<close> gives to \<^verbatim>\<open>NewDriver\<close>, with their defaults.
\<close>

section \<open>Starting\<close>

record Flags =
  flagFaucetconfrpcClientName :: string
  flagFaucetconfrpcServerName :: string
  flagFaucetconfrpcServerPort :: int
  flagFaucetconfrpcKeydir :: string
  flagFaucetconfrpcConnRetries :: int
  flagStackPriority1 :: string
  flagStackingInterfaces :: string
  flagStackMirrorInterface :: string
  flagDefaultControllers :: string
  flagMirrorBridgeIn :: string
  flagMirrorBridgeOut :: string
  flagStatusServerPort :: int
  flagStatusAuthIPs :: string

definition defaultFlags :: Flags where
  "defaultFlags = \<lparr>
     flagFaucetconfrpcClientName = ''faucetconfrpc'',
     flagFaucetconfrpcServerName = ''localhost'',
     flagFaucetconfrpcServerPort = 59999,
     flagFaucetconfrpcKeydir = ''/faucetconfrpc'',
     flagFaucetconfrpcConnRetries = 5,
     flagStackPriority1 = [],
     flagStackingInterfaces = [],
     flagStackMirrorInterface = [],
     flagDefaultControllers = [],
     flagMirrorBridgeIn = [],
     flagMirrorBridgeOut = [],
     flagStatusServerPort = 9401,
     flagStatusAuthIPs = ''127.0.0.0/8,::1/128''\<rparr>"

text \<open>The struct before anything is asked from outside, and the loop over the authorized networks.\<close>

definition emptyDriver :: "Flags \<Rightarrow> Driver outcome" where
  "emptyDriver fl =
     (let stack_mirror_interface = Split (flagStackMirrorInterface fl) (CHR '':'') in
      if 0 < length (flagStackMirrorInterface fl) \<and> length stack_mirror_interface \<noteq> 2
      then Panic (Errorf (''invalid stack mirror interface config: '' @ flagStackMirrorInterface fl))
      else Ret \<lparr>stackPriority1 = flagStackPriority1 fl,
           stackingInterfaces = Split (flagStackingInterfaces fl) (CHR '',''),
           stackMirrorInterface = stack_mirror_interface,
           stackDefaultControllers = flagDefaultControllers fl,
           mirrorBridgeIn = flagMirrorBridgeIn fl,
           mirrorBridgeOut = flagMirrorBridgeOut fl,
           shortEngineId = [], mirrorBridgeName = [], loopbackBridgeName = [], stackDpName = [],
           authIPs = []\<rparr>)"

definition addAuthIP :: "Driver \<Rightarrow> string \<Rightarrow> Driver outcome" where
  "addAuthIP d authIP = (case ParseCIDR authIP of
     None \<Rightarrow> Panic (Errorf (''invalid CIDR address: '' @ authIP))
   | Some ipnet \<Rightarrow> Ret (d\<lparr>authIPs := authIPs d @ [ipnet]\<rparr>))"

text \<open>The bridges of the driver itself.\<close>

definition ownBridges :: "env \<Rightarrow> Driver \<Rightarrow> ('x, unit) io" where
  "ownBridges E d =
     thenM (if usingMirrorBridge d then createMirrorBridge E d else retM ())
     (bindM (liftO (usingStacking d)) (\<lambda>stacking.
      if stacking then
        bindM (createStackingBridge E d) (\<lambda>stackerr.
        thenM (mustM stackerr)
        (bindM (liftO (usingStackMirroring d)) (\<lambda>mirroring.
         if mirroring then bindM (createLoopbackBridge E d) (\<lambda>lberr. mustM lberr) else retM ())))
      else retM ()))"

text \<open>Everything before the resource manager is started.\<close>

definition startDriver :: "env \<Rightarrow> Flags \<Rightarrow> ('x, Driver) io" where
  "startDriver E fl =
     thenM (ensureDirExists E netNsPath)
     (bindM (liftO (emptyDriver fl)) (\<lambda>d.
      bindM (liftO (foldO addAuthIP d (Split (flagStatusAuthIPs fl) (CHR '','')))) (\<lambda>d.
      thenM (mustGetDockerClient E)
      (bindM (mustGetShortEngineID E) (\<lambda>engine.
       let d = d\<lparr>shortEngineId := engine, mirrorBridgeName := mustGetMirrorBrName engine,
                loopbackBridgeName := mustGetLoopbackBrName engine, stackDpName := mustGetStackDPName engine\<rparr> in
       thenM (mustGetGRPCClient E (flagFaucetconfrpcClientName fl) (flagFaucetconfrpcServerName fl)
           (flagFaucetconfrpcServerPort fl) (flagFaucetconfrpcKeydir fl) (flagFaucetconfrpcConnRetries fl))
       (thenM (waitForOvs E)
       (thenM (ownBridges E d) (retM d))))))))"

text \<open>
  The whole function.  From \<open>restoreNetworks\<close> on the resource manager runs at the same time, as in
  the steps of theory \<^verbatim>\<open>Driver_System\<close>.
\<close>

definition NewDriver :: "env \<Rightarrow> Flags \<Rightarrow> Driver drvM" where
  "NewDriver E fl =
     bindM (startDriver E fl) (\<lambda>d.
     thenM (modifyM (\<lambda>s. init_drv\<lparr>trace := trace s\<rparr>))
     (thenM (restoreNetworks E d) (retM d)))"

text \<open>The status server; it only comes back with an error.\<close>

definition runWeb :: "env \<Rightarrow> int \<Rightarrow> ('x, unit) io" where
  "runWeb E port =
     (let addr = '':'' @ dec port in
      bindM (callM (ListenAndServe addr) (\<lambda>h. httpListenAndServe E h addr)) mustM)"

section \<open>Stopping\<close>

text \<open>\<open>Quit\<close> sends its message and waits until the resource manager has returned.\<close>

definition Quit :: "sys \<Rightarrow> unit outcome \<times> sys" where
  "Quit s =
     (case sendOp quitMsg (st s) of
        (Ret _, t) \<Rightarrow> (if running s then Blocked else Ret (), s\<lparr>st := t\<rparr>)
      | (x, t) \<Rightarrow> (x, s\<lparr>st := t\<rparr>))"

section \<open>Frame\<close>

lemma pure_emptyDriver [pure_intros]: "pureO (emptyDriver fl)"
  unfolding emptyDriver_def Let_def by (auto intro!: pure_intros)

lemma pure_addAuthIP [pure_intros]: "pureO (addAuthIP d a)"
  unfolding addAuthIP_def by (auto intro!: pure_intros split: option.split)

lemma io_ownBridges [io_intros]: "talks (ownBridges E d)"
  unfolding ownBridges_def by (intro io_intros pure_intros)

lemma io_startDriver [io_intros]: "talks (startDriver E fl)"
  unfolding startDriver_def by (intro io_intros pure_intros)

lemma io_runWeb [io_intros]: "talks (runWeb E port)"
  unfolding runWeb_def Let_def by (intro io_intros pure_intros)

section \<open>Correctness\<close>

lemma addAuthIP_Ret: "addAuthIP d c = Ret d' \<longleftrightarrow> (\<exists>n. ParseCIDR c = Some n \<and> d' = d\<lparr>authIPs := authIPs d @ [n]\<rparr>)"
  by (auto simp: addAuthIP_def split: option.splits)

lemma addAuthIPs:
  "foldO addAuthIP d cidrs = Ret d' \<Longrightarrow> d' = d\<lparr>authIPs := authIPs d @ map (the \<circ> ParseCIDR) cidrs\<rparr>"
proof (induction cidrs arbitrary: d)
  case (Cons c cs)
  then obtain n where "ParseCIDR c = Some n" "foldO addAuthIP (d\<lparr>authIPs := authIPs d @ [n]\<rparr>) cs = Ret d'"
    by (cases "addAuthIP d c") (auto simp: addAuthIP_Ret)
  with Cons.IH [OF this(2)] show ?case by simp
qed simp

lemma startDriver_Ret:
  assumes "startDriver E fl s = (Ret d, t)"
  obtains d0 engine where "emptyDriver fl = Ret d0"
    "d = d0\<lparr>authIPs := map (the \<circ> ParseCIDR) (Split (flagStatusAuthIPs fl) (CHR '','')), shortEngineId := engine,
      mirrorBridgeName := mustGetMirrorBrName engine, loopbackBridgeName := mustGetLoopbackBrName engine,
      stackDpName := mustGetStackDPName engine\<rparr>"
proof -
  obtain d0 d1 engine where 0: "emptyDriver fl = Ret d0"
    and 1: "foldO addAuthIP d0 (Split (flagStatusAuthIPs fl) (CHR '','')) = Ret d1"
    and d: "d = d1\<lparr>shortEngineId := engine, mirrorBridgeName := mustGetMirrorBrName engine,
      loopbackBridgeName := mustGetLoopbackBrName engine, stackDpName := mustGetStackDPName engine\<rparr>"
    using assms unfolding startDriver_def thenM_def Let_def by (auto elim!: bindM_RetE)
  have "authIPs d0 = []" using 0 by (auto simp: emptyDriver_def Let_def split: if_splits)
  with addAuthIPs [OF 1] d show thesis by (intro that [OF 0, of engine]) simp
qed

lemma emptyDriver_Ret:
  "emptyDriver fl = Ret d \<Longrightarrow> stackingInterfaces d = Split (flagStackingInterfaces fl) (CHR '','') \<and>
   stackMirrorInterface d = Split (flagStackMirrorInterface fl) (CHR '':'') \<and>
   (flagStackMirrorInterface fl = [] \<or> length (stackMirrorInterface d) = 2)"
  by (auto simp: emptyDriver_def Let_def split: if_splits)

lemma usingStacking_started:
  assumes "stackingInterfaces d \<noteq> []"
  shows "usingStacking d = Ret (mirrorBridgeOut d = [] \<and> hd (stackingInterfaces d) \<noteq> [])"
  using assms by (cases "stackingInterfaces d") (auto simp: usingStacking_def usingMirrorBridge_def indexO_def)

section \<open>Properties\<close>

text \<open>
  C30. A driver that \<open>NewDriver\<close> starts is in order: the resource manager and the calls start in a
  state of the transition system (so everything shown for reachable states holds for it),
  the tests for stacking and mirroring never index out of range, and mirroring over the stack is on exactly
  when stacking is and both flags name an interface.
\<close>

theorem started_driver_in_order:
  assumes "startDriver E fl s = (Ret d, t)"
  shows "reachable E d \<lparr>st = init_drv\<lparr>trace := trace t\<rparr>, pending = [], running = True\<rparr> \<and>
    usingStacking d = Ret (mirrorBridgeOut d = [] \<and> hd (Split (flagStackingInterfaces fl) (CHR '','')) \<noteq> []) \<and>
    usingStackMirroring d = Ret (mirrorBridgeOut d = [] \<and> hd (Split (flagStackingInterfaces fl) (CHR '','')) \<noteq> [] \<and>
      flagStackMirrorInterface fl \<noteq> [])"
proof -
  obtain d0 engine where e: "emptyDriver fl = Ret d0"
    and d: "d = d0\<lparr>authIPs := map (the \<circ> ParseCIDR) (Split (flagStatusAuthIPs fl) (CHR '','')), shortEngineId := engine,
      mirrorBridgeName := mustGetMirrorBrName engine, loopbackBridgeName := mustGetLoopbackBrName engine,
      stackDpName := mustGetStackDPName engine\<rparr>"
    using startDriver_Ret [OF assms] by blast
  have f: "stackingInterfaces d = Split (flagStackingInterfaces fl) (CHR '','')"
      "stackMirrorInterface d = Split (flagStackMirrorInterface fl) (CHR '':'')"
      "flagStackMirrorInterface fl = [] \<or> length (stackMirrorInterface d) = 2"
    using emptyDriver_Ret [OF e] d by auto
  have m: "length (stackMirrorInterface d) > 1 \<longleftrightarrow> flagStackMirrorInterface fl \<noteq> []" using f(2,3) by auto
  have u: "usingStacking d = Ret (mirrorBridgeOut d = [] \<and> hd (Split (flagStackingInterfaces fl) (CHR '','')) \<noteq> [])"
    using usingStacking_started [of d] f(1) by simp
  show ?thesis
    using reachable.start [of E d "trace t"] u m by (simp add: usingStackMirroring_def init_sys_def)
qed

definition short_env :: env where
  "short_env = calm_env\<lparr>dkInfo := (\<lambda>h. Inr ''7:x'')\<rparr>"

theorem started_driver_in_order_witness:
  "\<exists>d t. startDriver short_env defaultFlags calm_world = (Ret d, t) \<and> usingStacking d = Ret False"
proof -
  have "(case fst (startDriver short_env defaultFlags calm_world) of Ret d \<Rightarrow> True | _ \<Rightarrow> False)" by code_simp
  then obtain d where "fst (startDriver short_env defaultFlags calm_world) = Ret d" by (auto split: outcome.splits)
  from run_fst [OF this] started_driver_in_order [OF run_fst [OF this]] show ?thesis
    by (auto simp: defaultFlags_def)
qed

section \<open>Who may see the status page\<close>

text \<open>A request from an IPv4 address, without or with a header.\<close>

definition hostPort :: "byte list \<Rightarrow> nat \<Rightarrow> string" where
  "hostPort b port = dotted b @ '':'' @ dec (int port)"

lemma dotted_chars: "length b = 4 \<Longrightarrow> c \<in> set (dotted b) \<Longrightarrow> is_digit c \<or> c = CHR ''.''"
  using set_Join [of "map (\<lambda>x. dec (uint x)) b" "''.''"] by (auto simp: dotted_def dest: dec_digits [rotated])

lemma hostPortIP_hostPort:
  assumes "length b = 4"
  shows "hostPortIP (hostPort b port) = v4InV6Prefix @ b"
proof -
  have d: "c \<notin> set (dotted b)" if "\<not> is_digit c" "c \<noteq> CHR ''.''" for c using dotted_chars [OF assms] that by blast
  have "SplitHostPort (hostPort b port) = Inr (dotted b, dec (int port))"
    unfolding hostPort_def by (rule SplitHostPort_join) (auto simp: d dec_no_dot is_digit_iff)
  then show ?thesis by (simp add: hostPortIP_def ParseIP_dotted assms)
qed

lemma hostPort_no_comma: "length b = 4 \<Longrightarrow> Split (hostPort b port) (CHR '','') = [hostPort b port]"
  using dotted_chars [of b "CHR '',''"] by (auto simp: hostPort_def is_digit_iff dec_no_dot intro!: Split_sep_free)

lemma hostPortIP_Nil [simp]: "hostPortIP [] = []"
  by (simp add: hostPortIP_def SplitHostPort_def)

lemma getRemoteIp_plain:
  assumes "length b = 4"
  shows "getRemoteIp \<lparr>X_REAL_IP = [], X_FORWARDED_FOR = [], RemoteAddr = hostPort b port\<rparr> = v4InV6Prefix @ b"
  using hostPortIP_hostPort [OF assms, of port] by (simp add: getRemoteIp_def hostPort_no_comma assms v4InV6Prefix_def)

definition cidr :: "byte list \<times> nat \<Rightarrow> string" where
  "cidr = (\<lambda>(a, n). dotted a @ ''/'' @ dec (int n))"

lemma cidr_contains:
  assumes "length a = 4" "n \<le> 32" "length b = 4"
  shows "IPNet_Contains (the (ParseCIDR (cidr (a, n)))) (v4InV6Prefix @ b) \<longleftrightarrow> take n (ipBits a) = take n (ipBits b)"
  unfolding cidr_def prod.case ParseCIDR_dotted [OF assms(1,2)] option.sel by (rule Contains_prefix [OF assms(1,3,2)])

text \<open>
  C26. Who may see the status page: when the networks given with the flag are IPv4 networks, a request
  that comes from an IPv4 address without proxy headers is answered exactly when the address
  agrees with one of the networks on its prefix; otherwise the answer is a refusal and nothing is asked
  of the resource manager.
\<close>

theorem status_page_restricted:
  assumes "foldO addAuthIP (d\<lparr>authIPs := []\<rparr>) (map cidr nets) = Ret d'"
    and "list_all (\<lambda>(a, n). length a = 4 \<and> n \<le> 32) nets" "length b = 4"
    and "r = \<lparr>X_REAL_IP = [], X_FORWARDED_FOR = [], RemoteAddr = hostPort b port\<rparr>"
  shows "handleNetworksWeb d' r s =
    (if list_ex (\<lambda>(a, n). take n (ipBits a) = take n (ipBits b)) nets then getWebResponse ''networks'' s
     else (Ret ''not authorized'', s))"
proof -
  have "IPNet_Contains (the (ParseCIDR (cidr an))) (v4InV6Prefix @ b) \<longleftrightarrow>
      (case an of (a, n) \<Rightarrow> take n (ipBits a) = take n (ipBits b))" if "an \<in> set nets" for an
    using assms(2,3) that cidr_contains [of "fst an" "snd an" b] by (cases an) (auto simp: list_all_iff)
  then have "isAuthIP (v4InV6Prefix @ b) (authIPs d') \<longleftrightarrow>
      list_ex (\<lambda>(a, n). take n (ipBits a) = take n (ipBits b)) nets"
    using addAuthIPs [OF assms(1)] by (auto simp: isAuthIP_def list_ex_iff)
  moreover have "Sprintf0 ''not authorized'' = ''not authorized''" by (rule Sprintf0_plain) simp
  ultimately show ?thesis
    using assms(3,4) getRemoteIp_plain by (simp add: handleNetworksWeb_def)
qed

theorem status_page_restricted_witness:
  "\<exists>d'. foldO addAuthIP (plain_driver\<lparr>authIPs := []\<rparr>) (map cidr [([127, 0, 0, 0], 8)]) = Ret d' \<and>
    handleNetworksWeb d' \<lparr>X_REAL_IP = [], X_FORWARDED_FOR = [], RemoteAddr = hostPort [10, 0, 0, 1] 4000\<rparr> init_drv =
      (Ret ''not authorized'', init_drv)"
proof -
  have "ParseCIDR (cidr ([127, 0, 0, 0], 8)) \<noteq> None" by code_simp
  then obtain d' where d: "foldO addAuthIP (plain_driver\<lparr>authIPs := []\<rparr>) (map cidr [([127, 0, 0, 0], 8)]) = Ret d'"
    by (auto simp: addAuthIP_def)
  have b: "\<not> list_ex (\<lambda>(a, n). take n (ipBits a) = take n (ipBits [10, 0, 0, 1])) [([127, 0, 0, 0], 8)]" by code_simp
  from status_page_restricted [OF d, of "[10, 0, 0, 1]" _ 4000 init_drv] b d show ?thesis by simp
qed

text \<open>
  C27. The header decides: a request whose \<open>X-REAL-IP\<close> header has the form address and port is
  taken to come from that address, whatever the address of its connection is.  So with the
  default flags any client that sends a loopback address in this header is authorized.
\<close>

theorem header_decides:
  assumes "length b = 4"
  shows "getRemoteIp \<lparr>X_REAL_IP = hostPort b port, X_FORWARDED_FOR = forwarded, RemoteAddr = remote\<rparr> = v4InV6Prefix @ b"
  using hostPortIP_hostPort [OF assms, of port] by (simp add: getRemoteIp_def hostPort_no_comma assms v4InV6Prefix_def)

theorem header_decides_witness:
  "isAuthIP (getRemoteIp \<lparr>X_REAL_IP = hostPort [127, 0, 0, 1] 1, X_FORWARDED_FOR = [], RemoteAddr = hostPort [192, 0, 2, 7] 4000\<rparr>)
     [the (ParseCIDR ''127.0.0.0/8'')]"
proof -
  have "isAuthIP (v4InV6Prefix @ [127, 0, 0, 1]) [the (ParseCIDR ''127.0.0.0/8'')]" by code_simp
  with header_decides [of "[127, 0, 0, 1]" 1] show ?thesis by simp
qed

section \<open>Quitting\<close>



section \<open>The status page\<close>

lemma networks_run:
  assumes "sys_inv s" "dovesnapOpChan (st s) = msg # rest" "Operation msg = ''networks''" "rmStep E d (st s) = (Ret b, t)"
  obtains c u where "Reply msg = Some c" "networks u = networks (st s)"
    "replies t ! c = [zeroReply\<lparr>re_NetworkStateString := print_json (networks_json u)\<rparr>]"
proof -
  let ?s = "st s\<lparr>dovesnapOpChan := rest\<rparr>"
  have "unanswered (st s) msg" using assms(1,2) by (simp add: sys_inv_def inflight_def)
  then obtain c where c: "Reply msg = Some c" "c < length (replies (st s))" "replies (st s) ! c = []"
    using assms(3) by (auto simp: unanswered_def answered_def split: option.splits)
  obtain v u where v: "reconcileOvs E ?s = (Ret (), v)" and u: "reconcileDhcpIp E v = (Ret (), u)"
    and t: "mustHandleNetworks msg u = (Ret (), t)"
    using assms(2-4) by (auto simp: rmStep_busy rmDispatch_def thenM_def elim!: bindM_RetE)
  have n: "networks u = networks (st s)"
    using steps_inD [OF same.steps_reconcileOvs v] steps_inD [OF same.steps_reconcileDhcpIp u] by (simp add: same_nets_def)
  have k: "replies_kept None ?s v" "replies_kept None v u"
    using steps_inD [OF reps.steps_reconcileOvs v] steps_inD [OF reps.steps_reconcileDhcpIp u] by auto
  then have "c < length (replies u)" "replies u ! c = []" using c by (auto simp: replies_kept_def)
  with t c(1) have "replies t ! c = [zeroReply\<lparr>re_NetworkStateString := print_json (networks_json u)\<rparr>]"
    by (auto simp: mustHandleNetworks_def bindM_def sendReply_def)
  with c(1) n that show thesis by blast
qed


definition asking_sys :: sys where
  "asking_sys = send_sys (init_drv\<lparr>replies := [[]]\<rparr>) (zeroOp\<lparr>Operation := ''networks'', Reply := Some 0\<rparr>)"


lemma json_map_reads:
  assumes "distinct (map fst m)"
  shows "map_of (map (\<lambda>(k, v). (k, f v)) (sort_key fst m)) k = map_option f (map_of m k)"
proof -
  have "distinct (map fst (sort_key fst m))"
    using assms by (simp add: distinct_map distinct_sort)
  then have "map_of (sort_key fst m) = map_of m" using assms by (simp add: map_of_inject_set)
  then show ?thesis by (simp add: map_of_map)
qed



end
