(* ===== verification/Go_Flag.thy ===== *)
theory Go_Flag
  imports Utils
begin

text \<open>
  The parts of Go's packages flag and strconv behind the command line: \<open>ParseInt\<close> with base 0, and
  \<open>Parse\<close> of the flags of a program with their three kinds of value.
\<close>

section \<open>Integers in any base\<close>

definition digit_of :: "char \<Rightarrow> int option" where
  "digit_of c =
     (if is_digit c then Some (digit_val c)
      else if CHR ''a'' \<le> lower_char c \<and> lower_char c \<le> CHR ''z'' then Some (of_char (lower_char c) - 87)
      else None)"

text \<open>The loop over the bytes of \<open>ParseUint\<close> when the base is 0: underscores are skipped.\<close>

fun ParseUint0_loop :: "string \<Rightarrow> int \<Rightarrow> int \<Rightarrow> string \<Rightarrow> error + int" where
  "ParseUint0_loop num base n [] = Inr n"
| "ParseUint0_loop num base n (c # cs) =
     (if c = CHR ''_'' then ParseUint0_loop num base n cs
      else (case digit_of c of
          None \<Rightarrow> Inl (NumSyntax num)
        | Some d \<Rightarrow>
            if d \<ge> base then Inl (NumSyntax num)
            else if n \<ge> (2 ^ 64 - 1) div base + 1 then Inl (NumRange num)
            else if n * base + d > 2 ^ 64 - 1 then Inl (NumRange num)
            else ParseUint0_loop num base (n * base + d) cs))"

definition basePrefix :: "string \<Rightarrow> int \<times> string" where
  "basePrefix s = (case s of
     a # b # c # cs \<Rightarrow>
       if a \<noteq> CHR ''0'' then (10, s)
       else if lower_char b = CHR ''b'' then (2, c # cs)
       else if lower_char b = CHR ''o'' then (8, c # cs)
       else if lower_char b = CHR ''x'' then (16, c # cs)
       else (8, b # c # cs)
   | a # cs \<Rightarrow> if a = CHR ''0'' then (8, cs) else (10, s)
   | [] \<Rightarrow> (10, s))"

text \<open>
  \<open>underscoreOK\<close>: an underscore stands between two digits, where the prefix counts as a digit.  The
  last character seen was the beginning, a digit, an underscore or something else.
\<close>

datatype saw = SawStart | SawDigit | SawUnderscore | SawOther

fun underscore_loop :: "bool \<Rightarrow> saw \<Rightarrow> string \<Rightarrow> bool" where
  "underscore_loop hex sw [] \<longleftrightarrow> sw \<noteq> SawUnderscore"
| "underscore_loop hex sw (c # cs) \<longleftrightarrow>
     (if is_digit c \<or> hex \<and> CHR ''a'' \<le> lower_char c \<and> lower_char c \<le> CHR ''f'' then underscore_loop hex SawDigit cs
      else if c = CHR ''_'' then sw = SawDigit \<and> underscore_loop hex SawUnderscore cs
      else sw \<noteq> SawUnderscore \<and> underscore_loop hex SawOther cs)"

definition underscoreOK :: "string \<Rightarrow> bool" where
  "underscoreOK s = (case s of
     a # b # cs \<Rightarrow>
       if a = CHR ''0'' \<and> (lower_char b = CHR ''b'' \<or> lower_char b = CHR ''o'' \<or> lower_char b = CHR ''x'')
       then underscore_loop (lower_char b = CHR ''x'') SawDigit cs
       else underscore_loop False SawStart s
   | _ \<Rightarrow> underscore_loop False SawStart s)"

definition ParseUint0 :: "string \<Rightarrow> error + int" where
  "ParseUint0 s =
     (if s = [] then Inl (NumSyntax s)
      else (let (base, digits) = basePrefix s in
        case ParseUint0_loop s base 0 digits of
          Inl err \<Rightarrow> Inl err
        | Inr n \<Rightarrow> if CHR ''_'' \<in> set digits \<and> \<not> underscoreOK s then Inl (NumSyntax s) else Inr n))"

text \<open>\<open>ParseInt(s, 0, 64)\<close>.\<close>

definition ParseInt0 :: "string \<Rightarrow> error + int" where
  "ParseInt0 s =
     (let neg = (take 1 s = ''-''); digits = (if neg \<or> take 1 s = ''+'' then drop 1 s else s) in
      case ParseUint0 digits of
        Inl err \<Rightarrow> Inl err
      | Inr un \<Rightarrow>
          if \<not> neg \<and> un \<ge> 2 ^ 63 \<or> neg \<and> un > 2 ^ 63 then Inl (NumRange s)
          else Inr (if neg then - un else un))"

section \<open>Flags\<close>

datatype flag_value = FBool bool | FInt int | FString string

type_synonym flag_set = "(string, flag_value) gomap"

text \<open>What ends the program: a request for help with status 0, an error with status 2.\<close>

datatype flag_error = ErrHelp | BadSyntax string | NotDefined string | NeedsArgument string | InvalidValue string error

definition setFlag :: "flag_value \<Rightarrow> string \<Rightarrow> error + flag_value" where
  "setFlag old txt = (case old of
     FBool _ \<Rightarrow> (case ParseBool txt of Inl e \<Rightarrow> Inl e | Inr b \<Rightarrow> Inr (FBool b))
   | FInt _ \<Rightarrow> (case ParseInt0 txt of Inl e \<Rightarrow> Inl e | Inr i \<Rightarrow> Inr (FInt i))
   | FString _ \<Rightarrow> Inr (FString txt))"

text \<open>The name up to the first \<open>=\<close> that is not its first character, and the value after it.\<close>

definition splitFlag :: "string \<Rightarrow> string \<times> string option" where
  "splitFlag s = (case s of
     [] \<Rightarrow> ([], None)
   | c # cs \<Rightarrow> (c # takeWhile (\<lambda>x. x \<noteq> CHR ''='') cs,
       case dropWhile (\<lambda>x. x \<noteq> CHR ''='') cs of [] \<Rightarrow> None | _ # v \<Rightarrow> Some v))"

text \<open>\<open>parseOne\<close>: one flag was set, the flags have ended, or an error.\<close>

datatype one_flag = FlagSet flag_set "string list" | FlagsEnd "string list" | FlagError flag_error

definition storeFlag :: "flag_set \<Rightarrow> string \<Rightarrow> flag_value \<Rightarrow> string \<Rightarrow> string list \<Rightarrow> one_flag" where
  "storeFlag fs name old txt args = (case setFlag old txt of
     Inl e \<Rightarrow> FlagError (InvalidValue name e)
   | Inr v \<Rightarrow> FlagSet (map_put name v fs) args)"

definition nameFlag :: "flag_set \<Rightarrow> string \<Rightarrow> string list \<Rightarrow> one_flag" where
  "nameFlag fs s args =
     (if s = [] \<or> hd s = CHR ''-'' \<or> hd s = CHR ''='' then FlagError (BadSyntax s)
      else (let (name, val) = splitFlag s in
        case map_get fs name of
          None \<Rightarrow> FlagError (if name = ''help'' \<or> name = ''h'' then ErrHelp else NotDefined name)
        | Some (FBool b) \<Rightarrow> storeFlag fs name (FBool b) (case val of Some v \<Rightarrow> v | None \<Rightarrow> ''true'') args
        | Some old \<Rightarrow>
            (case (val, args) of
               (Some v, _) \<Rightarrow> storeFlag fs name old v args
             | (None, v # rest) \<Rightarrow> storeFlag fs name old v rest
             | (None, []) \<Rightarrow> FlagError (NeedsArgument name))))"

definition parseOne :: "flag_set \<Rightarrow> string list \<Rightarrow> one_flag" where
  "parseOne fs args = (case args of
     [] \<Rightarrow> FlagsEnd []
   | s # rest \<Rightarrow>
       if length s < 2 \<or> hd s \<noteq> CHR ''-'' then FlagsEnd args
       else if s = ''--'' then FlagsEnd rest
       else nameFlag fs (if s ! 1 = CHR ''-'' then drop 2 s else drop 1 s) rest)"

lemma storeFlag_rest: "storeFlag fs name old txt args = FlagSet fs' rest \<Longrightarrow> rest = args"
  by (auto simp: storeFlag_def split: sum.splits)

lemma nameFlag_rest: "nameFlag fs s args = FlagSet fs' rest \<Longrightarrow> length rest \<le> length args"
  by (auto simp: nameFlag_def Let_def split: if_splits prod.splits option.splits flag_value.splits list.splits
      dest!: storeFlag_rest)

lemma parseOne_rest: "parseOne fs args = FlagSet fs' rest \<Longrightarrow> length rest < length args"
  by (auto simp: parseOne_def split: list.splits if_splits dest!: nameFlag_rest)

text \<open>The loop of \<open>Parse\<close>: the flags with their values and the arguments that are left.\<close>

function parseFlags :: "flag_set \<Rightarrow> string list \<Rightarrow> flag_error + (flag_set \<times> string list)" where
  "parseFlags fs args = (case parseOne fs args of
     FlagError e \<Rightarrow> Inl e
   | FlagsEnd rest \<Rightarrow> Inr (fs, rest)
   | FlagSet fs' rest \<Rightarrow> parseFlags fs' rest)"
  by pat_completeness auto
termination
  by (relation "measure (\<lambda>(fs, args). length args)") (auto dest: parseOne_rest)

declare parseFlags.simps [simp del]

text \<open>\<open>ExitOnError\<close>.\<close>

definition exitStatus :: "flag_error \<Rightarrow> int" where
  "exitStatus e = (if e = ErrHelp then 0 else 2)"

section \<open>Reading back\<close>

lemma digit_of_digit: "is_digit c \<Longrightarrow> digit_of c = Some (digit_val c)"
  by (simp add: digit_of_def)

lemma digit_not_underscore: "is_digit c \<Longrightarrow> c \<noteq> CHR ''_''"
  by (auto simp: is_digit_def)

lemma ParseUint0_loop_decimal:
  "\<forall>c\<in>set s. is_digit c \<Longrightarrow> ParseUint0_loop num 10 n s = ParseUint_loop num 64 n s"
  by (induction num "64 :: nat" n s rule: ParseUint_loop.induct)
    (auto simp: digit_of_digit digit_not_underscore Let_def dest: digit_val_range)

lemma basePrefix_decimal: "s \<noteq> [] \<Longrightarrow> hd s \<noteq> CHR ''0'' \<Longrightarrow> basePrefix s = (10, s)"
  by (auto simp: basePrefix_def split: list.split)

lemma dec_pos_0: "dec_pos 0 = ''0''"
  by (subst dec_pos.simps) (simp add: digit_char_def char_of_def)

lemma ParseUint0_dec:
  assumes "0 \<le> n" "n < 2 ^ 64"
  shows "ParseUint0 (dec_pos n) = Inr n"
proof (cases "n = 0")
  case True
  then show ?thesis by (simp add: ParseUint0_def dec_pos_0 basePrefix_def)
next
  case False
  have d: "\<forall>c\<in>set (dec_pos n). is_digit c" using dec_pos_digits assms by blast
  have "ParseUint_loop (dec_pos n) 64 0 (dec_pos n) = Inr n"
    using ParseUint_dec [of 64 n] assms by (simp add: ParseUint_def dec_def)
  then have "ParseUint0_loop (dec_pos n) 10 0 (dec_pos n) = Inr n" by (simp add: ParseUint0_loop_decimal [OF d])
  moreover have "CHR ''_'' \<notin> set (dec_pos n)" using d digit_not_underscore by blast
  ultimately show ?thesis using False assms by (simp add: ParseUint0_def basePrefix_decimal hd_dec_pos)
qed

lemma ParseInt0_dec:
  assumes "- (2 ^ 63) \<le> i" "i < 2 ^ 63"
  shows "ParseInt0 (dec i) = Inr i"
proof (cases "i < 0")
  case True
  then show ?thesis using assms ParseUint0_dec [of "- i"] by (simp add: ParseInt0_def dec_def)
next
  case False
  then have "hd (dec_pos i) \<noteq> CHR ''-''" "hd (dec_pos i) \<noteq> CHR ''+''"
    using dec_pos_digits [of i "hd (dec_pos i)"] by (auto simp: is_digit_def)
  then have "take 1 (dec_pos i) \<noteq> ''-''" "take 1 (dec_pos i) \<noteq> ''+''" by (cases "dec_pos i"; simp)+
  with False show ?thesis using assms ParseUint0_dec [of i] by (simp add: ParseInt0_def dec_def)
qed

text \<open>The ways to write a setting: one or two hyphens, the value after \<open>=\<close> or as the next argument.\<close>

fun flagText :: "flag_value \<Rightarrow> string" where
  "flagText (FBool b) = (if b then ''true'' else ''false'')"
| "flagText (FInt i) = dec i"
| "flagText (FString s) = s"

definition showFlag :: "bool \<times> bool \<times> string \<times> flag_value \<Rightarrow> string list" where
  "showFlag = (\<lambda>(two, joined, name, v).
     let dashes = (if two then ''--'' else ''-'') in
     if joined then [dashes @ name @ ''='' @ flagText v] else [dashes @ name, flagText v])"

text \<open>A setting the flag set has, with a value of its kind; a Boolean needs \<open>=\<close>.\<close>

definition setting_ok :: "flag_set \<Rightarrow> bool \<times> bool \<times> string \<times> flag_value \<Rightarrow> bool" where
  "setting_ok fs = (\<lambda>(two, joined, name, v).
     name \<noteq> [] \<and> hd name \<noteq> CHR ''-'' \<and> CHR ''='' \<notin> set name \<and>
     (case (map_get fs name, v) of
        (Some (FBool _), FBool _) \<Rightarrow> joined
      | (Some (FInt _), FInt i) \<Rightarrow> - (2 ^ 63) \<le> i \<and> i < 2 ^ 63
      | (Some (FString _), FString _) \<Rightarrow> True
      | _ \<Rightarrow> False))"

definition applySetting :: "bool \<times> bool \<times> string \<times> flag_value \<Rightarrow> flag_set \<Rightarrow> flag_set" where
  "applySetting = (\<lambda>(two, joined, name, v). map_put name v)"

definition args_end :: "string list \<Rightarrow> bool" where
  "args_end args = (case args of [] \<Rightarrow> True | s # _ \<Rightarrow> length s < 2 \<or> hd s \<noteq> CHR ''-'')"

lemma splitFlag_plain: "name \<noteq> [] \<Longrightarrow> CHR ''='' \<notin> set name \<Longrightarrow> splitFlag name = (name, None)"
proof (cases name)
  case (Cons c cs)
  assume "CHR ''='' \<notin> set name"
  with Cons have "takeWhile (\<lambda>x. x \<noteq> CHR ''='') cs = cs" "dropWhile (\<lambda>x. x \<noteq> CHR ''='') cs = []"
    by (auto simp: takeWhile_eq_all_conv dropWhile_eq_Nil_conv)
  with Cons show ?thesis by (simp add: splitFlag_def del: dropWhile_eq_Nil_conv takeWhile_eq_all_conv)
qed simp

lemma splitFlag_value:
  "name \<noteq> [] \<Longrightarrow> CHR ''='' \<notin> set name \<Longrightarrow> splitFlag (name @ CHR ''='' # v) = (name, Some v)"
proof (cases name)
  case (Cons c cs)
  assume "CHR ''='' \<notin> set name"
  with Cons have "takeWhile (\<lambda>x. x \<noteq> CHR ''='') (cs @ CHR ''='' # v) = cs"
    "dropWhile (\<lambda>x. x \<noteq> CHR ''='') (cs @ CHR ''='' # v) = CHR ''='' # v"
    by (auto simp: takeWhile_tail dropWhile_append)
  with Cons show ?thesis by (simp add: splitFlag_def)
qed simp

lemma setFlag_text: "setting_ok fs (two, joined, name, v) \<Longrightarrow> map_get fs name = Some old \<Longrightarrow> setFlag old (flagText v) = Inr v"
  by (cases old; cases v) (auto simp: setting_ok_def setFlag_def ParseInt0_dec ParseBool_def)

lemma nameFlag_show:
  assumes "setting_ok fs (two, joined, name, v)"
  shows "nameFlag fs (name @ (if joined then CHR ''='' # flagText v else [])) ((if joined then [] else [flagText v]) @ rest) =
    FlagSet (map_put name v fs) rest"
proof -
  have n: "name \<noteq> []" "hd name \<noteq> CHR ''-''" "CHR ''='' \<notin> set name" using assms by (auto simp: setting_ok_def)
  then have e: "hd name \<noteq> CHR ''=''" by (metis hd_in_set)
  obtain old where o: "map_get fs name = Some old" using assms by (cases "map_get fs name") (auto simp: setting_ok_def)
  have st: "storeFlag fs name old (flagText v) args = FlagSet (map_put name v fs) args" for args
    using setFlag_text [OF assms o] by (simp add: storeFlag_def)
  have b: "joined" if "old = FBool b" for b using assms o that by (cases v) (auto simp: setting_ok_def)
  show ?thesis
    using n e o st b
    by (cases joined; cases old) (auto simp: nameFlag_def splitFlag_plain splitFlag_value)
qed

lemma parseOne_show:
  assumes "setting_ok fs s"
  shows "parseOne fs (showFlag s @ rest) = FlagSet (applySetting s fs) rest"
proof -
  obtain two joined name v where s: "s = (two, joined, name, v)" by (cases s) auto
  have n: "name \<noteq> []" "hd name \<noteq> CHR ''-''" using assms s by (auto simp: setting_ok_def)
  then obtain c cs where name: "name = c # cs" "c \<noteq> CHR ''-''" by (cases name) auto
  show ?thesis
    using nameFlag_show [of fs two joined name v rest] assms s name
    by (cases two; cases joined) (simp_all add: parseOne_def showFlag_def applySetting_def)
qed

lemma setting_ok_put:
  "setting_ok fs s \<Longrightarrow> setting_ok fs s' \<Longrightarrow> setting_ok (applySetting s fs) s'"
  by (cases s; cases s') (auto simp: setting_ok_def applySetting_def gm.get_put split: option.splits flag_value.splits if_splits)

theorem parseFlags_show:
  assumes "list_all (setting_ok fs) settings" "args_end rest"
  shows "parseFlags fs (concat (map showFlag settings) @ rest) = Inr (fold applySetting settings fs, rest)"
  using assms(1)
proof (induction settings arbitrary: fs)
  case Nil
  then show ?case
    using assms(2) by (subst parseFlags.simps) (auto simp: parseOne_def args_end_def split: list.split)
next
  case (Cons s settings)
  then have "list_all (setting_ok (applySetting s fs)) settings"
    by (auto simp: list_all_iff intro: setting_ok_put)
  with Cons show ?case by (subst parseFlags.simps) (simp add: parseOne_show)
qed

end
