(* ===== verification/Main_Program.thy ===== *)
theory Main_Program
  imports Driver_Main Go_Flag
begin

text \<open>
  \<^verbatim>\<open>main.go\<close>: the flags of the program, reading them from the command line, starting the driver, and
  the two ways the program ends: the plugin server returns, or the signal to terminate arrives and
  the resource manager has finished.
\<close>

section \<open>Flags\<close>

definition mainFlags :: flag_set where
  "mainFlags = [
     (''trace'', FBool False),
     (''debug'', FBool False),
     (''faucetconfrpc_client'', FString ''faucetconfrpc''),
     (''faucetconfrpc_addr'', FString ''localhost''),
     (''faucetconfrpc_port'', FInt 59999),
     (''faucetconfrpc_keydir'', FString ''/faucetconfrpc''),
     (''faucetconfrpc_connretries'', FInt 5),
     (''stacking_interfaces'', FString []),
     (''stack_priority1'', FString []),
     (''stack_mirror_interface'', FString []),
     (''default_ofcontrollers'', FString []),
     (''mirror_bridge_in'', FString []),
     (''mirror_bridge_out'', FString []),
     (''status_port'', FInt 9401),
     (''status_auth_ips'', FString ''127.0.0.0/8,::1/128'')]"

definition flagStr :: "flag_set \<Rightarrow> string \<Rightarrow> string" where
  "flagStr fs name = (case map_get fs name of Some (FString v) \<Rightarrow> v | _ \<Rightarrow> [])"

definition flagInt :: "flag_set \<Rightarrow> string \<Rightarrow> int" where
  "flagInt fs name = (case map_get fs name of Some (FInt v) \<Rightarrow> v | _ \<Rightarrow> 0)"

definition flagBool :: "flag_set \<Rightarrow> string \<Rightarrow> bool" where
  "flagBool fs name = (case map_get fs name of Some (FBool v) \<Rightarrow> v | _ \<Rightarrow> False)"

text \<open>The arguments of \<open>NewDriver\<close>.\<close>

definition flagsOf :: "flag_set \<Rightarrow> Flags" where
  "flagsOf fs = \<lparr>
     flagFaucetconfrpcClientName = flagStr fs ''faucetconfrpc_client'',
     flagFaucetconfrpcServerName = flagStr fs ''faucetconfrpc_addr'',
     flagFaucetconfrpcServerPort = flagInt fs ''faucetconfrpc_port'',
     flagFaucetconfrpcKeydir = flagStr fs ''faucetconfrpc_keydir'',
     flagFaucetconfrpcConnRetries = flagInt fs ''faucetconfrpc_connretries'',
     flagStackPriority1 = flagStr fs ''stack_priority1'',
     flagStackingInterfaces = flagStr fs ''stacking_interfaces'',
     flagStackMirrorInterface = flagStr fs ''stack_mirror_interface'',
     flagDefaultControllers = flagStr fs ''default_ofcontrollers'',
     flagMirrorBridgeIn = flagStr fs ''mirror_bridge_in'',
     flagMirrorBridgeOut = flagStr fs ''mirror_bridge_out'',
     flagStatusServerPort = flagInt fs ''status_port'',
     flagStatusAuthIPs = flagStr fs ''status_auth_ips''\<rparr>"

datatype level = InfoLevel | DebugLevel | TraceLevel

definition logLevel :: "flag_set \<Rightarrow> level" where
  "logLevel fs = (if flagBool fs ''trace'' then TraceLevel else if flagBool fs ''debug'' then DebugLevel else InfoLevel)"

text \<open>\<open>flag.Parse()\<close>: the exit status when the command line is not accepted.\<close>

definition readArgs :: "string list \<Rightarrow> int + (level \<times> Flags)" where
  "readArgs args = (case parseFlags mainFlags args of
     Inl e \<Rightarrow> Inl (exitStatus e)
   | Inr (fs, rest) \<Rightarrow> Inr (logLevel fs, flagsOf fs))"

section \<open>The program\<close>

definition startMain :: "env \<Rightarrow> string list \<Rightarrow> drv \<Rightarrow> (int + Driver outcome) \<times> drv" where
  "startMain E args s = (case readArgs args of
     Inl status \<Rightarrow> (Inl status, s)
   | Inr (level, fl) \<Rightarrow> (case NewDriver E fl s of (d, t) \<Rightarrow> (Inr d, t)))"

text \<open>
  The main goroutine waits for the signal, then for the resource manager.  The goroutine of the
  plugin server ends the program when \<open>ServeUnix\<close> returns, which it may do at any time.
\<close>

datatype phase = Waiting | Quitting | Exited int

inductive main_step :: "env \<Rightarrow> Driver \<Rightarrow> phase \<times> sys \<Rightarrow> phase \<times> sys \<Rightarrow> bool" for E d where
  work: "sys_step E d s t \<Longrightarrow> \<forall>c. p \<noteq> Exited c \<Longrightarrow> main_step E d (p, s) (p, t)"
| sigterm: "main_step E d (Waiting, s) (Quitting, s\<lparr>pending := pending s @ [quitMsg]\<rparr>)"
| quit: "\<not> running s \<Longrightarrow> main_step E d (Quitting, s) (Exited 0, s)"
| server: "\<forall>c. p \<noteq> Exited c \<Longrightarrow> main_step E d (p, s) (Exited 1, s)"

inductive main_run :: "env \<Rightarrow> Driver \<Rightarrow> phase \<times> sys \<Rightarrow> bool" for E d where
  start: "main_run E d (Waiting, init_sys\<lparr>st := init_drv\<lparr>trace := h\<rparr>\<rparr>)"
| step: "main_run E d c \<Longrightarrow> main_step E d c c' \<Longrightarrow> main_run E d c'"

lemma main_step_reachable:
  assumes "main_step E d c c'" "reachable E d (snd c)"
  shows "reachable E d (snd c')"
  using assms
proof (induction rule: main_step.induct)
  case (sigterm s)
  have "sys_step E d s (s\<lparr>st := st s, pending := pending s @ [quitMsg]\<rparr>)" by (intro sys_step.called call.quit)
  with sigterm show ?case by (auto intro: reachable.step)
qed (auto intro: reachable.step)

lemma main_run_reachable: "main_run E d c \<Longrightarrow> reachable E d (snd c)"
  by (induction rule: main_run.induct) (auto intro: reachable.start main_step_reachable)

lemma exit_status: "main_run E d (Exited c, s) \<Longrightarrow> c = 1 \<or> c = 0 \<and> \<not> running s"
  by (induction "(Exited c, s)" arbitrary: c s rule: main_run.induct) (auto elim: main_step.cases)

section \<open>Ending\<close>

lemma quit_turn:
  "dovesnapOpChan s = quitMsg # rest \<Longrightarrow> rmStep E d s = (Ret False, s\<lparr>dovesnapOpChan := rest\<rparr>)"
  by (simp add: rmStep_busy rmDispatch_def quitMsg_def)

text \<open>The quit message stays in flight while the resource manager runs.\<close>

lemma quit_stays:
  assumes "sys_step E d s t" "sys_inv s" "quitMsg \<in> set (inflight s)" "running t"
  shows "quitMsg \<in> set (inflight t)"
  using assms(1)
proof cases
  case (called msg u)
  then show ?thesis using assms(3) call_call_effect [OF called(2)] by (auto simp: inflight_def call_effect_def)
next
  case (failed u)
  then show ?thesis using assms(3) failed_call_kept by (auto simp: inflight_def prep_kept_def)
next
  case (send before msg after u)
  then show ?thesis using assms(3) by (auto simp: inflight_def sendOp_def bindM_def split: if_splits)
next
  case (receive c rep u)
  then show ?thesis using assms(3)
    by (auto simp: inflight_def awaitReply_def bindM_def thenM_def split: if_splits list.splits)
next
  case (manage b u)
  show ?thesis
  proof (cases "dovesnapOpChan (st s)")
    case Nil
    with manage(3) have "prep_kept (st s) u" by (simp add: rmStep_idle steps_inD [OF idle_kept])
    with manage(1) Nil assms(3) show ?thesis by (auto simp: inflight_def prep_kept_def)
  next
    case (Cons msg rest)
    then have "dovesnapOpChan u = rest" using rmStep_effect [OF assms(2) Cons manage(3)] by (simp add: dispatched_def)
    moreover have "msg \<noteq> quitMsg" using manage(1,3) assms(4) Cons quit_turn [of "st s" rest E d] by auto
    ultimately show ?thesis using manage(1) Cons assms(3) by (auto simp: inflight_def)
  qed
next
  case (notify now line u)
  then show ?thesis using assms(3) notify_kept by (auto simp: inflight_def prep_kept_def)
qed

lemma running_was: "sys_step E d s t \<Longrightarrow> running t \<Longrightarrow> running s"
  by (auto elim!: sys_stepE)

lemma quit_in_flight: "main_run E d (Quitting, s) \<Longrightarrow> running s \<Longrightarrow> quitMsg \<in> set (inflight s)"
proof (induction "(Quitting, s)" arbitrary: s rule: main_run.induct)
  case (step c)
  from step.hyps(3) show ?case
  proof cases
    case (work u)
    then show ?thesis
      using step.hyps(2) [of u] step.prems running_was [OF work(2)] main_run_reachable [OF step.hyps(1)]
        quit_stays [OF work(2) reachable_inv] by auto
  qed (simp add: inflight_def)
qed

abbreviation main_steps :: "env \<Rightarrow> Driver \<Rightarrow> phase \<times> sys \<Rightarrow> phase \<times> sys \<Rightarrow> bool" where
  "main_steps E d \<equiv> rtranclp (main_step E d)"

lemma main_run_steps: "main_steps E d c c' \<Longrightarrow> main_run E d c \<Longrightarrow> main_run E d c'"
  by (induction rule: rtranclp_induct) (auto intro: main_run.step)

text \<open>After a turn of the notifier, if one is needed, there is room for a notification.\<close>

lemma room_made:
  assumes "sys_inv s"
  shows "\<exists>t. main_steps E d (Quitting, s) (Quitting, s\<lparr>st := t\<rparr>) \<and> notice_free t \<and> dovesnapOpChan t = dovesnapOpChan (st s)"
proof (cases "notifyMsgs (st s)")
  case Nil
  then have "notice_free (st s)" by (simp add: notice_free_def chanSize_def)
  then show ?thesis by (intro exI [of _ "st s"]) simp
next
  case (Cons msg rest)
  let ?t = "st s\<lparr>notifyMsgs := rest\<rparr>"
  have n: "notifierStep 0 (st s) = (Ret (notifyLine ?t 0 msg), ?t)" using Cons by (simp add: notifierStep_Ret)
  then have "main_step E d (Quitting, s) (Quitting, s\<lparr>st := ?t\<rparr>)" by (intro main_step.work sys_step.notify) simp_all
  moreover have "notice_free ?t" using assms Cons by (simp add: sys_inv_def notice_free_def)
  ultimately show ?thesis by (intro exI [of _ ?t]) auto
qed

text \<open>The program can end with status 0, or a handler ends it through \<open>log.Fatal\<close>.\<close>

definition exits :: "env \<Rightarrow> Driver \<Rightarrow> phase \<times> sys \<Rightarrow> bool" where
  "exits E d c \<longleftrightarrow> (\<exists>t. main_steps E d c (Exited 0, t) \<or>
     main_steps E d c (Quitting, t) \<and> running t \<and> fst (rmStep E d (st t)) = Fatal)"

lemma exits_back: "main_steps E d c c' \<Longrightarrow> exits E d c' \<Longrightarrow> exits E d c"
  unfolding exits_def by (meson rtranclp_trans)

lemma busy_turn:
  assumes "main_run E d (Quitting, s)" "running s" "dovesnapOpChan (st s) = msg # rest" "\<not> exposed msg"
  shows "exits E d (Quitting, s) \<or>
    (\<exists>t. main_steps E d (Quitting, s) (Quitting, t) \<and> pending t = pending s \<and> dovesnapOpChan (st t) = rest \<and> (running t \<longleftrightarrow> Operation msg \<noteq> ''quit''))"
proof -
  obtain u where u: "main_steps E d (Quitting, s) (Quitting, s\<lparr>st := u\<rparr>)" "notice_free u" "dovesnapOpChan u = msg # rest"
    using room_made reachable_inv [OF main_run_reachable [OF assms(1)]] assms(3) by force
  have i: "sys_inv (s\<lparr>st := u\<rparr>)"
    using reachable_inv [OF main_run_reachable [OF main_run_steps [OF u(1) assms(1)]]] by simp
  obtain x t where t: "rmStep E d u = (x, t)" by force
  have "x = Ret (Operation msg \<noteq> ''quit'') \<or> x = Fatal"
    using rmStep_ordinary [OF i, of msg rest E d] u(2,3) assms(4) t by auto
  then show ?thesis
  proof
    assume x: "x = Ret (Operation msg \<noteq> ''quit'')"
    let ?t = "s\<lparr>st := t, running := Operation msg \<noteq> ''quit''\<rparr>"
    have "sys_step E d (s\<lparr>st := u\<rparr>) ?t"
      using sys_step.manage [of "s\<lparr>st := u\<rparr>" E d "Operation msg \<noteq> ''quit''" t] assms(2) t x by simp
    then have "main_steps E d (Quitting, s) (Quitting, ?t)" using u(1) by (auto intro: main_step.work rtranclp.rtrancl_into_rtrancl)
    moreover have "dovesnapOpChan t = rest" using rmStep_effect [OF i, of msg rest E d] u(3) t x by (simp add: dispatched_def)
    ultimately show ?thesis by (intro disjI2 exI [of _ ?t]) simp
  next
    assume "x = Fatal"
    with u(1) t assms(2) show ?thesis unfolding exits_def by fastforce
  qed
qed

lemma stopped_exits: "\<not> running s \<Longrightarrow> exits E d (Quitting, s)"
  unfolding exits_def by (blast intro: main_step.quit)

lemma sent_quit:
  assumes "quitMsg \<in> set (pending s)" "dovesnapOpChan (st s) = []"
  shows "\<exists>t. main_step E d (Quitting, s) (Quitting, t) \<and> dovesnapOpChan (st t) = [quitMsg] \<and> running t = running s"
proof -
  obtain a b where p: "pending s = a @ quitMsg # b" using assms(1) by (meson split_list)
  let ?t = "st s\<lparr>dovesnapOpChan := [quitMsg]\<rparr>"
  have "sendOp quitMsg (st s) = (Ret (), ?t)" using assms(2) by (simp add: sendOp_def bindM_def chanSize_def)
  from sys_step.send [OF p this] show ?thesis by (fastforce intro: main_step.work)
qed

lemma work_done_exits:
  assumes "main_run E d (Quitting, s)" "list_all (\<lambda>msg. \<not> exposed msg) (dovesnapOpChan (st s))"
  shows "exits E d (Quitting, s)"
  using assms
proof (induction "dovesnapOpChan (st s)" arbitrary: s)
  case (Cons msg rest)
  show ?case
  proof (cases "running s")
    case True
    with busy_turn [OF Cons.prems(1) True Cons.hyps(2) [symmetric]] Cons.prems(2) Cons.hyps(2)
    consider "exits E d (Quitting, s)"
      | t where "main_steps E d (Quitting, s) (Quitting, t)" "dovesnapOpChan (st t) = rest"
      by (metis list.pred_inject(2))
    then show ?thesis
    proof cases
      case (2 t)
      with Cons show ?thesis by (metis exits_back list.pred_inject(2) main_run_steps)
    qed
  qed (rule stopped_exits)
next
  case Nil
  show ?case
  proof (cases "running s")
    case True
    with Nil quit_in_flight [OF Nil.prems(1)] have "quitMsg \<in> set (pending s)" by (simp add: inflight_def)
    then obtain t where t: "main_step E d (Quitting, s) (Quitting, t)" "dovesnapOpChan (st t) = [quitMsg]" "running t"
      using sent_quit Nil(1) True by metis
    have q: "\<not> exposed quitMsg" "Operation quitMsg = ''quit''" by (simp_all add: exposed_def quitMsg_def)
    have "exits E d (Quitting, t)"
      using busy_turn [OF main_run.step [OF Nil.prems(1) t(1)] t(3,2) q(1)] q(2) stopped_exits exits_back by blast
    then show ?thesis using exits_back t(1) by blast
  qed (rule stopped_exits)
qed



section \<open>Reading the command line\<close>

lemma flagsOf_mainFlags: "flagsOf mainFlags = defaultFlags" "logLevel mainFlags = InfoLevel"
  by (simp_all add: flagsOf_def mainFlags_def defaultFlags_def flagStr_def flagInt_def logLevel_def flagBool_def map_get_def)

definition lastSetting :: "(bool \<times> bool \<times> string \<times> flag_value) list \<Rightarrow> string \<Rightarrow> flag_value option" where
  "lastSetting settings name = map_of (rev (map (\<lambda>(two, joined, n, v). (n, v)) settings)) name"

lemma get_fold_settings:
  "map_get (fold applySetting settings fs) name =
     (case lastSetting settings name of Some v \<Rightarrow> Some v | None \<Rightarrow> map_get fs name)"
proof (induction settings arbitrary: fs)
  case (Cons s settings)
  then show ?case
    by (cases s) (auto simp: lastSetting_def applySetting_def gm.get_put map_add_def split: option.splits)
qed (simp add: lastSetting_def)



end
