(* ===== verification/Container_Rules.thy ===== *)
theory Container_Rules
  imports Handler_Effects
begin

text \<open>
  The iptables rules of a container over its life: what a join adds for the port maps of its
  container, the leave of the same endpoint takes back, and nothing else they do touches a rule.
\<close>

section \<open>What leaves the rules alone\<close>

definition rules_kept :: "drv \<Rightarrow> drv \<Rightarrow> bool" where
  "rules_kept s t \<longleftrightarrow> (\<exists>evs. trace t = trace s @ evs \<and> (\<forall>M. rule_effects evs M = M))"

lemma rule_effects_append: "rule_effects (a @ b) M = rule_effects b (rule_effects a M)"
  by (simp add: rule_effects_def)

interpretation rules: state_preorder rules_kept
proof
  show "rules_kept s s" for s by (simp add: rules_kept_def rule_effects_def)
  show "rules_kept s u" if st: "rules_kept s t" "rules_kept t u" for s t u
  proof -
    obtain a b where "trace t = trace s @ a" "trace u = trace t @ b"
      "\<forall>M. rule_effects a M = M" "\<forall>M. rule_effects b M = M" using st by (auto simp: rules_kept_def)
    then have "trace u = trace s @ (a @ b) \<and> (\<forall>M. rule_effects (a @ b) M = M)"
      by (simp add: rule_effects_append)
    then show ?thesis unfolding rules_kept_def by blast
  qed
qed

lemma rules_call: "(\<And>args. e \<noteq> IptablesRaw args) \<Longrightarrow> steps_in rules_kept (callM e f)"
  by (auto simp: steps_in_def rules_kept_def rule_effects_def rule_effect_def split: event.splits)

lemma rules_calls:
  "steps_in rules_kept (rangeStrM E m)" "steps_in rules_kept (sleepM n)" "steps_in rules_kept (mustM e)"
  "steps_in rules_kept (mustSum r)"
  unfolding rangeStrM_def sleepM_def mustM_def mustSum_def
  by (intro rules.steps_intros rules_call event.distinct)+

lemma rules_modify: "(\<And>s. trace (f s) = trace s) \<Longrightarrow> steps_in rules_kept (modifyM f)"
  by (simp add: steps_in_def rules_kept_def rule_effects_def)

lemmas rules_intros = rules.steps_intros rules_calls rules_call

lemma rules_inspect: "steps_in rules_kept (networkInspect_loop E i n)"
  by (induction n) (auto intro!: rules_intros)

lemma rules_find: "steps_in rules_kept (findContainer_loop E net ep ids)"
  by (induction ids) (auto intro!: rules_intros)

lemma rules_getContainer: "steps_in rules_kept (getContainerFromEndpoint E nid ep)"
proof -
  have "steps_in rules_kept (getContainer_loop E nid ep n)" for n
    by (induction n) (auto intro!: rules_intros rules_find rules_inspect simp: mustGetNetworkInspectFromID_def)
  then show ?thesis by (simp add: getContainerFromEndpoint_def)
qed

lemma rules_rpc: "steps_in rules_kept (mustRpc E req)"
  unfolding mustRpc_def by (intro rules_intros) simp

lemma rules_exec: "steps_in rules_kept (execM E cmd args)"
  unfolding execM_def by (intro rules_intros) simp

lemma rules_vsctl: "steps_in rules_kept (mustVsCtl E args)"
  unfolding mustVsCtl_def VsCtl_def RunCmd_def by (intro rules_intros) simp

lemma rules_links:
  "steps_in rules_kept (createNsLink E pid i)" "steps_in rules_kept (deleteNsLink E i)"
  "steps_in rules_kept (delVethPair E v)" "steps_in rules_kept (killM c)"
  unfolding createNsLink_def deleteNsLink_def delVethPair_def killM_def Let_def
  by (intro rules_intros, simp_all)+

lemma rules_ports:
  "steps_in rules_kept (mustGetOfPort E p)" "steps_in rules_kept (mustDeletePort E b p)"
  "steps_in rules_kept (mustDeleteDpInterface E n port)" "steps_in rules_kept (mustSetFaucetConfigFile E y)"
  unfolding mustGetOfPort_def getOfPort_def mustDeletePort_def mustDeleteDpInterface_def mustSetFaucetConfigFile_def
  by (intro rules_intros rules_vsctl rules_rpc)+

lemma rules_joinMac: "steps_in rules_kept (joinMac E ci mac)"
  unfolding joinMac_def by (intro rules_intros rules_exec)

lemma rules_joinMirror: "steps_in rules_kept (joinMirror E d opMsg ns ci p)"
  unfolding joinMirror_def getMirrorConfig_def mustAddPortMirror_def by (intro rules_intros rules_rpc)

lemma rules_joinDhcp: "steps_in rules_kept (joinDhcp E ns ci)"
  unfolding joinDhcp_def by (intro rules_intros) simp

section \<open>The rules of the port maps\<close>

definition mapRules :: "NetworkState \<Rightarrow> EndpointSettings \<Rightarrow> iface \<Rightarrow> string list list" where
  "mapRules ns es portMapRaw = (case mustGetPortMap portMapRaw of
     Ret (hostPort, port, ipProto) \<Rightarrow>
       portMapRules (BridgeName ns) ipProto (es_Gateway es) (es_IPAddress es) hostPort port
   | _ \<Rightarrow> [])"

lemma mapRules_shape: "list_all (\<lambda>r. take 1 r = [''-t''] \<and> 2 \<le> length r) (concat (map (mapRules ns es) maps))"
  using portMapRules_shape by (fastforce simp: list_all_iff mapRules_def split: outcome.splits prod.splits)

lemma mapRules_cong: "BridgeName ns = BridgeName ns' \<Longrightarrow> mapRules ns es = mapRules ns' es"
  by (auto simp: mapRules_def fun_eq_iff split: outcome.split prod.split)

lemma forM_trace:
  assumes "\<And>m s t. f m s = (Ret (), t) \<Longrightarrow> trace t = trace s @ g m"
  shows "forM f ms s = (Ret (), t) \<Longrightarrow> trace t = trace s @ concat (map g ms)"
  by (induction ms arbitrary: s) (auto simp: thenM_def elim!: bindM_RetE dest!: assms)

lemma portMap_trace:
  "addPortMapM E ns es m s = (Ret (), t) \<Longrightarrow> trace t = trace s @ map (with_op ''-A'') (mapRules ns es m)"
  "delPortMapM E ns es m s = (Ret (), t) \<Longrightarrow> trace t = trace s @ map (with_op ''-D'') (mapRules ns es m)"
  unfolding addPortMapM_def delPortMapM_def mustAddGatewayPortMap_def mustDeleteGatewayPortMap_def
  by (auto elim!: bindM_RetE dest!: mustPortMap_Ret simp: mapRules_def)

lemma portMaps_trace:
  "forM (addPortMapM E ns es) maps s = (Ret (), t) \<Longrightarrow>
   trace t = trace s @ map (with_op ''-A'') (concat (map (mapRules ns es) maps))"
  "forM (delPortMapM E ns es) maps s = (Ret (), t) \<Longrightarrow>
   trace t = trace s @ map (with_op ''-D'') (concat (map (mapRules ns es) maps))"
  using forM_trace [OF portMap_trace(1)] forM_trace [OF portMap_trace(2)] by (simp_all add: map_concat comp_def)

text \<open>The rules that are added or removed between two states.\<close>

definition rules_added :: "string list multiset \<Rightarrow> drv \<Rightarrow> drv \<Rightarrow> bool" where
  "rules_added rs s t \<longleftrightarrow> (\<exists>evs. trace t = trace s @ evs \<and> (\<forall>M. rule_effects evs M = M + rs))"

definition rules_removed :: "string list multiset \<Rightarrow> drv \<Rightarrow> drv \<Rightarrow> bool" where
  "rules_removed rs s t \<longleftrightarrow> (\<exists>evs. trace t = trace s @ evs \<and> (\<forall>M. rule_effects evs M = M - rs))"

lemma rules_added_kept:
  assumes "rules_kept s u" "rules_added rs u v" "rules_kept v t"
  shows "rules_added rs s t"
proof -
  obtain a b c where "trace u = trace s @ a" "trace v = trace u @ b" "trace t = trace v @ c"
    "\<forall>M. rule_effects a M = M" "\<forall>M. rule_effects b M = M + rs" "\<forall>M. rule_effects c M = M"
    using assms by (auto simp: rules_kept_def rules_added_def)
  then have "trace t = trace s @ (a @ b @ c) \<and> (\<forall>M. rule_effects (a @ b @ c) M = M + rs)"
    by (simp add: rule_effects_append)
  then show ?thesis unfolding rules_added_def by blast
qed

lemma rules_removed_kept:
  assumes "rules_kept s u" "rules_removed rs u v" "rules_kept v t"
  shows "rules_removed rs s t"
proof -
  obtain a b c where "trace u = trace s @ a" "trace v = trace u @ b" "trace t = trace v @ c"
    "\<forall>M. rule_effects a M = M" "\<forall>M. rule_effects b M = M - rs" "\<forall>M. rule_effects c M = M"
    using assms by (auto simp: rules_kept_def rules_removed_def)
  then have "trace t = trace s @ (a @ b @ c) \<and> (\<forall>M. rule_effects (a @ b @ c) M = M - rs)"
    by (simp add: rule_effects_append)
  then show ?thesis unfolding rules_removed_def by blast
qed

definition containerRules :: "NetworkState \<Rightarrow> EndpointSettings \<Rightarrow> iface list \<Rightarrow> string list multiset" where
  "containerRules ns es maps = mset (concat (map (mapRules ns es) maps))"

lemma addPortMaps_rules: "forM (addPortMapM E ns es) maps s = (Ret (), t) \<Longrightarrow> rules_added (containerRules ns es maps) s t"
  using portMaps_trace(1) rule_effects_add [OF mapRules_shape] unfolding rules_added_def containerRules_def by blast

lemma delPortMaps_rules: "forM (delPortMapM E ns es) maps s = (Ret (), t) \<Longrightarrow> rules_removed (containerRules ns es maps) s t"
  using portMaps_trace(2) rule_effects_del [OF mapRules_shape] unfolding rules_removed_def containerRules_def by blast

section \<open>Join and leave\<close>

lemma joinOutside_rules:
  assumes "joinOutside E d opMsg s = (Ret (ns, ci, es, ofPort, cmd), t)"
  shows "\<exists>maps. portMaps (op_Options opMsg) = Ret maps \<and> rules_added (containerRules ns es maps) s t"
proof -
  obtain r u1 u2 u3 u4 u5 u6 u7 u8 maps short where
    1: "getContainerFromEndpoint E (NetworkID opMsg) (EndpointID opMsg) s = (Ret r, u1)"
    and 2: "mustSum r u1 = (Ret ci, u2)" and 3: "createNsLink E (ci_Pid ci) (ci_ID ci) u2 = (Ret (), u3)"
    and 4: "joinMac E ci (es_MacAddress es) u3 = (Ret (), u4)"
    and 5: "(if Userspace ns
           then execM E ''ip'' [''netns'', ''exec'', ci_ID ci, ''/sbin/ethtool'', ''-K'', defaultInterface, ''tx'', ''off'']
           else retM ()) u4 = (Ret (), u5)"
    and m: "portMaps (op_Options opMsg) = Ret maps" and 6: "forM (addPortMapM E ns es) maps u5 = (Ret (), u6)"
    and 7: "mustSetFaucetConfigFile E (mergeSingleDpMinimalYaml (NetworkName ns)
            (vlanInterfaceYaml ofPort (ci_Name ci @ '' '' @ short) (BridgeVLAN ns) (containerAcl ns ci))) u6 = (Ret (), u7)"
    and 8: "joinMirror E d opMsg ns ci ofPort u7 = (Ret (), u8)" and 9: "joinDhcp E ns ci u8 = (Ret cmd, t)"
    using assms unfolding joinOutside_def thenM_def getNetwork_def
    by (elim bindM_RetE) (auto elim!: bindM_RetE split: option.splits)
  have e: "steps_in rules_kept (if Userspace ns
           then execM E ''ip'' [''netns'', ''exec'', ci_ID ci, ''/sbin/ethtool'', ''-K'', defaultInterface, ''tx'', ''off'']
           else retM ())" by (intro rules_intros rules_exec)
  have "rules_kept s u5"
    using steps_inD [OF rules_getContainer 1] steps_inD [OF rules_calls(4) 2] steps_inD [OF rules_links(1) 3]
      steps_inD [OF rules_joinMac 4] steps_inD [OF e 5] by (blast intro: rules.R_trans)
  moreover have "rules_kept u6 t"
    using steps_inD [OF rules_ports(4) 7] steps_inD [OF rules_joinMirror 8] steps_inD [OF rules_joinDhcp 9]
    by (blast intro: rules.R_trans)
  ultimately show ?thesis using m rules_added_kept [OF _ addPortMaps_rules [OF 6]] by blast
qed

lemma rules_joinRecord: "steps_in rules_kept (joinRecord opMsg x)"
  unfolding joinRecord_def setOFPorts_def writeDyn_def notifyM_def
  by (intro rules_intros rules_modify) (simp_all add: updateDyn_def)

lemma rules_leaveForget: "steps_in rules_kept (leaveForget E opMsg x)"
  unfolding leaveForget_def deleteDyn_def notifyM_def
  by (intro rules_intros rules_modify rules_links) (simp_all add: updateDyn_def)

lemma leaveOutside_rules:
  assumes "leaveOutside E d opMsg s = (Ret (ns, ci, ofPort), t)"
  shows "\<exists>c es maps. map_get (OFPorts s) (EndpointID opMsg) = Some c \<and> of_containerInspect c = Some ci \<and>
    map_get (ci_Networks ci) (NetworkName ns) = Some es \<and> portMaps (of_Options c) = Ret maps \<and>
    rules_removed (containerRules ns es maps) s t"
proof -
  obtain c short u1 u2 u3 u4 u5 es maps where c: "map_get (OFPorts s) (EndpointID opMsg) = Some c"
    and 1: "killM (of_udhcpcCmd c) s = (Ret (), u1)"
    and 2: "mustGetOfPort E (Sprintf0 (ovsPortPrefix @ short)) u1 = (Ret ofPort, u2)"
    and 3: "delVethPair E (vethPair short) u2 = (Ret (), u3)"
    and 4: "mustDeletePort E (BridgeName ns) (Sprintf0 (ovsPortPrefix @ short)) u3 = (Ret (), u4)"
    and 5: "mustDeleteDpInterface E (NetworkName ns) ofPort u4 = (Ret (), u5)"
    and ci: "of_containerInspect c = Some ci" "map_get (ci_Networks ci) (NetworkName ns) = Some es"
    and m: "portMaps (of_Options c) = Ret maps" and 6: "forM (delPortMapM E ns es) maps u5 = (Ret (), t)"
    using assms unfolding leaveOutside_def thenM_def getNetwork_def
    by (elim bindM_RetE) (auto elim!: bindM_RetE split: option.splits)
  have "rules_kept s u5"
    using steps_inD [OF rules_links(4) 1] steps_inD [OF rules_ports(1) 2] steps_inD [OF rules_links(3) 3]
      steps_inD [OF rules_ports(2) 4] steps_inD [OF rules_ports(3) 5] by (blast intro: rules.R_trans)
  from rules_removed_kept [OF this delPortMaps_rules [OF 6] rules.R_refl] c ci m show ?thesis by blast
qed

lemma join_rules:
  assumes "joinContainer_body E d opMsg s = (Ret (), t)"
  shows "\<exists>c ci es maps. map_get (OFPorts t) (EndpointID opMsg) = Some c \<and> of_containerInspect c = Some ci \<and>
    map_get (ci_Networks ci) (NetworkName (registered s (NetworkID opMsg))) = Some es \<and> portMaps (of_Options c) = Ret maps \<and>
    rules_added (containerRules (registered s (NetworkID opMsg)) es maps) s t"
proof -
  obtain ns ci es p cmd u where o: "joinOutside E d opMsg s = (Ret (ns, ci, es, p, cmd), u)"
    and r: "joinRecord opMsg (ns, ci, es, p, cmd) u = (Ret (), t)"
    using assms by (auto simp: join_body_split elim!: bindM_RetE)
  obtain maps where m: "portMaps (op_Options opMsg) = Ret maps" "rules_added (containerRules ns es maps) s u"
    using joinOutside_rules [OF o] by blast
  have a: "rules_added (containerRules ns es maps) s t"
    by (rule rules_added_kept [OF rules.R_refl m(2) steps_inD [OF rules_joinRecord r]])
  have "OFPorts t = map_put (EndpointID opMsg) \<lparr>of_OFPort = p, of_containerInspect = Some ci, of_udhcpcCmd = cmd,
       of_Options = op_Options opMsg\<rparr> (OFPorts u)"
    using r by (auto simp: joinRecord_def setOFPorts_def writeDyn_def notifyM_run thenM_def bindM_def updateDyn_def
        split: option.splits if_splits)
  with a m(1) joinOutside_Ret [OF o] show ?thesis by auto
qed

text \<open>
  C12. A leave takes back the rules of the join: a join that succeeds adds some iptables rules and
  nothing else it does changes a rule; a later leave of the same endpoint that succeeds removes exactly
  these rules, whatever happened to other rules, containers and networks in between, as long as the endpoint
  was not joined again and its network kept its name and bridge.
\<close>

theorem leave_takes_back_join:
  assumes "joinContainer_body E d joinMsg s = (Ret (), t)" "leaveContainer_body E' d' leaveMsg t' = (Ret (), u)"
    and "EndpointID leaveMsg = EndpointID joinMsg" "NetworkID leaveMsg = NetworkID joinMsg"
    and "map_get (OFPorts t') (EndpointID joinMsg) = map_get (OFPorts t) (EndpointID joinMsg)"
    and "NetworkName (registered t' (NetworkID joinMsg)) = NetworkName (registered s (NetworkID joinMsg))"
    and "BridgeName (registered t' (NetworkID joinMsg)) = BridgeName (registered s (NetworkID joinMsg))"
  shows "\<exists>adds dels rules. trace t = trace s @ adds \<and> trace u = trace t' @ dels \<and>
    (\<forall>M. rule_effects adds M = M + rules) \<and> (\<forall>M. rule_effects dels M = M - rules)"
proof -
  obtain ns ci p v where o: "leaveOutside E' d' leaveMsg t' = (Ret (ns, ci, p), v)"
    and f: "leaveForget E' leaveMsg (ns, ci, p) v = (Ret (), u)"
    using assms(2) by (auto simp: leave_body_split elim!: bindM_RetE)
  have ns: "ns = registered t' (NetworkID joinMsg)" using leaveOutside_Ret [OF o] assms(4) by simp
  obtain c es maps where l: "map_get (OFPorts t') (EndpointID joinMsg) = Some c" "of_containerInspect c = Some ci"
    "map_get (ci_Networks ci) (NetworkName ns) = Some es" "portMaps (of_Options c) = Ret maps"
    "rules_removed (containerRules ns es maps) t' v"
    using leaveOutside_rules [OF o] assms(3) by auto
  have d: "rules_removed (containerRules ns es maps) t' u"
    by (rule rules_removed_kept [OF rules.R_refl l(5) steps_inD [OF rules_leaveForget f]])
  have "mapRules ns es = mapRules (registered s (NetworkID joinMsg)) es"
    using ns assms(7) by (intro mapRules_cong) simp
  then have "containerRules ns es maps = containerRules (registered s (NetworkID joinMsg)) es maps"
    by (simp only: containerRules_def)
  moreover have "rules_added (containerRules (registered s (NetworkID joinMsg)) es maps) s t"
    using join_rules [OF assms(1)] l(1-4) assms(5,6) ns by auto
  ultimately show ?thesis using d unfolding rules_added_def rules_removed_def by metis
qed

definition port_options :: options where
  "port_options = Some [(portMapOption, IfList [IfMap [(''HostPort'', IfNum 80), (''Port'', IfNum 8080), (''Proto'', IfNum 17)]])]"

definition portmap_op :: "string \<Rightarrow> DovesnapOp" where
  "portmap_op operation = (web_op operation)\<lparr>op_Options := port_options\<rparr>"

definition portmap_drv :: drv where
  "portmap_drv = snd (joinContainer_body web_env plain_driver (portmap_op ''join'') reserved_drv)"

theorem leave_takes_back_join_witness:
  "\<exists>adds dels rules. trace portmap_drv = trace reserved_drv @ adds \<and>
     trace (snd (leaveContainer_body web_env plain_driver (portmap_op ''leave'') portmap_drv)) = trace portmap_drv @ dels \<and>
     (\<forall>M. rule_effects adds M = M + rules) \<and> (\<forall>M. rule_effects dels M = M - rules)"
proof -
  have j: "fst (joinContainer_body web_env plain_driver (portmap_op ''join'') reserved_drv) = Ret ()" by code_simp
  have l: "fst (leaveContainer_body web_env plain_driver (portmap_op ''leave'') portmap_drv) = Ret ()" by code_simp
  have n: "registered portmap_drv (NetworkID (portmap_op ''join'')) = registered reserved_drv (NetworkID (portmap_op ''join''))"
    by code_simp
  have e: "EndpointID (portmap_op ''leave'') = EndpointID (portmap_op ''join'')"
    "NetworkID (portmap_op ''leave'') = NetworkID (portmap_op ''join'')"
    by (simp_all add: portmap_op_def web_op_def flat_op_def)
  show ?thesis
    using leave_takes_back_join [OF run_fst [OF j] run_fst [OF l] e] n by (simp add: portmap_drv_def)
qed

end
