(* ===== verification/Driver_Restore.thy ===== *)
theory Driver_Restore
  imports Driver_System
begin

text \<open>
  Restoring networks at start (\<^verbatim>\<open>restoreNetworks\<close>) against creating them (\<^verbatim>\<open>CreateNetwork\<close>): what the
  driver rebuilds from Docker's report of a network is what it had when the network was created.
\<close>

section \<open>Restored networks\<close>

text \<open>
  A network as Docker knows it.  Docker passes its options and its gateway to the driver when
  it is created, and reports the same ones when the network is inspected later.
\<close>

record docker_network =
  dn_ID :: string
  dn_Name :: string
  dn_Options :: "(string, string) gomap"
  dn_Internal :: bool
  dn_IPAM :: "(string \<times> string \<times> string) option" \<comment> \<open>gateway, network address and prefix length\<close>

definition create_request_of :: "docker_network \<Rightarrow> CreateNetworkRequest" where
  "create_request_of dn = \<lparr>cr_NetworkID = dn_ID dn,
     cr_Options = Some [(genericOption, IfMap (map (\<lambda>(k, v). (k, IfStr v)) (dn_Options dn))), (internalOption, IfBool (dn_Internal dn))],
     cr_IPv4Data = (case dn_IPAM dn of None \<Rightarrow> [] | Some (gw, net, bits) \<Rightarrow> [Some (gw @ ''/'' @ bits)]), cr_IPv6Data = []\<rparr>"

definition inspect_of :: "docker_network \<Rightarrow> (string, string) gomap \<Rightarrow> NetInspect" where
  "inspect_of dn containers = \<lparr>net_Name = dn_Name dn, net_ID = dn_ID dn, net_Options = Some (dn_Options dn),
     net_IPAM_Config = (case dn_IPAM dn of None \<Rightarrow> [] | Some (gw, net, bits) \<Rightarrow> [\<lparr>Subnet = net @ ''/'' @ bits, ipam_Gateway = gw\<rparr>]),
     net_Containers = containers\<rparr>"

text \<open>
  The driver does not look at the name option when it restores a network, and an empty mode
  is the default one only when the network is created.
\<close>

definition restorable :: "docker_network \<Rightarrow> bool" where
  "restorable dn \<longleftrightarrow> map_get (dn_Options dn) bridgeNameOption \<in> {None, Some []} \<and> map_get (dn_Options dn) modeOption \<noteq> Some [] \<and>
     (case dn_IPAM dn of None \<Rightarrow> True | Some (gw, net, bits) \<Rightarrow>
        CHR ''/'' \<notin> set gw \<and> CHR ''/'' \<notin> set net \<and> CHR ''/'' \<notin> set bits \<and> gw \<noteq> [] \<and> net \<noteq> [] \<and> bits \<noteq> [])"

lemma docker_network_ids [simp]:
  "cr_NetworkID (create_request_of dn) = dn_ID dn" "net_ID (inspect_of dn cs) = dn_ID dn" "net_Name (inspect_of dn cs) = dn_Name dn"
  by (simp_all add: create_request_of_def inspect_of_def)

lemma generic_option:
  "getGenericOption (create_request_of dn) k = getStrOptionFromResource (inspect_of dn cs) k []"
proof -
  have m: "map_get (map (\<lambda>(k, v). (k, IfStr v)) opts) k = map_option IfStr (map_get opts k)" for opts :: "(string, string) gomap"
    by (induction opts) (auto simp: map_get_def)
  have "map_get [(genericOption, x), (internalOption, y)] genericOption = Some x" for x y :: iface by (simp add: map_get_def)
  then show ?thesis
    by (simp add: getGenericOption_def getStrOptionFromResource_def create_request_of_def inspect_of_def m split: option.split)
qed

lemma generic_uint:
  "getGenericUintOption (create_request_of dn) k v = getUintOptionFromResource (inspect_of dn cs) k v"
  by (simp add: getGenericUintOption_def getUintOptionFromResource_def generic_option [of dn k cs])

lemma restored_gateway:
  assumes "restorable dn"
  shows "mustGetGatewayIP (create_request_of dn) = Ret (getGatewayFromResource (inspect_of dn cs))"
proof (cases "dn_IPAM dn")
  case None
  then show ?thesis
    by (simp add: mustGetGatewayIP_def mustGetGatewayIPFromData_def getGatewayFromResource_def create_request_of_def inspect_of_def)
next
  case (Some gnb)
  obtain gw net bits where g: "gnb = (gw, net, bits)" by (cases gnb)
  with Some assms have "Split (gw @ CHR ''/'' # bits) (CHR ''/'') = [gw, bits]" "Split (net @ CHR ''/'' # bits) (CHR ''/'') = [net, bits]"
    by (simp_all add: restorable_def Split_append_sep)
  with Some assms g show ?thesis
    by (simp add: restorable_def mustGetGatewayIP_def mustGetGatewayIPFromData_def getGatewayFromResource_def create_request_of_def inspect_of_def)
qed

lemma restored_mode:
  assumes "restorable dn" "mustGetBridgeMode (create_request_of dn) = Ret m"
  shows "m = getStrOptionFromResource (inspect_of dn cs) modeOption defaultMode"
proof -
  have "getStrOptionFromResource (inspect_of dn cs) modeOption [] = (case map_get (dn_Options dn) modeOption of None \<Rightarrow> [] | Some v \<Rightarrow> v)"
    "getStrOptionFromResource (inspect_of dn cs) modeOption defaultMode = (case map_get (dn_Options dn) modeOption of None \<Rightarrow> defaultMode | Some v \<Rightarrow> v)"
    by (simp_all add: getStrOptionFromResource_def inspect_of_def)
  with assms show ?thesis
    by (auto simp: mustGetBridgeMode_def generic_option [of dn _ cs] Let_def restorable_def split: option.splits if_splits)
qed

lemma restored_bridge:
  assumes "restorable dn" "mustGetBridgeName (create_request_of dn) = Ret b"
  shows "mustGetBridgeNameFromResource (inspect_of dn cs) = Ret b"
proof -
  have "getStrOptionFromResource (inspect_of dn cs) bridgeNameOption [] = []"
    using assms(1) by (auto simp: getStrOptionFromResource_def inspect_of_def restorable_def)
  with assms(2) show ?thesis
    by (cases "truncateID (dn_ID dn)")
      (auto simp: mustGetBridgeName_def mustGetBridgeNameFromResource_def generic_option [of dn _ cs] Let_def)
qed

lemma restored_resource:
  assumes "restorable dn" "requestNetworkState E d (create_request_of dn) s = (Ret ns, t)"
  shows "\<exists>dyn t'. getNetworkStateFromResource E (inspect_of dn cs) engine s' =
    (Ret (ns\<lparr>NetworkName := dn_Name dn, Controller := getStrOptionFromResource (inspect_of dn cs) bridgeController [],
       DynamicNetworkStates := dyn\<rparr>, None), t')"
proof -
  let ?r = "create_request_of dn" and ?i = "inspect_of dn cs"
  obtain b m gw gm dp dyn u u' where b: "mustGetBridgeName ?r = Ret b" and m: "mustGetBridgeMode ?r = Ret m"
    and g: "mustGetGatewayIP ?r = Ret (gw, gm)" and dp: "mustGetUintFromHexStr (bcConvert E) (mustGetBridgeDpid ?r) = Ret dp"
    and ns: "ns = \<lparr>NetworkName = [], BridgeName = b, BridgeDpid = mustGetBridgeDpid ?r, BridgeDpidUint = dp,
      BridgeVLAN = mustGetBridgeVLAN ?r, MTU = mustGetBridgeMTU ?r, PreAllocatePorts = mustGetPreAllocatePorts ?r, Mode = m,
      AddPorts = mustGetBridgeAddPorts ?r, AddCoproPorts = mustGetBridgeAddCoproPorts ?r, Gateway = gw, GatewayMask = gm,
      FlatBindInterface = mustGetBindInterface ?r, UseDHCP = mustGetUseDHCP ?r, Userspace = mustGetUserspace ?r,
      NATAcl = mustGetNATAcl ?r, VLANOutAcl = mustGetBridgeVLANOutAcl ?r, DefaultAcl = mustGetDefaultAcl ?r,
      OvsLocalMac = mustGetOvsLocalMac ?r,
      Controller = (if mustGetBridgeController ?r = [] then stackDefaultControllers d else mustGetBridgeController ?r),
      DynamicNetworkStates = dyn\<rparr>"
    using assms(2) unfolding requestNetworkState_def thenM_def Let_def
    by (elim bindM_RetE) (auto elim!: bindM_RetE)
  have "getGatewayFromResource ?i = (gw, gm)" using restored_gateway [OF assms(1), of cs] g by simp
  moreover have "mustGetBridgeDpidFromResource (bcConvert E) ?i = Ret (mustGetBridgeDpid ?r, dp)"
    using dp by (simp add: mustGetBridgeDpidFromResource_def mustGetBridgeDpid_def generic_option [of dn _ cs])
  ultimately show ?thesis
    using restored_bridge [OF assms(1) b, of cs] restored_mode [OF assms(1) m, of cs]
    by (simp add: getNetworkStateFromResource_def recoverM_def bindM_def makeDynamicNetworkState_def thenM_def ns
        mustGetBridgeVLAN_def mustGetBridgeMTU_def mustGetPreAllocatePorts_def mustGetBridgeAddPorts_def
        mustGetBridgeAddCoproPorts_def mustGetBindInterface_def mustGetUseDHCP_def mustGetUserspace_def mustGetNATAcl_def
        mustGetBridgeVLANOutAcl_def mustGetDefaultAcl_def mustGetOvsLocalMac_def generic_option [of dn _ cs] generic_uint [of dn _ _ cs])
qed

lemma restored_mirror: "getStackMirrorConfigFromResource d (inspect_of dn cs) = getStackMirrorConfig d (create_request_of dn)"
  unfolding getStackMirrorConfigFromResource_def getStackMirrorConfig_def mustGetLbPort_def mustGetTunnelVid_def
    mustGetBridgeVLAN_def generic_uint [of dn _ _ cs] Let_def ..

section \<open>Properties\<close>

text \<open>
  C7. Restoring gives back what was created: for a network that Docker reports as it was created, without a
  bridge name of its own, the message \<open>restoreNetworks\<close> builds carries the same network state and the same mirroring
  configuration as the message of its creation, but for the name Docker reports, which the creation did not know yet,
  and the maps of containers and ports, which are new.
\<close>

theorem restored_network_agrees:
  assumes "restorable dn" "prepareCreate E d (create_request_of dn) ''create'' s = (Ret msg, t)"
    and "dkNetworkInspect E (trace s') (dn_ID dn) = Inr (inspect_of dn containers)"
    and "prepareRestore E d (dn_ID dn) s' = (Ret msg', t')"
  shows "NewNetworkState msg' = (NewNetworkState msg)\<lparr>NetworkName := dn_Name dn,
      DynamicNetworkStates := DynamicNetworkStates (NewNetworkState msg')\<rparr> \<and>
    NewStackMirrorConfig msg' = NewStackMirrorConfig msg \<and> NetworkID msg' = NetworkID msg \<and>
    EndpointID msg' = EndpointID msg \<and> op_Mode msg' = op_Mode msg \<and> op_AddPorts msg' = op_AddPorts msg"
proof -
  let ?i = "inspect_of dn containers"
  obtain ns u sc where ns: "requestNetworkState E d (create_request_of dn) s = (Ret ns, u)"
    and sc: "getStackMirrorConfig d (create_request_of dn) = Ret sc"
    and msg: "NewNetworkState msg = ns" "NewStackMirrorConfig msg = sc" "NetworkID msg = dn_ID dn" "EndpointID msg = BridgeName ns"
      "op_Mode msg = Mode ns" "op_AddPorts msg = AddPorts ns"
    using assms(2) unfolding prepareCreate_def thenM_def by (elim bindM_RetE) (auto elim!: bindM_RetE simp: zeroOp_def)
  have c: "Controller ns = (if getStrOptionFromResource ?i bridgeController [] = [] then stackDefaultControllers d
      else getStrOptionFromResource ?i bridgeController [])"
    using ns unfolding requestNetworkState_def thenM_def Let_def
    by (elim bindM_RetE) (auto elim!: bindM_RetE simp: mustGetBridgeController_def generic_option [of dn _ containers])
  have "mustGetNetworkInspectFromID E (dn_ID dn) s' = (Ret ?i, s'\<lparr>trace := trace s' @ [NetworkInspect (dn_ID dn)]\<rparr>)"
    using assms(3) by (rule mustGetNetworkInspectFromID_first)
  moreover obtain dyn v where "getNetworkStateFromResource E ?i (shortEngineId d) (s'\<lparr>trace := trace s' @ [NetworkInspect (dn_ID dn)]\<rparr>) =
      (Ret (ns\<lparr>NetworkName := dn_Name dn, Controller := getStrOptionFromResource ?i bridgeController [],
        DynamicNetworkStates := dyn\<rparr>, None), v)"
    using restored_resource [OF assms(1) ns] by blast
  ultimately have "NewNetworkState msg' = ns\<lparr>NetworkName := dn_Name dn, DynamicNetworkStates := dyn\<rparr> \<and>
      NewStackMirrorConfig msg' = sc \<and> NetworkID msg' = dn_ID dn \<and> EndpointID msg' = BridgeName ns \<and>
      op_Mode msg' = Mode ns \<and> op_AddPorts msg' = AddPorts ns"
    using assms(4) sc c unfolding prepareRestore_def thenM_def Let_def
    by (auto elim!: bindM_RetE simp: mustM_def restored_mirror zeroOp_def split: if_splits)
  with msg show ?thesis by simp
qed

definition sample_network :: docker_network where
  "sample_network = \<lparr>dn_ID = ''n1n1n1'', dn_Name = ''net'',
     dn_Options = [(''ovs.bridge.dpid'', ''0x1''), (''ovs.bridge.vlan'', ''200''), (''ovs.bridge.mode'', ''flat'')],
     dn_Internal = False, dn_IPAM = Some (''10.1.0.1'', ''10.1.0.0'', ''24'')\<rparr>"

definition sample_env :: env where
  "sample_env = docker_env\<lparr>dkNetworkInspect := (\<lambda>h i. Inr (inspect_of sample_network []))\<rparr>"

theorem restored_network_agrees_witness:
  "\<exists>msg t msg' t'. prepareCreate sample_env plain_driver (create_request_of sample_network) ''create'' init_drv = (Ret msg, t) \<and>
     prepareRestore sample_env plain_driver ''n1n1n1'' init_drv = (Ret msg', t') \<and>
     NewStackMirrorConfig msg' = NewStackMirrorConfig msg \<and> NetworkName (NewNetworkState msg') = ''net''"
proof -
  have "(case fst (prepareCreate sample_env plain_driver (create_request_of sample_network) ''create'' init_drv) of Ret msg \<Rightarrow> True | _ \<Rightarrow> False)"
    by code_simp
  then obtain msg where c: "fst (prepareCreate sample_env plain_driver (create_request_of sample_network) ''create'' init_drv) = Ret msg"
    by (auto split: outcome.splits)
  have "(case fst (prepareRestore sample_env plain_driver ''n1n1n1'' init_drv) of Ret msg \<Rightarrow> True | _ \<Rightarrow> False)"
    by code_simp
  then obtain msg' where r: "fst (prepareRestore sample_env plain_driver (dn_ID sample_network) init_drv) = Ret msg'"
    by (auto simp: sample_network_def split: outcome.splits)
  have "restorable sample_network" by code_simp
  moreover have "dkNetworkInspect sample_env (trace init_drv) (dn_ID sample_network) = Inr (inspect_of sample_network [])"
    by (simp add: sample_env_def)
  ultimately have "NewNetworkState msg' = (NewNetworkState msg)\<lparr>NetworkName := dn_Name sample_network,
      DynamicNetworkStates := DynamicNetworkStates (NewNetworkState msg')\<rparr>" "NewStackMirrorConfig msg' = NewStackMirrorConfig msg"
    using restored_network_agrees [OF _ run_fst [OF c] _ run_fst [OF r]] by blast+
  moreover from arg_cong [OF this(1), of NetworkName] have "NetworkName (NewNetworkState msg') = ''net''"
    by (simp add: sample_network_def)
  ultimately show ?thesis using run_fst [OF c] run_fst [OF r] by (auto simp: sample_network_def)
qed

end
