(* ===== verification/Logging.thy ===== *)
theory Logging
  imports Go_Prelude
begin

text \<open>
  \<^verbatim>\<open>ovs/logging.go\<close>: the four package-level loggers and their set-up.  A logger is where it
  writes, its prefix and its flags; before the set-up it is nil.
\<close>

datatype writer = Discard | Stdout | Stderr | Writer string

record logger =
  lg_out :: writer
  lg_prefix :: string
  lg_flags :: nat

record logging =
  Debug :: "logger option"
  Info :: "logger option"
  Warning :: "logger option"
  Error :: "logger option"
  debugF :: bool

text \<open>\<open>log.Ldate | log.Ltime | log.Lmicroseconds\<close>.\<close>

definition standardLogFlags :: nat where "standardLogFlags = 1 + 2 + 4"

definition newLogger :: "writer \<Rightarrow> string \<Rightarrow> logger option" where
  "newLogger out pre = Some \<lparr>lg_out = out, lg_prefix = pre, lg_flags = standardLogFlags\<rparr>"

definition InitLogging :: "writer \<Rightarrow> writer \<Rightarrow> writer \<Rightarrow> writer \<Rightarrow> logging \<Rightarrow> logging" where
  "InitLogging debugHandle infoHandle warningHandle errorHandle s =
     s\<lparr>Debug := newLogger debugHandle ''DEBUG: '', Info := newLogger infoHandle ''INFO: '',
       Warning := newLogger warningHandle ''WARNING: '', Error := newLogger errorHandle ''ERROR: ''\<rparr>"

definition InitDefaultLogging :: "bool \<Rightarrow> logging \<Rightarrow> logging" where
  "InitDefaultLogging debug s =
     (if debug = debugF s then s
      else
        let s = s\<lparr>debugF := debug\<rparr>; debugOut = (if debug then Stderr else Discard) in
        InitLogging debugOut Stdout Stdout Stderr s)"

text \<open>Setting up twice is setting up once, and without debugging the first set-up does nothing.\<close>

definition nilLogging :: logging where
  "nilLogging = \<lparr>Debug = None, Info = None, Warning = None, Error = None, debugF = False\<rparr>"

lemma InitDefaultLogging_idempotent: "InitDefaultLogging b (InitDefaultLogging b s) = InitDefaultLogging b s"
  by (simp add: InitDefaultLogging_def InitLogging_def Let_def)

lemma InitDefaultLogging_without_debug: "InitDefaultLogging False nilLogging = nilLogging"
  by (simp add: InitDefaultLogging_def nilLogging_def)

end
