(* ===== verification/Known_Defects.thy ===== *)
theory Known_Defects
  imports Main_Program Container_Rules Driver_Restore Logging
begin

text \<open>
  Behaviour of the code that differs from what it means to do, each proved of the model: on all
  inputs where the statement has variables, and on the smallest input that shows it otherwise.
\<close>

section \<open>Networks\<close>

text \<open>A panic while the state of a network is read is lost: the caller gets the zero state and no error.\<close>

lemma resource_panic_lost:
  assumes "mustGetBridgeDpidFromResource (bcConvert E) r = Panic err"
  shows "getNetworkStateFromResource E r engine s = (Ret (zeroNetworkState, None), s)"
  using assms by (simp add: getNetworkStateFromResource_def recoverM_def bindM_def)

text \<open>The message that restores a network never carries its coprocessor ports.\<close>

lemma restore_omits_copro_ports: "prepareRestore E d nid s = (Ret msg, t) \<Longrightarrow> op_AddCoproPorts msg = []"
  unfolding prepareRestore_def thenM_def Let_def
  by (elim bindM_RetE) (auto simp: zeroOp_def elim!: bindM_RetE split: if_splits)

text \<open>A VLAN out of range is accepted where the request is checked and refused by the handler.\<close>

lemma vlan_checked_late:
  "parseAddPorts ''e/1//5000'' \<lparr>ap_ports = [], ap_acls = Some [], ap_vlans = None\<rparr> =
     Ret \<lparr>ap_ports = [(''e'', 1)], ap_acls = Some [], ap_vlans = None\<rparr>"
  "\<exists>err. parseAddPorts ''e/1//5000'' \<lparr>ap_ports = [], ap_acls = Some [], ap_vlans = Some []\<rparr> = Panic err"
proof -
  show "parseAddPorts ''e/1//5000'' \<lparr>ap_ports = [], ap_acls = Some [], ap_vlans = None\<rparr> =
     Ret \<lparr>ap_ports = [(''e'', 1)], ap_acls = Some [], ap_vlans = None\<rparr>" by code_simp
  have "(case parseAddPorts ''e/1//5000'' \<lparr>ap_ports = [], ap_acls = Some [], ap_vlans = Some []\<rparr> of
      Panic err \<Rightarrow> True | _ \<Rightarrow> False)" by code_simp
  then show "\<exists>err. parseAddPorts ''e/1//5000'' \<lparr>ap_ports = [], ap_acls = Some [], ap_vlans = Some []\<rparr> = Panic err"
    by (auto split: outcome.splits)
qed

section \<open>Bridges and ports\<close>

text \<open>When the port number of an added port cannot be read, \<open>createBridge\<close> panics and the bridge stays.\<close>

lemma failed_port_leaves_bridge:
  "fst (createBridge (failing_env [''get'', ''Interface'', ''e'', ''ofport'']) ''br'' [] ''0x1'' ''e'' False False [] calm_world) =
     Panic (External ''failed'')"
  "vsEvent [''del-br'', ''br''] \<notin>
     set (trace (snd (createBridge (failing_env [''get'', ''Interface'', ''e'', ''ofport'']) ''br'' [] ''0x1'' ''e'' False False [] calm_world)))"
  by code_simp+

text \<open>With a VLAN tag the command of \<open>addInternalPort\<close> has no number after \<open>tag=\<close>.\<close>

lemma tag_not_a_number:
  assumes "mustLowestFreePortOnBridge E bridgeName s = (Ret p, u)" "tag \<noteq> 0"
  shows "trace (snd (addInternalPort E bridgeName portName tag s)) = trace u @
    [vsEvent [''add-port'', bridgeName, portName, ''tag=%!u(uint='' @ dec (uint tag) @ '')'', ''--'', ''set'', ''Interface'',
      portName, ofport_request p]]"
  using assms by (simp add: addInternalPort_def bindM_def VsCtl_run)

text \<open>Enabling an interface that does not exist panics instead of returning the error.\<close>

lemma missing_interface_panics:
  "nlLinkByName E (trace s) name = (None, Some e) \<Longrightarrow> fst (interfaceUp E name s) = Panic NilDereference"
  by (simp add: interfaceUp_def bindM_def)

text \<open>The rule that accepts the forwarded packets is for TCP, whatever the protocol of the port map.\<close>

lemma accept_rule_is_tcp:
  "last (portMapRules b ''udp'' g h hp p) =
     [''-t'', ''filter'', ''DOCKER'', ''!'', ''-i'', b, ''-o'', b, ''-p'', ''tcp'', ''-d'', h, ''--dport'', p, ''-j'', ''ACCEPT'']"
  by (simp add: portMapRules_def)

section \<open>The resource manager and the status page\<close>

text \<open>
  A panic of the periodic reconciliation ends the resource manager: a port has appeared on a bridge
  and its interface is gone again when it is looked up.
\<close>

definition gone_env :: env where
  "gone_env = table_env\<lparr>nlLinkByName := (\<lambda>h name. (None, Some (External ''Link not found'')))\<rparr>"

lemma reconcile_panic_ends_manager:
  "fst (rmStep gone_env plain_driver flat_drv) = Panic (External ''Link not found'')"
  by code_simp

text \<open>A percent sign in the text of the status page is taken as a verb.\<close>

lemma percent_mangled: "Sprintf0 ''5%'' = ''5%!(NOVERB)''"
  by code_simp

end
