(* ===== verification/Driver_Spec.thy ===== *)
theory Driver_Spec
  imports Driver_System "HOL-Library.Multiset"
begin

text \<open>
  What the driver promises about networks, without channels, wait groups and handlers: a
  registry of networks and a bag of requests to create or delete one.  A request takes effect
  at one moment between being issued and being done, or fails without effect, and nothing else
  changes the registry.  The transition system of theory \<^verbatim>\<open>Driver_System\<close> implements this
  specification.
\<close>

section \<open>The specification\<close>

datatype request = Create string NetworkState | Delete string

record spec =
  registry :: "string \<Rightarrow> NetworkState option"
  requests :: "request multiset"

inductive spec_step :: "spec \<Rightarrow> spec \<Rightarrow> bool" where
  issue: "spec_step a (a\<lparr>requests := add_mset r (requests a)\<rparr>)"
| create: "requests a = add_mset (Create nid ns) rs \<Longrightarrow>
    spec_step a \<lparr>registry = (registry a)(nid \<mapsto> ns\<lparr>NetworkName := name\<rparr>), requests = rs\<rparr>"
| delete: "requests a = add_mset (Delete nid) rs \<Longrightarrow>
    spec_step a \<lparr>registry = (registry a)(nid := None), requests = rs\<rparr>"
| fail: "requests a = add_mset r rs \<Longrightarrow> spec_step a \<lparr>registry = registry a, requests = rs\<rparr>"
| other: "spec_step a a"

inductive_cases spec_stepE: "spec_step a b"

definition spec_init :: spec where
  "spec_init = \<lparr>registry = Map.empty, requests = {#}\<rparr>"

section \<open>The abstraction\<close>

definition request_of :: "DovesnapOp \<Rightarrow> request" where
  "request_of msg = (if Operation msg = ''delete'' then Delete (NetworkID msg)
     else Create (NetworkID msg) (NewNetworkState msg))"

definition requests_of :: "DovesnapOp list \<Rightarrow> request multiset" where
  "requests_of msgs = image_mset request_of (filter_mset counted (mset msgs))"

definition abs_sys :: "sys \<Rightarrow> spec" where
  "abs_sys s = \<lparr>registry = map_get (networks (st s)), requests = requests_of (pending s @ dovesnapOpChan (st s))\<rparr>"

lemma requests_of_simps [simp]:
  "requests_of [] = {#}" "requests_of (xs @ ys) = requests_of xs + requests_of ys"
  "requests_of (x # xs) = (if counted x then add_mset (request_of x) (requests_of xs) else requests_of xs)"
  by (simp_all add: requests_of_def)

section \<open>What the steps do to the registry\<close>

definition same_registry :: "drv \<Rightarrow> drv \<Rightarrow> bool" where
  "same_registry s t \<longleftrightarrow> networks t = networks s"

interpretation reg: op_frame same_registry ch for ch
  by unfold_locales (auto simp: same_registry_def updateDyn_def dest: more_drv_fields)

lemma restore_registry: "steps_in same_registry (prepareRestore E d nid)"
proof -
  have "steps_in same_registry (modifyM (\<lambda>s. s\<lparr>stackMirrorConfigs := map_put nid sc (stackMirrorConfigs s)\<rparr>))" for sc
    by (rule reg.steps_modify) (simp add: same_registry_def)
  then show ?thesis
    unfolding prepareRestore_def
    by (intro reg.handler_intros reg.steps_resource reg.steps_musts reg.steps_io [OF io_mustGetNetworkInspectFromID]
        reg.steps_io [OF io_restoreOperation])
qed

lemma call_registry: "call E d s msg t \<Longrightarrow> networks t = networks s"
proof (induction rule: call.induct)
  case (create r s msg t)
  then show ?case using steps_inD [OF reg.steps_prepareCreate create] by (simp add: same_registry_def wgAdd_def)
next
  case (restore nid s msg t)
  then show ?case using steps_inD [OF restore_registry restore(1)] by (simp add: same_registry_def wgAdd_def)
next
  case (endpoint r s msg mac t)
  obtain y u where m: "endpointMac E r s = (y, u)" by force
  have "networks u = networks s" by (rule more_drv_fields(1) [OF io_run_more [OF io_endpointMac m]])
  with m endpoint show ?case
    by (cases y) (auto simp: prepareEndpoint_def bindM_def makeReplyChan_def thenM_def)
next
  case (join r s msg res t)
  then show ?case using prep_join(1) [OF join] by simp
qed (auto simp: prepareDelete_def prepareLeave_def prepareWeb_def makeReplyChan_def bindM_def thenM_def wgAdd_def)

lemma failed_call_registry: "failed_call E d s t \<Longrightarrow> networks t = networks s"
proof (induction rule: failed_call.induct)
  case (create r s e t)
  then show ?case using steps_inD [OF reg.steps_prepareCreate create] by (simp add: same_registry_def)
next
  case (endpoint r s e t)
  obtain y u where m: "endpointMac E r s = (y, u)" by force
  have "networks u = networks s" by (rule more_drv_fields(1) [OF io_run_more [OF io_endpointMac m]])
  with m endpoint show ?case
    by (cases y) (auto simp: prepareEndpoint_def bindM_def makeReplyChan_def thenM_def)
next
  case (join r s e t)
  then show ?case using prep_join(1) [OF join] by simp
qed

text \<open>What a request that the resource manager has worked off does to the registry.\<close>

definition request_done :: "DovesnapOp \<Rightarrow> drv \<Rightarrow> drv \<Rightarrow> bool" where
  "request_done msg s t \<longleftrightarrow> networks t = networks s \<or>
     (if Operation msg = ''delete'' then networks t = map_del (NetworkID msg) (networks s)
      else \<exists>name. networks t = map_put (NetworkID msg) ((NewNetworkState msg)\<lparr>NetworkName := name\<rparr>) (networks s))"

lemma create_request:
  assumes "mustHandleCreateNetwork E d msg s = (Ret (), t)" "Operation msg \<noteq> ''delete''"
  shows "request_done msg s t"
proof -
  obtain x u where x: "mustGetNetworkInspectFromID E (NetworkID msg) s = (x, u)" by force
  show ?thesis
  proof (cases x)
    case (Ret r)
    with create_run [OF x [unfolded Ret] assms(1)] assms(2) show ?thesis
      by (auto simp: request_done_def create_registers_def)
  next
    case (Panic e)
    with create_run_failed [OF x [unfolded Panic] assms(1)] show ?thesis by (simp add: request_done_def same_nets_def)
  qed (use assms(1) x in \<open>simp_all add: mustHandleCreateNetwork_def deferM_def createNetwork_body_def thenM_def bindM_def recoverM_def\<close>)
qed

lemma delete_request:
  assumes "ready s msg" "Operation msg = ''delete''" "mustHandleDeleteNetwork E d msg s = (Ret (), t)"
  shows "request_done msg s t"
proof -
  obtain c where c: "Reply msg = Some c" "reply_free s (Some c)"
    using assms(1,2) by (auto simp: ready_def answered_def reply_free_def split: option.splits)
  obtain x u where x: "takeDown E d (registered s (NetworkID msg)) s = (x, u)" by force
  have "networks u = networks s" by (rule more_drv_fields(1) [OF io_run_more [OF io_takeDown x]])
  moreover have "notice_free s" if "x = Ret v" for v using delete_full [of s E d msg v u t] x that assms(3) by blast
  ultimately show ?thesis using delete_run [OF c(2,1) _ _ x] assms
    by (cases x) (auto simp: request_done_def unregisterNetwork_def ready_def counted_def)
qed

lemma dispatch_request:
  assumes "ready s msg" "rmDispatch E d msg s = (Ret b, t)" "counted msg"
  shows "request_done msg s t"
proof -
  consider (bad) "Operation msg = ''recreatebadbridge''" | (create) "Operation msg = ''create''"
    | (delete) "Operation msg = ''delete''"
    using assms(3) by (auto simp: counted_def)
  then show ?thesis
  proof cases
    case bad
    then obtain u v where u: "mustDeleteBridgeAndPorts E d (EndpointID msg) s = (Ret (), u)"
      and v: "InitBridge E d (NewNetworkState msg) (NewStackMirrorConfig msg) u = (Ret (), v)"
      and t: "mustHandleCreateNetwork E d msg v = (Ret (), t)"
      using assms(2) by (auto simp: rmDispatch_def thenM_def bindM_eq_Ret)
    have "networks v = networks s"
      using more_drv_fields(1) [OF io_run_more [OF io_mustDeleteBridgeAndPorts u]]
        more_drv_fields(1) [OF io_run_more [OF io_InitBridge v]] by simp
    with create_request [OF t] bad show ?thesis by (simp add: request_done_def)
  next
    case create
    with assms(2) create_request [of E d msg s t] show ?thesis by (simp add: rmDispatch_def then_True_Ret)
  next
    case delete
    with assms delete_request [of s msg E d t] show ?thesis by (simp add: rmDispatch_def then_True_Ret)
  qed
qed

lemma dispatch_registry:
  assumes "ready s msg" "rmDispatch E d msg s = (Ret b, t)" "\<not> counted msg"
  shows "networks t = networks s"
proof -
  have r: "networks t = networks s" if "m s = (Ret (), t)" "steps_in same_registry m" for m :: "unit drvM"
    using steps_inD [OF that(2,1)] by (simp add: same_registry_def)
  note handlers = reg.steps_join reg.steps_leave [OF refl] reg.steps_reserve reg.steps_getNetworkHandler [OF refl]
  have n: "steps_in same_registry (thenM (reconcileOvs E) (thenM (reconcileDhcpIp E) (mustHandleNetworks msg)))"
    by (intro reg.steps_then reg.steps_reconcileOvs reg.steps_reconcileDhcpIp reg.steps_networks [OF refl])
  have "thenM (reconcileOvs E) (thenM (reconcileDhcpIp E) (thenM (mustHandleNetworks msg) (retM True))) =
      thenM (thenM (reconcileOvs E) (thenM (reconcileDhcpIp E) (mustHandleNetworks msg))) (retM True)"
    by (simp add: thenM_def bindM_assoc)
  then show ?thesis
    using assms unfolding rmDispatch_def ready_def counted_def
    by (auto simp: then_True_Ret split: if_splits intro: r [OF _ handlers(1)] r [OF _ handlers(2)] r [OF _ handlers(3)]
        r [OF _ handlers(4)] r [OF _ n])
qed

section \<open>Refinement\<close>

lemma manage_refines:
  assumes "sys_inv s" "rmStep E d (st s) = (Ret b, t)"
  shows "spec_step (abs_sys s) (abs_sys (s\<lparr>st := t, running := b\<rparr>))"
proof (cases "dovesnapOpChan (st s)")
  case Nil
  then have "networks t = networks (st s)" "dovesnapOpChan t = []"
    using assms(2) steps_inD [OF idle_kept] steps_inD [OF reg.steps_then [OF reg.steps_reconcileOvs
        reg.steps_then [OF reg.steps_reconcileDhcpIp reg.steps_ret]]]
    by (auto simp: rmStep_idle prep_kept_def same_registry_def)
  with Nil have "abs_sys (s\<lparr>st := t, running := b\<rparr>) = abs_sys s" by (simp add: abs_sys_def)
  then show ?thesis by (simp add: spec_step.other)
next
  case (Cons msg rest)
  let ?s = "st s\<lparr>dovesnapOpChan := rest\<rparr>"
  have d: "rmDispatch E d msg ?s = (Ret b, t)" using assms(2) Cons by (simp add: rmStep_busy)
  have q: "ready ?s msg" using assms(1) Cons by (rule queue_ready)
  have c: "dovesnapOpChan t = rest" using rmStep_effect [OF assms(1) Cons assms(2)] by (simp add: dispatched_def)
  show ?thesis
  proof (cases "counted msg")
    case False
    with dispatch_registry [OF q d] c Cons have "abs_sys (s\<lparr>st := t, running := b\<rparr>) = abs_sys s" by (simp add: abs_sys_def)
    then show ?thesis by (simp add: spec_step.other)
  next
    case True
    then have r: "requests (abs_sys s) = add_mset (request_of msg) (requests_of (pending s @ rest))"
      using Cons by (simp add: abs_sys_def)
    from dispatch_request [OF q d True] consider (same) "networks t = networks (st s)"
      | (del) "Operation msg = ''delete''" "networks t = map_del (NetworkID msg) (networks (st s))"
      | (put) name where "Operation msg \<noteq> ''delete''"
          "networks t = map_put (NetworkID msg) ((NewNetworkState msg)\<lparr>NetworkName := name\<rparr>) (networks (st s))"
      by (auto simp: request_done_def split: if_splits)
    then show ?thesis
    proof cases
      case same
      with spec_step.fail [OF r] c show ?thesis by (simp add: abs_sys_def)
    next
      case del
      have "map_get (networks t) = (map_get (networks (st s)))(NetworkID msg := None)" by (simp add: del fun_eq_iff)
      with spec_step.delete [of "abs_sys s" "NetworkID msg"] r c del show ?thesis by (simp add: abs_sys_def request_of_def)
    next
      case put
      have "map_get (networks t) = (map_get (networks (st s)))(NetworkID msg \<mapsto> (NewNetworkState msg)\<lparr>NetworkName := name\<rparr>)"
        by (simp add: put fun_eq_iff)
      with spec_step.create [of "abs_sys s" "NetworkID msg" "NewNetworkState msg" _ name] r c put
      show ?thesis by (simp add: abs_sys_def request_of_def)
    qed
  qed
qed

lemma step_refines: "sys_step E d s t \<Longrightarrow> sys_inv s \<Longrightarrow> spec_step (abs_sys s) (abs_sys t)"
proof (induction rule: sys_step.induct)
  case (called s msg t)
  have k: "networks t = networks (st s)" "dovesnapOpChan t = dovesnapOpChan (st s)"
    using call_registry [OF called(1)] call_call_effect [OF called(1)] by (auto simp: call_effect_def)
  show ?case
  proof (cases "counted msg")
    case True
    with k have "abs_sys (s\<lparr>st := t, pending := pending s @ [msg]\<rparr>) =
        (abs_sys s)\<lparr>requests := add_mset (request_of msg) (requests (abs_sys s))\<rparr>" by (simp add: abs_sys_def)
    then show ?thesis by (simp only: spec_step.issue)
  next
    case False
    with k have "abs_sys (s\<lparr>st := t, pending := pending s @ [msg]\<rparr>) = abs_sys s" by (simp add: abs_sys_def)
    then show ?thesis by (simp add: spec_step.other)
  qed
next
  case (failed s t)
  then have "abs_sys (s\<lparr>st := t\<rparr>) = abs_sys s"
    using failed_call_registry failed_call_kept by (simp add: abs_sys_def prep_kept_def)
  then show ?case by (simp add: spec_step.other)
next
  case (send s before msg after t)
  then have "abs_sys (s\<lparr>st := t, pending := before @ after\<rparr>) = abs_sys s"
    by (auto simp: abs_sys_def sendOp_def bindM_def split: if_splits)
  then show ?case by (simp add: spec_step.other)
next
  case (receive c s rep t)
  then have "abs_sys (s\<lparr>st := t\<rparr>) = abs_sys s"
    by (auto simp: abs_sys_def awaitReply_def bindM_def thenM_def split: if_splits list.splits)
  then show ?case by (simp add: spec_step.other)
next
  case (manage s b t)
  then show ?case by (intro manage_refines)
next
  case (notify now s line t)
  then have "abs_sys (s\<lparr>st := t\<rparr>) = abs_sys s" by (auto simp: notifierStep_Ret abs_sys_def)
  then show ?case by (simp add: spec_step.other)
qed

text \<open>
  C1. The driver implements its specification: every step of every run, whatever the interleaving of
  calls and of the resource manager, is a step of the specification.  So a request to create
  or delete a network takes effect at most once and at one moment, or fails without effect, and nothing else
  changes which networks are registered.
\<close>

theorem driver_refines_spec:
  assumes "reachable E d s" "sys_step E d s t"
  shows "spec_step (abs_sys s) (abs_sys t)"
  using step_refines [OF assms(2) reachable_inv [OF assms(1)]] .

theorem driver_refines_spec_witness:
  "\<exists>t. sys_step docker_env plain_driver restored_sys t \<and> spec_step (abs_sys restored_sys) (abs_sys t) \<and>
     registry (abs_sys t) ''n1n1n1'' \<noteq> None \<and> requests (abs_sys t) = {#}"
proof -
  let ?t = "restored_sys\<lparr>st := snd (rmStep docker_env plain_driver (st restored_sys)), running := True\<rparr>"
  have s: "sys_step docker_env plain_driver restored_sys ?t"
    by (rule sys_step.manage [OF _ run_fst [OF restored_turn(1)]]) (simp add: restored_sys_def send_sys_def)
  have "dovesnapOpChan (st ?t) = []"
    using rmStep_effect [OF reachable_inv [OF reachable_restored] restored_turn(3) run_fst [OF restored_turn(1)]]
    by (simp add: dispatched_def)
  with s driver_refines_spec [OF reachable_restored s] restored_turn(2) show ?thesis
    by (intro exI [of _ ?t]) (simp add: abs_sys_def restored_sys_def send_sys_def)
qed

lemma spec_stable: "spec_step a b \<Longrightarrow> requests a = {#} \<Longrightarrow> registry b = registry a"
  by (erule spec_stepE) auto

text \<open>
  C6. The registry is stable behind the barrier: while no operation that creates, deletes or re-creates a network is
  in flight, which is what a join waits for, no step changes the registered networks.
\<close>

theorem registry_stable:
  assumes "reachable E d s" "\<not> list_ex counted (pending s @ dovesnapOpChan (st s))" "sys_step E d s t"
  shows "map_get (networks (st t)) nid = map_get (networks (st s)) nid"
proof -
  have "filter counted (pending s @ dovesnapOpChan (st s)) = []"
    using assms(2) by (simp only: filter_empty_conv list_ex_iff) blast
  then have "requests (abs_sys s) = {#}"
    by (simp add: abs_sys_def requests_of_def flip: mset_filter)
  from spec_stable [OF step_refines [OF assms(3) reachable_inv [OF assms(1)]] this] show ?thesis
    by (simp add: abs_sys_def)
qed

theorem registry_stable_witness:
  "\<exists>t. sys_step docker_env plain_driver leaving_sys t \<and> map_get (networks (st t)) ''n1n1n1'' = None"
proof -
  have "fst (rmStep docker_env plain_driver (st leaving_sys)) = Ret True" by code_simp
  from sys_step.manage [OF _ run_fst [OF this]]
  have t: "sys_step docker_env plain_driver leaving_sys
      (leaving_sys\<lparr>st := snd (rmStep docker_env plain_driver (st leaving_sys)), running := True\<rparr>)"
    by (simp add: leaving_sys_def send_sys_def)
  have "\<not> list_ex counted (pending leaving_sys @ dovesnapOpChan (st leaving_sys))" "map_get (networks (st leaving_sys)) ''n1n1n1'' = None"
    by (simp_all add: leaving_sys_def send_sys_def counted_def init_drv_def)
  with registry_stable [OF reachable_leaving _ t] t show ?thesis by metis
qed

end
